(* ===== verification/Prelude.thy ===== *)
theory Prelude
  imports Main "HOL-Library.Char_ord" "HOL-Library.List_Lexorder" "HOL-Library.Sublist" "HOL-Library.Multiset"
begin

text \<open>
  Shared vocabulary of the development: calls that may fail and that act on the outside world,
  the Hoare-style rules every component proof uses for them, Go's string maps as association
  lists, and the generic list lemmas. Nothing here is specific to the program.

  A Go method that talks to Kubernetes or to an upstream service becomes a function of type
  \<open>('w, 'e, 'a) io\<close>: it takes the world \<open>'w\<close> (everything outside the process) and returns
  either an error or a value, together with the world the call leaves behind. The type \<open>'w\<close> is
  never fixed by the components.
\<close>

named_theorems triple_intros \<open>Hoare rules for calls on the world\<close>
named_theorems go_simps \<open>unfolding rules for the Go library model\<close>

section \<open>Calls that may fail\<close>

type_synonym ('w, 'e, 'a) io = "'w \<Rightarrow> ('e + 'a) \<times> 'w"

definition io_return :: "'a \<Rightarrow> ('w, 'e, 'a) io" where
  "io_return a = (\<lambda>w. (Inr a, w))"

definition io_fail :: "'e \<Rightarrow> ('w, 'e, 'a) io" where
  "io_fail e = (\<lambda>w. (Inl e, w))"

text \<open>\<open>if err != nil { return err }\<close> after a call: the rest runs on success only.\<close>

definition io_bind :: "('w, 'e, 'a) io \<Rightarrow> ('a \<Rightarrow> ('w, 'e, 'b) io) \<Rightarrow> ('w, 'e, 'b) io" where
  "io_bind f g = (\<lambda>w. case f w of (Inl e, w') \<Rightarrow> (Inl e, w') | (Inr a, w') \<Rightarrow> g a w')"

text \<open>\<open>v, err := f()\<close> with both results inspected afterwards.\<close>

definition io_try :: "('w, 'e, 'a) io \<Rightarrow> ('e + 'a \<Rightarrow> ('w, 'e, 'b) io) \<Rightarrow> ('w, 'e, 'b) io" where
  "io_try f g = (\<lambda>w. case f w of (r, w') \<Rightarrow> g r w')"

text \<open>Changing the error of a call, as \<open>fmt.Errorf("...: %w", err)\<close> does.\<close>

definition io_wrap :: "('e \<Rightarrow> 'e) \<Rightarrow> ('w, 'e, 'a) io \<Rightarrow> ('w, 'e, 'a) io" where
  "io_wrap h f = (\<lambda>w. case f w of (Inl e, w') \<Rightarrow> (Inl (h e), w') | (Inr a, w') \<Rightarrow> (Inr a, w'))"

lemma io_return_apply [simp]: "io_return a w = (Inr a, w)"
  by (simp add: io_return_def)

lemma io_fail_apply [simp]: "io_fail e w = (Inl e, w)"
  by (simp add: io_fail_def)

lemma io_bind_Inr [simp]: "f w = (Inr a, w') \<Longrightarrow> io_bind f g w = g a w'"
  by (simp add: io_bind_def)

lemma io_bind_Inl [simp]: "f w = (Inl e, w') \<Longrightarrow> io_bind f g w = (Inl e, w')"
  by (simp add: io_bind_def)

lemma io_try_apply [simp]: "f w = (r, w') \<Longrightarrow> io_try f g w = g r w'"
  by (simp add: io_try_def)

lemma io_bind_cases:
  assumes "io_bind f g w = (r, w')"
  obtains (fail) e where "f w = (Inl e, w')" "r = Inl e"
  | (ok) a w1 where "f w = (Inr a, w1)" "g a w1 = (r, w')"
  using assms by (cases "f w"; cases "fst (f w)") (auto simp: io_bind_def)

text \<open>
  Running a program on a concrete world by \<open>simp\<close>: the congruence rules keep the simplifier out of
  continuations until the first call has returned.
\<close>

lemma run_cong:
  "w = w' \<Longrightarrow> io_bind f g w = io_bind f g w'"
  "w = w' \<Longrightarrow> io_try f h w = io_try f h w'"
  "w = w' \<Longrightarrow> io_wrap k f w = io_wrap k f w'"
  by simp_all

lemma run_apply:
  "io_bind f g w = (case f w of (r, w') \<Rightarrow> (case r of Inl e \<Rightarrow> (Inl e, w') | Inr a \<Rightarrow> g a w'))"
  "io_try f h w = (case f w of (r, w') \<Rightarrow> h r w')"
  "io_wrap k f w = (case f w of (r, w') \<Rightarrow> (case r of Inl e \<Rightarrow> (Inl (k e), w') | Inr a \<Rightarrow> (Inr a, w')))"
  by (simp_all add: io_bind_def io_try_def io_wrap_def split: prod.splits sum.splits)

section \<open>Hoare triples\<close>

text \<open>
  \<open>triple P f Q E\<close>: from a world that satisfies \<open>P\<close>, a successful \<open>f\<close> establishes \<open>Q\<close> of its
  result and of the new world, a failing one establishes \<open>E\<close>. Every call returns, so there is
  no separate termination condition.
\<close>

definition triple ::
  "('w \<Rightarrow> bool) \<Rightarrow> ('w, 'e, 'a) io \<Rightarrow> ('a \<Rightarrow> 'w \<Rightarrow> bool) \<Rightarrow> ('e \<Rightarrow> 'w \<Rightarrow> bool) \<Rightarrow> bool" where
  "triple P f Q E \<longleftrightarrow>
     (\<forall>w. P w \<longrightarrow> (case f w of (Inl e, w') \<Rightarrow> E e w' | (Inr a, w') \<Rightarrow> Q a w'))"

text \<open>An invariant of the world: kept whether the call succeeds or fails.\<close>

abbreviation keeps :: "('w \<Rightarrow> bool) \<Rightarrow> ('w, 'e, 'a) io \<Rightarrow> bool" where
  "keeps I f \<equiv> triple I f (\<lambda>_. I) (\<lambda>_. I)"

lemma tripleI:
  "(\<And>w a w'. P w \<Longrightarrow> f w = (Inr a, w') \<Longrightarrow> Q a w') \<Longrightarrow>
   (\<And>w e w'. P w \<Longrightarrow> f w = (Inl e, w') \<Longrightarrow> E e w') \<Longrightarrow> triple P f Q E"
  by (auto simp: triple_def split: prod.splits sum.splits)

lemma tripleD_ok: "triple P f Q E \<Longrightarrow> P w \<Longrightarrow> f w = (Inr a, w') \<Longrightarrow> Q a w'"
  by (force simp: triple_def)

lemma tripleD_err: "triple P f Q E \<Longrightarrow> P w \<Longrightarrow> f w = (Inl e, w') \<Longrightarrow> E e w'"
  by (force simp: triple_def)

lemma keeps_snd: "keeps I f \<Longrightarrow> I w \<Longrightarrow> I (snd (f w))"
  by (cases "f w"; cases "fst (f w)") (auto dest: tripleD_ok tripleD_err)

lemma triple_weaken:
  assumes "triple P f Q E" "\<And>w. P' w \<Longrightarrow> P w" "\<And>a w. Q a w \<Longrightarrow> Q' a w" "\<And>e w. E e w \<Longrightarrow> E' e w"
  shows "triple P' f Q' E'"
  by (rule tripleI) (use assms tripleD_ok[OF assms(1)] tripleD_err[OF assms(1)] in blast)+

lemma triple_return [triple_intros]: "(\<And>w. P w \<Longrightarrow> Q a w) \<Longrightarrow> triple P (io_return a) Q E"
  by (auto simp: triple_def)

lemma triple_fail [triple_intros]: "(\<And>w. P w \<Longrightarrow> E e w) \<Longrightarrow> triple P (io_fail e) Q E"
  by (auto simp: triple_def)

lemma triple_bind [triple_intros]:
  assumes f: "triple P f R E" and g: "\<And>a. triple (R a) (g a) Q E"
  shows "triple P (io_bind f g) Q E"
proof (rule tripleI)
  fix w b w' assume "P w" "io_bind f g w = (Inr b, w')"
  from this(2) this(1) show "Q b w'"
    by (cases rule: io_bind_cases) (auto dest: tripleD_ok[OF f] tripleD_ok[OF g])
next
  fix w e w' assume "P w" "io_bind f g w = (Inl e, w')"
  from this(2) this(1) show "E e w'"
    by (cases rule: io_bind_cases) (auto dest: tripleD_err[OF f] tripleD_ok[OF f] tripleD_err[OF g])
qed

lemma io_try_cases:
  assumes "io_try f g w = (r, w')"
  obtains r1 w1 where "f w = (r1, w1)" "g r1 w1 = (r, w')"
  using assms by (auto simp: io_try_def split: prod.splits)

lemma triple_try [triple_intros]:
  assumes f: "triple P f R F" and ok: "\<And>a. triple (R a) (g (Inr a)) Q E"
    and err: "\<And>e. triple (F e) (g (Inl e)) Q E"
  shows "triple P (io_try f g) Q E"
proof -
  have step: "case r of Inl e \<Rightarrow> E e w' | Inr b \<Rightarrow> Q b w'"
    if "P w" "io_try f g w = (r, w')" for w r w'
  proof -
    from that(2) obtain r1 w1 where c: "f w = (r1, w1)" "g r1 w1 = (r, w')" by (rule io_try_cases)
    show ?thesis
    proof (cases r1)
      case (Inl e)
      with c that(1) have "F e w1" by (auto dest: tripleD_err[OF f])
      with c Inl show ?thesis by (auto dest: tripleD_ok[OF err] tripleD_err[OF err] split: sum.splits)
    next
      case (Inr a)
      with c that(1) have "R a w1" by (auto dest: tripleD_ok[OF f])
      with c Inr show ?thesis by (auto dest: tripleD_ok[OF ok] tripleD_err[OF ok] split: sum.splits)
    qed
  qed
  show ?thesis by (rule tripleI) (auto dest: step)
qed

lemma triple_wrap [triple_intros]:
  "triple P f Q (\<lambda>e. E (h e)) \<Longrightarrow> triple P (io_wrap h f) Q E"
  by (rule tripleI) (auto simp: io_wrap_def dest: tripleD_ok tripleD_err split: prod.splits sum.splits)

lemma triple_if [triple_intros]:
  "(b \<Longrightarrow> triple P f Q E) \<Longrightarrow> (\<not> b \<Longrightarrow> triple P g Q E) \<Longrightarrow> triple P (if b then f else g) Q E"
  by simp

section \<open>Go string maps\<close>

text \<open>
  A \<open>map[string]string\<close> (and any other Go map the code reads by key) is an association list:
  \<open>map_of\<close> is the lookup, the order of the list is the order a \<open>range\<close> loop happens to take,
  which Go leaves open. Writing a key goes through \<open>assoc_set\<close>.
\<close>

type_synonym smap = "(string \<times> string) list"

fun assoc_set :: "'k \<Rightarrow> 'v \<Rightarrow> ('k \<times> 'v) list \<Rightarrow> ('k \<times> 'v) list" where
  "assoc_set k v [] = [(k, v)]"
| "assoc_set k v ((k', v') # m) = (if k' = k then (k, v) # m else (k', v') # assoc_set k v m)"

lemma map_of_assoc_set [simp]: "map_of (assoc_set k v m) = (map_of m)(k \<mapsto> v)"
  by (induction m) (auto simp: fun_eq_iff)

lemma map_fst_assoc_set:
  "map fst (assoc_set k v m) = (if k \<in> fst ` set m then map fst m else map fst m @ [k])"
  by (induction k v m rule: assoc_set.induct) auto

lemma keys_assoc_set [simp]: "fst ` set (assoc_set k v m) = insert k (fst ` set m)"
  using arg_cong[OF map_fst_assoc_set[of k v m], of set] by (auto split: if_splits)

lemma distinct_assoc_set: "distinct (map fst m) \<Longrightarrow> distinct (map fst (assoc_set k v m))"
  by (auto simp: map_fst_assoc_set)

text \<open>Go's \<open>m[k]\<close> on a missing key is the zero value, here the empty string.\<close>

definition get0 :: "('k \<times> string) list \<Rightarrow> 'k \<Rightarrow> string" where
  "get0 m k = (case map_of m k of Some v \<Rightarrow> v | None \<Rightarrow> [])"

definition sorted_keys :: "(string \<times> 'v) list \<Rightarrow> string list" where
  "sorted_keys m = sort (remdups (map fst m))"

lemma set_sorted_keys [simp]: "set (sorted_keys m) = fst ` set m"
  by (simp add: sorted_keys_def)

lemma sorted_sorted_keys: "sorted (sorted_keys m)" and distinct_sorted_keys: "distinct (sorted_keys m)"
  by (simp_all add: sorted_keys_def)

text \<open>The sorted keys do not depend on the iteration order of the map.\<close>

lemma sorted_keys_cong: "fst ` set m = fst ` set m' \<Longrightarrow> sorted_keys m = sorted_keys m'"
  by (rule sorted_distinct_set_unique)
    (auto simp: sorted_sorted_keys distinct_sorted_keys)

section \<open>Lists\<close>

lemma map_of_eq_Some_in_set: "map_of m k = Some v \<Longrightarrow> k \<in> fst ` set m"
  by (metis domI dom_map_of_conv_image_fst)

lemma map_of_in_fst: "k \<in> fst ` set m \<Longrightarrow> \<exists>v. map_of m k = Some v"
  by (metis domD dom_map_of_conv_image_fst)

lemma find_SomeD: "find p xs = Some x \<Longrightarrow> p x \<and> x \<in> set xs"
  by (induction xs) (auto split: if_splits)

lemma find_NoneD: "find p xs = None \<Longrightarrow> x \<in> set xs \<Longrightarrow> \<not> p x"
  by (induction xs) (auto split: if_splits)

lemma filter_removed: "x \<notin> set xs \<Longrightarrow> remove1 x xs = xs"
  by (induction xs) auto

lemma takeWhile_dropWhile_split: "\<exists>ys zs. xs = ys @ zs \<and> takeWhile p xs = ys \<and> dropWhile p xs = zs"
  by (metis takeWhile_dropWhile_id)

section \<open>Sorting with a comparator\<close>

text \<open>\<open>sort.SliceStable\<close> and \<open>slices.SortStableFunc\<close>; also \<open>sort.Slice\<close>, where only elements no
  comparison tells apart may come in another order.\<close>

fun insert_by :: "('a \<Rightarrow> 'a \<Rightarrow> bool) \<Rightarrow> 'a \<Rightarrow> 'a list \<Rightarrow> 'a list" where
  "insert_by le x [] = [x]"
| "insert_by le x (y # ys) = (if le x y then x # y # ys else y # insert_by le x ys)"

definition sort_by :: "('a \<Rightarrow> 'a \<Rightarrow> bool) \<Rightarrow> 'a list \<Rightarrow> 'a list" where
  "sort_by le xs = foldr (insert_by le) xs []"

lemma sort_by_simps [simp]: "sort_by le [] = []" "sort_by le (x # xs) = insert_by le x (sort_by le xs)"
  by (simp_all add: sort_by_def)

lemma mset_insert_by [simp]: "mset (insert_by le x ys) = add_mset x (mset ys)"
  by (induction ys) auto

lemma mset_sort_by [simp]: "mset (sort_by le xs) = mset xs"
  by (induction xs) auto

lemma set_sort_by [simp]: "set (sort_by le xs) = set xs"
  using mset_sort_by[of le xs] by (metis set_mset_mset)

lemma length_sort_by [simp]: "length (sort_by le xs) = length xs"
  using mset_sort_by[of le xs] by (metis size_mset)

definition total_preorder :: "('a \<Rightarrow> 'a \<Rightarrow> bool) \<Rightarrow> bool" where
  "total_preorder le \<longleftrightarrow> (\<forall>a b. le a b \<or> le b a) \<and> (\<forall>a b c. le a b \<longrightarrow> le b c \<longrightarrow> le a c)"

lemma sorted_insert_by:
  assumes "total_preorder le" "sorted_wrt le ys"
  shows "sorted_wrt le (insert_by le x ys)"
  using assms(2)
proof (induction ys)
  case (Cons y ys)
  have set: "set (insert_by le x ys) = insert x (set ys)"
    using mset_insert_by[of le x ys] by (metis set_mset_add_mset_insert set_mset_mset)
  show ?case
  proof (cases "le x y")
    case True
    with Cons.prems assms(1) show ?thesis by (auto simp: total_preorder_def)
  next
    case False
    with assms(1) have "le y x" by (auto simp: total_preorder_def)
    with False Cons set show ?thesis by auto
  qed
qed simp

lemma sorted_sort_by: "total_preorder le \<Longrightarrow> sorted_wrt le (sort_by le xs)"
  by (induction xs) (auto intro: sorted_insert_by)

text \<open>Elements that compare equal keep their order.\<close>

lemma filter_insert_by:
  "(\<And>y. y \<in> set ys \<Longrightarrow> p y \<Longrightarrow> p x \<Longrightarrow> le x y) \<Longrightarrow>
   filter p (insert_by le x ys) = (if p x then x # filter p ys else filter p ys)"
  by (induction ys) auto

lemma stable_sort_by:
  "(\<And>x y. p x \<Longrightarrow> p y \<Longrightarrow> le x y) \<Longrightarrow> filter p (sort_by le xs) = filter p xs"
  by (induction xs) (auto simp: filter_insert_by)

end
