(* ===== verification/GoStrings.thy ===== *)
theory GoStrings
  imports Prelude
begin

text \<open>
  The part of Go's \<open>strings\<close>, \<open>strconv\<close> and \<open>sort\<close> packages the program uses, on byte strings
  (a Go string is a sequence of bytes; an Isabelle \<open>char\<close> is one byte).
\<close>

section \<open>Searching and splitting\<close>

abbreviation has_prefix :: "string \<Rightarrow> string \<Rightarrow> bool" where
  "has_prefix s p \<equiv> prefix p s"

text \<open>\<open>strings.IndexByte\<close>, with \<open>None\<close> for -1.\<close>

fun index_byte :: "char \<Rightarrow> string \<Rightarrow> nat option" where
  "index_byte c [] = None"
| "index_byte c (x # xs) = (if x = c then Some 0 else map_option Suc (index_byte c xs))"

text \<open>\<open>strings.LastIndex\<close> for a one-byte substring.\<close>

fun last_index :: "char \<Rightarrow> string \<Rightarrow> nat option" where
  "last_index c [] = None"
| "last_index c (x # xs) =
     (case last_index c xs of
        Some i \<Rightarrow> Some (Suc i)
      | None \<Rightarrow> if x = c then Some 0 else None)"

fun contains_str :: "string \<Rightarrow> string \<Rightarrow> bool" where
  "contains_str sub [] = (sub = [])"
| "contains_str sub (x # xs) = (prefix sub (x # xs) \<or> contains_str sub xs)"

text \<open>\<open>strings.Split\<close> with a one-byte separator.\<close>

fun split_on :: "char \<Rightarrow> string \<Rightarrow> string list" where
  "split_on c [] = [[]]"
| "split_on c (x # xs) =
     (if x = c then [] # split_on c xs
      else (case split_on c xs of [] \<Rightarrow> [[x]] | p # ps \<Rightarrow> (x # p) # ps))"

text \<open>\<open>strings.Cut\<close> with a one-byte separator: \<open>None\<close> when it does not occur.\<close>

definition cut :: "char \<Rightarrow> string \<Rightarrow> (string \<times> string) option" where
  "cut c s = (case index_byte c s of None \<Rightarrow> None | Some i \<Rightarrow> Some (take i s, drop (Suc i) s))"

fun join :: "string \<Rightarrow> string list \<Rightarrow> string" where
  "join sep [] = []"
| "join sep [x] = x"
| "join sep (x # y # ys) = x @ sep @ join sep (y # ys)"

lemma index_byte_None: "index_byte c s = None \<longleftrightarrow> c \<notin> set s"
  by (induction s) auto

lemma index_byte_Some:
  "index_byte c s = Some i \<Longrightarrow> i < length s \<and> s ! i = c \<and> c \<notin> set (take i s)"
proof (induction s arbitrary: i)
  case (Cons x xs)
  then show ?case by (cases i) (auto split: if_splits)
qed simp

lemma index_byte_append: "c \<notin> set s \<Longrightarrow> index_byte c (s @ c # t) = Some (length s)"
  by (induction s) auto

lemma last_index_None: "last_index c s = None \<longleftrightarrow> c \<notin> set s"
  by (induction s) (auto split: option.splits)

lemma last_index_Some:
  "last_index c s = Some i \<Longrightarrow> i < length s \<and> s ! i = c \<and> c \<notin> set (drop (Suc i) s)"
proof (induction s arbitrary: i)
  case (Cons x xs)
  show ?case
  proof (cases "last_index c xs")
    case None
    then have "c \<notin> set xs" by (simp add: last_index_None)
    with None Cons.prems show ?thesis by (auto split: if_splits)
  next
    case (Some j)
    with Cons show ?thesis by auto
  qed
qed simp

lemma last_index_append: "c \<notin> set t \<Longrightarrow> last_index c (s @ c # t) = Some (length s)"
  by (induction s) (auto simp: last_index_None[THEN iffD2])

lemma split_on_nonempty [simp]: "split_on c s \<noteq> []"
  by (induction s) (auto split: list.splits)

lemma split_on_parts: "p \<in> set (split_on c s) \<Longrightarrow> c \<notin> set p"
  by (induction s arbitrary: p) (auto split: list.splits if_splits)

lemma join_Cons: "ps \<noteq> [] \<Longrightarrow> join sep (p # ps) = p @ sep @ join sep ps"
  by (cases ps) auto

text \<open>Splitting and joining are inverse to each other.\<close>

lemma join_split_on: "join [c] (split_on c s) = s"
proof (induction s)
  case (Cons x xs)
  obtain p ps where split: "split_on c xs = p # ps"
    using split_on_nonempty[of c xs] by (meson neq_Nil_conv)
  with Cons.IH show ?case
    by (cases ps) auto
qed simp

lemma split_on_no_sep: "c \<notin> set s \<Longrightarrow> split_on c s = [s]"
  by (induction s) auto

lemma split_on_append_sep: "c \<notin> set p \<Longrightarrow> split_on c (p @ c # s) = p # split_on c s"
  by (induction p) auto

lemma split_on_join:
  "ps \<noteq> [] \<Longrightarrow> (\<And>p. p \<in> set ps \<Longrightarrow> c \<notin> set p) \<Longrightarrow> split_on c (join [c] ps) = ps"
proof (induction ps)
  case (Cons p ps)
  then show ?case
    by (cases ps) (auto simp: split_on_no_sep split_on_append_sep)
qed simp

lemma join_inj:
  assumes "ps \<noteq> []" "qs \<noteq> []" "\<And>p. p \<in> set ps \<union> set qs \<Longrightarrow> c \<notin> set p"
    and "join [c] ps = join [c] qs"
  shows "ps = qs"
proof -
  have "split_on c (join [c] ps) = ps" using assms(1,3) by (intro split_on_join) auto
  moreover have "split_on c (join [c] qs) = qs" using assms(2,3) by (intro split_on_join) auto
  ultimately show ?thesis using assms(4) by metis
qed

section \<open>Trimming and case\<close>

text \<open>
  \<open>unicode.IsSpace\<close> as UTF-8 byte sequences: the ASCII spaces, U+0085, U+00A0, U+1680,
  U+2000 to U+200A, U+2028, U+2029, U+202F, U+205F and U+3000.
\<close>

definition bytes :: "nat list \<Rightarrow> string" where
  "bytes ns = map (char_of :: nat \<Rightarrow> char) ns"

definition space_runes :: "string list" where
  "space_runes = map bytes
     ([[9], [10], [11], [12], [13], [32], [194, 133], [194, 160], [225, 154, 128]] @
      map (\<lambda>b. [226, 128, b]) [128, 129, 130, 131, 132, 133, 134, 135, 136, 137, 138, 168, 169, 175] @
      [[226, 129, 159], [227, 128, 128]])"

text \<open>The same as literals, for evaluation.\<close>

lemma bytes_literals [code_unfold]:
  "bytes [226, 132, 170] = [CHR 0xE2, CHR 0x84, CHR 0xAA]" "bytes [196, 176] = [CHR 0xC4, CHR 0xB0]"
  "bytes [226, 128, 168] = [CHR 0xE2, CHR 0x80, CHR 0xA8]"
  "bytes [226, 128, 169] = [CHR 0xE2, CHR 0x80, CHR 0xA9]"
  by code_simp+

lemma space_runes_code [code]: "space_runes = [
    [CHR 0x09], [CHR 0x0A], [CHR 0x0B], [CHR 0x0C], [CHR 0x0D], [CHR 0x20], [CHR 0xC2, CHR 0x85],
    [CHR 0xC2, CHR 0xA0], [CHR 0xE1, CHR 0x9A, CHR 0x80], [CHR 0xE2, CHR 0x80, CHR 0x80],
    [CHR 0xE2, CHR 0x80, CHR 0x81], [CHR 0xE2, CHR 0x80, CHR 0x82], [CHR 0xE2, CHR 0x80, CHR 0x83],
    [CHR 0xE2, CHR 0x80, CHR 0x84], [CHR 0xE2, CHR 0x80, CHR 0x85], [CHR 0xE2, CHR 0x80, CHR 0x86],
    [CHR 0xE2, CHR 0x80, CHR 0x87], [CHR 0xE2, CHR 0x80, CHR 0x88], [CHR 0xE2, CHR 0x80, CHR 0x89],
    [CHR 0xE2, CHR 0x80, CHR 0x8A], [CHR 0xE2, CHR 0x80, CHR 0xA8], [CHR 0xE2, CHR 0x80, CHR 0xA9],
    [CHR 0xE2, CHR 0x80, CHR 0xAF], [CHR 0xE2, CHR 0x81, CHR 0x9F], [CHR 0xE3, CHR 0x80, CHR 0x80]]"
  by code_simp

text \<open>Drops one of the given non-empty words from the front, as often as possible.\<close>

function strip_words :: "string list \<Rightarrow> string \<Rightarrow> string" where
  "strip_words ps s =
     (case find (\<lambda>p. p \<noteq> [] \<and> prefix p s) ps of
        None \<Rightarrow> s
      | Some p \<Rightarrow> strip_words ps (drop (length p) s))"
  by pat_completeness auto
termination
proof (relation "measure (\<lambda>(ps, s). length s)")
  fix ps :: "string list" and s p :: string
  assume "find (\<lambda>p. p \<noteq> [] \<and> prefix p s) ps = Some p"
  then have "p \<noteq> []" "length p \<le> length s"
    by (auto dest!: find_SomeD intro: prefix_length_le)
  then show "((ps, drop (length p) s), (ps, s)) \<in> measure (\<lambda>(ps, s). length s)"
    by (cases p) auto
qed simp

declare strip_words.simps [simp del]

text \<open>Equations by cases of the string, for evaluation.\<close>

lemma strip_words_code [code]:
  "strip_words ps [] = []"
  "strip_words ps (c # s) =
     (case find (\<lambda>p. p \<noteq> [] \<and> prefix p (c # s)) ps of
        None \<Rightarrow> c # s
      | Some p \<Rightarrow> strip_words ps (drop (length p) (c # s)))"
proof -
  have "find (\<lambda>p. p \<noteq> [] \<and> prefix p []) ps = None" by (induction ps) auto
  then show "strip_words ps [] = []" by (simp add: strip_words.simps)
qed (rule strip_words.simps)

definition trim_space :: "string \<Rightarrow> string" where
  "trim_space s = rev (strip_words (map rev space_runes) (rev (strip_words space_runes s)))"

text \<open>\<open>strings.TrimRight(s, c)\<close> and \<open>strings.Trim(s, c)\<close> for a one-byte cutset.\<close>

definition trim_right :: "char \<Rightarrow> string \<Rightarrow> string" where
  "trim_right c s = rev (dropWhile (\<lambda>x. x = c) (rev s))"

definition trim_both :: "char \<Rightarrow> string \<Rightarrow> string" where
  "trim_both c s = trim_right c (dropWhile (\<lambda>x. x = c) s)"

definition is_upper :: "char \<Rightarrow> bool" where
  "is_upper c \<longleftrightarrow> 65 \<le> (of_char c :: nat) \<and> (of_char c :: nat) \<le> 90"

definition is_lower :: "char \<Rightarrow> bool" where
  "is_lower c \<longleftrightarrow> 97 \<le> (of_char c :: nat) \<and> (of_char c :: nat) \<le> 122"

definition is_digit :: "char \<Rightarrow> bool" where
  "is_digit c \<longleftrightarrow> 48 \<le> (of_char c :: nat) \<and> (of_char c :: nat) \<le> 57"

definition lower_char :: "char \<Rightarrow> char" where
  "lower_char c = (if is_upper c then char_of ((of_char c :: nat) + 32) else c)"

text \<open>
  \<open>strings.ToLower\<close>: ASCII letters byte by byte, and the two non-ASCII runes whose lower case is
  an ASCII letter (U+0130 gives \<open>i\<close>, the Kelvin sign U+212A gives \<open>k\<close>). The other non-ASCII
  runes are left alone: their lower case is again non-ASCII, which every caller but the
  \<open>lower\<close> filter treats like any other non-ASCII byte.
\<close>

fun to_lower :: "string \<Rightarrow> string" where
  "to_lower [] = []"
| "to_lower (a # s) =
     (case s of
        b # c # rest \<Rightarrow>
          if [a, b, c] = bytes [226, 132, 170] then CHR ''k'' # to_lower rest
          else if [a, b] = bytes [196, 176] then CHR ''i'' # to_lower (c # rest)
          else lower_char a # to_lower s
      | [b] \<Rightarrow> if [a, b] = bytes [196, 176] then [CHR ''i''] else lower_char a # to_lower s
      | [] \<Rightarrow> [lower_char a])"

lemma prefix_drop_length: "prefix p s \<Longrightarrow> s = p @ drop (length p) s"
  by (auto simp: prefix_def)

lemma strip_words_suffix: "\<exists>p. s = p @ strip_words ps s"
proof (induction ps s rule: strip_words.induct)
  case (1 ps s)
  show ?case
  proof (cases "find (\<lambda>p. p \<noteq> [] \<and> prefix p s) ps")
    case None
    then show ?thesis by (simp add: strip_words.simps[of ps s])
  next
    case (Some p)
    then have "prefix p s" by (auto dest: find_SomeD)
    moreover from 1[OF Some] obtain q where "drop (length p) s = q @ strip_words ps (drop (length p) s)"
      by blast
    ultimately have "s = (p @ q) @ strip_words ps s"
      using Some by (simp add: strip_words.simps[of ps s] prefix_drop_length)
    then show ?thesis by blast
  qed
qed

lemma strip_words_clean: "p \<in> set ps \<Longrightarrow> p \<noteq> [] \<Longrightarrow> \<not> prefix p (strip_words ps s)"
proof (induction ps s rule: strip_words.induct)
  case (1 ps s)
  show ?case
  proof (cases "find (\<lambda>p. p \<noteq> [] \<and> prefix p s) ps")
    case None
    then have "strip_words ps s = s" by (simp add: strip_words.simps[of ps s])
    with find_NoneD[OF None "1.prems"(1)] "1.prems"(2) show ?thesis by simp
  next
    case (Some q)
    with 1 show ?thesis by (simp add: strip_words.simps[of ps s])
  qed
qed

lemma trim_right_snoc: "trim_right c s = [] \<or> last (trim_right c s) \<noteq> c"
proof (cases "dropWhile (\<lambda>x. x = c) (rev s)")
  case (Cons x xs)
  then have "x \<noteq> c" by (metis (full_types) hd_dropWhile list.discI list.sel(1))
  with Cons show ?thesis by (simp add: trim_right_def)
qed (simp add: trim_right_def)

lemma trim_right_set: "set (trim_right c s) \<subseteq> set s"
  by (auto simp: trim_right_def dest: set_dropWhileD)

lemma trim_right_length: "length (trim_right c s) \<le> length s"
  by (simp add: trim_right_def) (metis length_dropWhile_le length_rev)

lemma trim_right_eq_self: "s = [] \<or> last s \<noteq> c \<Longrightarrow> trim_right c s = s"
  by (cases s rule: rev_cases) (auto simp: trim_right_def)

lemma trim_right_hd: "trim_right c s \<noteq> [] \<Longrightarrow> hd (trim_right c s) = hd s"
proof -
  assume ne: "trim_right c s \<noteq> []"
  have "rev s = takeWhile (\<lambda>x. x = c) (rev s) @ dropWhile (\<lambda>x. x = c) (rev s)" by simp
  then have "s = trim_right c s @ rev (takeWhile (\<lambda>x. x = c) (rev s))"
    unfolding trim_right_def by (metis rev_append rev_rev_ident)
  with ne show ?thesis by (metis hd_append2)
qed

section \<open>Names\<close>

text \<open>
  The regular expression \<open>[^a-z0-9]+\<close> of \<open>filters.go\<close> and \<open>ledger.go\<close>, replaced by a dash,
  and what such a replacement leaves: alphanumerics and single dashes.
\<close>

definition is_alnum :: "char \<Rightarrow> bool" where
  "is_alnum c \<longleftrightarrow> is_lower c \<or> is_digit c"

text \<open>\<open>nonAlnum.ReplaceAllString(s, "-")\<close> for the pattern \<open>[^a-z0-9]+\<close>: every maximal run of
  other bytes becomes one dash. \<open>inrun\<close> says that the previous byte was already replaced.\<close>

fun dash_runs :: "bool \<Rightarrow> string \<Rightarrow> string" where
  "dash_runs inrun [] = []"
| "dash_runs inrun (c # s) =
     (if is_alnum c then c # dash_runs False s
      else if inrun then dash_runs True s
      else CHR ''-'' # dash_runs True s)"

definition hex_digit :: "nat \<Rightarrow> char" where
  "hex_digit n = (if n < 10 then char_of (48 + n) else char_of (87 + n))"

text \<open>A DNS label: what Kubernetes accepts as an object name.\<close>

definition dns_label :: "string \<Rightarrow> bool" where
  "dns_label s \<longleftrightarrow>
     s \<noteq> [] \<and> length s \<le> 63 \<and> (\<forall>c\<in>set s. is_alnum c \<or> c = CHR ''-'') \<and> hd s \<noteq> CHR ''-'' \<and> last s \<noteq> CHR ''-''"

text \<open>Alphanumerics and dashes, never two dashes in a row (nor a dash first when \<open>prev\<close>).\<close>

fun dashed :: "bool \<Rightarrow> string \<Rightarrow> bool" where
  "dashed prev [] = True"
| "dashed prev (c # s) = (if is_alnum c then dashed False s else c = CHR ''-'' \<and> \<not> prev \<and> dashed True s)"

lemma not_alnum_dash [simp]: "\<not> is_alnum CHR ''-''"
  by (simp add: is_alnum_def is_lower_def is_digit_def)

lemma dashed_dash_runs: "dashed b (dash_runs b s)"
  by (induction b s rule: dash_runs.induct) auto

lemma dash_runs_dashed: "dashed b s \<Longrightarrow> dash_runs b s = s"
  by (induction b s rule: dashed.induct) (auto split: if_splits)

lemma dashed_mono: "dashed True s \<Longrightarrow> dashed False s"
  by (cases s) (auto split: if_splits)

lemma dashed_append: "dashed b (s @ t) \<Longrightarrow> dashed b s"
  by (induction b s rule: dashed.induct) (auto split: if_splits)

lemma dashed_chars: "dashed b s \<Longrightarrow> c \<in> set s \<Longrightarrow> is_alnum c \<or> c = CHR ''-''"
  by (induction b s rule: dashed.induct) (auto split: if_splits)

lemma dashed_dropWhile: "dashed b s \<Longrightarrow> dashed b (dropWhile (\<lambda>x. x = CHR ''-'') s)"
proof (induction s arbitrary: b)
  case (Cons c s)
  show ?case
  proof (cases "c = CHR ''-''")
    case True
    with Cons.prems have "dashed True s" and b: "b = False" by auto
    then have "dashed True (dropWhile (\<lambda>x. x = CHR ''-'') s)" using Cons.IH by blast
    with True b show ?thesis by (simp add: dashed_mono)
  qed (use Cons.prems in simp)
qed simp

lemma dashed_take: "dashed b s \<Longrightarrow> dashed b (take n s)"
  by (metis append_take_drop_id dashed_append)

lemma trim_right_prefix: "\<exists>t. s = trim_right c s @ t"
proof -
  have "rev s = takeWhile (\<lambda>x. x = c) (rev s) @ dropWhile (\<lambda>x. x = c) (rev s)" by simp
  then have "s = trim_right c s @ rev (takeWhile (\<lambda>x. x = c) (rev s))"
    unfolding trim_right_def by (metis rev_append rev_rev_ident)
  then show ?thesis by blast
qed

lemma dashed_trim_right: "dashed b s \<Longrightarrow> dashed b (trim_right c s)"
  by (metis trim_right_prefix dashed_append)

lemma hd_dropWhile_dash: "dropWhile (\<lambda>x. x = c) s \<noteq> [] \<Longrightarrow> hd (dropWhile (\<lambda>x. x = c) s) \<noteq> c"
  by (metis (mono_tags, lifting) hd_dropWhile)

lemma trim_right_nonempty: "s \<noteq> [] \<Longrightarrow> hd s \<noteq> c \<Longrightarrow> trim_right c s \<noteq> []"
  by (cases s) (auto simp: trim_right_def dropWhile_eq_Nil_conv)

lemma alnum_not_upper: "is_alnum c \<or> c = CHR ''-'' \<Longrightarrow> lower_char c = c"
  by (auto simp: lower_char_def is_alnum_def is_upper_def is_lower_def is_digit_def)

lemma alnum_ascii: "is_alnum c \<or> c = CHR ''-'' \<Longrightarrow> (of_char c :: nat) < 128"
  by (auto simp: is_alnum_def is_lower_def is_digit_def)

lemma bytes_hd: "a # s = bytes (n # ns) \<Longrightarrow> n < 256 \<Longrightarrow> (of_char a :: nat) = n"
  by (auto simp: bytes_def of_char_of)

lemma to_lower_ascii:
  "(\<And>c. c \<in> set s \<Longrightarrow> (of_char c :: nat) < 128) \<Longrightarrow> to_lower s = map lower_char s"
proof (induction s rule: to_lower.induct)
  case (2 a s)
  then have a: "(of_char a :: nat) < 128" by simp
  have no: "\<And>t ns. a # t = bytes (226 # ns) \<Longrightarrow> False" "\<And>t ns. a # t = bytes (196 # ns) \<Longrightarrow> False"
    using a by (auto dest!: bytes_hd)
  show ?case
  proof (cases s)
    case (Cons b s')
    then show ?thesis using 2 no by (cases s') (auto dest: no)
  qed simp
qed simp

lemma to_lower_dashed: "dashed b s \<Longrightarrow> to_lower s = s"
  by (subst to_lower_ascii)
    (auto intro!: alnum_ascii alnum_not_upper map_idI dest: dashed_chars)

section \<open>Decimal numbers\<close>

text \<open>\<open>strconv.ParseInt(s, 10, 64)\<close> (on a 64-bit platform also \<open>strconv.Atoi\<close>): an optional sign,
  then decimal digits, in the range of \<open>int64\<close>.\<close>

definition digit_val :: "char \<Rightarrow> int" where
  "digit_val c = int (of_char c) - 48"

definition digits_val :: "string \<Rightarrow> int" where
  "digits_val s = foldl (\<lambda>acc c. 10 * acc + digit_val c) 0 s"

definition int64_ok :: "int \<Rightarrow> bool" where
  "int64_ok i \<longleftrightarrow> - (2 ^ 63) \<le> i \<and> i < 2 ^ 63"

definition parse_digits :: "string \<Rightarrow> int option" where
  "parse_digits s = (if s \<noteq> [] \<and> list_all is_digit s then Some (digits_val s) else None)"

definition parse_int :: "string \<Rightarrow> int option" where
  "parse_int s =
     (let r = (case s of
                 [] \<Rightarrow> None
               | c # cs \<Rightarrow> if c = CHR ''-'' then map_option uminus (parse_digits cs)
                           else if c = CHR ''+'' then parse_digits cs
                           else parse_digits s)
      in case r of Some i \<Rightarrow> if int64_ok i then Some i else None | None \<Rightarrow> None)"

text \<open>\<open>strconv.FormatInt(i, 10)\<close>, \<open>strconv.Itoa\<close>.\<close>

fun format_nat :: "nat \<Rightarrow> string" where
  "format_nat n = (if n < 10 then [char_of (48 + n)] else format_nat (n div 10) @ [char_of (48 + n mod 10)])"

declare format_nat.simps [simp del]

definition format_int :: "int \<Rightarrow> string" where
  "format_int i = (if i < 0 then CHR ''-'' # format_nat (nat (- i)) else format_nat (nat i))"

lemma of_char_digit: "n < (10::nat) \<Longrightarrow> (of_char (char_of (48 + n) :: char) :: nat) = 48 + n"
  by (simp add: of_char_of)

lemma is_digit_char_of: "n < (10::nat) \<Longrightarrow> is_digit (char_of (48 + n))"
  by (simp add: is_digit_def of_char_of)

lemma format_nat_digits: "format_nat n \<noteq> [] \<and> list_all is_digit (format_nat n)"
proof (induction n rule: format_nat.induct)
  case (1 n)
  then show ?case
    by (subst (1 2) format_nat.simps) (auto simp: is_digit_char_of)
qed

lemma digits_val_snoc: "digits_val (s @ [c]) = 10 * digits_val s + digit_val c"
  by (simp add: digits_val_def)

lemma digits_val_format_nat: "digits_val (format_nat n) = int n"
proof (induction n rule: format_nat.induct)
  case (1 n)
  show ?case
  proof (cases "n < 10")
    case True
    then show ?thesis
      by (subst format_nat.simps) (simp add: digits_val_def digit_val_def of_char_digit)
  next
    case False
    with 1 show ?thesis
      by (subst format_nat.simps)
        (simp add: digits_val_snoc digit_val_def of_char_digit zdiv_int zmod_int)
  qed
qed

lemma parse_digits_format_nat: "parse_digits (format_nat n) = Some (int n)"
  by (simp add: parse_digits_def format_nat_digits digits_val_format_nat)

lemma format_nat_hd: "\<exists>c cs. format_nat n = c # cs \<and> c \<noteq> CHR ''-'' \<and> c \<noteq> CHR ''+''"
proof -
  obtain c cs where "format_nat n = c # cs" using format_nat_digits[of n] by (cases "format_nat n") auto
  moreover from this have "is_digit c" using format_nat_digits[of n] by simp
  then have "c \<noteq> CHR ''-''" "c \<noteq> CHR ''+''" by (auto simp: is_digit_def)
  ultimately show ?thesis by blast
qed

lemma parse_format_int: "int64_ok i \<Longrightarrow> parse_int (format_int i) = Some i"
proof (cases "i < 0")
  case True
  assume "int64_ok i"
  with True show ?thesis
    by (simp add: parse_int_def format_int_def parse_digits_format_nat)
next
  case False
  assume ok: "int64_ok i"
  obtain c cs where f: "format_nat (nat i) = c # cs" "c \<noteq> CHR ''-''" "c \<noteq> CHR ''+''"
    using format_nat_hd by blast
  with parse_digits_format_nat[of "nat i"] have "parse_digits (c # cs) = Some i"
    using False by simp
  with f ok False show ?thesis by (simp add: parse_int_def format_int_def)
qed

lemma parse_int_range: "parse_int s = Some i \<Longrightarrow> int64_ok i"
  by (auto simp: parse_int_def Let_def split: option.splits if_splits)

end
