(* ===== verification/ApiTypes.thy ===== *)
theory ApiTypes
  imports GoStrings
begin

text \<open>
  The data of the program: the custom resource types of \<open>api/v1alpha1\<close> (definitions, runs and
  ledger entries), JSON documents, and the errors every package passes around. Go's string enums
  are datatypes; the catalogue's step type, which the code checks at run time, keeps a
  constructor for every other string.
\<close>

section \<open>Texts and errors\<close>

text \<open>
  A text the code builds with \<open>fmt.Sprintf\<close> or \<open>fmt.Errorf\<close> is kept unexpanded: the format
  string and its arguments. Nothing in the program reads such a text back.
\<close>

datatype msg = Lit string | Fmt string "msg list"

abbreviation Num :: "int \<Rightarrow> msg" where
  "Num i \<equiv> Lit (format_int i)"

text \<open>Reasons the Kubernetes API gives for a failed request, as far as the code tells them apart.\<close>

datatype kube_reason = KubeNotFound | KubeAlreadyExists | KubeConflict | KubeOther string

text \<open>
  Go errors: \<open>errors.New\<close> and plain \<open>fmt.Errorf\<close> (\<open>Errorf\<close>), \<open>%w\<close> wrapping (\<open>Wrapf\<close>),
  \<open>errors.Join\<close> (\<open>Joined\<close>), and the error types and sentinels of the packages \<open>steps\<close>,
  \<open>upstream\<close>, \<open>ledger\<close> and \<open>params\<close>. A run-time panic is an error of its own.
\<close>

datatype err =
    Errorf msg
  | Wrapf msg err
  | Joined "err list"
  | PermanentError err
  | APIError (ae_service: string) (ae_method: string) (ae_path: string) (ae_status: int)
      (ae_message: msg) (ae_cause: "err option")
  | ErrTerminating
  | ErrNotFound
  | ErrExists
  | KubeError kube_reason
  | UnresolvedError string msg
  | Panic string

text \<open>The tree of errors \<open>errors.Is\<close> and \<open>errors.As\<close> walk, in their order.\<close>

fun err_tree :: "err \<Rightarrow> err list" where
  "err_tree (Wrapf t e) = Wrapf t e # err_tree e"
| "err_tree (Joined es) = Joined es # concat (map err_tree es)"
| "err_tree (PermanentError e) = PermanentError e # err_tree e"
| "err_tree (APIError s m p st msg (Some e)) = APIError s m p st msg (Some e) # err_tree e"
| "err_tree e = [e]"

text \<open>\<open>Error()\<close>, and \<open>APIError\<close>'s \<open>Detail()\<close> for the logs.\<close>

fun api_text :: "string \<Rightarrow> string \<Rightarrow> string \<Rightarrow> int \<Rightarrow> msg \<Rightarrow> msg" where
  "api_text s m p st t =
     (if st = 0 then Fmt ''%s: %s %s: %s'' [Lit s, Lit m, Lit p, t]
      else if t = Lit [] then Fmt ''%s: %s %s: HTTP %d'' [Lit s, Lit m, Lit p, Num st]
      else Fmt ''%s: %s %s: HTTP %d: %s'' [Lit s, Lit m, Lit p, Num st, t])"

fun err_text :: "err \<Rightarrow> msg" where
  "err_text (Errorf t) = t"
| "err_text (Wrapf t e) = Fmt ''%s: %s'' [t, err_text e]"
| "err_text (Joined es) = Fmt ''joined by newlines'' (map err_text es)"
| "err_text (PermanentError e) = err_text e"
| "err_text (APIError s m p st t c) = api_text s m p st t"
| "err_text ErrTerminating = Lit ''ledger entry is being deleted''"
| "err_text ErrNotFound = Lit ''ledger entry not found''"
| "err_text ErrExists = Lit ''ledger entry already exists''"
| "err_text (KubeError (KubeOther t)) = Lit t"
| "err_text (KubeError KubeNotFound) = Lit ''not found''"
| "err_text (KubeError KubeAlreadyExists) = Lit ''already exists''"
| "err_text (KubeError KubeConflict) = Lit ''the object has been modified''"
| "err_text (UnresolvedError r t) = Fmt ''cannot resolve ${%s}: %s'' [Lit r, t]"
| "err_text (Panic t) = Lit t"

definition api_detail :: "err \<Rightarrow> msg" where
  "api_detail e =
     (case e of APIError s m p st t (Some c) \<Rightarrow> Fmt ''%s: %s'' [err_text e, err_text c] | _ \<Rightarrow> err_text e)"

definition permanentf :: "string \<Rightarrow> msg list \<Rightarrow> err" where
  "permanentf fmt args = PermanentError (Errorf (Fmt fmt args))"

text \<open>\<open>errors.Join\<close>: \<open>None\<close> stands for the nil error of an empty list.\<close>

definition errors_join :: "err list \<Rightarrow> err option" where
  "errors_join es = (if es = [] then None else Some (Joined es))"

type_synonym ('w, 'a) call = "('w, err, 'a) io"

section \<open>JSON documents\<close>

text \<open>A \<open>float64\<close> written as a decimal: sign, digits \<open>m\<close> and exponent, \<open>(-1)^sign * m * 10^e\<close>.\<close>

datatype decimal = Dec bool nat int

text \<open>
  A JSON value, also used for Go's \<open>map[string]any\<close> trees: \<open>JInt\<close> is a Go \<open>int\<close> put into
  such a tree, \<open>JNum\<close> the \<open>float64\<close> a decoded JSON number becomes.
\<close>

datatype json =
    JNull
  | JBool bool
  | JInt int
  | JNum decimal
  | JStr string
  | JArr "json list"
  | JObj "(string \<times> json) list"

text \<open>
  \<open>apiextensionsv1.JSON\<close>: the raw bytes of a parameter value. \<open>RawEmpty\<close> is a nil or blank
  text, \<open>RawBad\<close> a text that is not JSON, \<open>RawJson\<close> one that parses to the given value.
\<close>

datatype raw_json = RawEmpty | RawBad | RawJson json

text \<open>
  Library code the model does not spell out, as functions it takes:
  \<^item> \<open>gl_regexp p\<close>: \<open>None\<close> if \<open>regexp.Compile\<close> refuses the pattern, else \<open>MatchString\<close>;
  \<^item> \<open>gl_float d\<close>: the shortest decimal of the \<open>float64\<close> nearest to \<open>d\<close>, \<open>None\<close> out of range;
  \<^item> \<open>gl_sha256\<close>: the digest as 32 bytes;
  \<^item> \<open>gl_url\<close>: scheme and host of \<open>url.Parse\<close>, \<open>None\<close> on an error;
  \<^item> \<open>gl_yaml_resources\<close>: \<open>yaml.UnmarshalStrict\<close> into \<open>ResourceRequirements\<close>, given by the members
    of its JSON form;
  \<^item> \<open>gl_fraction f unit k\<close>: \<open>uint64(float64(f) * (float64(unit) / 10^k))\<close>, the fraction of a unit in
    \<open>time.ParseDuration\<close>;
  \<^item> \<open>gl_json\<close>: the JSON value \<open>encoding/json\<close> reads from a text.
\<close>

record go_lib =
  gl_regexp :: "string \<Rightarrow> (string \<Rightarrow> bool) option"
  gl_float :: "decimal \<Rightarrow> decimal option"
  gl_sha256 :: "string \<Rightarrow> string"
  gl_url :: "string \<Rightarrow> (string \<times> string) option"
  gl_yaml_resources :: "string \<Rightarrow> (string \<times> json) list option"
  gl_fraction :: "nat \<Rightarrow> nat \<Rightarrow> nat \<Rightarrow> nat"
  gl_json :: "string \<Rightarrow> raw_json"

section \<open>Definitions\<close>

datatype step_type =
    StepGitWatcher | StepWaitBuild | StepTag | StepApp | StepJobTemplate | StepServiceTemplate
  | StepChain | StepTrigger | StepBatchTrigger | StepUnknown string

datatype parameter_type =
    ParameterUnset | ParameterString | ParameterNumber | ParameterBoolean | ParameterStringList
  | ParameterObjectList

record wizard_parameter =
  wp_name :: string
  wp_type :: parameter_type
  wp_description :: string
  wp_required :: bool
  wp_default :: "raw_json option"
  wp_pattern :: string

record wizard_step =
  ws_name :: string
  ws_type :: step_type
  ws_for_each :: string
  ws_params :: smap

record definition_spec =
  ds_description :: string
  ds_parameters :: "wizard_parameter list"
  ds_steps :: "wizard_step list"

record wizard_definition =
  wd_name :: string
  wd_generation :: int
  wd_spec :: definition_spec

fun step_type_str :: "step_type \<Rightarrow> string" where
  "step_type_str StepGitWatcher = ''gitWatcher''"
| "step_type_str StepWaitBuild = ''waitBuild''"
| "step_type_str StepTag = ''tag''"
| "step_type_str StepApp = ''app''"
| "step_type_str StepJobTemplate = ''jobTemplate''"
| "step_type_str StepServiceTemplate = ''serviceTemplate''"
| "step_type_str StepChain = ''chain''"
| "step_type_str StepTrigger = ''trigger''"
| "step_type_str StepBatchTrigger = ''batchTrigger''"
| "step_type_str (StepUnknown s) = s"

section \<open>Ledger entries\<close>

datatype service_name = ServiceForge | ServiceIndex | ServiceWeave

fun service_str :: "service_name \<Rightarrow> string" where
  "service_str ServiceForge = ''forge''"
| "service_str ServiceIndex = ''index''"
| "service_str ServiceWeave = ''weave''"

lemma service_str_inj: "service_str s = service_str t \<longleftrightarrow> s = t"
  by (cases s; cases t) simp_all

record resource_reference =
  rr_run :: string
  rr_step :: string

text \<open>\<open>WizardResource\<close>: object metadata (name, resourceVersion, labels) and \<open>WizardResourceSpec\<close>.\<close>

record wizard_resource =
  wr_object :: string
  wr_version :: string
  wr_labels :: smap
  wr_service :: service_name
  wr_kind :: string
  wr_name :: string
  wr_external_id :: string
  wr_spec_hash :: string
  wr_managed :: bool
  wr_terminating :: bool
  wr_refs :: "resource_reference list"

section \<open>Runs\<close>

datatype desired_state = DesiredUnset | DesiredApplied | DesiredRolledBack

datatype run_phase =
    RunUnset | RunPending | RunRunning | RunReady | RunFailed | RunRollingBack | RunRolledBack
  | RunRollbackFailed

datatype step_phase =
    StepPending | StepRunning | StepSucceeded | StepFailed | StepRolledBack | StepRollbackFailed

datatype disposition = DispositionUnset | DispositionCreated | DispositionAdopted | DispositionFoundUnowned

record managed_resource_ref =
  mr_service :: service_name
  mr_kind :: string
  mr_name :: string
  mr_external_id :: string
  mr_disposition :: disposition

type_synonym time = int \<comment> \<open>nanoseconds\<close>

record step_status =
  ss_key :: string
  ss_name :: string
  ss_type :: step_type
  ss_item :: string
  ss_phase :: step_phase
  ss_message :: msg
  ss_failures :: int
  ss_outputs :: smap
  ss_resources :: "managed_resource_ref list"
  ss_started_at :: "time option"
  ss_completed_at :: "time option"

record condition =
  cond_type :: string
  cond_status :: bool
  cond_reason :: run_phase
  cond_message :: msg
  cond_generation :: int
  cond_transition :: time

record run_status =
  rs_phase :: run_phase
  rs_message :: msg
  rs_generation :: int
  rs_steps :: "step_status list"
  rs_conditions :: "condition list"
  rs_started_at :: "time option"
  rs_completed_at :: "time option"

record run_spec =
  rp_definition_ref :: string
  rp_snapshot :: "definition_spec option"
  rp_definition_generation :: int
  rp_parameters :: "(string \<times> raw_json) list"
  rp_created_by :: string
  rp_created_by_email :: string
  rp_desired :: desired_state

record wizard_run =
  run_name :: string
  run_generation :: int
  run_created :: time
  run_deletion :: "time option"
  run_finalizers :: "string list"
  run_annotations :: smap
  run_labels :: smap
  run_spec :: run_spec
  run_status :: run_status

definition FinalizerRollback :: string where
  "FinalizerRollback = ''wizard.fusion-platform.io/rollback''"

definition AnnotationRetry :: string where
  "AnnotationRetry = ''wizard.fusion-platform.io/retry''"

definition ConditionReady :: string where
  "ConditionReady = ''Ready''"

section \<open>Lemmas\<close>

lemma err_tree_self: "e \<in> set (err_tree e)"
  by (cases e rule: err_tree.cases) auto

lemma err_tree_joined: "e \<in> set es \<Longrightarrow> set (err_tree e) \<subseteq> set (err_tree (Joined es))"
  by auto

end
