(* ===== verification/Template.thy ===== *)
theory Template
  imports ApiTypes
begin

text \<open>
  Package \<open>internal/params\<close>, files \<open>filters.go\<close> and \<open>template.go\<close>: the placeholder language
  of wizard definitions. \<open>parse\<close> splits a string into literal text and references, \<open>render\<close>
  substitutes them from a context, \<open>resolve_map\<close> does it for all params of a step, and
  \<open>resolve_list\<close> resolves a forEach source.
\<close>

section \<open>Filters\<close>

definition maxK8sName :: nat where
  "maxK8sName = 63"

definition k8s_name :: "string \<Rightarrow> string" where
  "k8s_name s =
     (let name = trim_both CHR ''-'' (dash_runs False (to_lower s))
      in if name = [] then ''x''
         else if length name > maxK8sName then trim_right CHR ''-'' (take maxK8sName name)
         else name)"

definition stem :: "string \<Rightarrow> string" where
  "stem s =
     (case last_index CHR ''.'' s of
        None \<Rightarrow> s
      | Some i \<Rightarrow> if i = 0 \<or> CHR ''/'' \<in> set (drop i s) then s else take i s)"

definition filters :: "(string \<times> (string \<Rightarrow> string)) list" where
  "filters = [(''lower'', to_lower), (''stem'', stem), (''k8sName'', k8s_name)]"

definition filter_names :: "string list" where
  "filter_names = sort (map fst filters)"

section \<open>References and templates\<close>

datatype ref_kind = RefParams | RefConfig | RefSteps | RefItem

record tref =
  r_kind :: ref_kind
  r_name :: string
  r_key :: string
  r_filters :: "string list"
  r_raw :: string

datatype segment = SegText string | SegRef tref

type_synonym template = "segment list"

datatype val =
    VString string
  | VNumber decimal
  | VBool bool
  | VList "string list"
  | VObjects "smap list"

text \<open>\<open>Context\<close>: \<open>c_item = None\<close> outside forEach, \<open>c_item_fields = None\<close> for a stringList source.\<close>

record tctx =
  c_params :: "(string \<times> val) list"
  c_config :: smap
  c_steps :: "(string \<times> smap) list"
  c_item :: "string option"
  c_item_fields :: "smap option"

fun add_filters :: "tref \<Rightarrow> string list \<Rightarrow> err + tref" where
  "add_filters r [] = Inr r"
| "add_filters r (f # fs) =
     (let f' = trim_space f
      in if f' \<notin> set (map fst filters)
         then Inl (Errorf (Fmt ''invalid reference ${%s}: unknown filter %q (known: %s)''
                [Lit (r_raw r), Lit f', Lit (join '', '' filter_names)]))
         else add_filters (r\<lparr>r_filters := r_filters r @ [f']\<rparr>) fs)"

fun ref_of_path :: "string list \<Rightarrow> (ref_kind \<times> string \<times> string) option" where
  "ref_of_path [a] = (if a = ''item'' then Some (RefItem, [], []) else None)"
| "ref_of_path [a, b] =
     (if a = ''item'' \<and> b \<noteq> [] then Some (RefItem, b, [])
      else if a = ''params'' \<and> b \<noteq> [] then Some (RefParams, b, [])
      else if a = ''config'' \<and> b \<noteq> [] then Some (RefConfig, b, [])
      else None)"
| "ref_of_path [a, b, c, d] =
     (if a = ''steps'' \<and> c = ''outputs'' \<and> b \<noteq> [] \<and> d \<noteq> [] then Some (RefSteps, b, d) else None)"
| "ref_of_path _ = None"

definition parse_ref :: "string \<Rightarrow> err + tref" where
  "parse_ref expr =
     (let parts = split_on CHR ''|'' expr;
          path = split_on CHR ''.'' (trim_space (hd parts));
          raw = trim_space expr
      in case ref_of_path path of
           None \<Rightarrow> Inl (Errorf (Fmt ''invalid reference ${%s}: want params.<name>, config.<key>, steps.<step>.outputs.<key>, item or item.<field>'' [Lit raw]))
         | Some (k, n, key) \<Rightarrow>
             add_filters \<lparr>r_kind = k, r_name = n, r_key = key, r_filters = [], r_raw = raw\<rparr> (tl parts))"

definition flush :: "string \<Rightarrow> template" where
  "flush lit = (if lit = [] then [] else [SegText lit])"

text \<open>The loop of \<open>Parse\<close>: \<open>lit\<close> is the literal text gathered so far, \<open>s\<close> what is left of \<open>orig\<close>.\<close>

function parse_from :: "string \<Rightarrow> string \<Rightarrow> string \<Rightarrow> err + template" where
  "parse_from orig lit s =
     (if s = [] then Inr (flush lit)
      else if has_prefix s ''$${'' then parse_from orig (lit @ ''${'') (drop 3 s)
      else if has_prefix s ''${'' then
        (case index_byte CHR ''}'' (drop 2 s) of
           None \<Rightarrow> Inl (Errorf (Fmt ''unterminated placeholder in %q'' [Lit orig]))
         | Some n \<Rightarrow>
             (case parse_ref (take n (drop 2 s)) of
                Inl e \<Rightarrow> Inl e
              | Inr r \<Rightarrow>
                  (case parse_from orig [] (drop (2 + n + 1) s) of
                     Inl e \<Rightarrow> Inl e
                   | Inr segs \<Rightarrow> Inr (flush lit @ SegRef r # segs))))
      else parse_from orig (lit @ [hd s]) (tl s))"
  by pat_completeness auto
termination
  by (relation "measure (\<lambda>(orig, lit, s). length s)") auto

declare parse_from.simps [simp del]

text \<open>Equations by cases of what is left, for evaluation.\<close>

lemma parse_from_code [code]:
  "parse_from orig lit [] = Inr (flush lit)"
  "parse_from orig lit (c # s) =
     (if has_prefix (c # s) ''$${'' then parse_from orig (lit @ ''${'') (drop 3 (c # s))
      else if has_prefix (c # s) ''${'' then
        (case index_byte CHR ''}'' (drop 2 (c # s)) of
           None \<Rightarrow> Inl (Errorf (Fmt ''unterminated placeholder in %q'' [Lit orig]))
         | Some n \<Rightarrow>
             (case parse_ref (take n (drop 2 (c # s))) of
                Inl e \<Rightarrow> Inl e
              | Inr r \<Rightarrow>
                  (case parse_from orig [] (drop (2 + n + 1) (c # s)) of
                     Inl e \<Rightarrow> Inl e
                   | Inr segs \<Rightarrow> Inr (flush lit @ SegRef r # segs))))
      else parse_from orig (lit @ [c]) s)"
  by (subst parse_from.simps, simp only: refl if_True)
    (subst parse_from.simps, simp only: list.distinct if_False list.sel)

definition parse :: "string \<Rightarrow> err + template" where
  "parse s = parse_from s [] s"

text \<open>\<open>Template.Refs\<close>.\<close>

fun refs :: "template \<Rightarrow> tref list" where
  "refs [] = []"
| "refs (SegText t # segs) = refs segs"
| "refs (SegRef r # segs) = r # refs segs"

section \<open>Rendering\<close>

text \<open>\<open>encoding/json\<close>'s encoding of a string, with HTML escaping.\<close>

definition u00 :: "char \<Rightarrow> string" where
  "u00 c = (CHR 0x5C # ''u00'') @ [hex_digit (of_char c div 16), hex_digit (of_char c mod 16)]"

definition json_char :: "char \<Rightarrow> string" where
  "json_char c =
     (let n = (of_char c :: nat)
      in if c = CHR 0x22 then [CHR 0x5C, CHR 0x22]
         else if c = CHR 0x5C then [CHR 0x5C, CHR 0x5C]
         else if n = 8 then (CHR 0x5C # ''b'')
         else if n = 12 then (CHR 0x5C # ''f'')
         else if n = 10 then (CHR 0x5C # ''n'')
         else if n = 13 then (CHR 0x5C # ''r'')
         else if n = 9 then (CHR 0x5C # ''t'')
         else if n < 32 \<or> n = 60 \<or> n = 62 \<or> n = 38 then u00 c
         else [c])"

text \<open>\<open>utf8.DecodeRuneInString\<close>: how many bytes the first rune takes, 0 when they are no valid UTF-8.\<close>

definition continuation :: "nat \<Rightarrow> bool" where
  "continuation n \<longleftrightarrow> 128 \<le> n \<and> n \<le> 191"

definition rune_start :: "nat \<Rightarrow> nat \<Rightarrow> bool" where
  "rune_start a b \<longleftrightarrow> 194 \<le> a \<and> a \<le> 244 \<and> continuation b \<and> (a = 224 \<longrightarrow> 160 \<le> b) \<and> (a = 237 \<longrightarrow> b \<le> 159) \<and>
     (a = 240 \<longrightarrow> 144 \<le> b) \<and> (a = 244 \<longrightarrow> b \<le> 143)"

definition rune_width :: "string \<Rightarrow> nat" where
  "rune_width s =
     (case map of_char s of
        [] \<Rightarrow> 0
      | a # bs \<Rightarrow>
          if a < 128 then 1
          else (case bs of
            [] \<Rightarrow> 0
          | b # cs \<Rightarrow>
              if \<not> rune_start a b then 0
              else (let n = (if a < 224 then 0 else if a < 240 then 1 else 2)
                    in if n \<le> length cs \<and> list_all continuation (take n cs) then n + 2 else 0)))"

fun json_escape :: "string \<Rightarrow> string" where
  "json_escape [] = []"
| "json_escape (a # s) =
     (if prefix (bytes [226, 128, 168]) (a # s) then (CHR 0x5C # ''u2028'') @ json_escape (drop 2 s)
      else if prefix (bytes [226, 128, 169]) (a # s) then (CHR 0x5C # ''u2029'') @ json_escape (drop 2 s)
      else case rune_width (a # s) of
             0 \<Rightarrow> (CHR 0x5C # ''ufffd'') @ json_escape s
           | Suc 0 \<Rightarrow> json_char a @ json_escape s
           | Suc n \<Rightarrow> a # take n s @ json_escape (drop n s))"

definition json_string :: "string \<Rightarrow> string" where
  "json_string s = [CHR 0x22] @ json_escape s @ [CHR 0x22]"

definition json_smap :: "smap \<Rightarrow> string" where
  "json_smap m = ''{'' @ join '','' (map (\<lambda>k. json_string k @ '':'' @ json_string (get0 m k)) (sorted_keys m)) @ ''}''"

definition json_smaps :: "smap list \<Rightarrow> string" where
  "json_smaps ms = ''['' @ join '','' (map json_smap ms) @ '']''"

text \<open>\<open>strconv.FormatFloat(x, 'f', -1, 64)\<close>, \<open>x\<close> given by its shortest decimal.\<close>

fun format_decimal :: "decimal \<Rightarrow> string" where
  "format_decimal (Dec neg m e) =
     (if neg then ''-'' else []) @
     (if e \<ge> 0 then format_nat (m * 10 ^ nat e)
      else (let ds = format_nat m; k = nat (- e)
            in if length ds > k then take (length ds - k) ds @ ''.'' @ drop (length ds - k) ds
               else ''0.'' @ replicate (k - length ds) CHR ''0'' @ ds))"

definition unresolved :: "tref \<Rightarrow> string \<Rightarrow> msg list \<Rightarrow> err" where
  "unresolved r fmt args = UnresolvedError (r_raw r) (Fmt fmt args)"

definition lookup :: "tref \<Rightarrow> tctx \<Rightarrow> err + val" where
  "lookup r c =
     (case r_kind r of
        RefItem \<Rightarrow>
          (case c_item c of
             None \<Rightarrow> Inl (unresolved r ''${item} is only available inside a forEach step'' [])
           | Some item \<Rightarrow>
               if r_name r = [] then Inr (VString item)
               else (case c_item_fields c of
                       None \<Rightarrow> Inl (unresolved r ''needs an objectList forEach source (this one is a plain stringList)'' [])
                     | Some flds \<Rightarrow>
                         (case map_of flds (r_name r) of
                            None \<Rightarrow> Inl (unresolved r ''this forEach item has no field %q'' [Lit (r_name r)])
                          | Some v \<Rightarrow> Inr (VString v))))
      | RefParams \<Rightarrow>
          (case map_of (c_params c) (r_name r) of
             None \<Rightarrow> Inl (unresolved r ''parameter %q has no value'' [Lit (r_name r)])
           | Some v \<Rightarrow> Inr v)
      | RefConfig \<Rightarrow>
          (case map_of (c_config c) (r_name r) of
             None \<Rightarrow> Inl (unresolved r ''instance config has no key %q'' [Lit (r_name r)])
           | Some v \<Rightarrow> Inr (VString v))
      | RefSteps \<Rightarrow>
          (case map_of (c_steps c) (r_name r) of
             None \<Rightarrow> Inl (unresolved r ''step %q has not produced outputs yet'' [Lit (r_name r)])
           | Some outs \<Rightarrow>
               (case map_of outs (r_key r) of
                  None \<Rightarrow> Inl (unresolved r ''step %q has no output %q'' [Lit (r_name r), Lit (r_key r)])
                | Some v \<Rightarrow> Inr (VString v))))"

fun stringify :: "tref \<Rightarrow> val \<Rightarrow> err + string" where
  "stringify r (VString s) = Inr s"
| "stringify r (VNumber d) = Inr (format_decimal d)"
| "stringify r (VBool b) = Inr (if b then ''true'' else ''false'')"
| "stringify r (VObjects ms) = Inr (json_smaps ms)"
| "stringify r (VList ss) =
     Inl (Errorf (Fmt ''cannot render ${%s}: a stringList can only be used as forEach'' [Lit (r_raw r)]))"

text \<open>A name in \<open>r_filters\<close> was checked by \<open>add_filters\<close>; a missing one would be a nil function call.\<close>

fun apply_filters :: "string list \<Rightarrow> string \<Rightarrow> err + string" where
  "apply_filters [] s = Inr s"
| "apply_filters (f # fs) s =
     (case map_of filters f of
        None \<Rightarrow> Inl (Panic ''nil filter'')
      | Some g \<Rightarrow> apply_filters fs (g s))"

definition render_ref :: "tref \<Rightarrow> tctx \<Rightarrow> err + string" where
  "render_ref r c =
     (case lookup r c of
        Inl e \<Rightarrow> Inl e
      | Inr v \<Rightarrow> (case stringify r v of Inl e \<Rightarrow> Inl e | Inr s \<Rightarrow> apply_filters (r_filters r) s))"

fun render :: "template \<Rightarrow> tctx \<Rightarrow> err + string" where
  "render [] c = Inr []"
| "render (SegText t # segs) c =
     (case render segs c of Inl e \<Rightarrow> Inl e | Inr s \<Rightarrow> Inr (t @ s))"
| "render (SegRef r # segs) c =
     (case render_ref r c of
        Inl e \<Rightarrow> Inl e
      | Inr a \<Rightarrow> (case render segs c of Inl e \<Rightarrow> Inl e | Inr s \<Rightarrow> Inr (a @ s)))"

definition resolve :: "string \<Rightarrow> tctx \<Rightarrow> err + string" where
  "resolve s c = (case parse s of Inl e \<Rightarrow> Inl e | Inr t \<Rightarrow> render t c)"

section \<open>Maps and lists\<close>

text \<open>The loop of \<open>ResolveMap\<close> over the sorted keys: results and errors, both in key order.\<close>

fun resolve_keys :: "smap \<Rightarrow> string list \<Rightarrow> tctx \<Rightarrow> err list \<times> smap" where
  "resolve_keys m [] c = ([], [])"
| "resolve_keys m (k # ks) c =
     (case resolve_keys m ks c of
        (errs, out) \<Rightarrow>
          (case resolve (get0 m k) c of
             Inl e \<Rightarrow> (Wrapf (Fmt ''param %q'' [Lit k]) e # errs, out)
           | Inr v \<Rightarrow> (errs, (k, v) # out)))"

definition resolve_map :: "smap \<Rightarrow> tctx \<Rightarrow> err + smap" where
  "resolve_map m c =
     (case resolve_keys m (sorted_keys m) c of
        (errs, out) \<Rightarrow> (case errors_join errs of Some e \<Rightarrow> Inl e | None \<Rightarrow> Inr out))"

definition list_ref :: "string \<Rightarrow> err + string" where
  "list_ref s =
     (case parse s of
        Inl e \<Rightarrow> Inl e
      | Inr [SegRef r] \<Rightarrow>
          if r_kind r = RefParams \<and> r_filters r = [] then Inr (r_name r)
          else Inl (Errorf (Fmt ''forEach %q must be a single ${params.<name>} reference to a stringList or objectList parameter'' [Lit s]))
      | Inr _ \<Rightarrow> Inl (Errorf (Fmt ''forEach %q must be a single ${params.<name>} reference to a stringList or objectList parameter'' [Lit s])))"

record for_each_item =
  fe_key :: string
  fe_fields :: "smap option"

definition resolve_list :: "string \<Rightarrow> tctx \<Rightarrow> err + for_each_item list" where
  "resolve_list s c =
     (case list_ref s of
        Inl e \<Rightarrow> Inl e
      | Inr name \<Rightarrow>
          (case lookup \<lparr>r_kind = RefParams, r_name = name, r_key = [], r_filters = [], r_raw = ''params.'' @ name\<rparr> c of
             Inl e \<Rightarrow> Inl e
           | Inr (VList ss) \<Rightarrow> Inr (map (\<lambda>x. \<lparr>fe_key = x, fe_fields = None\<rparr>) ss)
           | Inr (VObjects ms) \<Rightarrow> Inr (map (\<lambda>m. \<lparr>fe_key = get0 m ''key'', fe_fields = Some m\<rparr>) ms)
           | Inr _ \<Rightarrow> Inl (Errorf (Fmt ''forEach %q: parameter %q is not a stringList or objectList'' [Lit s, Lit name]))))"

section \<open>Names derived by the filters\<close>

text \<open>The three cases of \<open>k8sName\<close>, all of the same form.\<close>

lemma k8s_name_form:
  "dashed False (k8s_name s) \<and> k8s_name s \<noteq> [] \<and> length (k8s_name s) \<le> 63 \<and>
   hd (k8s_name s) \<noteq> CHR ''-'' \<and> last (k8s_name s) \<noteq> CHR ''-''"
proof -
  define d where "d = dropWhile (\<lambda>x. x = CHR ''-'') (dash_runs False (to_lower s))"
  define n where "n = trim_both CHR ''-'' (dash_runs False (to_lower s))"
  have n_d: "n = trim_right CHR ''-'' d" by (simp add: n_def d_def trim_both_def)
  have dd: "dashed False d" by (simp add: d_def dashed_dropWhile dashed_dash_runs)
  then have dn: "dashed False n" by (simp add: n_d dashed_trim_right)
  have hd_n: "hd n \<noteq> CHR ''-''" if "n \<noteq> []"
  proof -
    have "d \<noteq> []" using that by (auto simp: n_d trim_right_def)
    then have "hd d \<noteq> CHR ''-''" unfolding d_def by (rule hd_dropWhile_dash)
    then show ?thesis using trim_right_hd that by (simp add: n_d)
  qed
  have last_n: "last n \<noteq> CHR ''-''" if "n \<noteq> []"
    using that trim_right_snoc[of "CHR ''-''" d] by (simp add: n_d)
  let ?t = "trim_right CHR ''-'' (take maxK8sName n)"
  consider (empty) "n = []" | (long) "n \<noteq> []" "length n > maxK8sName"
    | (short) "n \<noteq> []" "length n \<le> maxK8sName" by linarith
  then show ?thesis
  proof cases
    case empty
    then show ?thesis by (simp add: k8s_name_def Let_def n_def[symmetric] is_alnum_def is_lower_def)
  next
    case long
    then have hd_take: "take maxK8sName n \<noteq> []" "hd (take maxK8sName n) \<noteq> CHR ''-''"
      using hd_n by (simp_all add: maxK8sName_def hd_take)
    then have ne: "?t \<noteq> []" by (rule trim_right_nonempty)
    have "length ?t \<le> length (take maxK8sName n)" by (rule trim_right_length)
    then have len: "length ?t \<le> 63" by (simp add: maxK8sName_def)
    have "hd ?t \<noteq> CHR ''-''" using trim_right_hd[OF ne] hd_take(2) by simp
    moreover have "last ?t \<noteq> CHR ''-''" using trim_right_snoc ne by blast
    moreover have "dashed False ?t" using dn by (simp add: dashed_take dashed_trim_right)
    ultimately show ?thesis using long ne len by (simp add: k8s_name_def Let_def n_def[symmetric])
  next
    case short
    then show ?thesis using dn hd_n last_n by (simp add: k8s_name_def Let_def n_def[symmetric] maxK8sName_def)
  qed
qed

lemma k8s_name_dns: "dns_label (k8s_name s)"
  using k8s_name_form[of s] dashed_chars[of False "k8s_name s"] by (auto simp: dns_label_def)

lemma k8s_name_fixed:
  assumes "dashed False n" "n \<noteq> []" "length n \<le> 63" "hd n \<noteq> CHR ''-''" "last n \<noteq> CHR ''-''"
  shows "k8s_name n = n"
proof -
  have "dropWhile (\<lambda>x. x = CHR ''-'') n = n" using assms(2,4) by (cases n) auto
  then have "trim_both CHR ''-'' n = n" using assms by (simp add: trim_both_def trim_right_eq_self)
  with assms show ?thesis
    by (simp add: k8s_name_def to_lower_dashed dash_runs_dashed maxK8sName_def)
qed

lemma k8s_name_idem: "k8s_name (k8s_name s) = k8s_name s"
  using k8s_name_form[of s] by (intro k8s_name_fixed) auto

lemma stem_extension:
  assumes "p \<noteq> []" "CHR ''.'' \<notin> set ext" "CHR ''/'' \<notin> set ext"
  shows "stem (p @ CHR ''.'' # ext) = p"
  using assms by (simp add: stem_def last_index_append)

lemma stem_prefix: "\<exists>t. s = stem s @ t"
  by (auto simp: stem_def split: option.splits) (metis append_take_drop_id)

end
