(* ===== verification/TemplateProps.thy ===== *)
theory TemplateProps
  imports Template
begin

text \<open>
  What the placeholder language guarantees: escaping and printing are inverse to \<open>parse\<close>,
  rendering fails exactly when some reference has no value, and \<open>resolve_map\<close> reports exactly
  the params that do not resolve.
\<close>

section \<open>Escaping and printing\<close>

fun escape :: "string \<Rightarrow> string" where
  "escape [] = []"
| "escape (a # s) = (if has_prefix (a # s) ''${'' then ''$$'' @ escape s else a # escape s)"

lemma escape_hd: "s \<noteq> [] \<Longrightarrow> \<exists>t. escape s = hd s # t"
  by (cases s) auto

lemma escape_Nil [simp]: "escape s = [] \<longleftrightarrow> s = []"
  by (cases s) auto

text \<open>One literal byte: neither an escape nor a placeholder starts here.\<close>

lemma parse_from_plain:
  assumes "\<not> has_prefix (a # s) ''$${''" and "\<not> has_prefix (a # s) ''${''"
  shows "parse_from orig lit (a # s) = parse_from orig (lit @ [a]) s"
  by (subst parse_from.simps) (simp only: assms if_False list.distinct list.sel)

lemma parse_from_escape1: "parse_from orig lit (''$${'' @ s) = parse_from orig (lit @ ''${'') s"
  by (subst parse_from.simps) simp

definition boundary_ok :: "string \<Rightarrow> string \<Rightarrow> bool" where
  "boundary_ok t rest \<longleftrightarrow> t = [] \<or> last t \<noteq> CHR ''$'' \<or> rest = []"

lemma parse_from_escape:
  "boundary_ok t rest \<Longrightarrow> parse_from orig lit (escape t @ rest) = parse_from orig (lit @ t) rest"
proof (induction t arbitrary: lit rule: escape.induct)
  case (2 a s)
  show ?case
  proof (cases "has_prefix (a # s) ''${''")
    case True
    then obtain s' where s: "a = CHR ''$''" "s = CHR ''{'' # s'" by (auto simp: prefix_def)
    have "escape (a # s) @ rest = ''$${'' @ escape s' @ rest" using s by simp
    moreover have "boundary_ok s rest" using 2(3) s by (auto simp: boundary_ok_def)
    moreover have "parse_from orig (lit @ ''$'') (escape s @ rest) = parse_from orig ((lit @ ''$'') @ s) rest"
      using 2(1)[OF True] \<open>boundary_ok s rest\<close> by blast
    moreover have "parse_from orig (lit @ ''$'') (escape s @ rest) = parse_from orig (lit @ ''${'') (escape s' @ rest)"
      using s parse_from_plain[of "CHR ''{''" "escape s' @ rest" orig "lit @ ''$''"] by simp
    ultimately show ?thesis using s parse_from_escape1[of orig lit "escape s' @ rest"] by simp
  next
    case False
    have tail: "boundary_ok s rest" using 2(3) by (auto simp: boundary_ok_def split: if_splits)
    have "\<not> has_prefix (a # escape s @ rest) ''${'' \<and> \<not> has_prefix (a # escape s @ rest) ''$${''"
    proof (cases "a = CHR ''$''")
      case True
      show ?thesis
      proof (cases s)
        case Nil
        with 2(3) True show ?thesis by (auto simp: boundary_ok_def)
      next
        case (Cons b s')
        with False True have b: "b \<noteq> CHR ''{''" by simp
        show ?thesis
        proof (cases "has_prefix s ''${''")
          case True
          with Cons show ?thesis by auto
        next
          case no: False
          show ?thesis
          proof (cases s')
            case Nil
            with 2(3) Cons True b show ?thesis by (auto simp: boundary_ok_def)
          next
            case (Cons c s'')
            with no b escape_hd[of s'] \<open>s = b # s'\<close> show ?thesis by auto
          qed
        qed
      qed
    qed simp
    then have "parse_from orig lit (a # escape s @ rest) = parse_from orig (lit @ [a]) (escape s @ rest)"
      by (intro parse_from_plain) auto
    moreover have "escape (a # s) = a # escape s" using False by (simp only: escape.simps if_False)
    ultimately show ?thesis using 2(2)[OF False tail, of "lit @ [a]"] by simp
  qed
qed simp

lemma parse_from_Nil: "parse_from orig lit [] = Inr (flush lit)"
  by (subst parse_from.simps) simp

text \<open>Every string is the rendering of its own escape.\<close>

lemma parse_escape: "parse (escape s) = Inr (flush s)"
  using parse_from_escape[of s "[]" "escape s" "[]"]
  by (simp add: parse_def boundary_ok_def parse_from_Nil)

lemma resolve_escape_eq: "resolve (escape s) c = Inr s"
  by (simp add: resolve_def parse_escape flush_def)

text \<open>
  A reference as written: \<open>r_raw\<close> must read back as the reference and cannot contain the closing
  brace. Literal texts are non-empty, do not touch each other, and do not end in a dollar sign
  before a placeholder (the language has no way to write that).
\<close>

definition wf_ref :: "tref \<Rightarrow> bool" where
  "wf_ref r \<longleftrightarrow> parse_ref (r_raw r) = Inr r \<and> CHR ''}'' \<notin> set (r_raw r)"

fun show_template :: "template \<Rightarrow> string" where
  "show_template [] = []"
| "show_template (SegText t # segs) = escape t @ show_template segs"
| "show_template (SegRef r # segs) = ''${'' @ r_raw r @ ''}'' @ show_template segs"

fun wf_template :: "template \<Rightarrow> bool" where
  "wf_template [] = True"
| "wf_template (SegText t # segs) =
     (t \<noteq> [] \<and> (case segs of [] \<Rightarrow> True | SegRef r # _ \<Rightarrow> last t \<noteq> CHR ''$'' | SegText _ # _ \<Rightarrow> False) \<and>
      wf_template segs)"
| "wf_template (SegRef r # segs) = (wf_ref r \<and> wf_template segs)"

lemma parse_from_ref:
  assumes "wf_ref r"
  shows "parse_from orig lit (CHR ''$'' # CHR ''{'' # r_raw r @ CHR ''}'' # rest) =
    (case parse_from orig [] rest of Inl e \<Rightarrow> Inl e | Inr segs \<Rightarrow> Inr (flush lit @ SegRef r # segs))"
proof -
  have "index_byte CHR ''}'' (r_raw r @ CHR ''}'' # rest) = Some (length (r_raw r))"
    using assms by (simp add: wf_ref_def index_byte_append)
  then show ?thesis using assms
    by (subst parse_from.simps) (simp add: wf_ref_def)
qed

lemma flush_append: "t \<noteq> [] \<Longrightarrow> flush t = [SegText t]"
  by (simp add: flush_def)

lemma parse_show:
  "wf_template t \<Longrightarrow> parse_from orig [] (show_template t) = Inr t"
proof (induction t rule: wf_template.induct)
  case (2 t segs)
  show ?case
  proof (cases segs)
    case Nil
    with 2 show ?thesis using parse_from_escape[of t "[]" orig "[]"]
      by (simp add: boundary_ok_def parse_from_Nil flush_append)
  next
    case (Cons s segs')
    with 2 obtain r where s: "s = SegRef r" "wf_ref r" "last t \<noteq> CHR ''$''" "t \<noteq> []"
      by (cases s) auto
    have IH: "parse_from orig [] (show_template segs) = Inr segs" using 2 by simp
    have "parse_from orig [] (escape t @ show_template segs) = parse_from orig t (show_template segs)"
      using s parse_from_escape[of t "show_template segs" orig "[]"] by (simp add: boundary_ok_def)
    moreover have "parse_from orig t (show_template segs) = Inr (SegText t # segs)"
    proof -
      have "parse_from orig [] (show_template segs') = Inr segs'"
        using IH s(2) by (auto simp: Cons s(1) parse_from_ref[OF s(2)] flush_def split: sum.splits)
      then show ?thesis using s by (simp add: Cons parse_from_ref[OF s(2), of orig t] flush_def)
    qed
    ultimately show ?thesis by simp
  qed
next
  case (3 r segs)
  then show ?case using parse_from_ref[of r orig "[]" "show_template segs"] by (simp add: flush_def)
qed (simp add: parse_from_Nil flush_def)

lemma parse_show_template: "wf_template t \<Longrightarrow> parse (show_template t) = Inr t"
  by (simp add: parse_def parse_show)

section \<open>Parsed references\<close>

text \<open>Every filter of a parsed reference is a known one, so rendering never calls a nil function.\<close>

definition filters_ok :: "tref \<Rightarrow> bool" where
  "filters_ok r \<longleftrightarrow> set (r_filters r) \<subseteq> fst ` set filters"

lemma add_filters_ok: "filters_ok r \<Longrightarrow> add_filters r fs = Inr r' \<Longrightarrow> filters_ok r'"
proof (induction fs arbitrary: r)
  case (Cons f fs)
  then have "trim_space f \<in> fst ` set filters"
    and "add_filters (r\<lparr>r_filters := r_filters r @ [trim_space f]\<rparr>) fs = Inr r'"
    by (auto simp: Let_def split: if_splits)
  then show ?case using Cons.prems(1) Cons.IH[of "r\<lparr>r_filters := r_filters r @ [trim_space f]\<rparr>"]
    by (simp add: filters_ok_def)
qed simp

lemma parse_ref_filters_ok: "parse_ref s = Inr r \<Longrightarrow> filters_ok r"
proof -
  assume "parse_ref s = Inr r"
  then obtain k n key where
    "add_filters \<lparr>r_kind = k, r_name = n, r_key = key, r_filters = [], r_raw = trim_space s\<rparr>
       (tl (split_on CHR ''|'' s)) = Inr r"
    by (auto simp: parse_ref_def Let_def split: option.splits)
  then show ?thesis by (rule add_filters_ok[rotated]) (simp add: filters_ok_def)
qed

lemma refs_append [simp]: "refs (a @ b) = refs a @ refs b"
  by (induction a rule: refs.induct) auto

lemma refs_flush [simp]: "refs (flush l) = []"
  by (simp add: flush_def)

lemma parse_from_filters_ok:
  "parse_from orig lit s = Inr t \<Longrightarrow> r \<in> set (refs t) \<Longrightarrow> filters_ok r"
proof (induction orig lit s arbitrary: t rule: parse_from.induct)
  case (1 orig lit s)
  note eq = parse_from.simps[of orig lit s]
  consider "s = []" | "s \<noteq> []" "has_prefix s ''$${''"
    | (ref) "s \<noteq> []" "\<not> has_prefix s ''$${''" "has_prefix s ''${''"
    | "s \<noteq> []" "\<not> has_prefix s ''$${''" "\<not> has_prefix s ''${''" by blast
  then show ?case
  proof cases
    case ref
    with "1.prems"(1) eq obtain n r' segs where
      n: "index_byte CHR ''}'' (drop 2 s) = Some n" and r': "parse_ref (take n (drop 2 s)) = Inr r'"
      and segs: "parse_from orig [] (drop (2 + n + 1) s) = Inr segs" and t: "t = flush lit @ SegRef r' # segs"
      by (auto split: option.splits sum.splits)
    with "1.prems"(2) have "r = r' \<or> r \<in> set (refs segs)" by auto
    then show ?thesis using "1.IH"(2)[OF ref n r' segs] parse_ref_filters_ok[OF r'] by blast
  qed (use 1 eq in auto)
qed

lemma parse_filters_ok: "parse s = Inr t \<Longrightarrow> r \<in> set (refs t) \<Longrightarrow> filters_ok r"
  by (auto simp: parse_def intro: parse_from_filters_ok)

lemma apply_filters_ok: "set fs \<subseteq> fst ` set filters \<Longrightarrow> \<exists>s'. apply_filters fs s = Inr s'"
proof (induction fs arbitrary: s)
  case (Cons f fs)
  then show ?case using map_of_in_fst[of f filters] by auto
qed simp

lemma apply_filters_Inl: "apply_filters fs s = Inl e \<Longrightarrow> \<exists>f\<in>set fs. f \<notin> fst ` set filters"
  using apply_filters_ok[of fs s] by auto

section \<open>When rendering succeeds\<close>

text \<open>A reference resolves when its value exists and is not a stringList.\<close>

definition resolvable :: "tctx \<Rightarrow> tref \<Rightarrow> bool" where
  "resolvable c r \<longleftrightarrow> (case lookup r c of Inr (VList _) \<Rightarrow> False | Inr _ \<Rightarrow> True | Inl _ \<Rightarrow> False)"

lemma render_ref_ok: "filters_ok r \<Longrightarrow> resolvable c r \<Longrightarrow> \<exists>s. render_ref r c = Inr s"
  unfolding render_ref_def resolvable_def
  by (auto split: sum.splits val.splits intro!: apply_filters_ok simp: filters_ok_def)

lemma render_ref_fails: "\<not> resolvable c r \<Longrightarrow> \<exists>e. render_ref r c = Inl e"
  by (auto simp: render_ref_def resolvable_def split: sum.splits val.splits)

lemma render_ok_iff:
  "(\<And>r. r \<in> set (refs t) \<Longrightarrow> filters_ok r) \<Longrightarrow>
   (\<exists>s. render t c = Inr s) \<longleftrightarrow> (\<forall>r\<in>set (refs t). resolvable c r)"
proof (induction t rule: refs.induct)
  case (2 t segs)
  then show ?case by (auto split: sum.splits)
next
  case (3 r segs)
  have "filters_ok r" using 3 by simp
  then show ?case using 3 render_ref_ok[of r c] render_ref_fails[of c r]
    by (cases "resolvable c r") (auto split: sum.splits)
qed simp

lemma resolve_ok_iff:
  "(\<exists>s. resolve str c = Inr s) \<longleftrightarrow> (\<exists>t. parse str = Inr t \<and> (\<forall>r\<in>set (refs t). resolvable c r))"
proof (cases "parse str")
  case (Inr t)
  then have "(\<exists>s. render t c = Inr s) \<longleftrightarrow> (\<forall>r\<in>set (refs t). resolvable c r)"
    by (intro render_ok_iff) (auto intro: parse_filters_ok)
  with Inr show ?thesis by (simp add: resolve_def)
qed (simp add: resolve_def)

section \<open>Maps of params\<close>

lemma resolve_keys_out:
  "distinct ks \<Longrightarrow> resolve_keys m ks c = (errs, out) \<Longrightarrow>
   map_of out k = (if k \<in> set ks then (case resolve (get0 m k) c of Inr v \<Rightarrow> Some v | Inl _ \<Rightarrow> None) else None)"
proof (induction ks arbitrary: errs out)
  case (Cons k' ks)
  obtain errs' out' where rec: "resolve_keys m ks c = (errs', out')" by fastforce
  with Cons show ?case by (auto split: sum.splits)
qed auto

lemma resolve_keys_errs:
  "resolve_keys m ks c = (errs, out) \<Longrightarrow>
   errs = map (\<lambda>k. Wrapf (Fmt ''param %q'' [Lit k]) (projl (resolve (get0 m k) c)))
             (filter (\<lambda>k. isl (resolve (get0 m k) c)) ks)"
proof (induction ks arbitrary: errs out)
  case (Cons k' ks)
  obtain errs' out' where rec: "resolve_keys m ks c = (errs', out')" by fastforce
  with Cons show ?case by (auto split: sum.splits)
qed auto

text \<open>\<open>ResolveMap\<close> reports every param that does not resolve, in key order, and nothing else.\<close>

lemma resolve_map_errors:
  "resolve_map m c = Inl e \<longleftrightarrow>
     (filter (\<lambda>k. isl (resolve (get0 m k) c)) (sorted_keys m) \<noteq> [] \<and>
      e = Joined (map (\<lambda>k. Wrapf (Fmt ''param %q'' [Lit k]) (projl (resolve (get0 m k) c)))
             (filter (\<lambda>k. isl (resolve (get0 m k) c)) (sorted_keys m))))"
proof -
  obtain errs out where rec: "resolve_keys m (sorted_keys m) c = (errs, out)" by fastforce
  from resolve_keys_errs[OF rec] show ?thesis
    by (auto simp: resolve_map_def rec errors_join_def)
qed

lemma resolve_map_ok:
  assumes "resolve_map m c = Inr out"
  shows "map_of out k = (if k \<in> fst ` set m then Some (projr (resolve (get0 m k) c)) else None)"
    and "k \<in> fst ` set m \<Longrightarrow> \<exists>v. resolve (get0 m k) c = Inr v"
proof -
  obtain errs out' where rec: "resolve_keys m (sorted_keys m) c = (errs, out')" by fastforce
  with assms have "errs = []" "out' = out" by (auto simp: resolve_map_def errors_join_def split: if_splits)
  with resolve_keys_errs[OF rec] have all: "\<forall>k\<in>fst ` set m. \<not> isl (resolve (get0 m k) c)"
    by (auto simp: filter_empty_conv)
  then show "k \<in> fst ` set m \<Longrightarrow> \<exists>v. resolve (get0 m k) c = Inr v"
    by (cases "resolve (get0 m k) c") auto
  show "map_of out k = (if k \<in> fst ` set m then Some (projr (resolve (get0 m k) c)) else None)"
    using resolve_keys_out[OF distinct_sorted_keys rec, of k] all \<open>out' = out\<close>
    by (auto split: sum.splits)
qed

lemma resolve_map_succeeds:
  "(\<And>k. k \<in> fst ` set m \<Longrightarrow> \<exists>v. resolve (get0 m k) c = Inr v) \<Longrightarrow> \<exists>out. resolve_map m c = Inr out"
proof (rule ccontr)
  assume all: "\<And>k. k \<in> fst ` set m \<Longrightarrow> \<exists>v. resolve (get0 m k) c = Inr v"
    and "\<nexists>out. resolve_map m c = Inr out"
  then obtain e where "resolve_map m c = Inl e" by (cases "resolve_map m c") auto
  then have "filter (\<lambda>k. isl (resolve (get0 m k) c)) (sorted_keys m) \<noteq> []"
    unfolding resolve_map_errors by blast
  then show False using all by (force simp: filter_empty_conv)
qed

section \<open>Numbers\<close>

lemma format_decimal_int: "format_decimal (Dec False m 0) = format_nat m"
  by simp

lemma parse_int_format_nat: "int64_ok (int m) \<Longrightarrow> parse_int (format_decimal (Dec False m 0)) = Some (int m)"
  using parse_format_int[of "int m"] by (simp add: format_int_def)

section \<open>Properties\<close>

text \<open>C37: a name derived by the \<open>k8sName\<close> filter is a DNS label Kubernetes accepts, whatever the
  input, and deriving a name from a derived name changes nothing.\<close>

theorem k8s_name_correct: "dns_label (k8s_name s) \<and> k8s_name (k8s_name s) = k8s_name s"
  by (simp add: k8s_name_dns k8s_name_idem)

text \<open>C31: printing and parsing templates round-trip: a well-formed template, written with its literal
  texts escaped and its references as they were given, parses to itself; and the escape of any text
  resolves to that text in every context.\<close>

theorem template_roundtrip:
  "wf_template t \<Longrightarrow> parse (show_template t) = Inr t \<and> (\<forall>s c. resolve (escape s) c = Inr s)"
  by (simp add: parse_show_template resolve_escape_eq)

definition sample_ref :: tref where
  "sample_ref = \<lparr>r_kind = RefSteps, r_name = ''b'', r_key = ''o'', r_filters = [''stem''],
     r_raw = ''steps.b.outputs.o| stem''\<rparr>"

lemma sample_ref_wf: "wf_ref sample_ref"
  by code_simp

theorem template_roundtrip_witness:
  "parse (show_template [SegText ''a-${x'', SegRef sample_ref, SegText ''$$'']) =
   Inr [SegText ''a-${x'', SegRef sample_ref, SegText ''$$'']"
  using template_roundtrip[of "[SegText ''a-${x'', SegRef sample_ref, SegText ''$$'']"] sample_ref_wf
  by simp

text \<open>C28: \<open>ResolveMap\<close> either resolves every param of a step, each to the rendering of its own
  template, or reports one error naming each param that does not resolve, in key order, and no
  other; a param resolves exactly when its text parses and each of its references has a value that
  is not a list.\<close>

theorem resolve_map_correct:
  "(case resolve_map m c of
      Inr out \<Rightarrow> \<forall>k. map_of out k =
        (if k \<in> fst ` set m then (case resolve (get0 m k) c of Inr v \<Rightarrow> Some v | Inl _ \<Rightarrow> None) else None)
    | Inl e \<Rightarrow> e = Joined (map (\<lambda>k. Wrapf (Fmt ''param %q'' [Lit k]) (projl (resolve (get0 m k) c)))
                           (filter (\<lambda>k. isl (resolve (get0 m k) c)) (sorted_keys m)))) \<and>
   ((\<exists>out. resolve_map m c = Inr out) =
     (\<forall>k\<in>fst ` set m. \<exists>t. parse (get0 m k) = Inr t \<and> (\<forall>r\<in>set (refs t). resolvable c r)))"
proof (cases "resolve_map m c")
  case (Inl e)
  then have "\<not> (\<forall>k\<in>fst ` set m. \<exists>v. resolve (get0 m k) c = Inr v)"
    using resolve_map_succeeds[of m c] by fastforce
  with Inl show ?thesis using resolve_map_errors[of m c e] by (simp add: resolve_ok_iff)
next
  case (Inr out)
  note ok = resolve_map_ok[OF Inr]
  then have "\<forall>k\<in>fst ` set m. \<exists>v. resolve (get0 m k) c = Inr v" by blast
  with Inr ok show ?thesis by (auto simp: resolve_ok_iff[symmetric] split: sum.splits)
qed

definition sample_ctx :: tctx where
  "sample_ctx = \<lparr>c_params = [(''n'', VString ''a.py''), (''l'', VList [''x''])], c_config = [], c_steps = [],
     c_item = None, c_item_fields = None\<rparr>"

theorem resolve_map_witness:
  "\<nexists>out. resolve_map [(''a'', ''x''), (''b'', ''${params.l}'')] sample_ctx = Inr out"
proof -
  let ?m = "[(''a'', ''x''), (''b'', ''${params.l}'')]"
  have p: "parse ''${params.l}'' =
      Inr [SegRef \<lparr>r_kind = RefParams, r_name = ''l'', r_key = [], r_filters = [], r_raw = ''params.l''\<rparr>]"
    by code_simp
  show ?thesis
    using resolve_map_correct[of ?m sample_ctx] p
    by (simp add: get0_def resolvable_def lookup_def sample_ctx_def)
qed

end
