(* ===== verification/Parameters.thy ===== *)
theory Parameters
  imports TemplateProps
begin

text \<open>
  Package \<open>internal/params\<close>, file \<open>parameters.go\<close>: the caller's input is checked against the
  parameter schema of a definition and decoded into typed values. The regular expression engine
  and the rounding of a JSON number to \<open>float64\<close> are library code taken as parameters.
\<close>

section \<open>Decoding one value\<close>

fun is_null :: "raw_json \<Rightarrow> bool" where
  "is_null RawEmpty = True"
| "is_null (RawJson JNull) = True"
| "is_null _ = False"

text \<open>\<open>json.Unmarshal\<close> into a \<open>string\<close>, a \<open>[]string\<close>, a \<open>map[string]string\<close> and a list of
  those; \<open>null\<close> leaves the zero value, a later duplicate key of an object wins.\<close>

fun json_to_string :: "json \<Rightarrow> string option" where
  "json_to_string (JStr s) = Some s"
| "json_to_string JNull = Some []"
| "json_to_string _ = None"

fun json_list :: "('a \<Rightarrow> 'b option) \<Rightarrow> 'a list \<Rightarrow> 'b list option" where
  "json_list f [] = Some []"
| "json_list f (x # xs) =
     (case f x of
        None \<Rightarrow> None
      | Some y \<Rightarrow> (case json_list f xs of None \<Rightarrow> None | Some ys \<Rightarrow> Some (y # ys)))"

fun json_members :: "(string \<times> json) list \<Rightarrow> smap \<Rightarrow> smap option" where
  "json_members [] m = Some m"
| "json_members ((k, j) # kvs) m =
     (case json_to_string j of None \<Rightarrow> None | Some v \<Rightarrow> json_members kvs (assoc_set k v m))"

fun json_to_smap :: "json \<Rightarrow> smap option" where
  "json_to_smap (JObj kvs) = json_members kvs []"
| "json_to_smap JNull = Some []"
| "json_to_smap _ = None"

fun raw_strings :: "raw_json \<Rightarrow> string list option" where
  "raw_strings (RawJson (JArr js)) = json_list json_to_string js"
| "raw_strings (RawJson JNull) = Some []"
| "raw_strings _ = None"

fun raw_smaps :: "raw_json \<Rightarrow> smap list option" where
  "raw_smaps (RawJson (JArr js)) = json_list json_to_smap js"
| "raw_smaps (RawJson JNull) = Some []"
| "raw_smaps _ = None"

fun raw_string :: "raw_json \<Rightarrow> string option" where
  "raw_string (RawJson j) = json_to_string j"
| "raw_string _ = None"

fun raw_bool :: "raw_json \<Rightarrow> bool option" where
  "raw_bool (RawJson (JBool b)) = Some b"
| "raw_bool (RawJson JNull) = Some False"
| "raw_bool _ = None"

fun raw_number :: "go_lib \<Rightarrow> raw_json \<Rightarrow> decimal option" where
  "raw_number gl (RawJson (JNum d)) = gl_float gl d"
| "raw_number gl (RawJson JNull) = Some (Dec False 0 0)"
| "raw_number gl _ = None"

definition match_err :: "string \<Rightarrow> string \<Rightarrow> err" where
  "match_err s pat = Errorf (Fmt ''%q does not match pattern %s'' [Lit s, Lit pat])"

text \<open>The first item that does not match, in list order.\<close>

definition match_all :: "(string \<Rightarrow> bool) option \<Rightarrow> string \<Rightarrow> string list \<Rightarrow> err option" where
  "match_all m pat ss =
     (case m of
        None \<Rightarrow> None
      | Some f \<Rightarrow> (case find (\<lambda>s. \<not> f s) ss of None \<Rightarrow> None | Some s \<Rightarrow> Some (match_err s pat)))"

text \<open>The loop over an object list: index, keys seen so far.\<close>

fun check_objects :: "(string \<Rightarrow> bool) option \<Rightarrow> string \<Rightarrow> nat \<Rightarrow> string list \<Rightarrow> smap list \<Rightarrow> err option" where
  "check_objects m pat i seen [] = None"
| "check_objects m pat i seen (obj # objs) =
     (let key = get0 obj ''key''
      in if key = [] then
           Some (Errorf (Fmt ''entry %d: must have a non-empty %q field'' [Num (int i), Lit ''key'']))
         else if key \<in> set seen then
           Some (Errorf (Fmt ''entry %d: key %q is used twice'' [Num (int i), Lit key]))
         else (case match_all m pat [key] of
                 Some e \<Rightarrow> Some e
               | None \<Rightarrow> check_objects m pat (Suc i) (key # seen) objs))"

definition decode_as :: "go_lib \<Rightarrow> wizard_parameter \<Rightarrow> (string \<Rightarrow> bool) option \<Rightarrow> raw_json \<Rightarrow> err + val" where
  "decode_as gl d m raw =
     (case wp_type d of
        ParameterNumber \<Rightarrow>
          (case raw_number gl raw of
             None \<Rightarrow> Inl (Errorf (Lit ''expected a number'')) | Some n \<Rightarrow> Inr (VNumber n))
      | ParameterBoolean \<Rightarrow>
          (case raw_bool raw of
             None \<Rightarrow> Inl (Errorf (Lit ''expected a boolean'')) | Some b \<Rightarrow> Inr (VBool b))
      | ParameterStringList \<Rightarrow>
          (case raw_strings raw of
             None \<Rightarrow> Inl (Errorf (Lit ''expected a list of strings''))
           | Some l \<Rightarrow>
               if wp_required d \<and> l = [] then Inl (Errorf (Lit ''must not be empty''))
               else (case match_all m (wp_pattern d) l of Some e \<Rightarrow> Inl e | None \<Rightarrow> Inr (VList l)))
      | ParameterObjectList \<Rightarrow>
          (case raw_smaps raw of
             None \<Rightarrow> Inl (Errorf (Lit ''expected a list of objects with string values''))
           | Some l \<Rightarrow>
               if wp_required d \<and> l = [] then Inl (Errorf (Lit ''must not be empty''))
               else (case check_objects m (wp_pattern d) 0 [] l of Some e \<Rightarrow> Inl e | None \<Rightarrow> Inr (VObjects l)))
      | _ \<Rightarrow>
          (case raw_string raw of
             None \<Rightarrow> Inl (Errorf (Lit ''expected a string''))
           | Some s \<Rightarrow>
               if wp_required d \<and> s = [] then Inl (Errorf (Lit ''must not be empty''))
               else (case match_all m (wp_pattern d) [s] of Some e \<Rightarrow> Inl e | None \<Rightarrow> Inr (VString s))))"

definition decode :: "go_lib \<Rightarrow> wizard_parameter \<Rightarrow> raw_json \<Rightarrow> err + val" where
  "decode gl d raw =
     (if wp_pattern d = [] then decode_as gl d None raw
      else (case gl_regexp gl (wp_pattern d) of
              None \<Rightarrow> Inl (Errorf (Lit ''definition has an invalid pattern: %w''))
            | Some f \<Rightarrow> decode_as gl d (Some f) raw))"

section \<open>All parameters\<close>

text \<open>The value a parameter is decoded from: the supplied one, else the default, else none.\<close>

definition raw_of :: "(string \<times> raw_json) list \<Rightarrow> wizard_parameter \<Rightarrow> raw_json option" where
  "raw_of supplied d =
     (case map_of supplied (wp_name d) of
        Some raw \<Rightarrow> if is_null raw
                    then (case wp_default d of Some dflt \<Rightarrow> if is_null dflt then None else Some dflt | None \<Rightarrow> None)
                    else Some raw
      | None \<Rightarrow> (case wp_default d of Some dflt \<Rightarrow> if is_null dflt then None else Some dflt | None \<Rightarrow> None))"

fun resolve_each ::
  "go_lib \<Rightarrow> wizard_parameter list \<Rightarrow> (string \<times> raw_json) list \<Rightarrow> err list \<Rightarrow> (string \<times> val) list \<Rightarrow>
   err list \<times> (string \<times> val) list" where
  "resolve_each gl [] supplied errs out = (errs, out)"
| "resolve_each gl (d # ds) supplied errs out =
     (case raw_of supplied d of
        None \<Rightarrow>
          resolve_each gl ds supplied
            (if wp_required d then errs @ [Errorf (Fmt ''parameter %q is required'' [Lit (wp_name d)])] else errs) out
      | Some raw \<Rightarrow>
          (case decode gl d raw of
             Inl e \<Rightarrow> resolve_each gl ds supplied (errs @ [Wrapf (Fmt ''parameter %q'' [Lit (wp_name d)]) e]) out
           | Inr v \<Rightarrow> resolve_each gl ds supplied errs (assoc_set (wp_name d) v out)))"

definition unknown_names :: "wizard_parameter list \<Rightarrow> (string \<times> raw_json) list \<Rightarrow> string list" where
  "unknown_names defs supplied = filter (\<lambda>n. n \<notin> set (map wp_name defs)) (sorted_keys supplied)"

definition unknown_err :: "string list \<Rightarrow> err" where
  "unknown_err ns = Errorf (Fmt ''unknown parameter(s): %s'' [Lit (join '', '' ns)])"

definition resolve_parameters ::
  "go_lib \<Rightarrow> wizard_parameter list \<Rightarrow> (string \<times> raw_json) list \<Rightarrow> err + (string \<times> val) list" where
  "resolve_parameters gl defs supplied =
     (let unknown = unknown_names defs supplied;
          errs0 = (if unknown = [] then [] else [unknown_err unknown])
      in case resolve_each gl defs supplied errs0 [] of
           (errs, out) \<Rightarrow> (case errors_join errs of Some e \<Rightarrow> Inl e | None \<Rightarrow> Inr out))"

section \<open>Lemmas\<close>

text \<open>A value of the declared type that respects the declaration.\<close>

fun type_ok :: "parameter_type \<Rightarrow> val \<Rightarrow> bool" where
  "type_ok ParameterNumber v = (\<exists>d. v = VNumber d)"
| "type_ok ParameterBoolean v = (\<exists>b. v = VBool b)"
| "type_ok ParameterStringList v = (\<exists>l. v = VList l)"
| "type_ok ParameterObjectList v = (\<exists>l. v = VObjects l)"
| "type_ok _ v = (\<exists>s. v = VString s)"

fun strings_of :: "val \<Rightarrow> string list" where
  "strings_of (VString s) = [s]"
| "strings_of (VList l) = l"
| "strings_of (VObjects l) = map (\<lambda>m. get0 m ''key'') l"
| "strings_of _ = []"

definition value_ok :: "go_lib \<Rightarrow> wizard_parameter \<Rightarrow> val \<Rightarrow> bool" where
  "value_ok gl d v \<longleftrightarrow>
     type_ok (wp_type d) v \<and>
     (wp_required d \<longrightarrow> v \<noteq> VString [] \<and> v \<noteq> VList [] \<and> v \<noteq> VObjects []) \<and>
     (wp_pattern d \<noteq> [] \<longrightarrow>
        (\<exists>f. gl_regexp gl (wp_pattern d) = Some f \<and> (\<forall>s\<in>set (strings_of v). f s))) \<and>
     (\<forall>l. v = VObjects l \<longrightarrow> distinct (strings_of v) \<and> [] \<notin> set (strings_of v))"

lemma match_all_None: "match_all m pat ss = None \<longleftrightarrow> (\<forall>f. m = Some f \<longrightarrow> (\<forall>s\<in>set ss. f s))"
  by (fastforce simp: match_all_def split: option.splits dest: find_SomeD find_NoneD)

lemma check_objects_None:
  "check_objects m pat i seen objs = None \<Longrightarrow>
   distinct (map (\<lambda>x. get0 x ''key'') objs) \<and> [] \<notin> set (map (\<lambda>x. get0 x ''key'') objs) \<and>
   set (map (\<lambda>x. get0 x ''key'') objs) \<inter> set seen = {} \<and>
   (\<forall>f. m = Some f \<longrightarrow> (\<forall>x\<in>set objs. f (get0 x ''key'')))"
proof (induction m pat i seen objs rule: check_objects.induct)
  case (2 m pat i seen obj objs)
  then have "get0 obj ''key'' \<noteq> []" "get0 obj ''key'' \<notin> set seen" "match_all m pat [get0 obj ''key''] = None"
    and "check_objects m pat (Suc i) (get0 obj ''key'' # seen) objs = None"
    by (auto simp: Let_def split: if_splits option.splits)
  with 2(1)[OF refl] show ?case by (auto simp: match_all_None)
qed simp

lemma decode_as_ok:
  assumes "decode_as gl d m raw = Inr v"
  shows "type_ok (wp_type d) v \<and>
      (wp_required d \<longrightarrow> v \<noteq> VString [] \<and> v \<noteq> VList [] \<and> v \<noteq> VObjects []) \<and>
      (\<forall>f. m = Some f \<longrightarrow> (\<forall>s\<in>set (strings_of v). f s)) \<and>
      (\<forall>l. v = VObjects l \<longrightarrow> distinct (strings_of v) \<and> [] \<notin> set (strings_of v))"
proof (cases "wp_type d")
  case ParameterObjectList
  then obtain l where l: "raw_smaps raw = Some l" "wp_required d \<longrightarrow> l \<noteq> []" "v = VObjects l"
    and c: "check_objects m (wp_pattern d) 0 [] l = None"
    using assms by (auto simp: decode_as_def split: option.splits if_splits)
  from check_objects_None[OF c] show ?thesis using l ParameterObjectList by auto
qed (use assms in \<open>auto simp: decode_as_def match_all_None split: option.splits if_splits\<close>)

lemma decode_value_ok:
  assumes "decode gl d raw = Inr v"
  shows "value_ok gl d v"
proof (cases "wp_pattern d = []")
  case True
  with assms have "decode_as gl d None raw = Inr v" by (simp add: decode_def)
  from decode_as_ok[OF this] True show ?thesis by (simp add: value_ok_def)
next
  case False
  with assms obtain f where "gl_regexp gl (wp_pattern d) = Some f" "decode_as gl d (Some f) raw = Inr v"
    by (auto simp: decode_def split: option.splits)
  with decode_as_ok[OF this(2)] show ?thesis by (simp add: value_ok_def)
qed

text \<open>The problems of the single parameters, in the order of the definition.\<close>

definition param_errors :: "go_lib \<Rightarrow> (string \<times> raw_json) list \<Rightarrow> wizard_parameter \<Rightarrow> err list" where
  "param_errors gl supplied d =
     (case raw_of supplied d of
        None \<Rightarrow> if wp_required d then [Errorf (Fmt ''parameter %q is required'' [Lit (wp_name d)])] else []
      | Some raw \<Rightarrow>
          (case decode gl d raw of
             Inl e \<Rightarrow> [Wrapf (Fmt ''parameter %q'' [Lit (wp_name d)]) e] | Inr v \<Rightarrow> []))"

lemma resolve_each_errs:
  "fst (resolve_each gl ds supplied errs out) = errs @ concat (map (param_errors gl supplied) ds)"
  by (induction gl ds supplied errs out rule: resolve_each.induct)
    (auto simp: param_errors_def split: option.splits sum.splits)

definition param_value :: "go_lib \<Rightarrow> (string \<times> raw_json) list \<Rightarrow> wizard_parameter \<Rightarrow> val option" where
  "param_value gl supplied d =
     (case raw_of supplied d of None \<Rightarrow> None
      | Some raw \<Rightarrow> (case decode gl d raw of Inl e \<Rightarrow> None | Inr v \<Rightarrow> Some v))"

lemma resolve_each_other:
  "n \<notin> wp_name ` set ds \<Longrightarrow> map_of (snd (resolve_each gl ds supplied errs out)) n = map_of out n"
  by (induction gl ds supplied errs out rule: resolve_each.induct) (auto split: option.splits sum.splits)

lemma resolve_each_out:
  "distinct (map wp_name ds) \<Longrightarrow> d \<in> set ds \<Longrightarrow> map_of out (wp_name d) = None \<Longrightarrow>
   map_of (snd (resolve_each gl ds supplied errs out)) (wp_name d) = param_value gl supplied d"
proof (induction gl ds supplied errs out rule: resolve_each.induct)
  case (2 gl d' ds supplied errs out)
  show ?case
  proof (cases "d = d'")
    case True
    with 2(4) have "wp_name d \<notin> wp_name ` set ds" by auto
    from resolve_each_other[OF this] True 2(6) show ?thesis
      by (auto simp: param_value_def split: option.splits sum.splits)
  next
    case False
    with 2(5) have d: "d \<in> set ds" by simp
    with 2(4) have "wp_name d \<noteq> wp_name d'" by (metis distinct.simps(2) image_eqI list.simps(9) set_map)
    with d 2 show ?thesis by (auto split: option.splits sum.splits)
  qed
qed simp

lemma resolve_each_names:
  "map_of (snd (resolve_each gl ds supplied errs out)) n = Some v \<Longrightarrow> n \<in> wp_name ` set ds \<or> map_of out n = Some v"
  by (cases "n \<in> wp_name ` set ds") (simp_all add: resolve_each_other)

text \<open>\<open>ResolveParameters\<close> fails exactly when there is a problem, and then reports all of them.\<close>

lemma resolve_parameters_errors:
  "resolve_parameters gl defs supplied = Inl e \<longleftrightarrow>
     (let errs = (if unknown_names defs supplied = [] then [] else [unknown_err (unknown_names defs supplied)]) @
                 concat (map (param_errors gl supplied) defs)
      in errs \<noteq> [] \<and> e = Joined errs)"
proof -
  let ?r = "resolve_each gl defs supplied (if unknown_names defs supplied = [] then [] else [unknown_err (unknown_names defs supplied)]) []"
  obtain errs out where r: "?r = (errs, out)" by fastforce
  have "errs = (if unknown_names defs supplied = [] then [] else [unknown_err (unknown_names defs supplied)]) @
      concat (map (param_errors gl supplied) defs)"
    using resolve_each_errs[of gl defs supplied] r by (metis fst_conv)
  with r show ?thesis
    by (auto simp: resolve_parameters_def Let_def errors_join_def split: if_splits)
qed

lemma resolve_parameters_ok:
  assumes "resolve_parameters gl defs supplied = Inr out"
  shows "fst ` set supplied \<subseteq> wp_name ` set defs"
    and "\<And>d. d \<in> set defs \<Longrightarrow> distinct (map wp_name defs) \<Longrightarrow> map_of out (wp_name d) = param_value gl supplied d"
    and "\<And>d. d \<in> set defs \<Longrightarrow> param_errors gl supplied d = []"
    and "\<And>n v. map_of out n = Some v \<Longrightarrow> n \<in> wp_name ` set defs"
proof -
  let ?e0 = "if unknown_names defs supplied = [] then [] else [unknown_err (unknown_names defs supplied)]"
  obtain errs out' where r: "resolve_each gl defs supplied ?e0 [] = (errs, out')" by fastforce
  with assms have nil: "errs = []" and out: "out' = out"
    by (auto simp: resolve_parameters_def Let_def errors_join_def split: if_splits)
  with resolve_each_errs[of gl defs supplied ?e0 "[]"] r
  have unk: "unknown_names defs supplied = []" and each: "\<forall>d\<in>set defs. param_errors gl supplied d = []"
    by (auto split: if_splits)
  from each show "\<And>d. d \<in> set defs \<Longrightarrow> param_errors gl supplied d = []" by blast
  from unk show "fst ` set supplied \<subseteq> wp_name ` set defs"
    by (auto simp: unknown_names_def filter_empty_conv)
  show "\<And>d. d \<in> set defs \<Longrightarrow> distinct (map wp_name defs) \<Longrightarrow> map_of out (wp_name d) = param_value gl supplied d"
    using resolve_each_out[of defs _ "[]" gl supplied ?e0] r out by simp
  show "\<And>n v. map_of out n = Some v \<Longrightarrow> n \<in> wp_name ` set defs"
    using resolve_each_names[of gl defs supplied ?e0 "[]"] r out by simp
qed

lemma param_value_ok: "param_value gl supplied d = Some v \<Longrightarrow> value_ok gl d v"
  by (auto simp: param_value_def split: option.splits sum.splits intro: decode_value_ok)

lemma required_has_value:
  "param_errors gl supplied d = [] \<Longrightarrow> wp_required d \<Longrightarrow> \<exists>v. param_value gl supplied d = Some v"
  by (auto simp: param_errors_def param_value_def split: option.splits sum.splits)

lemma default_has_value:
  "param_errors gl supplied d = [] \<Longrightarrow> wp_default d = Some dflt \<Longrightarrow> \<not> is_null dflt \<Longrightarrow>
   \<exists>v. param_value gl supplied d = Some v"
  by (auto simp: param_errors_def param_value_def raw_of_def split: option.splits sum.splits if_splits)

section \<open>Properties\<close>

text \<open>C29: \<open>ResolveParameters\<close> either returns, for exactly the declared parameters that are given or
  have a default, a value of the declared type that satisfies the declaration (non-empty when
  required, matching its pattern, distinct object keys), every required parameter among them; or it
  reports all problems at once: the unknown names, then each declaration's own problem in order.\<close>

theorem resolve_parameters_correct:
  assumes "distinct (map wp_name defs)"
  shows "case resolve_parameters gl defs supplied of
      Inr out \<Rightarrow>
        fst ` set supplied \<subseteq> wp_name ` set defs \<and> fst ` set out \<subseteq> wp_name ` set defs \<and>
        (\<forall>d\<in>set defs. map_of out (wp_name d) = param_value gl supplied d \<and>
           (wp_required d \<longrightarrow> map_of out (wp_name d) \<noteq> None) \<and>
           (\<forall>v. map_of out (wp_name d) = Some v \<longrightarrow> value_ok gl d v))
    | Inl e \<Rightarrow>
        (let errs = (if unknown_names defs supplied = [] then [] else [unknown_err (unknown_names defs supplied)]) @
                    concat (map (param_errors gl supplied) defs)
         in errs \<noteq> [] \<and> e = Joined errs)"
proof (cases "resolve_parameters gl defs supplied")
  case (Inl e)
  then show ?thesis using resolve_parameters_errors[of gl defs supplied e] by simp
next
  case (Inr out)
  have "fst ` set out \<subseteq> wp_name ` set defs"
    using resolve_parameters_ok(4)[OF Inr] map_of_in_fst[of _ out] by blast
  with Inr show ?thesis
    using resolve_parameters_ok(1,3)[OF Inr] resolve_parameters_ok(2)[OF Inr _ assms]
      required_has_value[of gl supplied] param_value_ok[of gl supplied]
    by force
qed

definition sample_lib :: go_lib where
  "sample_lib = \<lparr>gl_regexp = (\<lambda>p. Some (\<lambda>s. contains_str p s)), gl_float = Some, gl_sha256 = (\<lambda>s. s),
     gl_url = (\<lambda>s. None), gl_yaml_resources = (\<lambda>s. None),
     gl_fraction = (\<lambda>f unit k. f * unit div 10 ^ k),
     gl_json = (\<lambda>s. if s = ''[]'' then RawJson (JArr []) else RawBad)\<rparr>"

definition sample_parameter :: "string \<Rightarrow> parameter_type \<Rightarrow> bool \<Rightarrow> wizard_parameter" where
  "sample_parameter n ty req = \<lparr>wp_name = n, wp_type = ty, wp_description = [], wp_required = req,
     wp_default = None, wp_pattern = []\<rparr>"

theorem resolve_parameters_witness:
  "map_of (projr (resolve_parameters sample_lib
      [sample_parameter ''repo'' ParameterString True, sample_parameter ''files'' ParameterStringList False]
      [(''files'', RawJson (JArr [JStr ''a.py''])), (''repo'', RawJson (JStr ''x''))])) ''repo'' = Some (VString ''x'')"
proof -
  let ?defs = "[sample_parameter ''repo'' ParameterString True, sample_parameter ''files'' ParameterStringList False]"
  let ?sup = "[(''files'', RawJson (JArr [JStr ''a.py''])), (''repo'', RawJson (JStr ''x''))]"
  have d: "distinct (map wp_name ?defs)" by (simp add: sample_parameter_def)
  have r: "resolve_parameters sample_lib ?defs ?sup =
      Inr [(''repo'', VString ''x''), (''files'', VList [''a.py''])]" by code_simp
  have "param_value sample_lib ?sup (sample_parameter ''repo'' ParameterString True) = Some (VString ''x'')"
    by code_simp
  with resolve_parameters_correct[OF d, where gl = sample_lib and supplied = ?sup] r show ?thesis
    by (simp add: sample_parameter_def)
qed

end
