(* ===== verification/InstanceCfg.thy ===== *)
theory InstanceCfg
  imports Parameters
begin

text \<open>
  Package \<open>internal/instancecfg\<close>: the settings of one deployment, parsed from a ConfigMap on every
  reconcile. \<open>parse_config\<close> collects all problems; \<open>config_values\<close> is what \<open>${config.<key>}\<close> sees.
  The first section models the parts of package \<open>time\<close> the settings use.
\<close>

section \<open>Durations\<close>

text \<open>Units of \<open>time.ParseDuration\<close> in nanoseconds (the micro sign in both encodings).\<close>

definition duration_units :: "(string \<times> nat) list" where
  "duration_units =
     [(''ns'', 1), (''us'', 1000), (bytes [194, 181] @ ''s'', 1000), (bytes [206, 188] @ ''s'', 1000),
      (''ms'', 1000000), (''s'', 1000000000), (''m'', 60000000000), (''h'', 3600000000000)]"

text \<open>\<open>leadingInt\<close>: the value of the leading digits, \<open>None\<close> above \<open>1 << 63\<close>.\<close>

fun leading_int :: "nat \<Rightarrow> string \<Rightarrow> (nat \<times> string) option" where
  "leading_int v [] = Some (v, [])"
| "leading_int v (c # s) =
     (if \<not> is_digit c then Some (v, c # s)
      else if v > 2 ^ 63 div 10 then None
      else (let v' = v * 10 + nat (digit_val c) in if v' > 2 ^ 63 then None else leading_int v' s))"

text \<open>\<open>leadingFraction\<close>: digits as a number and how many of them count, the rest is dropped.\<close>

fun leading_fraction :: "bool \<Rightarrow> nat \<Rightarrow> nat \<Rightarrow> string \<Rightarrow> nat \<times> nat \<times> string" where
  "leading_fraction ovf f k [] = (f, k, [])"
| "leading_fraction ovf f k (c # s) =
     (if \<not> is_digit c then (f, k, c # s)
      else if ovf then leading_fraction ovf f k s
      else if f > (2 ^ 63 - 1) div 10 then leading_fraction True f k s
      else (let f' = f * 10 + nat (digit_val c)
            in if f' > 2 ^ 63 then leading_fraction True f k s else leading_fraction False f' (Suc k) s))"

definition is_number_char :: "char \<Rightarrow> bool" where
  "is_number_char c \<longleftrightarrow> c = CHR ''.'' \<or> is_digit c"

text \<open>One \<open><number><unit>\<close> of a duration: its nanoseconds and the rest of the text.\<close>

definition duration_part :: "go_lib \<Rightarrow> string \<Rightarrow> (nat \<times> string) option" where
  "duration_part gl s =
     (if s = [] \<or> \<not> is_number_char (hd s) then None
      else (case leading_int 0 s of
              None \<Rightarrow> None
            | Some (v, s1) \<Rightarrow>
                (let (f, k, s2) = (if s1 \<noteq> [] \<and> hd s1 = CHR ''.'' then leading_fraction False 0 0 (tl s1) else (0, 0, s1));
                     pre = (length s1 \<noteq> length s);
                     post = (s1 \<noteq> [] \<and> hd s1 = CHR ''.'' \<and> length s2 \<noteq> length (tl s1));
                     u = takeWhile (\<lambda>c. \<not> is_number_char c) s2
                 in if \<not> pre \<and> \<not> post then None
                    else if u = [] then None
                    else (case map_of duration_units u of
                            None \<Rightarrow> None
                          | Some unit \<Rightarrow>
                              if v > 2 ^ 63 div unit then None
                              else (let v' = v * unit + (if f > 0 then gl_fraction gl f unit k else 0)
                                    in if v' > 2 ^ 63 then None else Some (v', drop (length u) s2))))))"

text \<open>The loop over the parts; every part is non-empty, so the length of the text bounds the rounds.\<close>

fun duration_parts :: "go_lib \<Rightarrow> nat \<Rightarrow> nat \<Rightarrow> string \<Rightarrow> nat option" where
  "duration_parts gl fuel d [] = Some d"
| "duration_parts gl 0 d (c # s) = None"
| "duration_parts gl (Suc fuel) d (c # s) =
     (case duration_part gl (c # s) of
        None \<Rightarrow> None
      | Some (v, rest) \<Rightarrow> if d + v > 2 ^ 63 then None else duration_parts gl fuel (d + v) rest)"

definition parse_duration :: "go_lib \<Rightarrow> string \<Rightarrow> int option" where
  "parse_duration gl s =
     (let neg = (s \<noteq> [] \<and> hd s = CHR ''-'');
          s' = (if s \<noteq> [] \<and> (hd s = CHR ''-'' \<or> hd s = CHR ''+'') then tl s else s)
      in if s' = ''0'' then Some 0
         else if s' = [] then None
         else (case duration_parts gl (length s') 0 s' of
                 None \<Rightarrow> None
               | Some d \<Rightarrow> if neg then Some (- int d) else if d > 2 ^ 63 - 1 then None else Some (int d)))"

text \<open>\<open>fmtFrac\<close>: the fraction of \<open>v / 10^prec\<close> without trailing zeros, and its dot.\<close>

definition format_frac :: "nat \<Rightarrow> nat \<Rightarrow> string" where
  "format_frac v prec =
     (let ds = format_nat (v mod 10 ^ prec);
          frac = trim_right CHR ''0'' (replicate (prec - length ds) CHR ''0'' @ ds)
      in if v mod 10 ^ prec = 0 then [] else CHR ''.'' # frac)"

text \<open>\<open>time.Duration.String\<close>.\<close>

definition format_duration :: "int \<Rightarrow> string" where
  "format_duration d =
     (let u = nat \<bar>d\<bar>;
          text = (if u = 0 then ''0s''
                  else if u < 1000 then format_nat u @ ''ns''
                  else if u < 1000000 then format_nat (u div 1000) @ format_frac u 3 @ bytes [194, 181] @ ''s''
                  else if u < 1000000000 then format_nat (u div 1000000) @ format_frac u 6 @ ''ms''
                  else (let sec = u div 1000000000; mins = sec div 60; hours = mins div 60
                        in (if hours > 0 then format_nat hours @ ''h'' else []) @
                           (if mins > 0 then format_nat (mins mod 60) @ ''m'' else []) @
                           format_nat (sec mod 60) @ format_frac u 9 @ ''s''))
      in (if d < 0 then ''-'' else []) @ text)"

section \<open>The configuration\<close>

definition KeyRunnerImage :: string where "KeyRunnerImage = ''runnerImage''"
definition KeyDefaultResources :: string where "KeyDefaultResources = ''defaultResources''"
definition KeyTagName :: string where "KeyTagName = ''tagName''"
definition KeyArtifactPrefix :: string where "KeyArtifactPrefix = ''artifactPrefix''"
definition KeyChainStepName :: string where "KeyChainStepName = ''chainStepName''"
definition KeyPollInterval :: string where "KeyPollInterval = ''pollInterval''"
definition KeyBuildTimeout :: string where "KeyBuildTimeout = ''buildTimeout''"
definition KeyForgeURL :: string where "KeyForgeURL = ''forgeURL''"
definition KeyIndexURL :: string where "KeyIndexURL = ''indexURL''"
definition KeyWeaveURL :: string where "KeyWeaveURL = ''weaveURL''"

lemmas config_keys = KeyRunnerImage_def KeyDefaultResources_def KeyTagName_def KeyArtifactPrefix_def
  KeyChainStepName_def KeyPollInterval_def KeyBuildTimeout_def KeyForgeURL_def KeyIndexURL_def KeyWeaveURL_def

definition DefaultTagName :: string where "DefaultTagName = ''stable''"
definition DefaultArtifactPrefix :: string where "DefaultArtifactPrefix = ''app.''"
definition DefaultChainStepName :: string where "DefaultChainStepName = ''run''"
definition DefaultPollInterval :: time where "DefaultPollInterval = 5 * 1000000000"
definition DefaultBuildTimeout :: time where "DefaultBuildTimeout = 10 * 60 * 1000000000"

text \<open>\<open>cfg_resources\<close> is \<open>corev1.ResourceRequirements\<close> by the members of its JSON form.\<close>

record config =
  cfg_runner_image :: string
  cfg_resources :: "(string \<times> json) list"
  cfg_tag_name :: string
  cfg_artifact_prefix :: string
  cfg_chain_step_name :: string
  cfg_poll_interval :: time
  cfg_build_timeout :: time
  cfg_forge_url :: string
  cfg_index_url :: string
  cfg_weave_url :: string

definition known_keys :: "string list" where
  "known_keys = [KeyRunnerImage, KeyDefaultResources, KeyTagName, KeyArtifactPrefix, KeyChainStepName,
     KeyPollInterval, KeyBuildTimeout, KeyForgeURL, KeyIndexURL, KeyWeaveURL]"

text \<open>The closures of \<open>Parse\<close>: the problems they append and the value they return.\<close>

definition cfg_unknown :: "smap \<Rightarrow> msg list" where
  "cfg_unknown data =
     (let unknown = filter (\<lambda>k. k \<notin> set known_keys) (sorted_keys data)
      in if unknown = [] then [] else [Fmt ''unknown key(s): %s'' [Lit (join '', '' unknown)]])"

definition cfg_str :: "smap \<Rightarrow> string \<Rightarrow> string \<Rightarrow> string" where
  "cfg_str data key dflt = (let v = trim_space (get0 data key) in if v \<noteq> [] then v else dflt)"

definition cfg_required :: "smap \<Rightarrow> string \<Rightarrow> msg list \<times> string" where
  "cfg_required data key =
     (let v = trim_space (get0 data key) in (if v = [] then [Fmt ''%s is required'' [Lit key]] else [], v))"

definition cfg_duration :: "go_lib \<Rightarrow> smap \<Rightarrow> string \<Rightarrow> time \<Rightarrow> msg list \<times> time" where
  "cfg_duration gl data key dflt =
     (let raw = trim_space (get0 data key);
          problem = [Fmt ''%s: %q is not a positive duration (e.g. 5s, 10m)'' [Lit key, Lit raw]]
      in if raw = [] then ([], dflt)
         else (case parse_duration gl raw of
                 None \<Rightarrow> (problem, dflt)
               | Some d \<Rightarrow> if d \<le> 0 then (problem, dflt) else ([], d)))"

definition cfg_base_url :: "go_lib \<Rightarrow> smap \<Rightarrow> string \<Rightarrow> msg list \<times> string" where
  "cfg_base_url gl data key =
     (case cfg_required data key of
        (ps, raw) \<Rightarrow>
          if raw = [] then (ps, [])
          else (let problem = [Fmt ''%s: %q is not an http(s) URL'' [Lit key, Lit raw]]
                in case gl_url gl raw of
                     None \<Rightarrow> (ps @ problem, [])
                   | Some (scheme, host) \<Rightarrow>
                       if (scheme \<noteq> ''http'' \<and> scheme \<noteq> ''https'') \<or> host = [] then (ps @ problem, [])
                       else (ps, trim_right CHR ''/'' raw)))"

definition default_resources :: "(string \<times> json) list" where
  "default_resources =
     [(''requests'', JObj [(''cpu'', JStr ''250m''), (''memory'', JStr ''256Mi'')]),
      (''limits'', JObj [(''cpu'', JStr ''1''), (''memory'', JStr ''1Gi'')])]"

definition cfg_res :: "go_lib \<Rightarrow> smap \<Rightarrow> msg list \<times> (string \<times> json) list" where
  "cfg_res gl data =
     (let raw = trim_space (get0 data KeyDefaultResources)
      in if raw = [] then ([], default_resources)
         else (case gl_yaml_resources gl raw of
                 None \<Rightarrow> ([Fmt ''%s: %v'' [Lit KeyDefaultResources, Lit raw]], default_resources)
               | Some res \<Rightarrow> ([], res)))"

definition parse_config :: "go_lib \<Rightarrow> smap \<Rightarrow> err + config" where
  "parse_config gl data =
     (let (p1, image) = cfg_required data KeyRunnerImage;
          (p2, poll) = cfg_duration gl data KeyPollInterval DefaultPollInterval;
          (p3, build) = cfg_duration gl data KeyBuildTimeout DefaultBuildTimeout;
          (p4, forge) = cfg_base_url gl data KeyForgeURL;
          (p5, index) = cfg_base_url gl data KeyIndexURL;
          (p6, weave) = cfg_base_url gl data KeyWeaveURL;
          (p7, res) = cfg_res gl data;
          problems = cfg_unknown data @ p1 @ p2 @ p3 @ p4 @ p5 @ p6 @ p7
      in if problems \<noteq> [] then Inl (Errorf (Fmt ''invalid instance config: %s'' problems))
         else Inr \<lparr>cfg_runner_image = image, cfg_resources = res,
                   cfg_tag_name = cfg_str data KeyTagName DefaultTagName,
                   cfg_artifact_prefix = cfg_str data KeyArtifactPrefix DefaultArtifactPrefix,
                   cfg_chain_step_name = cfg_str data KeyChainStepName DefaultChainStepName,
                   cfg_poll_interval = poll, cfg_build_timeout = build,
                   cfg_forge_url = forge, cfg_index_url = index, cfg_weave_url = weave\<rparr>)"

definition config_values :: "config \<Rightarrow> smap" where
  "config_values c =
     [(KeyRunnerImage, cfg_runner_image c), (KeyTagName, cfg_tag_name c),
      (KeyArtifactPrefix, cfg_artifact_prefix c), (KeyChainStepName, cfg_chain_step_name c),
      (KeyPollInterval, format_duration (cfg_poll_interval c)),
      (KeyBuildTimeout, format_duration (cfg_build_timeout c)),
      (KeyForgeURL, cfg_forge_url c), (KeyIndexURL, cfg_index_url c), (KeyWeaveURL, cfg_weave_url c)]"

text \<open>\<open>Load\<close>, for the call that reads the data of the ConfigMap of that name.\<close>

definition load_config :: "go_lib \<Rightarrow> (string \<Rightarrow> string \<Rightarrow> ('w, smap) call) \<Rightarrow> string \<Rightarrow> string \<Rightarrow> ('w, config) call" where
  "load_config gl get_config_map namespace name =
     io_bind (io_wrap (Wrapf (Fmt ''instance config ConfigMap %s/%s'' [Lit namespace, Lit name]))
                (get_config_map namespace name))
       (\<lambda>data w. (parse_config gl data, w))"

section \<open>Fuel\<close>

lemma leading_int_shorter: "leading_int v s = Some (v', s') \<Longrightarrow> length s' \<le> length s"
  by (induction v s rule: leading_int.induct) (auto simp: Let_def split: if_splits intro: le_SucI)

lemma leading_fraction_shorter: "leading_fraction ovf f k s = (f', k', s') \<Longrightarrow> length s' \<le> length s"
  by (induction ovf f k s rule: leading_fraction.induct) (auto simp: Let_def split: if_splits intro: le_SucI)

lemma duration_part_shorter:
  assumes "duration_part gl s = Some (v, rest)"
  shows "length rest < length s"
proof -
  obtain w s1 where s1: "leading_int 0 s = Some (w, s1)"
    using assms by (auto simp: duration_part_def split: if_splits option.splits)
  obtain f k s2 where s2: "(if s1 \<noteq> [] \<and> hd s1 = CHR ''.'' then leading_fraction False 0 0 (tl s1) else (0, 0, s1)) = (f, k, s2)"
    by (metis prod_cases3)
  let ?u = "takeWhile (\<lambda>c. \<not> is_number_char c) s2"
  have "?u \<noteq> []" and rest: "rest = drop (length ?u) s2"
    using assms s1 s2 by (auto simp: duration_part_def Let_def split: if_splits option.splits)
  then have "length rest < length s2" by (cases s2) auto
  also have "length s2 \<le> length s1"
    using s2 leading_fraction_shorter[of False 0 0 "tl s1" f k s2] by (auto split: if_splits)
  also have "length s1 \<le> length s" using s1 by (rule leading_int_shorter)
  finally show ?thesis .
qed

text \<open>The fuel of \<open>parse_duration\<close> never runs out: more of it changes nothing.\<close>

lemma duration_parts_fuel:
  "length s \<le> n \<Longrightarrow> length s \<le> n' \<Longrightarrow> duration_parts gl n d s = duration_parts gl n' d s"
proof (induction gl n d s arbitrary: n' rule: duration_parts.induct)
  case (3 gl fuel d c s)
  then obtain m where n': "n' = Suc m" by (cases n') auto
  show ?case
  proof (cases "duration_part gl (c # s)")
    case (Some vr)
    obtain v rest where vr: "vr = (v, rest)" by (cases vr)
    then have "length rest < length (c # s)" using Some duration_part_shorter by blast
    with "3.prems" n' "3.IH"[OF Some vr[symmetric] _, of m] Some vr show ?thesis by auto
  qed (simp add: n')
qed auto

section \<open>What a parsed configuration satisfies\<close>

text \<open>The value of a key as the parser sees it: trimmed, absent keys empty.\<close>

abbreviation cfg_raw :: "smap \<Rightarrow> string \<Rightarrow> string" where
  "cfg_raw data key \<equiv> trim_space (get0 data key)"

definition http_url :: "go_lib \<Rightarrow> string \<Rightarrow> bool" where
  "http_url gl raw \<longleftrightarrow>
     raw \<noteq> [] \<and> (\<exists>host. host \<noteq> [] \<and> (gl_url gl raw = Some (''http'', host) \<or> gl_url gl raw = Some (''https'', host)))"

definition duration_ok :: "go_lib \<Rightarrow> string \<Rightarrow> bool" where
  "duration_ok gl raw \<longleftrightarrow> raw = [] \<or> (\<exists>d. parse_duration gl raw = Some d \<and> d > 0)"

definition data_ok :: "go_lib \<Rightarrow> smap \<Rightarrow> bool" where
  "data_ok gl data \<longleftrightarrow>
     fst ` set data \<subseteq> set known_keys \<and> cfg_raw data KeyRunnerImage \<noteq> [] \<and>
     duration_ok gl (cfg_raw data KeyPollInterval) \<and> duration_ok gl (cfg_raw data KeyBuildTimeout) \<and>
     http_url gl (cfg_raw data KeyForgeURL) \<and> http_url gl (cfg_raw data KeyIndexURL) \<and>
     http_url gl (cfg_raw data KeyWeaveURL) \<and>
     (cfg_raw data KeyDefaultResources = [] \<or> gl_yaml_resources gl (cfg_raw data KeyDefaultResources) \<noteq> None)"

lemma cfg_unknown_Nil: "cfg_unknown data = [] \<longleftrightarrow> fst ` set data \<subseteq> set known_keys"
  by (auto simp: cfg_unknown_def Let_def filter_empty_conv)

lemma cfg_required_Nil: "fst (cfg_required data key) = [] \<longleftrightarrow> cfg_raw data key \<noteq> []"
  and cfg_required_value: "snd (cfg_required data key) = cfg_raw data key"
  by (simp_all add: cfg_required_def Let_def)

lemma cfg_duration_Nil: "fst (cfg_duration gl data key dflt) = [] \<longleftrightarrow> duration_ok gl (cfg_raw data key)"
  and cfg_duration_pos: "dflt > 0 \<Longrightarrow> snd (cfg_duration gl data key dflt) > 0"
  by (auto simp: cfg_duration_def duration_ok_def Let_def split: option.splits)

lemma cfg_base_url_Nil: "fst (cfg_base_url gl data key) = [] \<longleftrightarrow> http_url gl (cfg_raw data key)"
  by (auto simp: cfg_base_url_def cfg_required_def http_url_def Let_def split: option.splits)

lemma cfg_base_url_value:
  "http_url gl (cfg_raw data key) \<Longrightarrow> snd (cfg_base_url gl data key) = trim_right CHR ''/'' (cfg_raw data key)"
  by (auto simp: cfg_base_url_def cfg_required_def http_url_def Let_def)

lemma cfg_res_Nil: "fst (cfg_res gl data) = [] \<longleftrightarrow>
    (cfg_raw data KeyDefaultResources = [] \<or> gl_yaml_resources gl (cfg_raw data KeyDefaultResources) \<noteq> None)"
  by (auto simp: cfg_res_def Let_def split: option.splits)

lemmas cfg_problems = cfg_unknown_Nil cfg_required_Nil cfg_duration_Nil cfg_base_url_Nil cfg_res_Nil

lemma parse_config_split:
  "parse_config gl data =
     (let problems = cfg_unknown data @ fst (cfg_required data KeyRunnerImage) @
            fst (cfg_duration gl data KeyPollInterval DefaultPollInterval) @
            fst (cfg_duration gl data KeyBuildTimeout DefaultBuildTimeout) @
            fst (cfg_base_url gl data KeyForgeURL) @ fst (cfg_base_url gl data KeyIndexURL) @
            fst (cfg_base_url gl data KeyWeaveURL) @ fst (cfg_res gl data)
      in if problems \<noteq> [] then Inl (Errorf (Fmt ''invalid instance config: %s'' problems))
         else Inr \<lparr>cfg_runner_image = snd (cfg_required data KeyRunnerImage), cfg_resources = snd (cfg_res gl data),
                   cfg_tag_name = cfg_str data KeyTagName DefaultTagName,
                   cfg_artifact_prefix = cfg_str data KeyArtifactPrefix DefaultArtifactPrefix,
                   cfg_chain_step_name = cfg_str data KeyChainStepName DefaultChainStepName,
                   cfg_poll_interval = snd (cfg_duration gl data KeyPollInterval DefaultPollInterval),
                   cfg_build_timeout = snd (cfg_duration gl data KeyBuildTimeout DefaultBuildTimeout),
                   cfg_forge_url = snd (cfg_base_url gl data KeyForgeURL),
                   cfg_index_url = snd (cfg_base_url gl data KeyIndexURL),
                   cfg_weave_url = snd (cfg_base_url gl data KeyWeaveURL)\<rparr>)"
  by (simp add: parse_config_def Let_def split_beta del: append_is_Nil_conv)

lemma parse_config_ok_iff: "(\<exists>c. parse_config gl data = Inr c) \<longleftrightarrow> data_ok gl data"
  unfolding parse_config_split Let_def data_ok_def by (auto simp: cfg_problems)

lemma cfg_str_nonempty: "dflt \<noteq> [] \<Longrightarrow> cfg_str data key dflt \<noteq> []"
  by (simp add: cfg_str_def Let_def)

text \<open>The settings every step relies on.\<close>

definition config_ok :: "config \<Rightarrow> bool" where
  "config_ok c \<longleftrightarrow>
     cfg_runner_image c \<noteq> [] \<and> cfg_tag_name c \<noteq> [] \<and> cfg_artifact_prefix c \<noteq> [] \<and>
     cfg_chain_step_name c \<noteq> [] \<and> cfg_poll_interval c > 0 \<and> cfg_build_timeout c > 0"

lemma parse_config_fields:
  assumes "parse_config gl data = Inr c"
  shows "config_ok c"
    and "cfg_forge_url c = trim_right CHR ''/'' (cfg_raw data KeyForgeURL)"
    and "cfg_index_url c = trim_right CHR ''/'' (cfg_raw data KeyIndexURL)"
    and "cfg_weave_url c = trim_right CHR ''/'' (cfg_raw data KeyWeaveURL)"
proof -
  have ok: "data_ok gl data" using assms parse_config_ok_iff by blast
  from assms have c: "cfg_runner_image c = cfg_raw data KeyRunnerImage"
    "cfg_tag_name c = cfg_str data KeyTagName DefaultTagName"
    "cfg_artifact_prefix c = cfg_str data KeyArtifactPrefix DefaultArtifactPrefix"
    "cfg_chain_step_name c = cfg_str data KeyChainStepName DefaultChainStepName"
    "cfg_poll_interval c = snd (cfg_duration gl data KeyPollInterval DefaultPollInterval)"
    "cfg_build_timeout c = snd (cfg_duration gl data KeyBuildTimeout DefaultBuildTimeout)"
    "cfg_forge_url c = snd (cfg_base_url gl data KeyForgeURL)"
    "cfg_index_url c = snd (cfg_base_url gl data KeyIndexURL)"
    "cfg_weave_url c = snd (cfg_base_url gl data KeyWeaveURL)"
    unfolding parse_config_split Let_def by (auto simp: cfg_required_value split: if_splits)
  with ok show "config_ok c"
    by (simp add: config_ok_def data_ok_def cfg_str_nonempty cfg_duration_pos DefaultTagName_def
      DefaultArtifactPrefix_def DefaultChainStepName_def DefaultPollInterval_def DefaultBuildTimeout_def)
  show "cfg_forge_url c = trim_right CHR ''/'' (cfg_raw data KeyForgeURL)"
    "cfg_index_url c = trim_right CHR ''/'' (cfg_raw data KeyIndexURL)"
    "cfg_weave_url c = trim_right CHR ''/'' (cfg_raw data KeyWeaveURL)"
    using ok c by (simp_all add: data_ok_def cfg_base_url_value)
qed

text \<open>The keys a placeholder may name are all ConfigMap keys but the structured one.\<close>

lemma config_values_keys: "fst ` set (config_values c) = set known_keys - {KeyDefaultResources}"
  by (auto simp: config_values_def known_keys_def config_keys)

section \<open>Properties\<close>

text \<open>C35: \<open>Parse\<close> accepts exactly the ConfigMaps without an unknown key, with a runner image, http(s)
  URLs for the three services and positive durations and decodable resources where given; an
  accepted configuration has every string setting non-empty, positive durations, the URLs without
  trailing slashes, and a value for each key a placeholder can name.\<close>

theorem parse_config_correct:
  "((\<exists>c. parse_config gl data = Inr c) = data_ok gl data) \<and>
   (parse_config gl data = Inr c \<longrightarrow>
      config_ok c \<and> fst ` set (config_values c) = set known_keys - {KeyDefaultResources} \<and>
      cfg_forge_url c = trim_right CHR ''/'' (cfg_raw data KeyForgeURL) \<and>
      cfg_index_url c = trim_right CHR ''/'' (cfg_raw data KeyIndexURL) \<and>
      cfg_weave_url c = trim_right CHR ''/'' (cfg_raw data KeyWeaveURL))"
  using parse_config_ok_iff parse_config_fields config_values_keys by blast

definition sample_data :: smap where
  "sample_data = [(KeyRunnerImage, ''i''), (KeyForgeURL, ''f/''), (KeyIndexURL, ''x''), (KeyWeaveURL, ''w'')]"

definition url_lib :: go_lib where
  "url_lib = sample_lib\<lparr>gl_url := (\<lambda>s. Some (''https'', ''h''))\<rparr>"

definition sample_config :: config where
  "sample_config = \<lparr>cfg_runner_image = ''i'', cfg_resources = default_resources, cfg_tag_name = ''stable'',
     cfg_artifact_prefix = ''app.'', cfg_chain_step_name = ''run'', cfg_poll_interval = 5000000000,
     cfg_build_timeout = 600000000000, cfg_forge_url = ''f'', cfg_index_url = ''x'', cfg_weave_url = ''w''\<rparr>"

lemma sample_trims: "trim_space ''i'' = ''i''" "trim_space ''f/'' = ''f/''" "trim_space ''x'' = ''x''"
  "trim_space ''w'' = ''w''" "trim_space [] = []"
  by code_simp+

lemma sample_data_keys: "sorted_keys sample_data = [KeyForgeURL, KeyIndexURL, KeyRunnerImage, KeyWeaveURL]"
  by code_simp

lemma sample_config_parsed: "parse_config url_lib sample_data = Inr sample_config"
  by (simp add: parse_config_def cfg_unknown_def sample_data_keys known_keys_def cfg_required_def
      cfg_duration_def cfg_base_url_def cfg_res_def cfg_str_def sample_trims get0_def sample_data_def
      config_keys url_lib_def trim_right_def sample_config_def DefaultTagName_def
      DefaultArtifactPrefix_def DefaultChainStepName_def DefaultPollInterval_def DefaultBuildTimeout_def)

theorem parse_config_witness: "data_ok url_lib sample_data \<and> config_ok sample_config"
  using parse_config_correct[of url_lib sample_data sample_config] sample_config_parsed by blast

end
