(* ===== verification/Upstream.thy ===== *)
theory Upstream
  imports InstanceCfg "HOL-Library.Monad_Syntax"
begin

text \<open>
  Package \<open>internal/upstream\<close>: the JSON-over-HTTP core (\<open>client_do\<close>), the classification of its
  errors, and the clients of forge, index and weave. The HTTP transport and the token source are
  calls the client carries.
\<close>

section \<open>Errors\<close>

definition status_of :: "err \<Rightarrow> int option" where
  "status_of e = (case e of APIError s m p st t c \<Rightarrow> Some st | _ \<Rightarrow> None)"

text \<open>\<open>errors.Is(err, upstream.ErrNotFound)\<close> and \<open>errors.Is(err, upstream.ErrConflict)\<close>, by
  \<open>APIError.Is\<close> on every error of the tree; nothing returns the two sentinels themselves.\<close>

definition is_upstream_not_found :: "err \<Rightarrow> bool" where
  "is_upstream_not_found e \<longleftrightarrow> list_ex (\<lambda>x. status_of x = Some 404) (err_tree e)"

definition is_upstream_conflict :: "err \<Rightarrow> bool" where
  "is_upstream_conflict e \<longleftrightarrow> list_ex (\<lambda>x. status_of x = Some 409) (err_tree e)"

text \<open>\<open>errors.As(err, &ae)\<close> for \<open>*APIError\<close>: the first one of the tree, by its status.\<close>

fun first_status :: "err list \<Rightarrow> int option" where
  "first_status [] = None"
| "first_status (e # es) = (case status_of e of Some st \<Rightarrow> Some st | None \<Rightarrow> first_status es)"

definition as_api :: "err \<Rightarrow> int option" where
  "as_api e = first_status (err_tree e)"

definition is_transient :: "err \<Rightarrow> bool" where
  "is_transient e = (case as_api e of None \<Rightarrow> False | Some st \<Rightarrow> st = 0 \<or> st = 429 \<or> st \<ge> 500)"

definition ignore_not_found :: "('w, unit) call \<Rightarrow> ('w, unit) call" where
  "ignore_not_found f =
     io_try f (\<lambda>r. case r of Inr u \<Rightarrow> io_return () | Inl e \<Rightarrow> if is_upstream_not_found e then io_return () else io_fail e)"

section \<open>Requests\<close>

text \<open>\<open>url.PathEscape\<close> and \<open>url.QueryEscape\<close>, byte by byte.\<close>

definition upper_hex :: "nat \<Rightarrow> char" where
  "upper_hex n = (if n < 10 then char_of (48 + n) else char_of (55 + n))"

definition percent :: "char \<Rightarrow> string" where
  "percent c = [CHR ''%'', upper_hex (of_char c div 16), upper_hex (of_char c mod 16)]"

definition unreserved :: "char \<Rightarrow> bool" where
  "unreserved c \<longleftrightarrow> is_upper c \<or> is_lower c \<or> is_digit c \<or> c \<in> set ''-_.~''"

definition path_escape :: "string \<Rightarrow> string" where
  "path_escape s = concat (map (\<lambda>c. if unreserved c \<or> c \<in> set ''$&+:=@'' then [c] else percent c) s)"

definition query_escape :: "string \<Rightarrow> string" where
  "query_escape s = concat (map (\<lambda>c. if unreserved c then [c] else if c = CHR '' '' then ''+'' else percent c) s)"

text \<open>\<open>url.Values.Encode\<close>; every key of the program's queries has one value.\<close>

definition query_encode :: "smap \<Rightarrow> string" where
  "query_encode q = join ''&'' (map (\<lambda>k. query_escape k @ ''='' @ query_escape (get0 q k)) (sorted_keys q))"

record http_request =
  hq_method :: string
  hq_target :: string
  hq_body :: "json option"
  hq_headers :: smap

text \<open>A response: status code, the bytes of the body, and the JSON value these decode to.\<close>

record http_response =
  hp_status :: int
  hp_text :: string
  hp_json :: raw_json

text \<open>\<open>Client\<close>; \<open>cl_tokens = None\<close> is a nil token source.\<close>

record 'w client =
  cl_service :: string
  cl_base :: string
  cl_http :: "http_request \<Rightarrow> ('w, http_response) call"
  cl_tokens :: "('w, string) call option"

text \<open>\<open>FileTokenSource.Token\<close>, for the call that reads a file.\<close>

definition file_token :: "(string \<Rightarrow> ('w, string) call) \<Rightarrow> string \<Rightarrow> ('w, string) call" where
  "file_token read_file path =
     (if path = [] then io_return [] else io_bind (read_file path) (\<lambda>b. io_return (trim_space b)))"

definition new_client ::
  "string \<Rightarrow> string \<Rightarrow> (http_request \<Rightarrow> ('w, http_response) call) \<Rightarrow> ('w, string) call option \<Rightarrow> 'w client" where
  "new_client service base_url http tokens =
     \<lparr>cl_service = service, cl_base = trim_right CHR ''/'' base_url, cl_http = http, cl_tokens = tokens\<rparr>"

definition maxErrorBody :: nat where "maxErrorBody = 64 * 2 ^ 10"
definition maxMessageLen :: nat where "maxMessageLen = 300"

text \<open>
  \<open>encoding/json\<close> finds the struct field of a member by its name, case folded (U+212A folds to k,
  U+017F to s). The members are decoded one after the other into the field, whose zero value stays when there is none; null
  leaves a field that is no pointer or slice as it is, a value of another type is an error.
\<close>

fun fold_name :: "string \<Rightarrow> string" where
  "fold_name [] = []"
| "fold_name (a # s) =
     (if prefix (bytes [226, 132, 170]) (a # s) then CHR ''k'' # fold_name (drop 2 s)
      else if prefix (bytes [197, 191]) (a # s) then CHR ''s'' # fold_name (drop 1 s)
      else lower_char a # fold_name s)"

lemma fold_name_ascii: "list_all (\<lambda>c. of_char c < (128 :: nat)) s \<Longrightarrow> fold_name s = map lower_char s"
proof (induction s)
  case (Cons a s)
  have "a \<noteq> char_of (226 :: nat)" "a \<noteq> char_of (197 :: nat)"
    using Cons.prems by auto
  then show ?case using Cons by (simp add: bytes_def)
qed simp

definition decode_field :: "('a \<Rightarrow> json \<Rightarrow> 'a option) \<Rightarrow> 'a \<Rightarrow> (string \<times> json) list \<Rightarrow> string \<Rightarrow> 'a option" where
  "decode_field dec zero kvs k =
     foldl (\<lambda>acc (n, j). if fold_name n \<noteq> fold_name k then acc else case acc of None \<Rightarrow> None | Some v \<Rightarrow> dec v j)
       (Some zero) kvs"

fun set_string :: "string \<Rightarrow> json \<Rightarrow> string option" where
  "set_string v (JStr s) = Some s"
| "set_string v JNull = Some v"
| "set_string v _ = None"

definition str_field :: "(string \<times> json) list \<Rightarrow> string \<Rightarrow> string option" where
  "str_field = decode_field set_string []"

definition error_message :: "string \<Rightarrow> raw_json \<Rightarrow> string" where
  "error_message raw body =
     (let decoded = (case body of
                       RawJson (JObj kvs) \<Rightarrow>
                         (case (str_field kvs ''error'', str_field kvs ''message'') of
                            (Some e, Some m) \<Rightarrow> if e = [] then m else e
                          | _ \<Rightarrow> [])
                     | _ \<Rightarrow> []);
          msg = (if decoded = [] then trim_space raw else decoded)
      in if length msg > maxMessageLen then take maxMessageLen msg @ ''...'' else msg)"

text \<open>The body of a failed response is read up to \<open>maxErrorBody\<close> bytes; a longer JSON text is cut
  and no longer parses.\<close>

definition response_message :: "http_response \<Rightarrow> string" where
  "response_message p =
     (if length (hp_text p) \<le> maxErrorBody then error_message (hp_text p) (hp_json p)
      else error_message (take maxErrorBody (hp_text p)) RawBad)"

text \<open>The token of the request, if any: an empty one means no authentication.\<close>

definition request_headers :: "bool \<Rightarrow> string \<Rightarrow> smap" where
  "request_headers has_body token =
     [(''Accept'', ''application/json'')] @
     (if has_body then [(''Content-Type'', ''application/json'')] else []) @
     (if token \<noteq> [] then [(''Authorization'', ''Bearer '' @ token)] else [])"

text \<open>
  \<open>Client.do\<close>: the result is \<open>None\<close> where the decoder never runs and \<open>out\<close> keeps its zero value
  (no \<open>out\<close>, or 204). \<open>dec = None\<close> is a nil \<open>out\<close>; \<open>dec\<close> itself fails on a value of another shape.
\<close>

definition client_do ::
  "go_lib \<Rightarrow> 'w client \<Rightarrow> string \<Rightarrow> string \<Rightarrow> smap \<Rightarrow> json option \<Rightarrow> (json \<Rightarrow> 'a option) option \<Rightarrow>
   ('w, 'a option) call" where
  "client_do gl c method path query body dec =
     (let fail = (\<lambda>m e. APIError (cl_service c) method path 0 (Lit m) e);
          target = cl_base c @ path @ (if query = [] then [] else ''?'' @ query_encode query)
      in if gl_url gl target = None then io_fail (fail ''building request failed'' None)
         else io_try (case cl_tokens c of None \<Rightarrow> io_return [] | Some t \<Rightarrow> t) (\<lambda>rt. case rt of
           Inl e \<Rightarrow> io_fail (fail ''reading service account token failed'' (Some e))
         | Inr token \<Rightarrow>
             io_try (cl_http c \<lparr>hq_method = method, hq_target = target, hq_body = body,
                               hq_headers = request_headers (body \<noteq> None) token\<rparr>) (\<lambda>rp. case rp of
               Inl e \<Rightarrow> io_fail (fail ''request failed'' (Some e))
             | Inr p \<Rightarrow>
                 if hp_status p < 200 \<or> hp_status p > 299 then
                   io_fail (APIError (cl_service c) method path (hp_status p) (Lit (response_message p)) None)
                 else (case dec of
                         None \<Rightarrow> io_return None
                       | Some f \<Rightarrow>
                           if hp_status p = 204 then io_return None
                           else (case (case hp_json p of RawJson j \<Rightarrow> f j | _ \<Rightarrow> None) of
                                   None \<Rightarrow> io_fail (fail ''decoding response failed'' None)
                                 | Some a \<Rightarrow> io_return (Some a))))))"

definition do_unit ::
  "go_lib \<Rightarrow> 'w client \<Rightarrow> string \<Rightarrow> string \<Rightarrow> json option \<Rightarrow> ('w, unit) call" where
  "do_unit gl c method path body =
     io_bind (client_do gl c method path [] body (None :: (json \<Rightarrow> unit option) option)) (\<lambda>_. io_return ())"

definition do_get ::
  "go_lib \<Rightarrow> 'w client \<Rightarrow> string \<Rightarrow> string \<Rightarrow> smap \<Rightarrow> json option \<Rightarrow> 'a \<Rightarrow> (json \<Rightarrow> 'a option) \<Rightarrow> ('w, 'a) call" where
  "do_get gl c method path query body zero dec =
     io_bind (client_do gl c method path query body (Some dec))
       (\<lambda>r. io_return (case r of None \<Rightarrow> zero | Some a \<Rightarrow> a))"

section \<open>Decoding responses\<close>

text \<open>\<open>encoding/json\<close> into struct fields. An \<open>int64\<close> takes an integer literal in range.\<close>

fun json_to_int :: "json \<Rightarrow> int option" where
  "json_to_int JNull = Some 0"
| "json_to_int (JInt i) = (if int64_ok i then Some i else None)"
| "json_to_int (JNum (Dec neg m e)) =
     (let i = (if neg then - int m else int m) in if e = 0 \<and> int64_ok i then Some i else None)"
| "json_to_int _ = None"

definition int_field :: "(string \<times> json) list \<Rightarrow> string \<Rightarrow> int option" where
  "int_field = decode_field (\<lambda>v j. if j = JNull then Some v else json_to_int j) 0"

text \<open>A pointer field: absent and null are nil.\<close>

definition opt_field :: "(json \<Rightarrow> 'a option) \<Rightarrow> (string \<times> json) list \<Rightarrow> string \<Rightarrow> 'a option option" where
  "opt_field dec = decode_field (\<lambda>v j. if j = JNull then Some None else map_option Some (dec j)) None"

text \<open>A nested struct: several members of the name are decoded into it one after the other, as if their members were
  those of one object.\<close>

definition obj_members_field :: "(string \<times> json) list \<Rightarrow> string \<Rightarrow> (string \<times> json) list option" where
  "obj_members_field = decode_field (\<lambda>v j. case j of JObj m \<Rightarrow> Some (v @ m) | JNull \<Rightarrow> Some v | _ \<Rightarrow> None) []"

definition obj_field :: "((string \<times> json) list \<Rightarrow> 'a option) \<Rightarrow> (string \<times> json) list \<Rightarrow> string \<Rightarrow> 'a option" where
  "obj_field dec kvs k = (case obj_members_field kvs k of None \<Rightarrow> None | Some m \<Rightarrow> dec m)"

text \<open>A slice of structs.\<close>

fun as_struct :: "((string \<times> json) list \<Rightarrow> 'a option) \<Rightarrow> json \<Rightarrow> 'a option" where
  "as_struct dec (JObj kvs) = dec kvs"
| "as_struct dec JNull = dec []"
| "as_struct dec _ = None"

fun as_slice :: "(json \<Rightarrow> 'a option) \<Rightarrow> json \<Rightarrow> 'a list option" where
  "as_slice dec (JArr js) = json_list dec js"
| "as_slice dec JNull = Some []"
| "as_slice dec _ = None"

definition slice_field :: "(json \<Rightarrow> 'a option) \<Rightarrow> (string \<times> json) list \<Rightarrow> string \<Rightarrow> 'a list option" where
  "slice_field dec = decode_field (\<lambda>v. as_slice dec) []"

section \<open>forge\<close>

record git_watcher_spec =
  gs_repo_url :: string
  gs_repo_ref :: string
  gs_build_type :: string
  gs_project_dir :: string
  gs_auto_tag :: string

record git_watcher_status =
  gst_phase :: string
  gst_last_seen_commit :: string
  gst_last_built_version :: string
  gst_last_build_name :: string
  gst_last_build_version :: string
  gst_consecutive_failures :: int
  gst_last_error :: string
  gst_message :: string

text \<open>Creation times are left out of the response types: the program never reads them.\<close>

record git_watcher =
  gw_name :: string
  gw_namespace :: string
  gw_spec :: git_watcher_spec
  gw_status :: git_watcher_status

record create_git_watcher =
  cgw_name :: string
  cgw_repo_url :: string
  cgw_repo_ref :: string
  cgw_build_type :: string
  cgw_project_dir :: string
  cgw_auto_tag :: string
  cgw_labels :: smap

record build =
  b_id :: int
  b_name :: string
  b_version :: string
  b_status :: string
  b_build_type :: string
  b_index_artifact_id :: "int option"
  b_index_artifact_version :: "string option"
  b_ci_build_name :: "string option"
  b_repo_url :: "string option"
  b_project_dir :: "string option"

definition build_terminal :: "build \<Rightarrow> bool" where
  "build_terminal b \<longleftrightarrow> b_status b = ''SUCCESS'' \<or> b_status b = ''FAILED''"

definition dec_watcher_spec :: "(string \<times> json) list \<Rightarrow> git_watcher_spec option" where
  "dec_watcher_spec m = do {
     u \<leftarrow> str_field m ''repoURL''; r \<leftarrow> str_field m ''repoRef''; b \<leftarrow> str_field m ''buildType'';
     d \<leftarrow> str_field m ''projectDir''; t \<leftarrow> str_field m ''autoTag'';
     Some \<lparr>gs_repo_url = u, gs_repo_ref = r, gs_build_type = b, gs_project_dir = d, gs_auto_tag = t\<rparr> }"

definition dec_watcher_status :: "(string \<times> json) list \<Rightarrow> git_watcher_status option" where
  "dec_watcher_status m = do {
     p \<leftarrow> str_field m ''phase''; c \<leftarrow> str_field m ''lastSeenCommit''; v \<leftarrow> str_field m ''lastBuiltVersion'';
     n \<leftarrow> str_field m ''lastBuildName''; bv \<leftarrow> str_field m ''lastBuildVersion'';
     f \<leftarrow> int_field m ''consecutiveFailures''; e \<leftarrow> str_field m ''lastError''; t \<leftarrow> str_field m ''message'';
     Some \<lparr>gst_phase = p, gst_last_seen_commit = c, gst_last_built_version = v, gst_last_build_name = n,
           gst_last_build_version = bv, gst_consecutive_failures = f, gst_last_error = e, gst_message = t\<rparr> }"

definition dec_watcher :: "(string \<times> json) list \<Rightarrow> git_watcher option" where
  "dec_watcher m = do {
     n \<leftarrow> str_field m ''name''; ns \<leftarrow> str_field m ''namespace'';
     sp \<leftarrow> obj_field dec_watcher_spec m ''spec''; st \<leftarrow> obj_field dec_watcher_status m ''status'';
     Some \<lparr>gw_name = n, gw_namespace = ns, gw_spec = sp, gw_status = st\<rparr> }"

definition dec_build :: "(string \<times> json) list \<Rightarrow> build option" where
  "dec_build m = do {
     i \<leftarrow> int_field m ''id''; n \<leftarrow> str_field m ''name''; v \<leftarrow> str_field m ''version''; s \<leftarrow> str_field m ''status'';
     t \<leftarrow> str_field m ''buildType''; ai \<leftarrow> opt_field json_to_int m ''indexArtifactId'';
     av \<leftarrow> opt_field json_to_string m ''indexArtifactVersion''; cb \<leftarrow> opt_field json_to_string m ''ciBuildName'';
     ru \<leftarrow> opt_field json_to_string m ''repoUrl''; pd \<leftarrow> opt_field json_to_string m ''projectDir'';
     Some \<lparr>b_id = i, b_name = n, b_version = v, b_status = s, b_build_type = t, b_index_artifact_id = ai,
           b_index_artifact_version = av, b_ci_build_name = cb, b_repo_url = ru, b_project_dir = pd\<rparr> }"

definition zero_watcher :: git_watcher where
  "zero_watcher = the (dec_watcher [])"

definition zero_build :: build where
  "zero_build = the (dec_build [])"

definition omit_empty :: "string \<Rightarrow> string \<Rightarrow> (string \<times> json) list" where
  "omit_empty k v = (if v = [] then [] else [(k, JStr v)])"

definition labels_json :: "smap \<Rightarrow> json" where
  "labels_json ls = JObj (map (\<lambda>k. (k, JStr (get0 ls k))) (sorted_keys ls))"

definition enc_create_watcher :: "create_git_watcher \<Rightarrow> json" where
  "enc_create_watcher r =
     JObj ([(''name'', JStr (cgw_name r)), (''repo_url'', JStr (cgw_repo_url r))] @
           omit_empty ''repo_ref'' (cgw_repo_ref r) @ [(''build_type'', JStr (cgw_build_type r))] @
           omit_empty ''project_dir'' (cgw_project_dir r) @ omit_empty ''auto_tag'' (cgw_auto_tag r) @
           (if cgw_labels r = [] then [] else [(''labels'', labels_json (cgw_labels r))]))"

definition get_git_watcher :: "go_lib \<Rightarrow> 'w client \<Rightarrow> string \<Rightarrow> ('w, git_watcher) call" where
  "get_git_watcher gl c name =
     do_get gl c ''GET'' (''/api/v1/gitwatchers/'' @ path_escape name) [] None zero_watcher (as_struct dec_watcher)"

definition create_git_watcher_do :: "go_lib \<Rightarrow> 'w client \<Rightarrow> create_git_watcher \<Rightarrow> ('w, git_watcher) call" where
  "create_git_watcher_do gl c r =
     do_get gl c ''POST'' ''/api/v1/gitwatchers'' [] (Some (enc_create_watcher r)) zero_watcher (as_struct dec_watcher)"

definition delete_git_watcher :: "go_lib \<Rightarrow> 'w client \<Rightarrow> string \<Rightarrow> ('w, unit) call" where
  "delete_git_watcher gl c name =
     ignore_not_found (do_unit gl c ''DELETE'' (''/api/v1/gitwatchers/'' @ path_escape name) None)"

definition list_app_builds :: "go_lib \<Rightarrow> 'w client \<Rightarrow> string \<Rightarrow> int \<Rightarrow> ('w, build list) call" where
  "list_app_builds gl c name page_size =
     do_get gl c ''GET'' ''/api/v1/appbuilds''
       ((if name \<noteq> [] then [(''name'', name)] else []) @ [(''pageSize'', format_int page_size)]) None []
       (as_struct (\<lambda>m. slice_field (as_struct dec_build) m ''items''))"

definition get_app_build :: "go_lib \<Rightarrow> 'w client \<Rightarrow> int \<Rightarrow> ('w, build) call" where
  "get_app_build gl c i =
     do_get gl c ''GET'' (''/api/v1/appbuilds/'' @ format_int i) [] None zero_build (as_struct dec_build)"

section \<open>index\<close>

definition indexPageSize :: int where "indexPageSize = 100"

record artifact =
  a_id :: int
  a_full_name :: string
  a_description :: "string option"

record tag =
  t_tag :: string
  t_version_id :: int

record version =
  v_id :: int
  v_artifact_id :: int
  v_version :: string
  v_tags :: "tag list"

definition dec_artifact :: "(string \<times> json) list \<Rightarrow> artifact option" where
  "dec_artifact m = do {
     i \<leftarrow> int_field m ''id''; n \<leftarrow> str_field m ''fullName''; d \<leftarrow> opt_field json_to_string m ''description'';
     Some \<lparr>a_id = i, a_full_name = n, a_description = d\<rparr> }"

definition dec_tag :: "(string \<times> json) list \<Rightarrow> tag option" where
  "dec_tag m = do {
     t \<leftarrow> str_field m ''tag''; v \<leftarrow> int_field m ''versionId''; Some \<lparr>t_tag = t, t_version_id = v\<rparr> }"

definition dec_version :: "(string \<times> json) list \<Rightarrow> version option" where
  "dec_version m = do {
     i \<leftarrow> int_field m ''id''; a \<leftarrow> int_field m ''artifactId''; v \<leftarrow> str_field m ''version'';
     ts \<leftarrow> slice_field (as_struct dec_tag) m ''tags'';
     Some \<lparr>v_id = i, v_artifact_id = a, v_version = v, v_tags = ts\<rparr> }"

text \<open>One page of the artifact list: items and total.\<close>

definition dec_page :: "(string \<times> json) list \<Rightarrow> (artifact list \<times> int) option" where
  "dec_page m = do { is \<leftarrow> slice_field (as_struct dec_artifact) m ''items''; t \<leftarrow> int_field m ''total''; Some (is, t) }"

definition artifact_page :: "go_lib \<Rightarrow> 'w client \<Rightarrow> string \<Rightarrow> nat \<Rightarrow> ('w, artifact list \<times> int) call" where
  "artifact_page gl c full_name page =
     do_get gl c ''GET'' ''/api/v1/artifacts''
       [(''name'', full_name), (''page'', format_int (int page)), (''pageSize'', format_int indexPageSize)] None
       ([], 0) (as_struct dec_page)"

text \<open>
  The loop of \<open>FindArtifact\<close> over the pages, for the call that fetches one. It ends only when the
  service stops announcing more: \<open>fuel\<close> bounds the pages asked for, and running out of it is a
  result of its own.
\<close>

fun find_pages ::
  "(nat \<Rightarrow> ('w, artifact list \<times> int) call) \<Rightarrow> string \<Rightarrow> nat \<Rightarrow> nat \<Rightarrow> ('w, artifact) call" where
  "find_pages fetch full_name page 0 = io_fail (Panic ''out of pages'')"
| "find_pages fetch full_name page (Suc fuel) =
     io_bind (fetch page) (\<lambda>(items, total).
       case find (\<lambda>a. a_full_name a = full_name) items of
         Some a \<Rightarrow> io_return a
       | None \<Rightarrow>
           if int (length items) < indexPageSize \<or> int (page + 1) * indexPageSize \<ge> total
           then io_fail (APIError ''index'' ''GET'' ''/api/v1/artifacts'' 404
                           (Fmt ''artifact %q not found'' [Lit full_name]) None)
           else find_pages fetch full_name (page + 1) fuel)"

definition find_artifact :: "go_lib \<Rightarrow> nat \<Rightarrow> 'w client \<Rightarrow> string \<Rightarrow> ('w, artifact) call" where
  "find_artifact gl fuel c full_name = find_pages (artifact_page gl c full_name) full_name 0 fuel"

definition artifact_path :: "int \<Rightarrow> string" where
  "artifact_path i = ''/api/v1/artifacts/'' @ format_int i"

definition list_versions :: "go_lib \<Rightarrow> 'w client \<Rightarrow> int \<Rightarrow> ('w, version list) call" where
  "list_versions gl c i =
     do_get gl c ''GET'' (artifact_path i @ ''/versions'') [] None [] (as_slice (as_struct dec_version))"

definition set_tag :: "go_lib \<Rightarrow> 'w client \<Rightarrow> int \<Rightarrow> string \<Rightarrow> string \<Rightarrow> ('w, unit) call" where
  "set_tag gl c i tg v =
     do_unit gl c ''PUT'' (artifact_path i @ ''/tags/'' @ path_escape tg) (Some (JObj [(''version'', JStr v)]))"

definition delete_tag :: "go_lib \<Rightarrow> 'w client \<Rightarrow> int \<Rightarrow> string \<Rightarrow> ('w, unit) call" where
  "delete_tag gl c i tg =
     ignore_not_found (do_unit gl c ''DELETE'' (artifact_path i @ ''/tags/'' @ path_escape tg) None)"

definition delete_artifact :: "go_lib \<Rightarrow> 'w client \<Rightarrow> int \<Rightarrow> ('w, unit) call" where
  "delete_artifact gl c i = ignore_not_found (do_unit gl c ''DELETE'' (artifact_path i) None)"

section \<open>weave\<close>

definition WeaveAPIVersion :: string where "WeaveAPIVersion = ''weave.fusion-platform.io/v1alpha1''"
definition WeaveJobTemplates :: string where "WeaveJobTemplates = ''jobtemplates''"
definition WeaveServiceTemplates :: string where "WeaveServiceTemplates = ''servicetemplates''"
definition WeaveChains :: string where "WeaveChains = ''chains''"
definition WeaveTriggers :: string where "WeaveTriggers = ''triggers''"
definition WeaveApps :: string where "WeaveApps = ''apps''"
definition weaveBatchTriggers :: string where "weaveBatchTriggers = ''batchtriggers''"

lemmas weave_collections = WeaveJobTemplates_def WeaveServiceTemplates_def WeaveChains_def
  WeaveTriggers_def WeaveApps_def weaveBatchTriggers_def

text \<open>A weave object is a JSON object, by its members.\<close>

type_synonym weave_object = "(string \<times> json) list"

definition new_weave_object :: "string \<Rightarrow> string \<Rightarrow> (string \<times> json) list \<Rightarrow> weave_object" where
  "new_weave_object kind name spec =
     [(''apiVersion'', JStr WeaveAPIVersion), (''kind'', JStr kind),
      (''metadata'', JObj [(''name'', JStr name)]), (''spec'', JObj spec)]"

definition weave_path :: "string \<Rightarrow> string \<Rightarrow> string" where
  "weave_path collection name =
     ''/api/v1/'' @ collection @ (if name = [] then [] else ''/'' @ path_escape name)"

definition weave_get :: "go_lib \<Rightarrow> 'w client \<Rightarrow> string \<Rightarrow> string \<Rightarrow> ('w, weave_object) call" where
  "weave_get gl c collection name =
     do_get gl c ''GET'' (weave_path collection name) [] None [] (as_struct Some)"

definition weave_create :: "go_lib \<Rightarrow> 'w client \<Rightarrow> string \<Rightarrow> weave_object \<Rightarrow> ('w, weave_object) call" where
  "weave_create gl c collection obj =
     do_get gl c ''POST'' (weave_path collection []) [] (Some (JObj obj)) [] (as_struct Some)"

definition weave_delete :: "go_lib \<Rightarrow> 'w client \<Rightarrow> string \<Rightarrow> string \<Rightarrow> ('w, unit) call" where
  "weave_delete gl c collection name =
     ignore_not_found (do_unit gl c ''DELETE'' (weave_path collection name) None)"

definition weave_fire :: "go_lib \<Rightarrow> 'w client \<Rightarrow> string \<Rightarrow> ('w, unit) call" where
  "weave_fire gl c name =
     do_unit gl c ''PATCH'' (weave_path WeaveTriggers name)
       (Some (JObj [(''metadata'', JObj [(''annotations'', JObj [(''fusion-platform.io/fire'', JStr ''true'')])])]))"

definition weave_patch_labels :: "go_lib \<Rightarrow> 'w client \<Rightarrow> string \<Rightarrow> smap \<Rightarrow> ('w, unit) call" where
  "weave_patch_labels gl c name labels =
     do_unit gl c ''PATCH'' (weave_path WeaveTriggers name)
       (Some (JObj [(''metadata'', JObj [(''labels'', labels_json labels)])]))"

definition create_batch_trigger :: "go_lib \<Rightarrow> 'w client \<Rightarrow> string \<Rightarrow> string \<Rightarrow> string \<Rightarrow> ('w, unit) call" where
  "create_batch_trigger gl c name chain jobs =
     do_unit gl c ''POST'' (weave_path weaveBatchTriggers [])
       (Some (JObj [(''name'', JStr name), (''chainRef'', JObj [(''name'', JStr chain)]), (''jobs'', JStr jobs)]))"

definition delete_batch_trigger :: "go_lib \<Rightarrow> 'w client \<Rightarrow> string \<Rightarrow> ('w, unit) call" where
  "delete_batch_trigger gl c name =
     ignore_not_found (do_unit gl c ''DELETE'' (weave_path weaveBatchTriggers name) None)"

section \<open>Errors of a call\<close>

lemma as_api_APIError [simp]: "as_api (APIError s m p st t c) = Some st"
  by (cases c) (simp_all add: as_api_def status_of_def)

lemma is_transient_APIError [simp]:
  "is_transient (APIError s m p st t c) \<longleftrightarrow> st = 0 \<or> st = 429 \<or> st \<ge> 500"
  by (simp add: is_transient_def)

lemma not_found_APIError: "is_upstream_not_found (APIError s m p 404 t c)"
  by (cases c) (simp_all add: is_upstream_not_found_def status_of_def)

lemma conflict_APIError: "is_upstream_conflict (APIError s m p 409 t c)"
  by (cases c) (simp_all add: is_upstream_conflict_def status_of_def)

text \<open>The two ways a call fails: without a usable response (status 0, the cause kept), or with the
  status the service answered.\<close>

definition call_error :: "'w client \<Rightarrow> string \<Rightarrow> string \<Rightarrow> err \<Rightarrow> bool" where
  "call_error c method path e \<longleftrightarrow>
     (\<exists>m cause. e = APIError (cl_service c) method path 0 (Lit m) cause) \<or>
     (\<exists>st m. (st < 200 \<or> st > 299) \<and> e = APIError (cl_service c) method path st (Lit m) None)"

lemma client_do_errors:
  "triple (\<lambda>_. True) (client_do gl c method path query body dec) (\<lambda>_ _. True) (\<lambda>e _. call_error c method path e)"
  unfolding client_do_def Let_def triple_def io_try_def call_error_def
  by (auto simp del: not_None_eq split: sum.splits prod.splits option.splits raw_json.splits if_splits)

lemma do_get_errors:
  "do_get gl c method path query body zero dec w = (Inl e, w') \<Longrightarrow> call_error c method path e"
  unfolding do_get_def
  by (erule io_bind_cases) (auto dest: tripleD_err[OF client_do_errors TrueI])

lemma do_unit_errors: "do_unit gl c method path body w = (Inl e, w') \<Longrightarrow> call_error c method path e"
  unfolding do_unit_def
  by (erule io_bind_cases) (auto dest: tripleD_err[OF client_do_errors TrueI])

text \<open>A success of a call without a result: the service answered 2xx.\<close>

lemma do_unit_ok:
  assumes "do_unit gl c method path body w = (Inr u, w')"
  shows "\<exists>token w1 p. cl_http c \<lparr>hq_method = method, hq_target = cl_base c @ path, hq_body = body,
      hq_headers = request_headers (body \<noteq> None) token\<rparr> w1 = (Inr p, w') \<and> 200 \<le> hp_status p \<and> hp_status p \<le> 299"
proof -
  from assms obtain r where r: "client_do gl c method path [] body (None :: (json \<Rightarrow> unit option) option) w = (Inr r, w')"
    unfolding do_unit_def by (auto elim: io_bind_cases)
  then show ?thesis
    unfolding client_do_def Let_def
    by (auto simp: io_try_def simp del: not_None_eq split: if_splits prod.splits sum.splits) (metis not_less)
qed

lemma ignore_not_found_cases:
  "ignore_not_found f w =
     (case f w of (Inr u, w') \<Rightarrow> (Inr (), w')
      | (Inl e, w') \<Rightarrow> if is_upstream_not_found e then (Inr (), w') else (Inl e, w'))"
  by (auto simp: ignore_not_found_def io_try_def split: prod.splits sum.splits)

section \<open>Paths\<close>

text \<open>Reading a path segment: \<open>url.PathUnescape\<close>.\<close>

definition hex_value :: "char \<Rightarrow> nat option" where
  "hex_value c =
     (let n = of_char c
      in if 48 \<le> n \<and> n \<le> 57 then Some (n - 48)
         else if 65 \<le> n \<and> n \<le> 70 then Some (n - 55)
         else if 97 \<le> n \<and> n \<le> 102 then Some (n - 87)
         else None)"

fun path_unescape :: "string \<Rightarrow> string option" where
  "path_unescape [] = Some []"
| "path_unescape (c # s) =
     (if c \<noteq> CHR ''%'' then map_option (Cons c) (path_unescape s)
      else (case s of
        a # b # t \<Rightarrow>
          (case (hex_value a, hex_value b) of
             (Some m, Some n) \<Rightarrow> map_option (Cons (char_of (16 * m + n))) (path_unescape t)
           | _ \<Rightarrow> None)
      | _ \<Rightarrow> None))"

lemma hex_value_upper: "n < 16 \<Longrightarrow> hex_value (upper_hex n) = Some n"
  by (simp add: hex_value_def upper_hex_def of_char_of)

lemma of_char_div16: "(of_char c :: nat) div 16 < 16"
  by (rule less_mult_imp_div_less) simp

lemma unescape_percent: "path_unescape (percent c @ s) = map_option (Cons c) (path_unescape s)"
proof -
  have "16 * ((of_char c :: nat) div 16) + of_char c mod 16 = of_char c" by simp
  then show ?thesis by (simp add: percent_def hex_value_upper of_char_div16)
qed

lemma reserved_percent [simp]: "\<not> unreserved CHR ''%''"
  by (simp add: unreserved_def is_upper_def is_lower_def is_digit_def)

text \<open>An escaped name reads as the name.\<close>

lemma path_unescape_escape: "path_unescape (path_escape s) = Some s"
  by (induction s) (auto simp: path_escape_def unescape_percent)

lemma upper_hex_plain: "n < 16 \<Longrightarrow> unreserved (upper_hex n)"
  by (auto simp: upper_hex_def unreserved_def is_digit_def is_upper_def)

text \<open>A segment neither ends at a slash nor starts a query or a fragment.\<close>

definition one_segment :: "string \<Rightarrow> bool" where
  "one_segment s \<longleftrightarrow> list_all (\<lambda>c. c \<notin> set ''/?#'') s"

lemma path_escape_segment: "one_segment (path_escape s)"
proof -
  have plain: "c \<notin> set ''/?#''" if "unreserved c \<or> c \<in> set ''$&+:=@%''" for c
    using that by (auto simp: unreserved_def is_upper_def is_lower_def is_digit_def)
  have "unreserved c \<or> c \<in> set ''$&+:=@%''" if "c \<in> set (path_escape s)" for c
    using that of_char_div16 by (auto simp: path_escape_def percent_def upper_hex_plain split: if_splits)
  with plain show ?thesis by (auto simp: one_segment_def list_all_iff)
qed

text \<open>
  The request goes to \<open>name\<close> in the collection at \<open>path\<close>: its target is the base URL, the path, and one segment that
  reads as the name.
\<close>

definition addresses :: "'w client \<Rightarrow> string \<Rightarrow> string \<Rightarrow> http_request \<Rightarrow> bool" where
  "addresses c path name r \<longleftrightarrow>
     prefix (cl_base c @ path) (hq_target r) \<and>
     (let segment = drop (length (cl_base c @ path)) (hq_target r)
      in one_segment segment \<and> path_unescape segment = Some name)"

text \<open>The client that sends every other request to \<open>other\<close>.\<close>

definition sent_to ::
  "string \<Rightarrow> string \<Rightarrow> (http_request \<Rightarrow> ('w, http_response) call) \<Rightarrow> 'w client \<Rightarrow> 'w client" where
  "sent_to path name other c = c\<lparr>cl_http := (\<lambda>r. if addresses c path name r then cl_http c r else other r)\<rparr>"

lemma sent_to_sel [simp]:
  "cl_base (sent_to path name other c) = cl_base c" "cl_service (sent_to path name other c) = cl_service c"
  "cl_tokens (sent_to path name other c) = cl_tokens c"
  by (simp_all add: sent_to_def)

lemma sent_to_http:
  "hq_target r = cl_base c @ path @ path_escape name \<Longrightarrow> cl_http (sent_to path name other c) r = cl_http c r"
  by (simp add: sent_to_def addresses_def path_escape_segment path_unescape_escape Let_def)

lemma client_do_sent_to:
  "client_do gl (sent_to path name other c) method (path @ path_escape name) [] body dec =
   client_do gl c method (path @ path_escape name) [] body dec"
  by (simp add: client_do_def sent_to_http Let_def cong: if_cong)

lemma do_sent_to:
  "do_unit gl (sent_to path name other c) method (path @ path_escape name) body =
   do_unit gl c method (path @ path_escape name) body"
  "do_get gl (sent_to path name other c) method (path @ path_escape name) [] body zero dec' =
   do_get gl c method (path @ path_escape name) [] body zero dec'"
  by (simp_all only: do_unit_def do_get_def client_do_sent_to)

lemma weave_segment: "name \<noteq> [] \<Longrightarrow> weave_path collection name = (''/api/v1/'' @ collection @ ''/'') @ path_escape name"
  by (simp add: weave_path_def)

text \<open>What the service answers to a request, when it gets that far.\<close>

definition access_token :: "'w client \<Rightarrow> ('w, string) call" where
  "access_token c = (case cl_tokens c of None \<Rightarrow> io_return [] | Some t \<Rightarrow> t)"

definition answered ::
  "go_lib \<Rightarrow> 'w client \<Rightarrow> string \<Rightarrow> string \<Rightarrow> smap \<Rightarrow> json option \<Rightarrow> 'w \<Rightarrow> http_response option" where
  "answered gl c method path query body w =
     (let target = cl_base c @ path @ (if query = [] then [] else ''?'' @ query_encode query)
      in if gl_url gl target = None then None
         else (case access_token c w of
           (Inl _, _) \<Rightarrow> None
         | (Inr token, w1) \<Rightarrow>
             (case fst (cl_http c \<lparr>hq_method = method, hq_target = target, hq_body = body,
                                  hq_headers = request_headers (body \<noteq> None) token\<rparr> w1) of
                Inl _ \<Rightarrow> None | Inr p \<Rightarrow> Some p)))"

definition accepted :: "http_response \<Rightarrow> bool" where
  "accepted p \<longleftrightarrow> 200 \<le> hp_status p \<and> hp_status p \<le> 299"

section \<open>Paging\<close>

lemma find_append: "find p (xs @ ys) = (case find p xs of None \<Rightarrow> find p ys | Some x \<Rightarrow> Some x)"
  by (induction xs) auto

text \<open>A service that serves \<open>listing\<close> in pages and does not change while it is read.\<close>

definition serves :: "(nat \<Rightarrow> ('w, artifact list \<times> int) call) \<Rightarrow> artifact list \<Rightarrow> 'w \<Rightarrow> bool" where
  "serves fetch listing w \<longleftrightarrow>
     (\<forall>p \<le> length listing div 100. fetch p w = (Inr (take 100 (drop (100 * p) listing), int (length listing)), w))"

lemma find_pages_finds:
  assumes "serves fetch listing w" and "find (\<lambda>a. a_full_name a = nm) (take (100 * page) listing) = None"
    and "100 * page \<le> length listing" and "length listing \<le> 100 * (page + fuel)" and "fuel > 0"
  shows "find_pages fetch nm page fuel w =
     (case find (\<lambda>a. a_full_name a = nm) listing of
        Some a \<Rightarrow> (Inr a, w)
      | None \<Rightarrow> (Inl (APIError ''index'' ''GET'' ''/api/v1/artifacts'' 404 (Fmt ''artifact %q not found'' [Lit nm]) None), w))"
  using assms(2-)
proof (induction fuel arbitrary: page)
  case (Suc fuel)
  let ?p = "\<lambda>a. a_full_name a = nm"
  let ?items = "take 100 (drop (100 * page) listing)"
  have fetch: "fetch page w = (Inr (?items, int (length listing)), w)"
    using assms(1) Suc.prems(2) by (simp add: serves_def less_eq_div_iff_mult_less_eq mult.commute)
  have upto: "take (100 * (page + 1)) listing = take (100 * page) listing @ ?items"
    by (metis add.commute mult.right_neutral distrib_left take_add)
  show ?case
  proof (cases "find ?p ?items")
    case (Some a)
    have "find ?p listing = find ?p (take (100 * (page + 1)) listing @ drop (100 * (page + 1)) listing)" by simp
    also have "\<dots> = Some a" unfolding upto using Suc.prems(1) Some by (simp add: find_append)
    finally show ?thesis by (simp add: fetch Some)
  next
    case None
    have upto_None: "find ?p (take (100 * (page + 1)) listing) = None"
      unfolding upto using Suc.prems(1) None by (simp add: find_append)
    show ?thesis
    proof (cases "int (length ?items) < indexPageSize \<or> int (page + 1) * indexPageSize \<ge> int (length listing)")
      case True
      then have "take (100 * (page + 1)) listing = listing" by (auto simp: indexPageSize_def)
      with upto_None have "find ?p listing = None" by simp
      with True show ?thesis by (simp add: fetch None)
    next
      case False
      then have "100 * (page + 1) < length listing" by (auto simp: indexPageSize_def)
      with Suc.prems(3) have "fuel > 0" by (cases fuel) auto
      moreover have "length listing \<le> 100 * (page + 1 + fuel)" using Suc.prems(3) by simp
      moreover have "100 * (page + 1) \<le> length listing" using \<open>100 * (page + 1) < length listing\<close> by simp
      ultimately show ?thesis using Suc.IH[OF upto_None] False by (simp add: fetch None)
    qed
  qed
qed simp

section \<open>Properties\<close>

text \<open>C33: how a call to an upstream service ends is told by its answer. When it succeeds, the service has answered
  2xx. When it fails, the error is an \<open>APIError\<close> of that service, method and path. If the service refused the
  request, the error carries the status and the message of the answer; it is transient exactly when the service
  throttled (429) or failed itself (5xx), so that any other 4xx is final. Otherwise there was no usable answer (no
  valid URL, no token, no response, or a 2xx that does not decode): the status is 0 and the error is transient.\<close>

theorem call_failure_classified:
  "case fst (client_do gl c method path query body dec w) of
     Inr _ \<Rightarrow> (case answered gl c method path query body w of None \<Rightarrow> False | Some p \<Rightarrow> accepted p)
   | Inl e \<Rightarrow>
       (case answered gl c method path query body w of
          Some p \<Rightarrow>
            if accepted p then is_transient e \<and> (\<exists>m. e = APIError (cl_service c) method path 0 (Lit m) None)
            else e = APIError (cl_service c) method path (hp_status p) (Lit (response_message p)) None \<and>
              is_transient e = (hp_status p \<in> {0, 429} \<or> 500 \<le> hp_status p)
        | None \<Rightarrow> is_transient e \<and> (\<exists>m cause. e = APIError (cl_service c) method path 0 (Lit m) cause))"
  unfolding client_do_def answered_def access_token_def accepted_def Let_def io_try_def
  by (auto simp del: not_None_eq split: sum.splits prod.splits option.splits raw_json.splits if_splits)

text \<open>A service that cannot be reached; its deletions.\<close>

definition down_client :: "unit client" where
  "down_client = \<lparr>cl_service = ''forge'', cl_base = ''http://f'', cl_http = (\<lambda>r. io_fail (Errorf (Lit ''refused''))),
     cl_tokens = None\<rparr>"

text \<open>Deletes are idempotent: deleting a watcher, tag, artifact or weave object succeeds exactly
  when the service answers 2xx or 404, and fails only with another error of that request.\<close>

theorem delete_idempotent:
  "ignore_not_found (do_unit gl c method path None) w = (r, w') \<Longrightarrow>
   (case do_unit gl c method path None w of
      (Inr u, w1) \<Rightarrow> r = Inr () \<and> w' = w1
    | (Inl e, w1) \<Rightarrow> w' = w1 \<and> call_error c method path e \<and>
        (if is_upstream_not_found e then r = Inr () else r = Inl e))"
  by (cases "do_unit gl c method path None w"; cases "fst (do_unit gl c method path None w)")
    (auto simp: ignore_not_found_cases dest: do_unit_errors split: if_splits)

definition gone_client :: "unit client" where
  "gone_client = down_client\<lparr>cl_http := (\<lambda>r. io_return \<lparr>hp_status = 404, hp_text = [], hp_json = RawEmpty\<rparr>)\<rparr>"

theorem delete_idempotent_witness: "delete_artifact url_lib gone_client 7 () = (Inr (), ())"
proof -
  have d: "do_unit url_lib gone_client ''DELETE'' (artifact_path 7) None () =
      (Inl (APIError ''forge'' ''DELETE'' (artifact_path 7) 404 (Lit (error_message [] RawEmpty)) None), ())"
    by (simp add: do_unit_def io_bind_def client_do_def gone_client_def down_client_def url_lib_def io_try_def
        response_message_def)
  obtain r w where r: "ignore_not_found (do_unit url_lib gone_client ''DELETE'' (artifact_path 7) None) () = (r, w)"
    by (metis surj_pair)
  from delete_idempotent[OF r] show ?thesis by (simp add: delete_artifact_def r d not_found_APIError)
qed

text \<open>C34: an operation on a named resource sends its requests to that resource only. Whatever the name (not empty)
  contains, the target is the collection of the operation and one path segment that reads as exactly this
  name: without a slash, a query or a fragment of its own, and different for different names. The operations are
  unchanged when every other request is answered by something else. (The names . and .. are segments of
  themselves; a server that cleans paths takes them for a directory.)\<close>

theorem requests_address_name:
  assumes "name \<noteq> []"
  shows "get_git_watcher gl (sent_to ''/api/v1/gitwatchers/'' name other c) name = get_git_watcher gl c name \<and>
    delete_git_watcher gl (sent_to ''/api/v1/gitwatchers/'' name other c) name = delete_git_watcher gl c name \<and>
    set_tag gl (sent_to (artifact_path i @ ''/tags/'') name other c) i name v = set_tag gl c i name v \<and>
    delete_tag gl (sent_to (artifact_path i @ ''/tags/'') name other c) i name = delete_tag gl c i name \<and>
    weave_get gl (sent_to (''/api/v1/'' @ coll @ ''/'') name other c) coll name = weave_get gl c coll name \<and>
    weave_delete gl (sent_to (''/api/v1/'' @ coll @ ''/'') name other c) coll name = weave_delete gl c coll name \<and>
    weave_fire gl (sent_to ''/api/v1/triggers/'' name other c) name = weave_fire gl c name \<and>
    weave_patch_labels gl (sent_to ''/api/v1/triggers/'' name other c) name ls = weave_patch_labels gl c name ls \<and>
    delete_batch_trigger gl (sent_to ''/api/v1/batchtriggers/'' name other c) name = delete_batch_trigger gl c name"
proof -
  note weave = weave_fire_def weave_patch_labels_def delete_batch_trigger_def weave_segment[OF assms] weave_collections
  have triggers: "''/api/v1/'' @ ''triggers'' @ ''/'' = ''/api/v1/triggers/''"
    "''/api/v1/'' @ ''batchtriggers'' @ ''/'' = ''/api/v1/batchtriggers/''" by simp_all
  have tags: "artifact_path i @ ''/tags/'' @ path_escape name = (artifact_path i @ ''/tags/'') @ path_escape name" by simp
  show ?thesis
    unfolding weave triggers get_git_watcher_def delete_git_watcher_def set_tag_def delete_tag_def tags weave_get_def weave_delete_def
      do_sent_to by (intro conjI refl)
qed

text \<open>A trigger whose name tries to reach another one, while every other request would be refused: the request is the
  one for this name, and the service says 404.\<close>

theorem requests_address_witness:
  "weave_delete url_lib (sent_to ''/api/v1/chains/'' ''a/../b'' (cl_http down_client) gone_client) WeaveChains ''a/../b'' () = (Inr (), ())"
proof -
  have "weave_delete url_lib gone_client ''chains'' ''a/../b'' () = (Inr (), ())"
    by (simp add: weave_delete_def ignore_not_found_cases do_unit_def io_bind_def client_do_def gone_client_def down_client_def
        url_lib_def io_try_def not_found_APIError Let_def)
  then show ?thesis
    using requests_address_name[where name = "''a/../b''" and gl = url_lib and c = gone_client and coll = "''chains''"
        and other = "cl_http down_client"] by (simp add: weave_collections)
qed

text \<open>C32: \<open>FindArtifact\<close> pages through the index's prefix matches and returns the first artifact with
  exactly the wanted name, or a 404 error when no page has one; a page bound of one more than the
  listing needs is never used up.\<close>

theorem find_artifact_correct:
  assumes "serves (artifact_page gl c nm) listing w" and "fuel > length listing div 100"
  shows "find_artifact gl fuel c nm w =
     (case find (\<lambda>a. a_full_name a = nm) listing of
        Some a \<Rightarrow> (Inr a, w)
      | None \<Rightarrow> (Inl (APIError ''index'' ''GET'' ''/api/v1/artifacts'' 404 (Fmt ''artifact %q not found'' [Lit nm]) None), w))"
proof -
  have "length listing \<le> 100 * (0 + fuel)" using assms(2) by (simp add: div_less_iff_less_mult less_imp_le mult.commute)
  then show ?thesis unfolding find_artifact_def
    using assms by (intro find_pages_finds) auto
qed

text \<open>An index that holds one artifact.\<close>

definition index_client :: "unit client" where
  "index_client = down_client\<lparr>cl_service := ''index'', cl_http := (\<lambda>r. io_return \<lparr>hp_status = 200, hp_text = [],
     hp_json = RawJson (JObj [(''items'', JArr [JObj [(''id'', JInt 4), (''fullName'', JStr ''app.x'')]]),
                              (''total'', JInt 1)])\<rparr>)\<rparr>"

lemma page_names:
  "fold_name ''items'' = ''items''" "fold_name ''total'' = ''total''" "fold_name ''id'' = ''id''"
  "fold_name ''fullName'' = ''fullname''" "fold_name ''description'' = ''description''"
  by (subst fold_name_ascii, code_simp, code_simp)+

theorem find_artifact_witness:
  "find_artifact url_lib 1 index_client ''app.x'' () = (Inr \<lparr>a_id = 4, a_full_name = ''app.x'', a_description = None\<rparr>, ())"
proof -
  let ?a = "\<lparr>a_id = 4, a_full_name = ''app.x'', a_description = None\<rparr>"
  have page: "dec_page [(''items'', JArr [JObj [(''id'', JInt 4), (''fullName'', JStr ''app.x'')]]), (''total'', JInt 1)] = Some ([?a], 1)"
    by (simp add: dec_page_def slice_field_def int_field_def dec_artifact_def str_field_def opt_field_def decode_field_def int64_ok_def
        page_names del: fold_name.simps)
  have "artifact_page url_lib index_client ''app.x'' 0 () = (Inr ([?a], 1), ())"
    by (simp add: artifact_page_def do_get_def io_bind_def client_do_def index_client_def down_client_def url_lib_def
        io_try_def page)
  then have "serves (artifact_page url_lib index_client ''app.x'') [?a] ()" by (simp add: serves_def)
  from find_artifact_correct[OF this, of 1] show ?thesis by simp
qed

end
