(* ===== verification/Ledger.thy ===== *)
theory Ledger
  imports Upstream
begin

text \<open>
  Package \<open>internal/ledger\<close>: which run steps use which upstream resource. One \<open>wizard_resource\<close>
  per resource is stored in Kubernetes; every mutation is a read-modify-write under optimistic
  concurrency, retried on conflict (\<open>client-go\<close>'s \<open>RetryOnConflict\<close> with the backoff of
  \<open>apimachinery\<close>'s \<open>wait\<close>, both vendored).
\<close>

section \<open>Names and hashes\<close>

definition LabelService :: string where "LabelService = ''wizard.fusion-platform.io/service''"
definition LabelKind :: string where "LabelKind = ''wizard.fusion-platform.io/kind''"
definition LabelManagedBy :: string where "LabelManagedBy = ''fusion-platform.io/managed-by''"
definition ManagedByWizard :: string where "ManagedByWizard = ''wizard''"
definition LabelRun :: string where "LabelRun = ''wizard.fusion-platform.io/run''"
definition maxBaseLen :: nat where "maxBaseLen = 54"

text \<open>\<open>Key\<close>.\<close>

record lkey =
  lk_service :: service_name
  lk_kind :: string
  lk_name :: string

definition hex_encode :: "string \<Rightarrow> string" where
  "hex_encode bs = concat (map (\<lambda>c. [hex_digit (of_char c div 16), hex_digit (of_char c mod 16)]) bs)"

definition key_text :: "lkey \<Rightarrow> string" where
  "key_text k = service_str (lk_service k) @ ''/'' @ lk_kind k @ ''/'' @ lk_name k"

definition object_name :: "go_lib \<Rightarrow> lkey \<Rightarrow> string" where
  "object_name gl k =
     (let sum = gl_sha256 gl (key_text k);
          base0 = trim_both CHR ''-'' (dash_runs False
            (to_lower (service_str (lk_service k) @ ''-'' @ lk_kind k @ ''-'' @ lk_name k)));
          base = (if length base0 > maxBaseLen then trim_right CHR ''-'' (take maxBaseLen base0) else base0)
      in base @ ''-'' @ hex_encode (take 4 sum))"

text \<open>\<open>Hash\<close>.\<close>

definition nul :: string where "nul = [CHR 0x00]"

definition ledger_hash :: "go_lib \<Rightarrow> string list \<Rightarrow> string" where
  "ledger_hash gl parts = hex_encode (take 8 (gl_sha256 gl (join nul parts)))"

section \<open>Kubernetes\<close>

text \<open>The client calls on \<open>WizardResource\<close> objects of one namespace, by object name.\<close>

record 'w kube =
  kb_get :: "string \<Rightarrow> ('w, wizard_resource) call"
  kb_create :: "wizard_resource \<Rightarrow> ('w, wizard_resource) call"
  kb_update :: "wizard_resource \<Rightarrow> ('w, wizard_resource) call"
  kb_delete :: "wizard_resource \<Rightarrow> ('w, unit) call"
  kb_list :: "('w, wizard_resource list) call"

text \<open>\<open>apierrors.ReasonForError\<close>: the reason of the first API status in the error's tree.\<close>

fun first_reason :: "err list \<Rightarrow> kube_reason option" where
  "first_reason [] = None"
| "first_reason (e # es) = (case e of KubeError r \<Rightarrow> Some r | _ \<Rightarrow> first_reason es)"

definition kube_reason_of :: "err \<Rightarrow> kube_reason option" where
  "kube_reason_of e = first_reason (err_tree e)"

definition kube_not_found :: "err \<Rightarrow> bool" where "kube_not_found e \<longleftrightarrow> kube_reason_of e = Some KubeNotFound"
definition kube_exists :: "err \<Rightarrow> bool" where "kube_exists e \<longleftrightarrow> kube_reason_of e = Some KubeAlreadyExists"
definition kube_conflict :: "err \<Rightarrow> bool" where "kube_conflict e \<longleftrightarrow> kube_reason_of e = Some KubeConflict"

lemma kube_reason_KubeError [simp]: "kube_reason_of (KubeError r) = Some r"
  by (simp add: kube_reason_of_def)

section \<open>Retrying conflicts\<close>

record backoff =
  bo_steps :: nat
  bo_duration :: time
  bo_cap :: time

text \<open>\<open>conflictBackoff\<close>; the factor is 1.5, the jitter only changes how long a wait takes.\<close>

definition conflictBackoff :: backoff where
  "conflictBackoff = \<lparr>bo_steps = 30, bo_duration = 5000000, bo_cap = 200000000\<rparr>"

text \<open>\<open>delay\<close>: the next duration and the steps left; reaching the cap ends the retries.\<close>

definition backoff_step :: "backoff \<Rightarrow> backoff" where
  "backoff_step b =
     (let next = bo_duration b * 3 div 2
      in if bo_cap b > 0 \<and> next > bo_cap b then b\<lparr>bo_duration := bo_cap b, bo_steps := 0\<rparr>
         else b\<lparr>bo_duration := next, bo_steps := bo_steps b - 1\<rparr>)"

lemma backoff_step_less: "bo_steps b > 0 \<Longrightarrow> bo_steps (backoff_step b) < bo_steps b"
  by (simp add: backoff_step_def Let_def)

text \<open>\<open>ExponentialBackoff\<close> under \<open>OnError\<close>: \<open>lerr\<close> is the last conflict seen; \<open>sleep\<close> is the wait
  between two attempts.\<close>

function retry_loop ::
  "('w \<Rightarrow> 'w) \<Rightarrow> backoff \<Rightarrow> err \<Rightarrow> ('w, 'a) call \<Rightarrow> ('w, 'a) call" where
  "retry_loop sleep b lerr f =
     (if bo_steps b = 0 then io_fail lerr
      else (\<lambda>w. case f w of
              (Inr a, w') \<Rightarrow> (Inr a, w')
            | (Inl e, w') \<Rightarrow>
                if \<not> kube_conflict e then (Inl e, w')
                else if bo_steps b = 1 then (Inl e, w')
                else retry_loop sleep (backoff_step b) e f (sleep w')))"
  by pat_completeness auto
termination
  by (relation "measure (\<lambda>(_, b, _). bo_steps b)") (auto intro: backoff_step_less)

declare retry_loop.simps [simp del]

text \<open>With no attempt at all the error would be nil; the backoff above allows some.\<close>

definition retry_on_conflict :: "('w \<Rightarrow> 'w) \<Rightarrow> ('w, 'a) call \<Rightarrow> ('w, 'a) call" where
  "retry_on_conflict sleep f = retry_loop sleep conflictBackoff (Panic ''no attempt'') f"

section \<open>Entries\<close>

definition hasRef :: "resource_reference list \<Rightarrow> resource_reference \<Rightarrow> bool" where
  "hasRef rs ref \<longleftrightarrow> ref \<in> set rs"

record new_entry =
  ne_managed :: bool
  ne_spec_hash :: string
  ne_external_id :: string

record add_options =
  ao_manage :: bool
  ao_external_id :: string

definition no_options :: add_options where
  "no_options = \<lparr>ao_manage = False, ao_external_id = []\<rparr>"

text \<open>What \<open>AddRef\<close> makes of an entry that is not terminating; unchanged entries are not written.\<close>

definition add_ref_entry :: "resource_reference \<Rightarrow> add_options \<Rightarrow> wizard_resource \<Rightarrow> wizard_resource" where
  "add_ref_entry ref opts e =
     (let e1 = (if hasRef (wr_refs e) ref then e else e\<lparr>wr_refs := wr_refs e @ [ref]\<rparr>);
          e2 = (if ao_manage opts \<and> \<not> wr_managed e1 then e1\<lparr>wr_managed := True\<rparr> else e1)
      in if ao_external_id opts \<noteq> [] \<and> wr_external_id e2 \<noteq> ao_external_id opts
         then e2\<lparr>wr_external_id := ao_external_id opts\<rparr> else e2)"

text \<open>What \<open>Release\<close> makes of an entry: the reference dropped, terminating when it was the last.\<close>

definition release_entry :: "resource_reference \<Rightarrow> wizard_resource \<Rightarrow> wizard_resource" where
  "release_entry ref e =
     (let e1 = e\<lparr>wr_refs := remove1 ref (wr_refs e)\<rparr>
      in if wr_refs e1 \<noteq> [] then e1 else e1\<lparr>wr_terminating := True\<rparr>)"

datatype outcome = OutcomeGone | OutcomeShared | OutcomeReleased | OutcomeDelete

section \<open>The ledger\<close>

text \<open>\<open>Ledger\<close>: the Kubernetes calls, and the waiting of the retries.\<close>

record 'w ledger =
  lg_kube :: "'w kube"
  lg_lib :: go_lib
  lg_sleep :: "'w \<Rightarrow> 'w"

definition ledger_get :: "'w ledger \<Rightarrow> lkey \<Rightarrow> ('w, wizard_resource option) call" where
  "ledger_get l k =
     io_try (kb_get (lg_kube l) (object_name (lg_lib l) k)) (\<lambda>r. case r of
       Inl e \<Rightarrow> if kube_not_found e then io_return None else io_fail e
     | Inr e \<Rightarrow> io_return (Some e))"

definition new_resource :: "go_lib \<Rightarrow> lkey \<Rightarrow> resource_reference \<Rightarrow> new_entry \<Rightarrow> wizard_resource" where
  "new_resource gl k ref n =
     \<lparr>wr_object = object_name gl k, wr_version = [],
      wr_labels = [(LabelService, service_str (lk_service k)), (LabelKind, lk_kind k)],
      wr_service = lk_service k, wr_kind = lk_kind k, wr_name = lk_name k,
      wr_external_id = ne_external_id n, wr_spec_hash = ne_spec_hash n, wr_managed = ne_managed n,
      wr_terminating = False, wr_refs = [ref]\<rparr>"

definition ledger_register ::
  "'w ledger \<Rightarrow> lkey \<Rightarrow> resource_reference \<Rightarrow> new_entry \<Rightarrow> ('w, wizard_resource) call" where
  "ledger_register l k ref n =
     io_try (kb_create (lg_kube l) (new_resource (lg_lib l) k ref n)) (\<lambda>r. case r of
       Inl e \<Rightarrow> if kube_exists e then io_fail ErrExists else io_fail e
     | Inr e \<Rightarrow> io_return e)"

text \<open>One attempt of \<open>AddRef\<close>.\<close>

definition add_ref_once ::
  "'w ledger \<Rightarrow> lkey \<Rightarrow> resource_reference \<Rightarrow> add_options \<Rightarrow> ('w, wizard_resource) call" where
  "add_ref_once l k ref opts =
     io_bind (ledger_get l k) (\<lambda>r. case r of
       None \<Rightarrow> io_fail ErrNotFound
     | Some e \<Rightarrow>
         if wr_terminating e then io_fail ErrTerminating
         else (let e' = add_ref_entry ref opts e
               in if e' = e then io_return e else kb_update (lg_kube l) e'))"

definition ledger_add_ref ::
  "'w ledger \<Rightarrow> lkey \<Rightarrow> resource_reference \<Rightarrow> add_options \<Rightarrow> ('w, wizard_resource) call" where
  "ledger_add_ref l k ref opts = retry_on_conflict (lg_sleep l) (add_ref_once l k ref opts)"

text \<open>Deleting an entry that may already be gone.\<close>

definition delete_entry :: "'w ledger \<Rightarrow> wizard_resource \<Rightarrow> ('w, unit) call" where
  "delete_entry l e =
     io_try (kb_delete (lg_kube l) e) (\<lambda>r. case r of
       Inl x \<Rightarrow> if kube_not_found x then io_return () else io_fail x
     | Inr u \<Rightarrow> io_return ())"

text \<open>One attempt of \<open>Release\<close>.\<close>

definition release_once ::
  "'w ledger \<Rightarrow> lkey \<Rightarrow> resource_reference \<Rightarrow> ('w, outcome \<times> wizard_resource option) call" where
  "release_once l k ref =
     io_bind (ledger_get l k) (\<lambda>r. case r of
       None \<Rightarrow> io_return (OutcomeGone, None)
     | Some e \<Rightarrow>
         (let e' = release_entry ref e
          in io_bind (if e' = e then io_return e else kb_update (lg_kube l) e') (\<lambda>e1.
               if wr_refs e1 \<noteq> [] then io_return (OutcomeShared, Some e1)
               else if wr_managed e1 then io_return (OutcomeDelete, Some e1)
               else io_bind (delete_entry l e1) (\<lambda>_. io_return (OutcomeReleased, Some e1)))))"

definition ledger_release ::
  "'w ledger \<Rightarrow> lkey \<Rightarrow> resource_reference \<Rightarrow> ('w, outcome \<times> wizard_resource option) call" where
  "ledger_release l k ref = retry_on_conflict (lg_sleep l) (release_once l k ref)"

definition ledger_finish :: "'w ledger \<Rightarrow> lkey \<Rightarrow> ('w, unit) call" where
  "ledger_finish l k =
     io_bind (ledger_get l k) (\<lambda>r. case r of None \<Rightarrow> io_return () | Some e \<Rightarrow> delete_entry l e)"

definition ledger_list :: "'w ledger \<Rightarrow> ('w, wizard_resource list) call" where
  "ledger_list l = kb_list (lg_kube l)"

end
