(* ===== verification/LedgerProps.thy ===== *)
theory LedgerProps
  imports Ledger
begin

text \<open>
  What the ledger promises. Names and hashes first; then the contract of the Kubernetes store
  (locale \<open>kube_store\<close>), under which each ledger operation is one atomic change of one entry by a
  pure function, with other clients of the store free to act before and after it; then the
  invariant every operation keeps.
\<close>

section \<open>Names\<close>

lemma hex_digit_alnum: "n < 16 \<Longrightarrow> is_alnum (hex_digit n)"
  by (auto simp: hex_digit_def is_alnum_def is_digit_def is_lower_def of_char_of)

lemma hex_encode_length [simp]: "length (hex_encode bs) = 2 * length bs"
  by (induction bs) (auto simp: hex_encode_def)

lemma hex_encode_alnum: "c \<in> set (hex_encode bs) \<Longrightarrow> is_alnum c"
  using of_char_div16 by (auto simp: hex_encode_def hex_digit_alnum)

lemma of_char_hex_digit: "n < 16 \<Longrightarrow> (of_char (hex_digit n) :: nat) = (if n < 10 then 48 + n else 87 + n)"
  by (simp add: hex_digit_def of_char_of)

lemma hex_digit_inj: "m < 16 \<Longrightarrow> n < 16 \<Longrightarrow> hex_digit m = hex_digit n \<Longrightarrow> m = n"
  by (drule arg_cong[of _ _ "of_char :: char \<Rightarrow> nat"]) (auto simp: of_char_hex_digit split: if_splits)

lemma hex_byte_inj:
  assumes "hex_digit (of_char c div 16) = hex_digit (of_char d div 16)"
    and "hex_digit (of_char c mod 16) = hex_digit (of_char d mod 16)"
  shows "c = d"
proof -
  have "(of_char c :: nat) div 16 = of_char d div 16"
    by (rule hex_digit_inj[OF of_char_div16 of_char_div16 assms(1)])
  moreover have "(of_char c :: nat) mod 16 = of_char d mod 16"
    by (rule hex_digit_inj[OF _ _ assms(2)]) simp_all
  ultimately have "(of_char c :: nat) = of_char d" by (metis div_mult_mod_eq)
  then show "c = d" by simp
qed

lemma hex_encode_inj: "hex_encode bs = hex_encode cs \<Longrightarrow> bs = cs"
proof (induction bs arbitrary: cs)
  case Nil
  then show ?case using hex_encode_length[of cs] by (auto simp: hex_encode_def)
next
  case (Cons b bs)
  then obtain c cs' where cs: "cs = c # cs'"
    using hex_encode_length[of "b # bs"] hex_encode_length[of cs] by (cases cs) auto
  with Cons.prems have "b = c" and "hex_encode bs = hex_encode cs'"
    by (auto simp: hex_encode_def intro: hex_byte_inj)
  with Cons.IH cs show ?case by simp
qed

lemma to_lower_head: "a \<noteq> CHR 0xE2 \<Longrightarrow> a \<noteq> CHR 0xC4 \<Longrightarrow> \<exists>t. to_lower (a # s) = lower_char a # t"
  by (cases s rule: list.exhaust; cases "tl s") (auto simp: bytes_def char_of_eq_iff)

text \<open>The sanitised text of a key starts with the service name's first letter.\<close>

definition key_base :: "lkey \<Rightarrow> string" where
  "key_base k = dash_runs False (to_lower (service_str (lk_service k) @ ''-'' @ lk_kind k @ ''-'' @ lk_name k))"

lemma key_base_hd: "\<exists>c t. key_base k = c # t \<and> is_alnum c"
proof -
  obtain a s where a: "service_str (lk_service k) @ ''-'' @ lk_kind k @ ''-'' @ lk_name k = a # s" "a \<in> set ''fiw''"
    by (cases "lk_service k") auto
  have l: "lower_char a = a" "is_alnum a" "a \<noteq> CHR 0xE2" "a \<noteq> CHR 0xC4"
    using a(2) by (auto simp: lower_char_def is_upper_def is_alnum_def is_lower_def)
  then obtain t where "to_lower (a # s) = a # t" using to_lower_head[of a s] by (auto simp del: to_lower.simps)
  then show ?thesis unfolding key_base_def a(1) using l(2) by (simp del: to_lower.simps)
qed

lemma trim_right_keep_hd:
  assumes "s = c # t" "c \<noteq> d"
  shows "\<exists>u. trim_right d s = c # u"
  using assms trim_right_nonempty[of s d] trim_right_hd[of d s] by (cases "trim_right d s") auto

lemma object_name_form:
  "\<exists>b. object_name gl k = b @ ''-'' @ hex_encode (take 4 (gl_sha256 gl (key_text k))) \<and>
     length b \<le> 54 \<and> dashed False b \<and> (\<exists>c t. b = c # t \<and> is_alnum c)"
proof -
  let ?full = "trim_both CHR ''-'' (key_base k)"
  let ?b = "if length ?full > maxBaseLen then trim_right CHR ''-'' (take maxBaseLen ?full) else ?full"
  obtain c t where c: "key_base k = c # t" "is_alnum c" using key_base_hd by blast
  then have cd: "c \<noteq> CHR ''-''" by auto
  then have drop: "dropWhile (\<lambda>x. x = CHR ''-'') (key_base k) = key_base k" by (simp add: c(1))
  have d: "dashed False (key_base k)" by (simp add: key_base_def dashed_dash_runs)
  have d0: "dashed False ?full" using d by (simp add: trim_both_def drop dashed_trim_right)
  obtain u where u: "?full = c # u" using trim_right_keep_hd[OF c(1) cd] by (auto simp: trim_both_def drop)
  then have "\<exists>v. take maxBaseLen ?full = c # v" by (simp add: maxBaseLen_def)
  then obtain v where v: "take maxBaseLen ?full = c # v" by blast
  obtain w where w: "trim_right CHR ''-'' (take maxBaseLen ?full) = c # w"
    using trim_right_keep_hd[OF v cd] by blast
  have "object_name gl k = ?b @ ''-'' @ hex_encode (take 4 (gl_sha256 gl (key_text k)))"
    by (simp add: object_name_def key_base_def Let_def)
  moreover have "length ?b \<le> 54"
    using trim_right_length[of "CHR ''-''" "take maxBaseLen ?full"] by (simp add: maxBaseLen_def)
  moreover have "dashed False ?b"
    using d0 dashed_trim_right[OF dashed_take[OF d0]] by (cases "length ?full > maxBaseLen") (simp_all only: if_True if_False)
  moreover have "\<exists>c t. ?b = c # t \<and> is_alnum c" using u w c(2) by auto
  ultimately show ?thesis by blast
qed

lemma object_name_dns:
  assumes "length (gl_sha256 gl (key_text k)) = 32"
  shows "dns_label (object_name gl k)"
proof -
  let ?h = "hex_encode (take 4 (gl_sha256 gl (key_text k)))"
  obtain b c t where b: "object_name gl k = b @ ''-'' @ ?h" "length b \<le> 54" "dashed False b" "b = c # t" "is_alnum c"
    using object_name_form[of gl k] by blast
  have h: "length ?h = 8" using assms by simp
  then have ne: "?h \<noteq> []" by (metis list.size(3) zero_neq_numeral)
  then have "last ?h \<in> set ?h" by simp
  then have "is_alnum (last ?h)" by (rule hex_encode_alnum)
  moreover have "\<forall>x\<in>set (object_name gl k). is_alnum x \<or> x = CHR ''-''"
    using dashed_chars[OF b(3)] hex_encode_alnum by (auto simp: b(1))
  moreover have "length (object_name gl k) \<le> 63" using b(2) h by (simp add: b(1))
  ultimately show ?thesis using b(4,5) ne by (auto simp: dns_label_def b(1))
qed

lemma key_text_inj:
  assumes "CHR ''/'' \<notin> set (lk_kind k)" "CHR ''/'' \<notin> set (lk_kind j)" "key_text k = key_text j"
  shows "k = j"
proof -
  have svc: "CHR ''/'' \<notin> set (service_str s)" for s by (cases s) auto
  have split: "split_on CHR ''/'' (key_text x) = service_str (lk_service x) # lk_kind x # split_on CHR ''/'' (lk_name x)"
    if "CHR ''/'' \<notin> set (lk_kind x)" for x
    using that svc[of "lk_service x"] by (simp add: key_text_def split_on_append_sep)
  have "service_str (lk_service k) = service_str (lk_service j)" "lk_kind k = lk_kind j"
    "split_on CHR ''/'' (lk_name k) = split_on CHR ''/'' (lk_name j)"
    using split[OF assms(1)] split[OF assms(2)] assms(3) by auto
  moreover from this(3) have "lk_name k = lk_name j" by (metis join_split_on)
  ultimately show "k = j" using service_str_inj by (intro lkey.equality) auto
qed

text \<open>Two keys share an object name only when the first four bytes of their digests agree.\<close>

lemma object_name_collision:
  assumes "object_name gl k = object_name gl j"
    and "length (gl_sha256 gl (key_text k)) = 32" "length (gl_sha256 gl (key_text j)) = 32"
  shows "take 4 (gl_sha256 gl (key_text k)) = take 4 (gl_sha256 gl (key_text j))"
proof -
  let ?h = "\<lambda>x. hex_encode (take 4 (gl_sha256 gl (key_text x)))"
  obtain b b' where "object_name gl k = (b @ ''-'') @ ?h k" "object_name gl j = (b' @ ''-'') @ ?h j"
    using object_name_form[of gl k] object_name_form[of gl j] by auto
  moreover have "length (?h k) = length (?h j)" using assms(2,3) by simp
  ultimately have "?h k = ?h j"
    using append_eq_append_conv[of "b @ ''-''" "b' @ ''-''" "?h k" "?h j"] assms(1) by metis
  then show ?thesis by (rule hex_encode_inj)
qed

section \<open>Hashes\<close>

lemma join_nul_inj:
  assumes "ps \<noteq> []" "qs \<noteq> []" "\<forall>p\<in>set ps \<union> set qs. CHR 0x00 \<notin> set p" "join nul ps = join nul qs"
  shows "ps = qs"
  using assms by (intro join_inj[of ps qs "CHR 0x00"]) (auto simp: nul_def)

lemma ledger_hash_eq:
  assumes "ledger_hash gl ps = ledger_hash gl qs"
  shows "take 8 (gl_sha256 gl (join nul ps)) = take 8 (gl_sha256 gl (join nul qs))"
  using hex_encode_inj assms unfolding ledger_hash_def by blast

section \<open>The contract of the store\<close>

text \<open>Two versions of one object: all but the resource version agree.\<close>

definition same_object :: "wizard_resource \<Rightarrow> wizard_resource \<Rightarrow> bool" where
  "same_object a b \<longleftrightarrow>
     wr_object b = wr_object a \<and> wr_labels b = wr_labels a \<and> wr_service b = wr_service a \<and>
     wr_kind b = wr_kind a \<and> wr_name b = wr_name a \<and> wr_external_id b = wr_external_id a \<and>
     wr_spec_hash b = wr_spec_hash a \<and> wr_managed b = wr_managed a \<and>
     wr_terminating b = wr_terminating a \<and> wr_refs b = wr_refs a"

lemma same_object_fields:
  assumes "same_object a b"
  shows "wr_object b = wr_object a" "wr_refs b = wr_refs a" "wr_managed b = wr_managed a"
    "wr_terminating b = wr_terminating a" "wr_external_id b = wr_external_id a"
    "wr_spec_hash b = wr_spec_hash a" "wr_service b = wr_service a" "wr_kind b = wr_kind a"
    "wr_name b = wr_name a"
  using assms by (simp_all add: same_object_def)

lemma same_object_refl [simp]: "same_object a a"
  by (simp add: same_object_def)

lemma add_ref_object [simp]: "wr_object (add_ref_entry ref opts e) = wr_object e"
  "wr_service (add_ref_entry ref opts e) = wr_service e" "wr_kind (add_ref_entry ref opts e) = wr_kind e"
  "wr_name (add_ref_entry ref opts e) = wr_name e"
  "wr_version (add_ref_entry ref opts e) = wr_version e"
  "wr_terminating (add_ref_entry ref opts e) = wr_terminating e"
  by (simp_all add: add_ref_entry_def Let_def)

lemma release_object [simp]: "wr_object (release_entry ref e) = wr_object e"
  "wr_service (release_entry ref e) = wr_service e" "wr_kind (release_entry ref e) = wr_kind e"
  "wr_name (release_entry ref e) = wr_name e"
  "wr_version (release_entry ref e) = wr_version e" "wr_managed (release_entry ref e) = wr_managed e"
  "wr_refs (release_entry ref e) = remove1 ref (wr_refs e)"
  by (simp_all add: release_entry_def Let_def)

text \<open>
  \<open>view w n\<close> is the object stored under \<open>n\<close>, \<open>known w\<close> the object versions that were ever handed
  out, \<open>env\<close> what other clients of the store may do to the world between our steps. A call reads
  or changes one entry, at one moment between arbitrary steps of the others (\<open>reads\<close>, \<open>acts\<close>).
\<close>

definition reads ::
  "('w \<Rightarrow> string \<Rightarrow> wizard_resource option) \<Rightarrow> ('w \<Rightarrow> 'w \<Rightarrow> bool) \<Rightarrow> 'w \<Rightarrow> 'w \<Rightarrow> string \<Rightarrow>
   wizard_resource option \<Rightarrow> bool" where
  "reads view env w w' n x \<longleftrightarrow> (\<exists>w1. env w w1 \<and> view w1 n = x \<and> env w1 w')"

definition acts ::
  "('w \<Rightarrow> string \<Rightarrow> wizard_resource option) \<Rightarrow> ('w \<Rightarrow> 'w \<Rightarrow> bool) \<Rightarrow> 'w \<Rightarrow> 'w \<Rightarrow> string \<Rightarrow>
   wizard_resource option \<Rightarrow> wizard_resource option \<Rightarrow> bool" where
  "acts view env w w' n x y \<longleftrightarrow>
     (\<exists>w1 w2. env w w1 \<and> view w1 n = x \<and> view w2 = (view w1)(n := y) \<and> env w2 w')"

text \<open>
  The laws: an update succeeds only on the very version it was derived from, a creation only where
  nothing is stored, a deletion whatever is stored. A failed call changes nothing, or it made its
  change and the answer was lost; a conflict, a missing and an existing object are never lost
  answers.
\<close>

locale kube_store =
  fixes kube :: "'w kube"
    and view :: "'w \<Rightarrow> string \<Rightarrow> wizard_resource option"
    and known :: "'w \<Rightarrow> wizard_resource set"
    and env :: "'w \<Rightarrow> 'w \<Rightarrow> bool"
  assumes env_refl: "env w w"
    and env_trans: "env w w1 \<Longrightarrow> env w1 w2 \<Longrightarrow> env w w2"
    and get_ok: "kb_get kube n w = (Inr e, w') \<Longrightarrow>
      reads view env w w' n (Some e) \<and> wr_object e = n \<and> e \<in> known w'"
    and get_err: "kb_get kube n w = (Inl x, w') \<Longrightarrow>
      env w w' \<and> (kube_not_found x \<longrightarrow> reads view env w w' n None)"
    and create_ok: "kb_create kube e w = (Inr e', w') \<Longrightarrow>
      acts view env w w' (wr_object e) None (Some e') \<and> same_object e e'"
    and create_err: "kb_create kube e w = (Inl x, w') \<Longrightarrow>
      if kube_exists x then \<exists>c. reads view env w w' (wr_object e) (Some c)
      else env w w' \<or> (\<exists>e'. acts view env w w' (wr_object e) None (Some e') \<and> same_object e e')"
    and update_ok: "kb_update kube e w = (Inr e', w') \<Longrightarrow> e0 \<in> known w \<Longrightarrow>
      wr_object e0 = wr_object e \<Longrightarrow> wr_version e0 = wr_version e \<Longrightarrow>
      acts view env w w' (wr_object e) (Some e0) (Some e') \<and> same_object e e'"
    and update_err: "kb_update kube e w = (Inl x, w') \<Longrightarrow> e0 \<in> known w \<Longrightarrow>
      wr_object e0 = wr_object e \<Longrightarrow> wr_version e0 = wr_version e \<Longrightarrow>
      if kube_conflict x then env w w'
      else env w w' \<or> (\<exists>e'. acts view env w w' (wr_object e) (Some e0) (Some e') \<and> same_object e e')"
    and delete_ok: "kb_delete kube e w = (Inr u, w') \<Longrightarrow> \<exists>c. acts view env w w' (wr_object e) c None"
    and delete_err: "kb_delete kube e w = (Inl x, w') \<Longrightarrow>
      if kube_not_found x then reads view env w w' (wr_object e) None
      else (\<not> kube_conflict x \<and> (env w w' \<or> (\<exists>c. acts view env w w' (wr_object e) c None)))"
    and list_ok: "kb_list kube w = (Inr es, w') \<Longrightarrow>
      \<exists>w1. env w w1 \<and> env w1 w' \<and> (\<forall>n e. view w1 n = Some e \<longleftrightarrow> e \<in> set es \<and> wr_object e = n)"
    and list_err: "kb_list kube w = (Inl x, w') \<Longrightarrow> env w w'"

text \<open>A ledger over such a store; waiting between two attempts is time for the others.\<close>

locale ledger_store = kube_store kube view known env
  for kube :: "'w kube" and view :: "'w \<Rightarrow> string \<Rightarrow> wizard_resource option"
    and known :: "'w \<Rightarrow> wizard_resource set" and env :: "'w \<Rightarrow> 'w \<Rightarrow> bool" +
  fixes l :: "'w ledger"
  assumes lg_kube: "lg_kube l = kube"
    and sleep: "env w (lg_sleep l w)"
begin

abbreviation rd :: "'w \<Rightarrow> 'w \<Rightarrow> string \<Rightarrow> wizard_resource option \<Rightarrow> bool" where
  "rd \<equiv> reads view env"

abbreviation act :: "'w \<Rightarrow> 'w \<Rightarrow> string \<Rightarrow> wizard_resource option \<Rightarrow> wizard_resource option \<Rightarrow> bool" where
  "act \<equiv> acts view env"

abbreviation nm :: "lkey \<Rightarrow> string" where
  "nm k \<equiv> object_name (lg_lib l) k"

lemma rd_env: "rd w w' n x \<Longrightarrow> env w w'"
  unfolding reads_def using env_trans by blast

lemma rd_before: "env w w1 \<Longrightarrow> rd w1 w' n x \<Longrightarrow> rd w w' n x"
  and rd_after: "rd w w1 n x \<Longrightarrow> env w1 w' \<Longrightarrow> rd w w' n x"
  unfolding reads_def using env_trans by blast+

lemma act_before: "env w w1 \<Longrightarrow> act w1 w' n x y \<Longrightarrow> act w w' n x y"
  and act_after: "act w w1 n x y \<Longrightarrow> env w1 w' \<Longrightarrow> act w w' n x y"
  unfolding acts_def using env_trans by blast+

lemma get_Some: "ledger_get l k w = (Inr (Some e), w') \<Longrightarrow> rd w w' (nm k) (Some e) \<and> wr_object e = nm k \<and> e \<in> known w'"
  and get_None: "ledger_get l k w = (Inr None, w') \<Longrightarrow> rd w w' (nm k) None"
  and get_Inl: "ledger_get l k w = (Inl x, w') \<Longrightarrow> env w w' \<and> \<not> kube_not_found x"
  by (auto simp: ledger_get_def io_try_def lg_kube dest: get_ok get_err split: prod.splits sum.splits if_splits)

lemma get_env: "ledger_get l k w = (r, w') \<Longrightarrow> env w w'"
  using get_Some get_None get_Inl rd_env by (cases r; cases "projr r") fastforce+

text \<open>Retries only add steps of the others before the attempt that counts.\<close>

lemma retry_loop_rule:
  assumes conflict: "\<And>w e w'. f w = (Inl e, w') \<Longrightarrow> kube_conflict e \<Longrightarrow> env w w'"
    and before: "\<And>w w1 r w'. env w w1 \<Longrightarrow> R w1 r w' \<Longrightarrow> R w r w'"
    and after: "\<And>w r w1 w'. R w r w1 \<Longrightarrow> env w1 w' \<Longrightarrow> R w r w'"
    and attempt: "\<And>w r w'. f w = (r, w') \<Longrightarrow> R w r w'"
  shows "retry_loop (lg_sleep l) b le f w = (r, w') \<Longrightarrow> bo_steps b > 0 \<Longrightarrow> R w r w'"
proof (induction "bo_steps b" arbitrary: b le w rule: less_induct)
  case less
  obtain r1 w1 where f: "f w = (r1, w1)" by fastforce
  show ?case
  proof (cases "\<exists>e. r1 = Inl e \<and> kube_conflict e \<and> bo_steps b \<noteq> 1")
    case True
    then obtain e where e: "r1 = Inl e" "kube_conflict e" "bo_steps b \<noteq> 1" by blast
    have retry: "retry_loop (lg_sleep l) (backoff_step b) e f (lg_sleep l w1) = (r, w')"
      using less(2,3) f e by (simp add: retry_loop.simps[of _ b])
    have env: "env w (lg_sleep l w1)" using conflict[of w e w1] f e sleep env_trans by blast
    show ?thesis
    proof (cases "bo_steps (backoff_step b) = 0")
      case True
      with retry have "r = Inl e" "w' = lg_sleep l w1" by (simp_all add: retry_loop.simps)
      then show ?thesis using attempt[OF f] e(1) after sleep by blast
    next
      case False
      with less(1)[OF backoff_step_less[OF less(3)] retry] env before show ?thesis by blast
    qed
  next
    case False
    with less(2,3) f have "r = r1" "w' = w1"
      by (auto simp: retry_loop.simps[of _ b] split: sum.splits if_splits)
    with attempt[OF f] show ?thesis by simp
  qed
qed

section \<open>Every operation is one change of one entry\<close>

lemma retry_rule:
  assumes "retry_on_conflict (lg_sleep l) f w = (r, w')"
    and "\<And>w e w'. f w = (Inl e, w') \<Longrightarrow> kube_conflict e \<Longrightarrow> env w w'"
    and "\<And>w w1 r w'. env w w1 \<Longrightarrow> R w1 r w' \<Longrightarrow> R w r w'"
    and "\<And>w r w1 w'. R w r w1 \<Longrightarrow> env w1 w' \<Longrightarrow> R w r w'"
    and "\<And>w r w'. f w = (r, w') \<Longrightarrow> R w r w'"
  shows "R w r w'"
  using assms(1) retry_loop_rule[of f R, OF assms(2-5)] by (simp add: retry_on_conflict_def conflictBackoff_def)

lemma register_ok:
  "ledger_register l k ref n w = (Inr e', w') \<Longrightarrow>
   act w w' (nm k) None (Some e') \<and> same_object (new_resource (lg_lib l) k ref n) e'"
  using create_ok[of "new_resource (lg_lib l) k ref n"]
  by (auto simp: ledger_register_def io_try_def lg_kube new_resource_def split: prod.splits sum.splits if_splits)

lemma kube_reason_sentinels [simp]:
  "\<not> kube_conflict ErrNotFound" "\<not> kube_conflict ErrTerminating" "\<not> kube_exists ErrExists"
  by (simp_all add: kube_conflict_def kube_exists_def kube_reason_of_def)

text \<open>A failed registration: the entry exists, nothing happened, or the answer was lost.\<close>

lemma register_err:
  "ledger_register l k ref n w = (Inl x, w') \<Longrightarrow>
   (\<exists>c. rd w w' (nm k) (Some c)) \<or> env w w' \<or>
   (\<exists>e'. act w w' (nm k) None (Some e') \<and> same_object (new_resource (lg_lib l) k ref n) e')"
  using create_err[of "new_resource (lg_lib l) k ref n" w]
  by (auto simp: ledger_register_def io_try_def lg_kube new_resource_def split: prod.splits sum.splits if_splits)

text \<open>The two ways one attempt of \<open>AddRef\<close> writes: not at all, or one update.\<close>

definition added :: "lkey \<Rightarrow> resource_reference \<Rightarrow> add_options \<Rightarrow> 'w \<Rightarrow> 'w \<Rightarrow> wizard_resource \<Rightarrow> wizard_resource \<Rightarrow> bool" where
  "added k ref opts w w' e e' \<longleftrightarrow>
     \<not> wr_terminating e \<and> wr_object e = nm k \<and> same_object (add_ref_entry ref opts e) e' \<and>
     act w w' (nm k) (Some e) (Some e')"

lemma add_ref_once_ok:
  assumes "add_ref_once l k ref opts w = (Inr e', w')"
  shows "(add_ref_entry ref opts e' = e' \<and> \<not> wr_terminating e' \<and> wr_object e' = nm k \<and> rd w w' (nm k) (Some e')) \<or>
         (\<exists>e. added k ref opts w w' e e')"
proof -
  obtain e w1 where g: "ledger_get l k w = (Inr (Some e), w1)" and t: "\<not> wr_terminating e"
    and u: "(if add_ref_entry ref opts e = e then (Inr e, w1) else kb_update kube (add_ref_entry ref opts e) w1) = (Inr e', w')"
    using assms by (auto simp: add_ref_once_def Let_def lg_kube elim!: io_bind_cases split: option.splits if_splits)
  note e = get_Some[OF g]
  show ?thesis
  proof (cases "add_ref_entry ref opts e = e")
    case True
    with u e t show ?thesis by auto
  next
    case False
    with u have "kb_update kube (add_ref_entry ref opts e) w1 = (Inr e', w')" by simp
    from update_ok[OF this, of e] e have "act w1 w' (nm k) (Some e) (Some e')" "same_object (add_ref_entry ref opts e) e'"
      by auto
    with e t act_before[OF get_env[OF g]] show ?thesis unfolding added_def by blast
  qed
qed

lemma add_ref_once_err:
  assumes "add_ref_once l k ref opts w = (Inl x, w')"
  shows "(x = ErrTerminating \<and> (\<exists>e. wr_terminating e \<and> rd w w' (nm k) (Some e))) \<or>
     (x = ErrNotFound \<and> rd w w' (nm k) None) \<or> env w w' \<or> (\<not> kube_conflict x \<and> (\<exists>e e'. added k ref opts w w' e e'))"
  using assms unfolding add_ref_once_def
proof (cases rule: io_bind_cases)
  case fail
  then show ?thesis using get_Inl by auto
next
  case (ok a w1)
  show ?thesis
  proof (cases a)
    case None
    with ok show ?thesis using get_None[of k w w1] by auto
  next
    case (Some e)
    note e = get_Some[OF ok(1)[unfolded Some]]
    show ?thesis
    proof (cases "wr_terminating e")
      case True
      with ok Some e show ?thesis by auto
    next
      case False
      with ok(2) Some have u: "kb_update kube (add_ref_entry ref opts e) w1 = (Inl x, w')"
        by (auto simp: Let_def lg_kube split: if_splits)
      from update_err[OF u, of e] e
      have "env w1 w' \<or> (\<not> kube_conflict x \<and> (\<exists>e'. act w1 w' (nm k) (Some e) (Some e') \<and> same_object (add_ref_entry ref opts e) e'))"
        by (auto split: if_splits)
      with e False get_env[OF ok(1)] show ?thesis unfolding added_def by (meson act_before env_trans)
    qed
  qed
qed

lemma added_before: "env w w1 \<Longrightarrow> added k ref opts w1 w' e e' \<Longrightarrow> added k ref opts w w' e e'"
  and added_after: "added k ref opts w w1 e e' \<Longrightarrow> env w1 w' \<Longrightarrow> added k ref opts w w' e e'"
  unfolding added_def using act_before act_after by blast+

lemma add_ref_ok:
  assumes "ledger_add_ref l k ref opts w = (Inr e', w')"
  shows "(add_ref_entry ref opts e' = e' \<and> \<not> wr_terminating e' \<and> wr_object e' = nm k \<and> rd w w' (nm k) (Some e')) \<or>
         (\<exists>e. added k ref opts w w' e e')"
proof -
  let ?R = "\<lambda>w (r :: err + wizard_resource) w'. case r of Inl x \<Rightarrow> True | Inr e' \<Rightarrow>
    (add_ref_entry ref opts e' = e' \<and> \<not> wr_terminating e' \<and> wr_object e' = nm k \<and> rd w w' (nm k) (Some e')) \<or>
    (\<exists>e. added k ref opts w w' e e')"
  have "?R w (Inr e') w'"
  proof (rule retry_rule[where R = ?R, OF assms[unfolded ledger_add_ref_def]])
    show "env v v'" if "add_ref_once l k ref opts v = (Inl x, v')" "kube_conflict x" for v x v'
      using add_ref_once_err[OF that(1)] that(2) by (auto dest: rd_env)
    show "?R v r v'" if "env v v1" "?R v1 r v'" for v v1 r v'
      using that by (auto split: sum.splits dest: rd_before added_before)
    show "?R v r v'" if "?R v r v1" "env v1 v'" for v r v1 v'
      using that by (auto split: sum.splits dest: rd_after added_after)
    show "?R v r v'" if "add_ref_once l k ref opts v = (r, v')" for v r v'
      using that by (cases r) (auto dest: add_ref_once_ok)
  qed
  then show ?thesis by simp
qed

lemma add_ref_err:
  assumes "ledger_add_ref l k ref opts w = (Inl x, w')"
  shows "(x = ErrTerminating \<and> (\<exists>e. wr_terminating e \<and> rd w w' (nm k) (Some e))) \<or>
     (x = ErrNotFound \<and> rd w w' (nm k) None) \<or> env w w' \<or> (\<exists>e e'. added k ref opts w w' e e')"
proof -
  let ?R = "\<lambda>w (r :: err + wizard_resource) w'. case r of Inr e' \<Rightarrow> True | Inl x \<Rightarrow>
    (x = ErrTerminating \<and> (\<exists>e. wr_terminating e \<and> rd w w' (nm k) (Some e))) \<or>
    (x = ErrNotFound \<and> rd w w' (nm k) None) \<or> env w w' \<or> (\<exists>e e'. added k ref opts w w' e e')"
  have "?R w (Inl x) w'"
  proof (rule retry_rule[where R = ?R, OF assms[unfolded ledger_add_ref_def]])
    show "env v v'" if "add_ref_once l k ref opts v = (Inl y, v')" "kube_conflict y" for v y v'
      using add_ref_once_err[OF that(1)] that(2) by (auto dest: rd_env)
    show "?R v r v'" if "env v v1" "?R v1 r v'" for v v1 r v'
      using that by (cases r) (auto dest: rd_before added_before env_trans)
    show "?R v r v'" if "?R v r v1" "env v1 v'" for v r v1 v'
      using that by (cases r) (auto dest: rd_after added_after env_trans)
    show "?R v r v'" if "add_ref_once l k ref opts v = (r, v')" for v r v'
      using that by (cases r) (auto dest: add_ref_once_err)
  qed
  then show ?thesis by simp
qed

text \<open>Dropping a reference: the entry is left as it was, or one update wrote it without the reference.\<close>

definition dropped :: "lkey \<Rightarrow> resource_reference \<Rightarrow> 'w \<Rightarrow> 'w \<Rightarrow> wizard_resource \<Rightarrow> bool" where
  "dropped k ref w w' e' \<longleftrightarrow>
     (release_entry ref e' = e' \<and> wr_object e' = nm k \<and> rd w w' (nm k) (Some e')) \<or>
     (\<exists>e. wr_object e = nm k \<and> same_object (release_entry ref e) e' \<and> act w w' (nm k) (Some e) (Some e'))"

definition removed :: "lkey \<Rightarrow> 'w \<Rightarrow> 'w \<Rightarrow> bool" where
  "removed k w w' \<longleftrightarrow> rd w w' (nm k) None \<or> (\<exists>c. act w w' (nm k) c None)"

lemma dropped_before: "env w w1 \<Longrightarrow> dropped k ref w1 w' e \<Longrightarrow> dropped k ref w w' e"
  and dropped_after: "dropped k ref w w1 e \<Longrightarrow> env w1 w' \<Longrightarrow> dropped k ref w w' e"
  and removed_before: "env w w1 \<Longrightarrow> removed k w1 w' \<Longrightarrow> removed k w w'"
  and removed_after: "removed k w w1 \<Longrightarrow> env w1 w' \<Longrightarrow> removed k w w'"
  unfolding dropped_def removed_def using act_before act_after rd_before rd_after by meson+

lemma delete_entry_ok:
  "delete_entry l e w = (Inr u, w') \<Longrightarrow> wr_object e = nm k \<Longrightarrow> removed k w w'"
  by (auto simp: delete_entry_def io_try_def lg_kube removed_def dest: delete_ok delete_err split: prod.splits sum.splits if_splits)

lemma delete_entry_err:
  "delete_entry l e w = (Inl x, w') \<Longrightarrow> wr_object e = nm k \<Longrightarrow> \<not> kube_conflict x \<and> (env w w' \<or> removed k w w')"
  by (auto simp: delete_entry_def io_try_def lg_kube removed_def dest: delete_err split: prod.splits sum.splits if_splits)

text \<open>The results of \<open>Release\<close>, each with what happened to the entry.\<close>

definition release_result ::
  "lkey \<Rightarrow> resource_reference \<Rightarrow> 'w \<Rightarrow> outcome \<times> wizard_resource option \<Rightarrow> 'w \<Rightarrow> bool" where
  "release_result k ref w r w' \<longleftrightarrow>
     (case r of
        (OutcomeGone, e) \<Rightarrow> e = None \<and> rd w w' (nm k) None
      | (OutcomeShared, e) \<Rightarrow> (\<exists>e1. e = Some e1 \<and> wr_refs e1 \<noteq> [] \<and> dropped k ref w w' e1)
      | (OutcomeDelete, e) \<Rightarrow> (\<exists>e1. e = Some e1 \<and> wr_refs e1 = [] \<and> wr_managed e1 \<and> dropped k ref w w' e1)
      | (OutcomeReleased, e) \<Rightarrow>
          (\<exists>e1 w1. e = Some e1 \<and> wr_refs e1 = [] \<and> \<not> wr_managed e1 \<and> dropped k ref w w1 e1 \<and> removed k w1 w'))"

lemma release_result_env:
  "env w w1 \<Longrightarrow> release_result k ref w1 r w' \<Longrightarrow> release_result k ref w r w'"
  "release_result k ref w r w1 \<Longrightarrow> env w1 w' \<Longrightarrow> release_result k ref w r w'"
  unfolding release_result_def
  by (auto split: prod.splits outcome.splits dest: rd_before rd_after)
    (blast dest: dropped_before dropped_after removed_after)+

text \<open>A failing release may have dropped the reference, and an unmanaged entry may be gone.\<close>

definition release_failed :: "lkey \<Rightarrow> resource_reference \<Rightarrow> 'w \<Rightarrow> 'w \<Rightarrow> bool" where
  "release_failed k ref w w' \<longleftrightarrow>
     env w w' \<or> (\<exists>e. dropped k ref w w' e) \<or>
     (\<exists>e w1. wr_refs e = [] \<and> \<not> wr_managed e \<and> dropped k ref w w1 e \<and> removed k w1 w')"

lemma release_failed_env:
  "env w w1 \<Longrightarrow> release_failed k ref w1 w' \<Longrightarrow> release_failed k ref w w'"
  "release_failed k ref w w1 \<Longrightarrow> env w1 w' \<Longrightarrow> release_failed k ref w w'"
  unfolding release_failed_def by (meson env_trans dropped_before dropped_after removed_after)+

lemma if_io: "(if c then io_return e else f) w = (if c then (Inr e, w) else f w)"
  by simp

text \<open>The step both outcomes share: the reference is dropped, then the outcome is read off the entry.\<close>

lemma release_write:
  assumes g: "ledger_get l k w = (Inr (Some e), w1)"
    and u: "(if release_entry ref e = e then (Inr e, w1) else kb_update kube (release_entry ref e) w1) = (Inr e1, w2)"
  shows "dropped k ref w w2 e1 \<and> wr_object e1 = nm k"
proof (cases "release_entry ref e = e")
  case True
  with u get_Some[OF g] show ?thesis by (auto simp: dropped_def)
next
  case False
  with u have "kb_update kube (release_entry ref e) w1 = (Inr e1, w2)" by simp
  from update_ok[OF this, of e] get_Some[OF g]
  have a: "act w1 w2 (nm k) (Some e) (Some e1)" "same_object (release_entry ref e) e1" by auto
  with get_Some[OF g] act_before[OF get_env[OF g]] have "dropped k ref w w2 e1"
    unfolding dropped_def by blast
  with a get_Some[OF g] show ?thesis by (auto dest: same_object_fields(1))
qed

lemma release_write_err:
  assumes g: "ledger_get l k w = (Inr (Some e), w1)"
    and u: "(if release_entry ref e = e then (Inr e, w1) else kb_update kube (release_entry ref e) w1) = (Inl x, w2)"
  shows "env w w2 \<or> (\<not> kube_conflict x \<and> (\<exists>e1. dropped k ref w w2 e1))"
proof -
  from u have "kb_update kube (release_entry ref e) w1 = (Inl x, w2)" by (auto split: if_splits)
  from update_err[OF this, of e] get_Some[OF g]
  have "env w1 w2 \<or> (\<not> kube_conflict x \<and> (\<exists>e'. act w1 w2 (nm k) (Some e) (Some e') \<and> same_object (release_entry ref e) e'))"
    by (auto split: if_splits)
  with get_Some[OF g] get_env[OF g] show ?thesis unfolding dropped_def by (meson act_before env_trans)
qed

lemma release_once_ok:
  assumes "release_once l k ref w = (Inr r, w')"
  shows "release_result k ref w r w'"
proof -
  obtain a w1 where g: "ledger_get l k w = (Inr a, w1)"
    using assms by (auto simp: release_once_def elim: io_bind_cases)
  show ?thesis
  proof (cases a)
    case None
    with assms g get_None[of k w w1] show ?thesis by (auto simp: release_once_def release_result_def)
  next
    case (Some e)
    let ?u = "\<lambda>w1. if release_entry ref e = e then (Inr e, w1) else kb_update kube (release_entry ref e) w1"
    from assms g Some obtain e1 w2 where u: "?u w1 = (Inr e1, w2)" and
      rest: "(if wr_refs e1 \<noteq> [] then (Inr (OutcomeShared, Some e1), w2)
         else if wr_managed e1 then (Inr (OutcomeDelete, Some e1), w2)
         else io_bind (delete_entry l e1) (\<lambda>_. io_return (OutcomeReleased, Some e1)) w2) = (Inr r, w')"
      by (auto simp: release_once_def Let_def lg_kube elim!: io_bind_cases split: if_splits)
    note d = release_write[OF g[unfolded Some] u]
    show ?thesis
    proof (cases "wr_refs e1 = [] \<and> \<not> wr_managed e1")
      case True
      with rest d show ?thesis
        by (auto simp: release_result_def elim!: io_bind_cases) (blast dest: delete_entry_ok)
    next
      case False
      with rest d show ?thesis by (auto simp: release_result_def split: if_splits)
    qed
  qed
qed

lemma release_once_err:
  assumes "release_once l k ref w = (Inl x, w')"
  shows "release_failed k ref w w' \<and> (kube_conflict x \<longrightarrow> env w w')"
  using assms unfolding release_once_def
proof (cases rule: io_bind_cases)
  case fail
  then show ?thesis using get_Inl by (auto simp: release_failed_def)
next
  case (ok a w1)
  show ?thesis
  proof (cases a)
    case None
    with ok show ?thesis by simp
  next
    case (Some e)
    from ok(2) Some have "io_bind (if release_entry ref e = e then io_return e else kb_update kube (release_entry ref e))
        (\<lambda>e1. if wr_refs e1 \<noteq> [] then io_return (OutcomeShared, Some e1)
         else if wr_managed e1 then io_return (OutcomeDelete, Some e1)
         else io_bind (delete_entry l e1) (\<lambda>_. io_return (OutcomeReleased, Some e1))) w1 = (Inl x, w')"
      by (simp only: Let_def lg_kube option.case)
    then show ?thesis
    proof (cases rule: io_bind_cases)
      case fail
      then show ?thesis using release_write_err[OF ok(1)[unfolded Some], of ref x w']
        by (auto simp: release_failed_def if_io)
    next
      case inner: (ok e1 w2)
      note d = release_write[OF ok(1)[unfolded Some] inner(1)[unfolded if_io]]
      from inner(2) have "wr_refs e1 = []" "\<not> wr_managed e1" and del: "delete_entry l e1 w2 = (Inl x, w')"
        by (auto split: if_splits elim!: io_bind_cases)
      with delete_entry_err[OF del, of k] d show ?thesis
        unfolding release_failed_def by (auto dest: dropped_after)
    qed
  qed
qed

lemma release_spec:
  assumes "ledger_release l k ref w = (r, w')"
  shows "case r of Inr res \<Rightarrow> release_result k ref w res w' | Inl x \<Rightarrow> release_failed k ref w w'"
proof -
  let ?R = "\<lambda>w (r :: err + (outcome \<times> wizard_resource option)) w'.
    case r of Inr res \<Rightarrow> release_result k ref w res w' | Inl x \<Rightarrow> release_failed k ref w w'"
  show ?thesis
  proof (rule retry_rule[where R = ?R, OF assms[unfolded ledger_release_def]])
    show "env v v'" if "release_once l k ref v = (Inl x, v')" "kube_conflict x" for v x v'
      using release_once_err[OF that(1)] that(2) by simp
    show "?R v r v'" if "env v v1" "?R v1 r v'" for v v1 r v'
      using that by (auto split: sum.splits dest: release_result_env release_failed_env)
    show "?R v r v'" if "?R v r v1" "env v1 v'" for v r v1 v'
      using that by (auto split: sum.splits dest: release_result_env release_failed_env)
    show "?R v r v'" if "release_once l k ref v = (r, v')" for v r v'
      using that by (cases r) (auto dest: release_once_ok release_once_err)
  qed
qed

lemma finish_ok:
  assumes "ledger_finish l k w = (Inr u, w')"
  shows "removed k w w'"
  using assms unfolding ledger_finish_def
proof (cases rule: io_bind_cases)
  case (ok a w1)
  show ?thesis
  proof (cases a)
    case None
    with ok get_None[of k w w1] show ?thesis by (simp add: removed_def)
  next
    case (Some e)
    with ok get_Some[of k w e w1] have "removed k w1 w'" by (auto dest: delete_entry_ok)
    with get_env[OF ok(1)] show ?thesis by (rule removed_before)
  qed
qed simp

end

section \<open>The invariant of the entries\<close>

text \<open>An entry is stored under the name of its key, lists no reference twice, and is terminating exactly
  when nobody references its resource.\<close>

definition key_of :: "wizard_resource \<Rightarrow> lkey" where
  "key_of e = \<lparr>lk_service = wr_service e, lk_kind = wr_kind e, lk_name = wr_name e\<rparr>"

definition entry_ok :: "go_lib \<Rightarrow> string \<Rightarrow> wizard_resource \<Rightarrow> bool" where
  "entry_ok gl n e \<longleftrightarrow> wr_object e = n \<and> object_name gl (key_of e) = n \<and> distinct (wr_refs e) \<and> (wr_terminating e \<longleftrightarrow> wr_refs e = [])"

definition ledger_ok :: "go_lib \<Rightarrow> ('w \<Rightarrow> string \<Rightarrow> wizard_resource option) \<Rightarrow> 'w \<Rightarrow> bool" where
  "ledger_ok gl view w \<longleftrightarrow> (\<forall>n e. view w n = Some e \<longrightarrow> entry_ok gl n e)"

lemma key_of_simps [simp]:
  "key_of (e\<lparr>wr_version := v\<rparr>) = key_of e" "key_of (new_resource gl k ref n) = k" "key_of (release_entry ref e) = key_of e" "key_of (add_ref_entry ref opts e) = key_of e"
  by (cases k; simp add: key_of_def new_resource_def)+

lemma same_object_key: "same_object a b \<Longrightarrow> key_of b = key_of a"
  by (simp add: key_of_def same_object_def)

lemma entry_ok_new:
  assumes "same_object (new_resource gl k ref n) e'"
  shows "entry_ok gl (object_name gl k) e'"
proof -
  have "key_of e' = k" using same_object_key[OF assms] by simp
  moreover have "wr_object e' = object_name gl k" "wr_refs e' = [ref]" "\<not> wr_terminating e'"
    using same_object_fields[OF assms] by (simp_all add: new_resource_def)
  ultimately show ?thesis by (simp add: entry_ok_def)
qed

lemma add_ref_refs: "set (wr_refs (add_ref_entry ref opts e)) = insert ref (set (wr_refs e))"
  by (auto simp: add_ref_entry_def hasRef_def Let_def)

lemma add_ref_refs_form:
  "wr_refs (add_ref_entry ref opts e) = (if ref \<in> set (wr_refs e) then wr_refs e else wr_refs e @ [ref])"
  by (auto simp: add_ref_entry_def hasRef_def Let_def)

lemma entry_ok_add:
  assumes "entry_ok gl n e" "\<not> wr_terminating e" "same_object (add_ref_entry ref opts e) e'"
  shows "entry_ok gl n e'"
proof -
  note f = same_object_fields[OF assms(3)]
  have "wr_refs e' = (if ref \<in> set (wr_refs e) then wr_refs e else wr_refs e @ [ref])"
    by (simp add: f add_ref_refs_form)
  moreover have "wr_object e' = n" "\<not> wr_terminating e'" "object_name gl (key_of e') = n"
    using assms(1,2) same_object_key[OF assms(3)] by (simp_all add: f entry_ok_def)
  ultimately show ?thesis using assms(1,2) by (auto simp: entry_ok_def)
qed

lemma release_terminating: "wr_terminating (release_entry ref e) \<longleftrightarrow> wr_terminating e \<or> remove1 ref (wr_refs e) = []"
  by (simp add: release_entry_def Let_def)

lemma entry_ok_release:
  assumes "entry_ok gl n e" "same_object (release_entry ref e) e'"
  shows "entry_ok gl n e'"
proof -
  note f = same_object_fields[OF assms(2)]
  have "wr_terminating e' \<longleftrightarrow> wr_refs e = [] \<or> remove1 ref (wr_refs e) = []"
    using assms(1) by (simp add: f release_terminating entry_ok_def)
  moreover have "wr_refs e' = remove1 ref (wr_refs e)" "wr_object e' = n" "distinct (wr_refs e)"
      "object_name gl (key_of e') = n"
    using assms(1) same_object_key[OF assms(2)] by (simp_all add: f entry_ok_def)
  ultimately show ?thesis by (auto simp: entry_ok_def)
qed

text \<open>The other clients keep the invariant.\<close>

definition others_ok :: "go_lib \<Rightarrow> ('w \<Rightarrow> string \<Rightarrow> wizard_resource option) \<Rightarrow> ('w \<Rightarrow> 'w \<Rightarrow> bool) \<Rightarrow> bool" where
  "others_ok gl view env \<longleftrightarrow> (\<forall>w w'. env w w' \<longrightarrow> ledger_ok gl view w \<longrightarrow> ledger_ok gl view w')"

context ledger_store
begin

lemma env_ok: "others_ok (lg_lib l) view env \<Longrightarrow> env w w' \<Longrightarrow> ledger_ok (lg_lib l) view w \<Longrightarrow> ledger_ok (lg_lib l) view w'"
  by (simp add: others_ok_def)

lemma rd_ok: "others_ok (lg_lib l) view env \<Longrightarrow> rd w w' n x \<Longrightarrow> ledger_ok (lg_lib l) view w \<Longrightarrow> ledger_ok (lg_lib l) view w'"
  using rd_env env_ok by blast

lemma act_ok:
  assumes o: "others_ok (lg_lib l) view env" and a: "act w w' n x y" and ok: "ledger_ok (lg_lib l) view w"
    and new: "\<And>e'. y = Some e' \<Longrightarrow> (\<And>e. x = Some e \<Longrightarrow> entry_ok (lg_lib l) n e) \<Longrightarrow> entry_ok (lg_lib l) n e'"
  shows "ledger_ok (lg_lib l) view w'"
proof -
  obtain w1 w2 where e1: "env w w1" and x: "view w1 n = x" and y: "view w2 = (view w1)(n := y)" and e2: "env w2 w'"
    using a unfolding acts_def by blast
  have ok1: "ledger_ok (lg_lib l) view w1" by (rule env_ok[OF o e1 ok])
  have "ledger_ok (lg_lib l) view w2"
    unfolding ledger_ok_def
  proof (intro allI impI)
    fix m e assume m: "view w2 m = Some e"
    show "entry_ok (lg_lib l) m e"
    proof (cases "m = n")
      case True
      with m y have "y = Some e" by simp
      then show ?thesis using new[of e] ok1 x True by (auto simp: ledger_ok_def)
    next
      case False
      with m y ok1 show ?thesis by (simp add: ledger_ok_def)
    qed
  qed
  then show ?thesis by (rule env_ok[OF o e2])
qed

lemma removed_ok: "others_ok (lg_lib l) view env \<Longrightarrow> removed k w w' \<Longrightarrow> ledger_ok (lg_lib l) view w \<Longrightarrow> ledger_ok (lg_lib l) view w'"
  unfolding removed_def by (elim disjE exE, erule (2) rd_ok, erule (2) act_ok) simp

lemma dropped_ok: "others_ok (lg_lib l) view env \<Longrightarrow> dropped k ref w w' e \<Longrightarrow> ledger_ok (lg_lib l) view w \<Longrightarrow> ledger_ok (lg_lib l) view w'"
  unfolding dropped_def
  by (elim disjE conjE exE, erule (2) rd_ok, erule (2) act_ok) (auto intro: entry_ok_release)

lemma added_ok: "others_ok (lg_lib l) view env \<Longrightarrow> added k ref opts w w' e e' \<Longrightarrow> ledger_ok (lg_lib l) view w \<Longrightarrow> ledger_ok (lg_lib l) view w'"
  unfolding added_def by (elim conjE, erule (2) act_ok) (auto intro: entry_ok_add)

lemma registered_ok:
  "others_ok (lg_lib l) view env \<Longrightarrow> act w w' (nm k) None (Some e') \<Longrightarrow> same_object (new_resource (lg_lib l) k ref n) e' \<Longrightarrow>
   ledger_ok (lg_lib l) view w \<Longrightarrow> ledger_ok (lg_lib l) view w'"
  by (erule (2) act_ok) (auto dest: entry_ok_new)

text \<open>Every operation keeps the invariant, if the other clients do.\<close>

lemma register_keeps:
  assumes o: "others_ok (lg_lib l) view env"
  shows "keeps (ledger_ok (lg_lib l) view) (ledger_register l k ref n)"
proof (rule tripleI)
  fix w e' w' assume "ledger_ok (lg_lib l) view w" "ledger_register l k ref n w = (Inr e', w')"
  then show "ledger_ok (lg_lib l) view w'" using register_ok registered_ok[OF o] by blast
next
  fix w x w' assume "ledger_ok (lg_lib l) view w" "ledger_register l k ref n w = (Inl x, w')"
  then show "ledger_ok (lg_lib l) view w'" using register_err registered_ok[OF o] env_ok[OF o] rd_ok[OF o] by blast
qed

lemma add_ref_keeps:
  assumes o: "others_ok (lg_lib l) view env"
  shows "keeps (ledger_ok (lg_lib l) view) (ledger_add_ref l k ref opts)"
proof (rule tripleI)
  fix w e' w' assume "ledger_ok (lg_lib l) view w" "ledger_add_ref l k ref opts w = (Inr e', w')"
  then show "ledger_ok (lg_lib l) view w'" using add_ref_ok added_ok[OF o] rd_ok[OF o] by blast
next
  fix w x w' assume "ledger_ok (lg_lib l) view w" "ledger_add_ref l k ref opts w = (Inl x, w')"
  then show "ledger_ok (lg_lib l) view w'" using add_ref_err added_ok[OF o] env_ok[OF o] rd_ok[OF o] by blast
qed

lemma release_keeps:
  assumes o: "others_ok (lg_lib l) view env"
  shows "keeps (ledger_ok (lg_lib l) view) (ledger_release l k ref)"
proof (rule tripleI)
  fix w a w' assume ok: "ledger_ok (lg_lib l) view w" and "ledger_release l k ref w = (Inr a, w')"
  from release_spec[OF this(2)] have "release_result k ref w a w'" by simp
  then show "ledger_ok (lg_lib l) view w'"
    unfolding release_result_def using ok
    by (auto split: prod.splits outcome.splits intro: dropped_ok[OF o] removed_ok[OF o] rd_ok[OF o])
next
  fix w e w' assume ok: "ledger_ok (lg_lib l) view w" and "ledger_release l k ref w = (Inl e, w')"
  from release_spec[OF this(2)] have "release_failed k ref w w'" by simp
  then show "ledger_ok (lg_lib l) view w'"
    unfolding release_failed_def using ok
    by (auto intro: dropped_ok[OF o] removed_ok[OF o] env_ok[OF o])
qed

lemma finish_keeps: "others_ok (lg_lib l) view env \<Longrightarrow> ledger_ok (lg_lib l) view w \<Longrightarrow> ledger_finish l k w = (Inr u, w') \<Longrightarrow> ledger_ok (lg_lib l) view w'"
  using removed_ok finish_ok by blast

end

end
