(* ===== verification/KubeStore.thy ===== *)
theory KubeStore
  imports LedgerProps
begin

text \<open>
  A store of \<open>WizardResource\<close> objects as the Kubernetes API documents it: creation fails on an
  existing name, an update needs the current resource version, every write gives a fresh one.
  Between two of our calls other clients of the ledger act, as a script in the world says. The
  store satisfies the contract \<open>ledger_store\<close>; the ledger's properties are stated at the end for
  every store that does, and applied to this one.
\<close>

section \<open>The store\<close>

text \<open>One step of another client: what the ledger operations of other runs do to an entry.\<close>

datatype foreign =
    ForeignRegister lkey resource_reference new_entry
  | ForeignAddRef string resource_reference add_options
  | ForeignRelease string resource_reference
  | ForeignFinish string

record store =
  st_objects :: "wizard_resource list"
  st_next :: nat
  st_foreign :: "foreign list"

definition store_view :: "store \<Rightarrow> string \<Rightarrow> wizard_resource option" where
  "store_view s n = find (\<lambda>e. wr_object e = n) (st_objects s)"

definition store_remove :: "string \<Rightarrow> store \<Rightarrow> store" where
  "store_remove n s = s\<lparr>st_objects := filter (\<lambda>e. wr_object e \<noteq> n) (st_objects s)\<rparr>"

definition stamped :: "wizard_resource \<Rightarrow> store \<Rightarrow> wizard_resource" where
  "stamped e s = e\<lparr>wr_version := format_nat (st_next s)\<rparr>"

definition store_put :: "wizard_resource \<Rightarrow> store \<Rightarrow> store" where
  "store_put e s = s\<lparr>st_objects := stamped e s # filter (\<lambda>x. wr_object x \<noteq> wr_object e) (st_objects s),
                     st_next := st_next s + 1\<rparr>"

definition store_wf :: "store \<Rightarrow> bool" where
  "store_wf s \<longleftrightarrow> list_all (\<lambda>e. list_ex (\<lambda>m. wr_version e = format_nat m) [0..<st_next s]) (st_objects s)"

fun foreign_apply :: "go_lib \<Rightarrow> foreign \<Rightarrow> store \<Rightarrow> store" where
  "foreign_apply gl (ForeignRegister k ref n) s =
     (case store_view s (object_name gl k) of None \<Rightarrow> store_put (new_resource gl k ref n) s | Some e \<Rightarrow> s)"
| "foreign_apply gl (ForeignAddRef nm ref opts) s =
     (case store_view s nm of
        Some e \<Rightarrow> if wr_terminating e then s else store_put (add_ref_entry ref opts e) s | None \<Rightarrow> s)"
| "foreign_apply gl (ForeignRelease nm ref) s =
     (case store_view s nm of Some e \<Rightarrow> store_put (release_entry ref e) s | None \<Rightarrow> s)"
| "foreign_apply gl (ForeignFinish nm) s =
     (case store_view s nm of
        Some e \<Rightarrow> if wr_terminating e \<and> wr_refs e = [] then store_remove nm s else s | None \<Rightarrow> s)"

text \<open>A client adds and releases the references of its own run only; \<open>me\<close> is the run this process works for.\<close>

fun acts_for :: "string \<Rightarrow> foreign \<Rightarrow> bool" where
  "acts_for me (ForeignRegister k ref n) \<longleftrightarrow> rr_run ref = me"
| "acts_for me (ForeignAddRef nm ref opts) \<longleftrightarrow> rr_run ref = me"
| "acts_for me (ForeignRelease nm ref) \<longleftrightarrow> rr_run ref = me"
| "acts_for me (ForeignFinish nm) = False"

text \<open>The others take their next step; nothing happens in a corrupted store.\<close>

definition others_step :: "string \<Rightarrow> go_lib \<Rightarrow> store \<Rightarrow> store" where
  "others_step me gl s =
     (if store_wf s
      then (case st_foreign s of [] \<Rightarrow> s
           | f # fs \<Rightarrow> if acts_for me f then s\<lparr>st_foreign := fs\<rparr> else foreign_apply gl f (s\<lparr>st_foreign := fs\<rparr>))
      else s)"

definition on_store :: "string \<Rightarrow> go_lib \<Rightarrow> (store \<Rightarrow> (err + 'a) \<times> store) \<Rightarrow> (store, 'a) call" where
  "on_store me gl f s = (if store_wf s then f (others_step me gl s) else (Inl (KubeError (KubeOther ''corrupted'')), s))"

definition store_kube :: "string \<Rightarrow> go_lib \<Rightarrow> store kube" where
  "store_kube me gl =
     \<lparr>kb_get = (\<lambda>n. on_store me gl (\<lambda>s. case store_view s n of
          None \<Rightarrow> (Inl (KubeError KubeNotFound), s) | Some e \<Rightarrow> (Inr e, s))),
      kb_create = (\<lambda>e. on_store me gl (\<lambda>s. case store_view s (wr_object e) of
          None \<Rightarrow> (Inr (stamped e s), store_put e s) | Some c \<Rightarrow> (Inl (KubeError KubeAlreadyExists), s))),
      kb_update = (\<lambda>e. on_store me gl (\<lambda>s. case store_view s (wr_object e) of
          None \<Rightarrow> (Inl (KubeError KubeNotFound), s)
        | Some c \<Rightarrow> if wr_version c = wr_version e then (Inr (stamped e s), store_put e s)
                    else (Inl (KubeError KubeConflict), s))),
      kb_delete = (\<lambda>e. on_store me gl (\<lambda>s. case store_view s (wr_object e) of
          None \<Rightarrow> (Inl (KubeError KubeNotFound), s) | Some c \<Rightarrow> (Inr (), store_remove (wr_object e) s))),
      kb_list = on_store me gl (\<lambda>s. (Inr (filter (\<lambda>e. store_view s (wr_object e) = Some e) (st_objects s)), s))\<rparr>"

definition store_ledger :: "string \<Rightarrow> go_lib \<Rightarrow> store ledger" where
  "store_ledger me gl = \<lparr>lg_kube = store_kube me gl, lg_lib = gl, lg_sleep = others_step me gl\<rparr>"

section \<open>The store satisfies the contract\<close>

definition store_env :: "string \<Rightarrow> go_lib \<Rightarrow> store \<Rightarrow> store \<Rightarrow> bool" where
  "store_env me gl s s' \<longleftrightarrow> (\<exists>n. s' = (others_step me gl ^^ n) s)"

definition store_known :: "store \<Rightarrow> wizard_resource set" where
  "store_known s = {e. store_wf s \<longrightarrow> (\<exists>m < st_next s. wr_version e = format_nat m) \<and>
     (\<forall>c. store_view s (wr_object e) = Some c \<longrightarrow> wr_version c = wr_version e \<longrightarrow> c = e)}"

lemma format_nat_inj: "format_nat m = format_nat n \<Longrightarrow> m = n"
  using digits_val_format_nat by (metis of_nat_eq_iff)

lemma store_wf_iff: "store_wf s \<longleftrightarrow> (\<forall>e\<in>set (st_objects s). \<exists>m < st_next s. wr_version e = format_nat m)"
  unfolding store_wf_def list_all_iff list_ex_iff by (metis atLeast0LessThan lessThan_iff set_upt)

lemma stamped_object [simp]: "wr_object (stamped e s) = wr_object e"
  by (simp add: stamped_def)

lemma same_object_stamped [simp]: "same_object e (stamped e s)"
  by (simp add: same_object_def stamped_def)

lemma find_filter_neq: "find (\<lambda>e. f e = n) (filter (\<lambda>e. f e \<noteq> m) xs) = (if n = m then None else find (\<lambda>e. f e = n) xs)"
  by (induction xs) auto

lemma store_view_put: "store_view (store_put e s) = (store_view s)(wr_object e \<mapsto> stamped e s)"
  by (auto simp: fun_eq_iff store_view_def store_put_def find_filter_neq)

lemma store_view_remove: "store_view (store_remove n s) = (store_view s)(n := None)"
  by (auto simp: fun_eq_iff store_view_def store_remove_def find_filter_neq)

lemma store_view_foreign [simp]: "store_view (s\<lparr>st_foreign := fs\<rparr>) = store_view s"
  by (simp add: fun_eq_iff store_view_def)

lemma store_view_object: "store_view s n = Some e \<Longrightarrow> wr_object e = n \<and> e \<in> set (st_objects s)"
  by (auto simp: store_view_def dest: find_SomeD)

lemma store_wf_put: "store_wf s \<Longrightarrow> store_wf (store_put e s)"
  by (auto simp: store_wf_iff store_put_def stamped_def intro: less_SucI)

lemma store_wf_remove: "store_wf s \<Longrightarrow> store_wf (store_remove n s)"
  by (auto simp: store_wf_iff store_remove_def)

lemma store_wf_foreign [simp]: "store_wf (s\<lparr>st_foreign := fs\<rparr>) = store_wf s"
  by (simp add: store_wf_def)

text \<open>The three ways a step of the others ends: no change, a write, a removal.\<close>

lemma foreign_apply_cases:
  obtains (same) "foreign_apply gl f s = s" | (put) e where "foreign_apply gl f s = store_put e s"
  | (remove) n where "foreign_apply gl f s = store_remove n s"
proof (cases f)
  case (ForeignRegister k ref n)
  then show thesis using same put by (cases "store_view s (object_name gl k)") auto
next
  case (ForeignAddRef nm ref opts)
  then show thesis using same put
    by (cases "store_view s nm"; cases "wr_terminating (the (store_view s nm))") auto
next
  case (ForeignRelease nm ref)
  then show thesis using same put by (cases "store_view s nm") auto
next
  case (ForeignFinish nm)
  then show thesis using same remove
    by (cases "store_view s nm"; cases "wr_terminating (the (store_view s nm)) \<and> wr_refs (the (store_view s nm)) = []") auto
qed

lemma store_wf_apply: "store_wf s \<Longrightarrow> store_wf (foreign_apply gl f s)"
  by (rule foreign_apply_cases[of gl f s]) (auto intro: store_wf_put store_wf_remove)

lemma store_wf_step: "store_wf s \<Longrightarrow> store_wf (others_step me gl s)"
  by (auto simp: others_step_def split: list.splits if_splits intro: store_wf_apply)

lemma known_put:
  assumes k: "e \<in> store_known s" and wf: "store_wf s"
  shows "e \<in> store_known (store_put x s)"
proof -
  from k wf obtain m where m: "m < st_next s" "wr_version e = format_nat m"
    and u: "\<forall>c. store_view s (wr_object e) = Some c \<longrightarrow> wr_version c = wr_version e \<longrightarrow> c = e"
    by (auto simp: store_known_def)
  have "st_next (store_put x s) = Suc (st_next s)" by (simp add: store_put_def)
  moreover have "wr_version (stamped x s) \<noteq> wr_version e"
    using m by (auto simp: stamped_def dest: format_nat_inj)
  ultimately show ?thesis using m u by (auto simp: store_known_def store_view_put intro: less_SucI)
qed

lemma known_remove: "e \<in> store_known s \<Longrightarrow> store_wf s \<Longrightarrow> e \<in> store_known (store_remove n s)"
proof -
  have "st_next (store_remove n s) = st_next s" by (simp add: store_remove_def)
  then show "e \<in> store_known s \<Longrightarrow> store_wf s \<Longrightarrow> e \<in> store_known (store_remove n s)"
    by (auto simp: store_known_def store_view_remove)
qed

lemma known_foreign [simp]: "store_known (s\<lparr>st_foreign := fs\<rparr>) = store_known s"
  by (simp add: store_known_def)

lemma known_step: "e \<in> store_known s \<Longrightarrow> e \<in> store_known (others_step me gl s)"
proof (cases "store_wf s")
  case True
  assume k: "e \<in> store_known s"
  show ?thesis
  proof (cases "st_foreign s")
    case (Cons f fs)
    let ?s = "s\<lparr>st_foreign := fs\<rparr>"
    have "e \<in> store_known ?s" "store_wf ?s" using k True by simp_all
    then have "e \<in> store_known (foreign_apply gl f ?s)"
      by (cases rule: foreign_apply_cases[of gl f ?s]) (auto intro: known_put known_remove)
    then show ?thesis using True Cons \<open>e \<in> store_known ?s\<close> by (simp add: others_step_def)
  qed (use k in \<open>simp add: others_step_def\<close>)
qed (simp add: others_step_def)

lemma view_known: "store_view s n = Some e \<Longrightarrow> e \<in> store_known s"
  using store_view_object[of s n e] by (auto simp: store_known_def store_wf_iff)

lemma store_env_refl: "store_env me gl s s"
  unfolding store_env_def by (rule exI[of _ 0]) simp

lemma store_env_step: "store_env me gl s (others_step me gl s)"
  unfolding store_env_def by (rule exI[of _ 1]) simp

lemma store_env_trans: "store_env me gl s s1 \<Longrightarrow> store_env me gl s1 s2 \<Longrightarrow> store_env me gl s s2"
  unfolding store_env_def by (metis comp_apply funpow_add)

lemma store_reads: "store_view (others_step me gl s) n = x \<Longrightarrow> reads store_view (store_env me gl) s (others_step me gl s) n x"
  unfolding reads_def using store_env_refl store_env_step by blast

lemma store_acts:
  "store_view (others_step me gl s) n = x \<Longrightarrow> store_view s' = (store_view (others_step me gl s))(n := y) \<Longrightarrow>
   acts store_view (store_env me gl) s s' n x y"
  unfolding acts_def using store_env_refl store_env_step by blast

lemma store_update_ok:
  assumes "kb_update (store_kube me gl) e s = (Inr e', s')"
  obtains c where "store_wf s" "store_view (others_step me gl s) (wr_object e) = Some c" "wr_version c = wr_version e"
    "e' = stamped e (others_step me gl s)" "s' = store_put e (others_step me gl s)"
  using assms by (simp add: store_kube_def on_store_def split: if_split_asm option.split_asm)

interpretation mem: ledger_store "store_kube me gl" store_view store_known "store_env me gl" "store_ledger me gl" for me gl
proof
  fix s s1 s2
  show "store_env me gl s s" by (rule store_env_refl)
  show "store_env me gl s s1 \<Longrightarrow> store_env me gl s1 s2 \<Longrightarrow> store_env me gl s s2" by (rule store_env_trans)
  show "lg_kube (store_ledger me gl) = store_kube me gl" by (simp add: store_ledger_def)
  show "store_env me gl s (lg_sleep (store_ledger me gl) s)" by (simp add: store_ledger_def store_env_step)
next
  fix n s e s' assume "kb_get (store_kube me gl) n s = (Inr e, s')"
  then have s: "s' = others_step me gl s" "store_view (others_step me gl s) n = Some e"
    by (auto simp: store_kube_def on_store_def split: if_splits option.splits)
  show "reads store_view (store_env me gl) s s' n (Some e) \<and> wr_object e = n \<and> e \<in> store_known s'"
    using store_view_object[OF s(2)] view_known[OF s(2)] store_reads[OF s(2)] by (simp add: s(1))
next
  fix n s x s' assume "kb_get (store_kube me gl) n s = (Inl x, s')"
  then show "store_env me gl s s' \<and> (kube_not_found x \<longrightarrow> reads store_view (store_env me gl) s s' n None)"
    by (auto simp: store_kube_def on_store_def kube_not_found_def store_env_refl store_env_step store_reads
        split: if_splits option.splits)
next
  fix e s e' s' assume "kb_create (store_kube me gl) e s = (Inr e', s')"
  then have "store_view (others_step me gl s) (wr_object e) = None" "e' = stamped e (others_step me gl s)"
    "s' = store_put e (others_step me gl s)"
    by (auto simp: store_kube_def on_store_def split: if_splits option.splits)
  then show "acts store_view (store_env me gl) s s' (wr_object e) None (Some e') \<and> same_object e e'"
    by (simp add: store_view_put store_acts)
next
  fix e s x s' assume "kb_create (store_kube me gl) e s = (Inl x, s')"
  then show "if kube_exists x then \<exists>c. reads store_view (store_env me gl) s s' (wr_object e) (Some c)
      else store_env me gl s s' \<or> (\<exists>e'. acts store_view (store_env me gl) s s' (wr_object e) None (Some e') \<and> same_object e e')"
    by (auto simp: store_kube_def on_store_def kube_exists_def store_env_refl intro!: store_reads
        split: if_splits option.splits)
next
  fix e s e' s' e0
  assume u: "kb_update (store_kube me gl) e s = (Inr e', s')" and k: "e0 \<in> store_known s"
    and o: "wr_object e0 = wr_object e" "wr_version e0 = wr_version e"
  from u obtain c where "store_wf s" "store_view (others_step me gl s) (wr_object e) = Some c" "wr_version c = wr_version e"
    "e' = stamped e (others_step me gl s)" "s' = store_put e (others_step me gl s)"
    by (rule store_update_ok)
  moreover from this have "c = e0"
    using known_step[OF k, of me gl] store_wf_step[of s me gl] o by (simp add: store_known_def)
  ultimately show "acts store_view (store_env me gl) s s' (wr_object e) (Some e0) (Some e') \<and> same_object e e'"
    by (auto simp: store_view_put intro!: store_acts)
next
  fix e s x s' e0 assume "kb_update (store_kube me gl) e s = (Inl x, s')"
  then show "if kube_conflict x then store_env me gl s s'
      else store_env me gl s s' \<or> (\<exists>e'. acts store_view (store_env me gl) s s' (wr_object e) (Some e0) (Some e') \<and> same_object e e')"
    by (auto simp: store_kube_def on_store_def store_env_refl store_env_step split: if_splits option.splits)
next
  fix e s u s' assume "kb_delete (store_kube me gl) e s = (Inr u, s')"
  then show "\<exists>c. acts store_view (store_env me gl) s s' (wr_object e) c None"
    by (auto simp: store_kube_def on_store_def store_view_remove intro!: store_acts split: if_splits option.splits)
next
  fix e s x s' assume "kb_delete (store_kube me gl) e s = (Inl x, s')"
  then show "if kube_not_found x then reads store_view (store_env me gl) s s' (wr_object e) None
      else \<not> kube_conflict x \<and> (store_env me gl s s' \<or> (\<exists>c. acts store_view (store_env me gl) s s' (wr_object e) c None))"
    by (auto simp: store_kube_def on_store_def kube_not_found_def kube_conflict_def store_env_refl intro!: store_reads
        split: if_splits option.splits)
next
  fix s es s' assume "kb_list (store_kube me gl) s = (Inr es, s')"
  then have "s' = others_step me gl s" "\<forall>n e. store_view (others_step me gl s) n = Some e \<longleftrightarrow> e \<in> set es \<and> wr_object e = n"
    using store_view_object by (auto simp: store_kube_def on_store_def split: if_splits)
  then show "\<exists>w1. store_env me gl s w1 \<and> store_env me gl w1 s' \<and>
      (\<forall>n e. store_view w1 n = Some e \<longleftrightarrow> e \<in> set es \<and> wr_object e = n)"
    using store_env_refl store_env_step by blast
next
  fix s x s' assume "kb_list (store_kube me gl) s = (Inl x, s')"
  then show "store_env me gl s s'"
    by (auto simp: store_kube_def on_store_def store_env_refl split: if_splits)
qed

section \<open>The others keep the invariant\<close>

lemma ledger_ok_put:
  assumes "ledger_ok gl store_view s" "entry_ok gl (wr_object e) e"
  shows "ledger_ok gl store_view (store_put e s)"
  using assms by (auto simp: ledger_ok_def store_view_put entry_ok_def stamped_def split: if_splits)

lemma ledger_ok_remove: "ledger_ok gl store_view s \<Longrightarrow> ledger_ok gl store_view (store_remove n s)"
  by (auto simp: ledger_ok_def store_view_remove split: if_splits)

lemma ledger_ok_foreign [simp]: "ledger_ok gl store_view (s\<lparr>st_foreign := fs\<rparr>) = ledger_ok gl store_view s"
  by (simp add: ledger_ok_def)

lemma ledger_ok_apply:
  assumes "ledger_ok gl store_view s"
  shows "ledger_ok gl store_view (foreign_apply gl f s)"
proof (cases f)
  case (ForeignRegister k ref n)
  have "entry_ok gl (wr_object (new_resource gl k ref n)) (new_resource gl k ref n)"
    by (simp add: entry_ok_def) (simp add: new_resource_def)
  then show ?thesis using assms ForeignRegister by (auto intro: ledger_ok_put split: option.splits)
next
  case (ForeignAddRef nm ref opts)
  have "entry_ok gl (wr_object (add_ref_entry ref opts e)) (add_ref_entry ref opts e)"
    if "store_view s nm = Some e" "\<not> wr_terminating e" for e
    using that assms store_view_object[OF that(1)] entry_ok_add[of gl "wr_object e" e ref opts]
    by (auto simp: ledger_ok_def)
  then show ?thesis using assms ForeignAddRef by (auto intro: ledger_ok_put split: option.splits)
next
  case (ForeignRelease nm ref)
  have "entry_ok gl (wr_object (release_entry ref e)) (release_entry ref e)" if "store_view s nm = Some e" for e
    using that assms store_view_object[OF that(1)] entry_ok_release[of gl "wr_object e" e ref]
    by (auto simp: ledger_ok_def)
  then show ?thesis using assms ForeignRelease by (auto intro: ledger_ok_put split: option.splits)
next
  case (ForeignFinish nm)
  then show ?thesis using assms by (auto intro: ledger_ok_remove split: option.splits)
qed

lemma store_others_ok: "others_ok gl store_view (store_env me gl)"
proof -
  have step: "ledger_ok gl store_view (others_step me gl s)" if "ledger_ok gl store_view s" for s
    using that by (auto simp: others_step_def split: list.splits intro: ledger_ok_apply)
  have "ledger_ok gl store_view ((others_step me gl ^^ n) s)" if "ledger_ok gl store_view s" for n s
    using that by (induction n) (auto intro: step)
  then show ?thesis by (auto simp: others_ok_def store_env_def)
qed

text \<open>A reference of our own run stays once it is there.\<close>

definition holds :: "('w \<Rightarrow> string \<Rightarrow> wizard_resource option) \<Rightarrow> string \<Rightarrow> resource_reference \<Rightarrow> 'w \<Rightarrow> bool" where
  "holds view n ref w \<longleftrightarrow> (case view w n of None \<Rightarrow> False | Some en \<Rightarrow> ref \<in> set (wr_refs en))"

definition others_keep_ref ::
  "('w \<Rightarrow> string \<Rightarrow> wizard_resource option) \<Rightarrow> ('w \<Rightarrow> 'w \<Rightarrow> bool) \<Rightarrow> string \<Rightarrow> resource_reference \<Rightarrow> bool" where
  "others_keep_ref view env n ref \<longleftrightarrow> (\<forall>w w'. env w w' \<longrightarrow> holds view n ref w \<longrightarrow> holds view n ref w')"

lemma holds_put: "holds store_view n ref (store_put e s) \<longleftrightarrow>
    (if n = wr_object e then ref \<in> set (wr_refs e) else holds store_view n ref s)"
  by (simp add: holds_def store_view_put stamped_def)

lemma holds_foreign [simp]: "holds store_view n ref (s\<lparr>st_foreign := fs\<rparr>) = holds store_view n ref s"
  by (simp add: holds_def)

lemma holds_apply:
  assumes "holds store_view n ref s" "\<not> acts_for (rr_run ref) f"
  shows "holds store_view n ref (foreign_apply gl f s)"
proof (cases f)
  case (ForeignRegister k r e)
  then show ?thesis using assms(1)
    by (auto simp: holds_put new_resource_def split: option.splits) (simp add: holds_def)
next
  case (ForeignAddRef m r opts)
  then show ?thesis using assms(1) store_view_object[of s m]
    by (auto simp: holds_put add_ref_refs split: option.splits) (simp add: holds_def)
next
  case (ForeignRelease m r)
  then have "r \<noteq> ref" using assms(2) by auto
  then show ?thesis using assms(1) store_view_object[of s m] ForeignRelease
    by (auto simp: holds_put split: option.splits) (simp add: holds_def)
next
  case (ForeignFinish m)
  then show ?thesis using assms(1)
    by (auto simp: holds_def store_view_remove split: option.splits)
qed

lemma store_keeps_ref: "others_keep_ref store_view (store_env (rr_run ref) gl) n ref"
proof -
  have step: "holds store_view n ref (others_step (rr_run ref) gl s)" if "holds store_view n ref s" for s
    using that by (auto simp: others_step_def intro!: holds_apply split: list.splits if_splits)
  have "holds store_view n ref ((others_step (rr_run ref) gl ^^ k) s)" if "holds store_view n ref s" for k s
    using that by (induction k) (auto intro: step)
  then show ?thesis by (auto simp: others_keep_ref_def store_env_def)
qed

section \<open>Properties\<close>

text \<open>C36: a ledger entry's object name is a DNS label (so also a valid label value), and two
  different keys with the same object name are a collision of the first four bytes of SHA-256.\<close>

theorem object_name_correct:
  assumes "\<forall>s. length (gl_sha256 gl s) = 32"
  shows "dns_label (object_name gl k) \<and>
    (CHR ''/'' \<notin> set (lk_kind k) \<and> CHR ''/'' \<notin> set (lk_kind j) \<and> k \<noteq> j \<and> object_name gl k = object_name gl j \<longrightarrow>
       key_text k \<noteq> key_text j \<and> take 4 (gl_sha256 gl (key_text k)) = take 4 (gl_sha256 gl (key_text j)))"
  using assms object_name_dns key_text_inj object_name_collision by blast

definition pad_lib :: go_lib where
  "pad_lib = sample_lib\<lparr>gl_sha256 := (\<lambda>s. take 32 (rev s @ replicate 32 CHR 0x00))\<rparr>"

lemma pad_lib_sha: "\<forall>s. length (gl_sha256 pad_lib s) = 32"
  unfolding pad_lib_def by simp arith

theorem object_name_witness:
  "dns_label (object_name pad_lib \<lparr>lk_service = ServiceWeave, lk_kind = ''chain'', lk_name = ''My App!''\<rparr>)"
  using object_name_correct[OF pad_lib_sha] by blast

text \<open>C12: adding a reference is one atomic change, whatever other clients of the store do meanwhile:
  on success the entry was not terminating, is stored with exactly the reference (and the options)
  added, and holds the reference; a terminating entry is never given a reference.\<close>

theorem add_ref_atomic:
  assumes "ledger_store kube view known env l" and "ledger_add_ref l k ref opts w = (Inr e', w')"
  shows "ref \<in> set (wr_refs e') \<and> \<not> wr_terminating e' \<and>
    (reads view env w w' (object_name (lg_lib l) k) (Some e') \<or>
     (\<exists>e. \<not> wr_terminating e \<and> same_object (add_ref_entry ref opts e) e' \<and>
          acts view env w w' (object_name (lg_lib l) k) (Some e) (Some e')))"
proof -
  have step: "(add_ref_entry ref opts e' = e' \<and> \<not> wr_terminating e' \<and> reads view env w w' (object_name (lg_lib l) k) (Some e')) \<or>
      (\<exists>e. \<not> wr_terminating e \<and> same_object (add_ref_entry ref opts e) e' \<and>
          acts view env w w' (object_name (lg_lib l) k) (Some e) (Some e'))"
    using ledger_store.add_ref_ok[OF assms] ledger_store.added_def[OF assms(1)] by blast
  then show ?thesis
  proof (elim disjE exE conjE)
    assume "add_ref_entry ref opts e' = e'" "\<not> wr_terminating e'" "reads view env w w' (object_name (lg_lib l) k) (Some e')"
    then show ?thesis using add_ref_refs[of ref opts e'] by auto
  next
    fix e assume e: "\<not> wr_terminating e" "same_object (add_ref_entry ref opts e) e'"
      "acts view env w w' (object_name (lg_lib l) k) (Some e) (Some e')"
    note f = same_object_fields[OF e(2)]
    show ?thesis using e add_ref_refs[of ref opts e] by (auto simp: f)
  qed
qed

text \<open>A store with one entry of one run; another run asks for the same resource.\<close>

definition sample_key :: lkey where
  "sample_key = \<lparr>lk_service = ServiceWeave, lk_kind = ''chain'', lk_name = ''c''\<rparr>"

definition ref_a :: resource_reference where "ref_a = \<lparr>rr_run = ''a'', rr_step = ''chain''\<rparr>"
definition ref_b :: resource_reference where "ref_b = \<lparr>rr_run = ''b'', rr_step = ''chain''\<rparr>"

definition entry0 :: wizard_resource where
  "entry0 = (new_resource pad_lib sample_key ref_a \<lparr>ne_managed = True, ne_spec_hash = [], ne_external_id = []\<rparr>)
     \<lparr>wr_version := format_nat 0\<rparr>"

definition quiet_store :: store where
  "quiet_store = \<lparr>st_objects = [entry0], st_next = 1, st_foreign = []\<rparr>"

lemma refs_differ [simp]: "ref_a \<noteq> ref_b" "ref_b \<noteq> ref_a"
  by (simp_all add: ref_a_def ref_b_def)

lemma entry0_key [simp]: "key_of entry0 = sample_key"
  by (simp add: entry0_def)

lemma entry0_simps [simp]:
  "wr_object entry0 = object_name pad_lib sample_key" "wr_terminating entry0 = False"
  "wr_refs entry0 = [ref_a]" "wr_managed entry0 = True" "wr_external_id entry0 = []"
  by (simp_all add: entry0_def new_resource_def)

lemma quiet_wf [simp]: "store_wf quiet_store"
  by (simp add: store_wf_def quiet_store_def entry0_def)

lemma quiet_view [simp]: "store_view quiet_store (object_name pad_lib sample_key) = Some entry0"
  by (simp add: store_view_def quiet_store_def)

lemma quiet_step [simp]: "others_step me pad_lib quiet_store = quiet_store"
  by (simp add: others_step_def) (simp add: quiet_store_def)

lemma store_ledger_sel [simp]: "lg_kube (store_ledger me gl) = store_kube me gl" "lg_lib (store_ledger me gl) = gl"
  "lg_sleep (store_ledger me gl) = others_step me gl"
  by (simp_all add: store_ledger_def)

lemma quiet_get: "ledger_get (store_ledger me pad_lib) sample_key quiet_store = (Inr (Some entry0), quiet_store)"
  by (simp add: ledger_get_def store_kube_def on_store_def io_try_def)

lemma quiet_update:
  "wr_object e = object_name pad_lib sample_key \<Longrightarrow> wr_version e = wr_version entry0 \<Longrightarrow>
   kb_update (store_kube me pad_lib) e quiet_store = (Inr (stamped e quiet_store), store_put e quiet_store)"
  by (simp add: store_kube_def on_store_def)

lemma conflict_steps [simp]: "bo_steps conflictBackoff = 30"
  by (simp add: conflictBackoff_def)

lemma quiet_add: "ledger_add_ref (store_ledger me pad_lib) sample_key ref_b no_options quiet_store =
    (Inr (stamped (entry0\<lparr>wr_refs := [ref_a, ref_b]\<rparr>) quiet_store), store_put (entry0\<lparr>wr_refs := [ref_a, ref_b]\<rparr>) quiet_store)"
proof -
  have new: "add_ref_entry ref_b no_options entry0 = entry0\<lparr>wr_refs := [ref_a, ref_b]\<rparr>"
    by (simp add: add_ref_entry_def no_options_def hasRef_def)
  have "entry0\<lparr>wr_refs := [ref_a, ref_b]\<rparr> \<noteq> entry0"
    by (auto dest: arg_cong[of _ _ wr_refs])
  then have "add_ref_once (store_ledger me pad_lib) sample_key ref_b no_options quiet_store =
      (Inr (stamped (entry0\<lparr>wr_refs := [ref_a, ref_b]\<rparr>) quiet_store), store_put (entry0\<lparr>wr_refs := [ref_a, ref_b]\<rparr>) quiet_store)"
    by (simp add: add_ref_once_def io_bind_def quiet_get new Let_def quiet_update)
  then show ?thesis by (simp add: ledger_add_ref_def retry_on_conflict_def retry_loop.simps[of _ conflictBackoff])
qed

theorem add_ref_witness:
  "\<exists>e' s'. ledger_add_ref (store_ledger ''b'' pad_lib) sample_key ref_b no_options quiet_store = (Inr e', s') \<and>
     ref_b \<in> set (wr_refs e')"
  using add_ref_atomic[OF mem.ledger_store_axioms quiet_add] quiet_add by blast

text \<open>The moment a release takes effect: the entry is stored as \<open>release_entry\<close> makes it, by our
  update or because it was so already.\<close>

definition release_commit ::
  "('w \<Rightarrow> string \<Rightarrow> wizard_resource option) \<Rightarrow> ('w \<Rightarrow> 'w \<Rightarrow> bool) \<Rightarrow> string \<Rightarrow> resource_reference \<Rightarrow>
   'w \<Rightarrow> 'w \<Rightarrow> wizard_resource \<Rightarrow> bool" where
  "release_commit view env n ref w w' e1 \<longleftrightarrow>
     (release_entry ref e1 = e1 \<and> reads view env w w' n (Some e1)) \<or>
     (\<exists>e. same_object (release_entry ref e) e1 \<and> acts view env w w' n (Some e) (Some e1))"

lemma release_commit_terminating:
  assumes "release_commit view env n ref w w' e1" "wr_refs e1 = []"
  shows "wr_terminating e1"
  using assms(1) unfolding release_commit_def
proof (elim disjE exE conjE)
  assume "release_entry ref e1 = e1"
  with assms(2) show ?thesis using release_terminating[of ref e1] by simp
next
  fix e assume "same_object (release_entry ref e) e1"
  note f = same_object_fields[OF this]
  show ?thesis using assms(2) by (simp add: f release_terminating)
qed

text \<open>C11: releasing a reference is one atomic change, and its outcome tells what is true of the entry
  at that moment: gone, still referenced by others, or unreferenced and terminating; only an
  unreferenced entry of a managed resource makes the caller delete the resource, an unmanaged
  entry is removed and its resource left alone.\<close>

theorem release_outcome:
  assumes "ledger_store kube view known env l" and "ledger_release l k ref w = (Inr (out, e), w')"
  shows "let n = object_name (lg_lib l) k in
    case out of
      OutcomeGone \<Rightarrow> e = None \<and> reads view env w w' n None
    | OutcomeShared \<Rightarrow> (\<exists>e1. e = Some e1 \<and> wr_refs e1 \<noteq> [] \<and> release_commit view env n ref w w' e1)
    | OutcomeDelete \<Rightarrow> (\<exists>e1. e = Some e1 \<and> wr_refs e1 = [] \<and> wr_terminating e1 \<and> wr_managed e1 \<and>
                         release_commit view env n ref w w' e1)
    | OutcomeReleased \<Rightarrow> (\<exists>e1 w1. e = Some e1 \<and> wr_refs e1 = [] \<and> wr_terminating e1 \<and> \<not> wr_managed e1 \<and>
                         release_commit view env n ref w w1 e1 \<and>
                         (reads view env w1 w' n None \<or> (\<exists>c. acts view env w1 w' n c None)))"
proof -
  have interpret_result: "ledger_store.release_result view env l k ref w (out, e) w'"
    using ledger_store.release_spec[OF assms] by simp
  have d: "release_commit view env (object_name (lg_lib l) k) ref u u' x"
    if "ledger_store.dropped view env l k ref u u' x" for u u' x
    using that ledger_store.dropped_def[OF assms(1)] unfolding release_commit_def by blast
  note r = interpret_result[unfolded ledger_store.release_result_def[OF assms(1)] ledger_store.removed_def[OF assms(1)]]
  show ?thesis
  proof (cases out)
    case OutcomeGone
    with r show ?thesis by (simp add: Let_def)
  next
    case OutcomeShared
    with r d show ?thesis by (auto simp: Let_def)
  next
    case OutcomeReleased
    with r obtain e1 w1 where e1: "e = Some e1" "wr_refs e1 = []" "\<not> wr_managed e1"
      and dr: "ledger_store.dropped view env l k ref w w1 e1"
      and "reads view env w1 w' (object_name (lg_lib l) k) None \<or> (\<exists>c. acts view env w1 w' (object_name (lg_lib l) k) c None)"
      by auto
    note c = d[OF dr]
    with e1 release_commit_terminating[OF c e1(2)] OutcomeReleased
      \<open>reads view env w1 w' (object_name (lg_lib l) k) None \<or> (\<exists>c. acts view env w1 w' (object_name (lg_lib l) k) c None)\<close>
    show ?thesis unfolding Let_def by (simp only: outcome.case) blast
  next
    case OutcomeDelete
    with r obtain e1 where e1: "e = Some e1" "wr_refs e1 = []" "wr_managed e1"
      and c: "release_commit view env (object_name (lg_lib l) k) ref w w' e1" using d by auto
    with release_commit_terminating[OF c e1(2)] OutcomeDelete show ?thesis by (simp add: Let_def)
  qed
qed

lemma quiet_release: "ledger_release (store_ledger me pad_lib) sample_key ref_a quiet_store =
    (Inr (OutcomeDelete, Some (stamped (entry0\<lparr>wr_refs := [], wr_terminating := True\<rparr>) quiet_store)),
     store_put (entry0\<lparr>wr_refs := [], wr_terminating := True\<rparr>) quiet_store)"
proof -
  let ?e = "entry0\<lparr>wr_refs := [], wr_terminating := True\<rparr>"
  have new: "release_entry ref_a entry0 = ?e" by (simp add: release_entry_def)
  have "?e \<noteq> entry0" by (auto dest: arg_cong[of _ _ wr_refs])
  then have "release_once (store_ledger me pad_lib) sample_key ref_a quiet_store =
      (Inr (OutcomeDelete, Some (stamped ?e quiet_store)), store_put ?e quiet_store)"
    by (simp add: release_once_def io_bind_def quiet_get new Let_def quiet_update) (simp add: stamped_def)
  then show ?thesis by (simp add: ledger_release_def retry_on_conflict_def retry_loop.simps[of _ conflictBackoff])
qed

theorem release_witness:
  "\<exists>e s'. ledger_release (store_ledger ''b'' pad_lib) sample_key ref_a quiet_store = (Inr (OutcomeDelete, Some e), s') \<and>
     wr_refs e = [] \<and> wr_terminating e"
  using release_outcome[OF mem.ledger_store_axioms quiet_release] quiet_release by (auto simp: Let_def)

text \<open>C13: every ledger operation, successful or not, keeps the ledger's invariant (each entry under the
  name of its key, no reference listed twice, terminating exactly when nobody references it), as long as
  the other clients of the store keep it.\<close>

theorem ledger_invariant:
  assumes "ledger_store kube view known env l" and "others_ok (lg_lib l) view env" and "ledger_ok (lg_lib l) view w"
  shows "ledger_ok (lg_lib l) view (snd (ledger_register l k ref n w)) \<and>
    ledger_ok (lg_lib l) view (snd (ledger_add_ref l k ref opts w)) \<and>
    ledger_ok (lg_lib l) view (snd (ledger_release l k ref w))"
  using keeps_snd[OF ledger_store.register_keeps[OF assms(1,2)] assms(3)]
    keeps_snd[OF ledger_store.add_ref_keeps[OF assms(1,2)] assms(3)]
    keeps_snd[OF ledger_store.release_keeps[OF assms(1,2)] assms(3)] by blast

lemma quiet_ok: "ledger_ok pad_lib store_view quiet_store"
  by (auto simp: ledger_ok_def entry_ok_def store_view_def quiet_store_def)

theorem ledger_invariant_witness:
  "ledger_ok pad_lib store_view (snd (ledger_release (store_ledger ''b'' pad_lib) sample_key ref_a quiet_store))"
proof -
  have "others_ok (lg_lib (store_ledger ''b'' pad_lib)) store_view (store_env ''b'' pad_lib)" by (simp add: store_others_ok)
  from ledger_invariant[OF mem.ledger_store_axioms this] quiet_ok show ?thesis by simp
qed

text \<open>The reference for the retries: at most \<open>n\<close> attempts, the next one after a conflict and a pause, and the last
  conflict when there is none left. \<open>e\<close> is the last conflict so far.\<close>

primrec try_times :: "('w \<Rightarrow> 'w) \<Rightarrow> ('w, 'a) call \<Rightarrow> nat \<Rightarrow> err \<Rightarrow> ('w, 'a) call" where
  "try_times pause f 0 e = io_fail e"
| "try_times pause f (Suc n) e =
     (\<lambda>w. case f w of
        (Inr a, w') \<Rightarrow> (Inr a, w')
      | (Inl x, w') \<Rightarrow> if kube_conflict x then try_times pause f n x (pause w') else (Inl x, w'))"

lemma retry_none: "bo_steps b = 0 \<Longrightarrow> retry_loop pause b e f = try_times pause f 0 e"
  by (simp add: retry_loop.simps)

lemma retry_more:
  assumes "bo_steps b > 1" "\<And>e. retry_loop pause (backoff_step b) e f = try_times pause f n e"
  shows "retry_loop pause b e f = try_times pause f (Suc n) e"
  using assms by (subst retry_loop.simps) (auto simp: fun_eq_iff split: sum.splits prod.splits)

lemma retry_on_conflict_tries: "retry_on_conflict pause f = try_times pause f 10 (Panic ''no attempt'')"
proof -
  have "retry_loop pause conflictBackoff e f =
      try_times pause f (Suc (Suc (Suc (Suc (Suc (Suc (Suc (Suc (Suc (Suc 0)))))))))) e" for e
    by ((rule retry_more, simp add: conflictBackoff_def backoff_step_def Let_def)+, rule retry_none,
        simp add: conflictBackoff_def backoff_step_def Let_def)
  then show ?thesis by (simp add: retry_on_conflict_def numeral_nat)
qed

text \<open>C38: \<open>AddRef\<close> and \<open>Release\<close> are ten attempts: whatever the store and the other clients do, they are the loop that
  repeats the attempt (reading the entry again) after each conflict, returns any other result at once, and gives
  up with the conflict of the tenth attempt. The backoff asks for thirty steps; reaching its cap ends the retries.\<close>

theorem conflict_retries:
  "ledger_add_ref l k ref opts = try_times (lg_sleep l) (add_ref_once l k ref opts) 10 (Panic ''no attempt'') \<and>
   ledger_release l k ref = try_times (lg_sleep l) (release_once l k ref) 10 (Panic ''no attempt'') \<and>
   bo_steps conflictBackoff = 30"
  by (simp add: ledger_add_ref_def ledger_release_def retry_on_conflict_tries conflictBackoff_def)

text \<open>C39: equal spec hashes mean equal parts, or a collision of the first eight bytes of SHA-256 on
  different texts, provided no part contains a NUL byte; a NUL byte inside a part (JSON strings
  may have one) makes different part lists hash alike.\<close>

theorem ledger_hash_correct:
  assumes "ps \<noteq> []" "qs \<noteq> []" "\<forall>p\<in>set ps \<union> set qs. CHR 0x00 \<notin> set p" "ledger_hash gl ps = ledger_hash gl qs"
  shows "(ps = qs \<or> (join nul ps \<noteq> join nul qs \<and>
      take 8 (gl_sha256 gl (join nul ps)) = take 8 (gl_sha256 gl (join nul qs)))) \<and>
    ledger_hash gl [a @ nul @ b, c] = ledger_hash gl [a, b @ nul @ c]"
  using join_nul_inj[OF assms(1-3)] ledger_hash_eq[OF assms(4)] by (auto simp: ledger_hash_def)

theorem ledger_hash_witness: "ledger_hash pad_lib [''a'' @ nul @ ''b'', ''c''] = ledger_hash pad_lib [''a'', ''b'' @ nul @ ''c'']"
  using ledger_hash_correct[of "[''x'']" "[''x'']" pad_lib "''a''" "''b''" "''c''"] by simp

end
