(* ===== verification/Steps.thy ===== *)
theory Steps
  imports KubeStore
begin

text \<open>
  Package \<open>internal/steps\<close>, files \<open>step.go\<close> and \<open>ensure.go\<close>: what a catalogue step gets and
  returns, and the recipe every step uses to make one upstream resource exist and to record its
  reference in the ledger. The upstream services and the clock are fields of \<open>env\<close>, as in the code.
\<close>

section \<open>Kinds and services\<close>

definition KindGitWatcher :: string where "KindGitWatcher = ''gitwatcher''"
definition KindArtifact :: string where "KindArtifact = ''artifact''"
definition KindTag :: string where "KindTag = ''tag''"
definition KindApp :: string where "KindApp = ''app''"
definition KindJobTemplate :: string where "KindJobTemplate = ''jobtemplate''"
definition KindServiceTemplate :: string where "KindServiceTemplate = ''servicetemplate''"
definition KindChain :: string where "KindChain = ''chain''"
definition KindTrigger :: string where "KindTrigger = ''trigger''"
definition KindBatchTrigger :: string where "KindBatchTrigger = ''batchtrigger''"

lemmas kinds = KindGitWatcher_def KindArtifact_def KindTag_def KindApp_def KindJobTemplate_def
  KindServiceTemplate_def KindChain_def KindTrigger_def KindBatchTrigger_def

definition retryTerminating :: time where "retryTerminating = 2 * 1000000000"

record 'w forge_api =
  fa_get_watcher :: "string \<Rightarrow> ('w, git_watcher) call"
  fa_create_watcher :: "create_git_watcher \<Rightarrow> ('w, git_watcher) call"
  fa_delete_watcher :: "string \<Rightarrow> ('w, unit) call"
  fa_list_builds :: "string \<Rightarrow> int \<Rightarrow> ('w, build list) call"
  fa_get_build :: "int \<Rightarrow> ('w, build) call"

record 'w index_api =
  ia_find_artifact :: "string \<Rightarrow> ('w, artifact) call"
  ia_list_versions :: "int \<Rightarrow> ('w, version list) call"
  ia_set_tag :: "int \<Rightarrow> string \<Rightarrow> string \<Rightarrow> ('w, unit) call"
  ia_delete_tag :: "int \<Rightarrow> string \<Rightarrow> ('w, unit) call"
  ia_delete_artifact :: "int \<Rightarrow> ('w, unit) call"

record 'w weave_api =
  wa_get :: "string \<Rightarrow> string \<Rightarrow> ('w, weave_object) call"
  wa_create :: "string \<Rightarrow> weave_object \<Rightarrow> ('w, weave_object) call"
  wa_delete :: "string \<Rightarrow> string \<Rightarrow> ('w, unit) call"
  wa_fire :: "string \<Rightarrow> ('w, unit) call"
  wa_patch_labels :: "string \<Rightarrow> smap \<Rightarrow> ('w, unit) call"
  wa_create_batch :: "string \<Rightarrow> string \<Rightarrow> string \<Rightarrow> ('w, unit) call"
  wa_delete_batch :: "string \<Rightarrow> ('w, unit) call"

text \<open>\<open>Env\<close>; \<open>env_now\<close> reads the clock.\<close>

record 'w env =
  env_cfg :: config
  env_forge :: "'w forge_api"
  env_index :: "'w index_api"
  env_weave :: "'w weave_api"
  env_ledger :: "'w ledger"
  env_now :: "'w \<Rightarrow> time"

abbreviation env_lib :: "'w env \<Rightarrow> go_lib" where
  "env_lib e \<equiv> lg_lib (env_ledger e)"

text \<open>The clients of package \<open>upstream\<close> as these interfaces (\<open>NewForge\<close>, \<open>NewIndex\<close>, \<open>NewWeave\<close>).\<close>

definition forge_client :: "go_lib \<Rightarrow> 'w client \<Rightarrow> 'w forge_api" where
  "forge_client gl c = \<lparr>fa_get_watcher = get_git_watcher gl c, fa_create_watcher = create_git_watcher_do gl c,
     fa_delete_watcher = delete_git_watcher gl c, fa_list_builds = list_app_builds gl c, fa_get_build = get_app_build gl c\<rparr>"

definition index_client_api :: "go_lib \<Rightarrow> nat \<Rightarrow> 'w client \<Rightarrow> 'w index_api" where
  "index_client_api gl fuel c = \<lparr>ia_find_artifact = find_artifact gl fuel c, ia_list_versions = list_versions gl c,
     ia_set_tag = set_tag gl c, ia_delete_tag = delete_tag gl c, ia_delete_artifact = delete_artifact gl c\<rparr>"

definition weave_client_api :: "go_lib \<Rightarrow> 'w client \<Rightarrow> 'w weave_api" where
  "weave_client_api gl c = \<lparr>wa_get = weave_get gl c, wa_create = weave_create gl c, wa_delete = weave_delete gl c,
     wa_fire = weave_fire gl c, wa_patch_labels = weave_patch_labels gl c,
     wa_create_batch = create_batch_trigger gl c, wa_delete_batch = delete_batch_trigger gl c\<rparr>"

section \<open>Inputs, results, errors\<close>

record input =
  in_run :: string
  in_key :: string
  in_params :: smap
  in_prior :: smap
  in_started :: "time option"

record step_result =
  res_done :: bool
  res_requeue :: time
  res_message :: msg
  res_outputs :: smap
  res_resources :: "managed_resource_ref list"

definition no_result :: step_result where
  "no_result = \<lparr>res_done = False, res_requeue = 0, res_message = Lit [], res_outputs = [], res_resources = []\<rparr>"

record param_spec =
  ps_required :: "string list"
  ps_optional :: "string list"
  ps_prefixes :: "string list"

text \<open>\<open>Step\<close>: one entry of the catalogue.\<close>

record 'w step =
  sp_type :: step_type
  sp_outputs :: "string list"
  sp_params :: param_spec
  sp_ensure :: "'w env \<Rightarrow> input \<Rightarrow> ('w, step_result) call"

text \<open>\<open>Env.now\<close>.\<close>

definition clock :: "'w env \<Rightarrow> ('w, time) call" where
  "clock e = (\<lambda>w. (Inr (env_now e w), w))"

definition param_allows :: "param_spec \<Rightarrow> string \<Rightarrow> bool" where
  "param_allows p name \<longleftrightarrow>
     name \<in> set (ps_required p) \<or> name \<in> set (ps_optional p) \<or>
     list_ex (\<lambda>pre. has_prefix name pre \<and> length name > length pre) (ps_prefixes p)"

fun is_permanent_error :: "err \<Rightarrow> bool" where
  "is_permanent_error (PermanentError e) = True"
| "is_permanent_error _ = False"

definition is_permanent :: "err \<Rightarrow> bool" where
  "is_permanent e \<longleftrightarrow> list_ex is_permanent_error (err_tree e) \<or> (as_api e \<noteq> None \<and> \<not> is_transient e)"

text \<open>\<open>errors.Is\<close> for the ledger's sentinels.\<close>

definition is_terminating :: "err \<Rightarrow> bool" where "is_terminating e \<longleftrightarrow> ErrTerminating \<in> set (err_tree e)"
definition is_ledger_not_found :: "err \<Rightarrow> bool" where "is_ledger_not_found e \<longleftrightarrow> ErrNotFound \<in> set (err_tree e)"
definition is_ledger_exists :: "err \<Rightarrow> bool" where "is_ledger_exists e \<longleftrightarrow> ErrExists \<in> set (err_tree e)"

lemma sentinels [simp]: "is_terminating ErrTerminating" "is_ledger_not_found ErrNotFound" "is_ledger_exists ErrExists"
  by (simp_all add: is_terminating_def is_ledger_not_found_def is_ledger_exists_def)

section \<open>ensure\<close>

definition maxEnsureAttempts :: nat where "maxEnsureAttempts = 5"

record existing =
  ex_external_id :: string
  ex_matches :: bool
  ex_detail :: msg

record 'w managed =
  mg_key :: lkey
  mg_hash :: string
  mg_claim :: bool
  mg_get :: "('w, existing option) call"
  mg_create :: "('w, string) call"
  mg_update :: "(existing \<Rightarrow> ('w, unit) call) option"

definition in_ref :: "input \<Rightarrow> resource_reference" where
  "in_ref i = \<lparr>rr_run = in_run i, rr_step = in_key i\<rparr>"

definition key_what :: "lkey \<Rightarrow> msg" where
  "key_what k = Fmt ''%s %s %q'' [Lit (service_str (lk_service k)), Lit (lk_kind k), Lit (lk_name k)]"

definition dispositionOf :: "wizard_resource \<Rightarrow> resource_reference \<Rightarrow> disposition" where
  "dispositionOf e ref =
     (if \<not> wr_managed e then DispositionFoundUnowned
      else if wr_refs e = [ref] then DispositionCreated
      else DispositionAdopted)"

definition key_ref :: "lkey \<Rightarrow> managed_resource_ref" where
  "key_ref k = \<lparr>mr_service = lk_service k, mr_kind = lk_kind k, mr_name = lk_name k, mr_external_id = [],
     mr_disposition = DispositionUnset\<rparr>"

text \<open>The part after the reference is held, when the resource exists: the optional update.\<close>

definition ensure_update :: "'w managed \<Rightarrow> existing \<Rightarrow> managed_resource_ref \<Rightarrow> ('w, managed_resource_ref) call" where
  "ensure_update m ex out =
     (case mg_update m of
        None \<Rightarrow> io_return out
      | Some upd \<Rightarrow> io_bind (upd ex) (\<lambda>_. io_return out))"

text \<open>
  The loop of \<open>ensure\<close>: \<open>n\<close> attempts are left, \<open>out\<close> is the result under construction, which a
  \<open>continue\<close> keeps. The branch for an existing resource (\<open>ensure_existing\<close>) and the one that creates
  it (\<open>ensure_missing\<close>) take the next attempt as \<open>retry\<close>.
\<close>

definition ensure_existing ::
  "'w env \<Rightarrow> input \<Rightarrow> 'w managed \<Rightarrow> wizard_resource option \<Rightarrow> existing \<Rightarrow>
   (managed_resource_ref \<Rightarrow> ('w, managed_resource_ref) call) \<Rightarrow> managed_resource_ref \<Rightarrow>
   ('w, managed_resource_ref) call" where
  "ensure_existing e i m entry ex retry out0 =
     (let ref = in_ref i; k = mg_key m; out = out0\<lparr>mr_external_id := ex_external_id ex\<rparr>
      in if \<not> ex_matches ex then
           io_fail (permanentf ''%s already exists with different settings (%s)'' [key_what k, ex_detail ex])
         else (case entry of
           None \<Rightarrow>
             io_try (ledger_register (env_ledger e) k ref
                       \<lparr>ne_managed = mg_claim m, ne_spec_hash = mg_hash m, ne_external_id = ex_external_id ex\<rparr>) (\<lambda>r. case r of
               Inl x \<Rightarrow> if is_ledger_exists x then retry out else io_fail x
             | Inr reg \<Rightarrow>
                 ensure_update m ex (out\<lparr>mr_disposition :=
                   if mg_claim m then DispositionCreated else DispositionFoundUnowned\<rparr>))
         | Some en \<Rightarrow>
             if wr_spec_hash en \<noteq> [] \<and> mg_hash m \<noteq> [] \<and> wr_spec_hash en \<noteq> mg_hash m then
               io_fail (permanentf ''%s is in use by another wizard run with different settings'' [key_what k])
             else
               io_try (ledger_add_ref (env_ledger e) k ref no_options) (\<lambda>r. case r of
                 Inl x \<Rightarrow> if is_ledger_not_found x then retry out else io_fail x
               | Inr upd \<Rightarrow> ensure_update m ex (out\<lparr>mr_disposition := dispositionOf upd ref\<rparr>))))"

definition ensure_register ::
  "'w env \<Rightarrow> input \<Rightarrow> 'w managed \<Rightarrow> wizard_resource option \<Rightarrow> ('w, wizard_resource) call" where
  "ensure_register e i m entry =
     (case entry of
        None \<Rightarrow> ledger_register (env_ledger e) (mg_key m) (in_ref i)
                  \<lparr>ne_managed = True, ne_spec_hash = mg_hash m, ne_external_id = []\<rparr>
      | Some en \<Rightarrow> ledger_add_ref (env_ledger e) (mg_key m) (in_ref i) \<lparr>ao_manage = True, ao_external_id = []\<rparr>)"

definition ensure_missing ::
  "'w env \<Rightarrow> input \<Rightarrow> 'w managed \<Rightarrow> wizard_resource option \<Rightarrow>
   (managed_resource_ref \<Rightarrow> ('w, managed_resource_ref) call) \<Rightarrow> managed_resource_ref \<Rightarrow>
   ('w, managed_resource_ref) call" where
  "ensure_missing e i m entry retry out =
     (let ref = in_ref i
      in io_try (ensure_register e i m entry) (\<lambda>r. case r of
           Inl x \<Rightarrow>
             if (case entry of None \<Rightarrow> is_ledger_exists x | Some _ \<Rightarrow> is_ledger_not_found x)
             then retry out else io_fail x
         | Inr reg \<Rightarrow>
             io_try (mg_create m) (\<lambda>c. case c of
               Inl x \<Rightarrow> if is_upstream_conflict x then retry out else io_fail x
             | Inr eid \<Rightarrow>
                 if eid = [] then io_return (out\<lparr>mr_disposition := dispositionOf reg ref\<rparr>)
                 else io_bind (ledger_add_ref (env_ledger e) (mg_key m) ref \<lparr>ao_manage = False, ao_external_id = eid\<rparr>)
                        (\<lambda>reg'. io_return (out\<lparr>mr_external_id := eid, mr_disposition := dispositionOf reg' ref\<rparr>)))))"

fun ensure_loop ::
  "'w env \<Rightarrow> input \<Rightarrow> 'w managed \<Rightarrow> nat \<Rightarrow> managed_resource_ref \<Rightarrow> ('w, managed_resource_ref) call" where
  "ensure_loop e i m 0 out =
     io_fail (Errorf (Fmt ''could not settle ownership of %s after %d attempts: concurrent changes''
       [key_what (mg_key m), Num (int maxEnsureAttempts)]))"
| "ensure_loop e i m (Suc n) out =
     io_bind (ledger_get (env_ledger e) (mg_key m)) (\<lambda>entry.
       if (case entry of None \<Rightarrow> False | Some en \<Rightarrow> wr_terminating en) then io_fail ErrTerminating
       else io_bind (mg_get m) (\<lambda>found. case found of
              Some ex \<Rightarrow> ensure_existing e i m entry ex (ensure_loop e i m n) out
            | None \<Rightarrow> ensure_missing e i m entry (ensure_loop e i m n) out))"

definition ensure :: "'w env \<Rightarrow> input \<Rightarrow> 'w managed \<Rightarrow> ('w, managed_resource_ref) call" where
  "ensure e i m = ensure_loop e i m maxEnsureAttempts (key_ref (mg_key m))"

definition ensureStep :: "'w env \<Rightarrow> input \<Rightarrow> 'w managed \<Rightarrow> smap \<Rightarrow> ('w, step_result) call" where
  "ensureStep e i m outputs =
     io_try (ensure e i m) (\<lambda>r. case r of
       Inl x \<Rightarrow>
         if is_terminating x then
           io_return \<lparr>res_done = False, res_requeue = retryTerminating,
             res_message = Fmt ''waiting for a previous owner to finish deleting %s %q''
               [Lit (lk_kind (mg_key m)), Lit (lk_name (mg_key m))],
             res_outputs = in_prior i, res_resources = []\<rparr>
         else io_fail x
     | Inr ref \<Rightarrow>
         io_return \<lparr>res_done = True, res_requeue = 0, res_message = Lit [], res_outputs = outputs, res_resources = [ref]\<rparr>)"

section \<open>Deleting upstream\<close>

definition weaveCollection :: "string \<Rightarrow> string" where
  "weaveCollection kind =
     (if kind = KindJobTemplate then WeaveJobTemplates
      else if kind = KindServiceTemplate then WeaveServiceTemplates
      else if kind = KindChain then WeaveChains
      else if kind = KindApp then WeaveApps
      else WeaveTriggers)"

definition deleteUpstream :: "'w env \<Rightarrow> wizard_resource \<Rightarrow> ('w, unit) call" where
  "deleteUpstream e s =
     (let svc = wr_service s; kind = wr_kind s; name = wr_name s
      in if svc = ServiceForge \<and> kind = KindGitWatcher then fa_delete_watcher (env_forge e) name
         else if svc = ServiceIndex \<and> kind = KindArtifact then
           (case parse_int (wr_external_id s) of
              None \<Rightarrow> io_fail (permanentf ''artifact %q has no valid index ID recorded'' [Lit name])
            | Some n \<Rightarrow> ia_delete_artifact (env_index e) n)
         else if svc = ServiceIndex \<and> kind = KindTag then
           (case (parse_int (wr_external_id s), last_index CHR '':'' name) of
              (Some n, Some j) \<Rightarrow> ia_delete_tag (env_index e) n (drop (j + 1) name)
            | _ \<Rightarrow> io_fail (permanentf ''tag %q has no valid artifact ID recorded'' [Lit name]))
         else if svc = ServiceWeave \<and> kind \<in> set [KindJobTemplate, KindServiceTemplate, KindChain, KindTrigger, KindApp] then
           wa_delete (env_weave e) (weaveCollection kind) name
         else if svc = ServiceWeave \<and> kind = KindBatchTrigger then wa_delete_batch (env_weave e) name
         else io_fail (permanentf ''no delete implemented for %s %s'' [Lit (service_str svc), Lit kind]))"

end
