(* ===== verification/StepsProps.thy ===== *)
theory StepsProps
  imports Steps
begin

text \<open>
  What \<open>ensure\<close> guarantees over a store that satisfies the ledger's contract, with other clients
  acting between all calls: a successful call leaves the step's reference in the ledger, and the
  resource is only ever created while the ledger holds that reference (write-ahead), so a rollback
  that works from the ledger finds everything.
\<close>

section \<open>Holding a reference\<close>

text \<open>A call on an upstream service leaves the ledger to the other clients.\<close>

definition leaves_ledger :: "('w \<Rightarrow> 'w \<Rightarrow> bool) \<Rightarrow> ('w, 'a) call \<Rightarrow> bool" where
  "leaves_ledger env f \<longleftrightarrow> (\<forall>w. env w (snd (f w)))"

definition managed_leaves :: "('w \<Rightarrow> 'w \<Rightarrow> bool) \<Rightarrow> 'w managed \<Rightarrow> bool" where
  "managed_leaves env m \<longleftrightarrow> leaves_ledger env (mg_create m) \<and>
     (case mg_update m of None \<Rightarrow> True | Some upd \<Rightarrow> (\<forall>ex. leaves_ledger env (upd ex)))"

text \<open>The recipe with its creation guarded by the reference.\<close>

definition guarded ::
  "('w \<Rightarrow> string \<Rightarrow> wizard_resource option) \<Rightarrow> string \<Rightarrow> resource_reference \<Rightarrow> 'w managed \<Rightarrow> 'w managed" where
  "guarded view n ref m =
     m\<lparr>mg_create := (\<lambda>w. if holds view n ref w then mg_create m w else (Inl (Panic ''created without a reference''), w))\<rparr>"

lemma guarded_sel [simp]:
  "mg_key (guarded view n ref m) = mg_key m" "mg_hash (guarded view n ref m) = mg_hash m"
  "mg_claim (guarded view n ref m) = mg_claim m" "mg_get (guarded view n ref m) = mg_get m"
  "mg_update (guarded view n ref m) = mg_update m"
  by (simp_all add: guarded_def)

lemma leaves_ledgerD: "leaves_ledger env f \<Longrightarrow> f w = (r, w') \<Longrightarrow> env w w'"
  unfolding leaves_ledger_def by (metis snd_conv)

context ledger_store
begin

lemma held_env: "others_keep_ref view env n ref \<Longrightarrow> env w w' \<Longrightarrow> holds view n ref w \<Longrightarrow> holds view n ref w'"
  by (simp add: others_keep_ref_def)

lemma held_act:
  "others_keep_ref view env n ref \<Longrightarrow> act w w' n x (Some e') \<Longrightarrow> ref \<in> set (wr_refs e') \<Longrightarrow> holds view n ref w'"
  unfolding acts_def by (elim exE conjE, erule (1) held_env) (simp add: holds_def)

lemma held_rd:
  "others_keep_ref view env n ref \<Longrightarrow> rd w w' n (Some e') \<Longrightarrow> ref \<in> set (wr_refs e') \<Longrightarrow> holds view n ref w'"
  unfolding reads_def by (elim exE conjE, erule (1) held_env) (simp add: holds_def)

lemma register_holds:
  assumes "others_keep_ref view env (nm k) ref" "ledger_register l k ref n w = (Inr e', w')"
  shows "holds view (nm k) ref w'"
proof -
  from register_ok[OF assms(2)]
  have a: "act w w' (nm k) None (Some e')" and o: "same_object (new_resource (lg_lib l) k ref n) e'" by blast+
  have "wr_refs e' = [ref]" using same_object_fields(2)[OF o] by (simp add: new_resource_def)
  then show ?thesis using held_act[OF assms(1) a] by simp
qed

lemma add_ref_holds:
  assumes o: "others_keep_ref view env (nm k) ref" and a: "ledger_add_ref l k ref opts w = (Inr e', w')"
  shows "holds view (nm k) ref w'"
  using add_ref_ok[OF a]
proof (elim disjE exE conjE)
  assume "add_ref_entry ref opts e' = e'" "rd w w' (nm k) (Some e')"
  then show ?thesis using held_rd[OF o] add_ref_refs[of ref opts e'] by auto
next
  fix e assume "added k ref opts w w' e e'"
  then have a: "act w w' (nm k) (Some e) (Some e')" and s: "same_object (add_ref_entry ref opts e) e'"
    by (simp_all add: added_def)
  have "ref \<in> set (wr_refs e')" using same_object_fields(2)[OF s] add_ref_refs[of ref opts e] by simp
  then show ?thesis by (rule held_act[OF o a])
qed

lemma ensure_register_holds:
  assumes e: "env_ledger e = l" and o: "others_keep_ref view env (nm (mg_key m)) (in_ref i)"
    and r: "ensure_register e i m entry w = (Inr reg, w')"
  shows "holds view (nm (mg_key m)) (in_ref i) w'"
  using r register_holds[OF o] add_ref_holds[OF o] by (cases entry) (simp_all add: ensure_register_def e)

text \<open>Each part of \<open>ensure\<close> establishes that the reference is held, given that the next attempt does.\<close>

abbreviation establishes :: "('w \<Rightarrow> bool) \<Rightarrow> ('w \<Rightarrow> bool) \<Rightarrow> ('w, 'a) call \<Rightarrow> bool" where
  "establishes P H f \<equiv> triple P f (\<lambda>_. H) (\<lambda>_ _. True)"

lemma upstream_keeps:
  "others_keep_ref view env n ref \<Longrightarrow> leaves_ledger env f \<Longrightarrow> establishes (holds view n ref) (holds view n ref) f"
  by (rule tripleI) (auto dest: held_env leaves_ledgerD)

lemma ensure_update_holds:
  assumes o: "others_keep_ref view env n ref" and u: "managed_leaves env m"
  shows "establishes (holds view n ref) (holds view n ref) (ensure_update m ex out)"
proof (cases "mg_update m")
  case (Some upd)
  have "leaves_ledger env (upd ex)" using u by (simp add: managed_leaves_def Some)
  then show ?thesis unfolding ensure_update_def Some option.case
    by (rule triple_bind[OF upstream_keeps[OF o]]) (intro triple_return)
qed (simp add: ensure_update_def triple_return)

lemma ensure_existing_holds:
  assumes e: "env_ledger e = l" and o: "others_keep_ref view env (nm (mg_key m)) (in_ref i)"
    and u: "managed_leaves env m"
    and retry: "\<And>out. establishes (\<lambda>_. True) (holds view (nm (mg_key m)) (in_ref i)) (retry out)"
  shows "establishes (\<lambda>_. True) (holds view (nm (mg_key m)) (in_ref i)) (ensure_existing e i m entry ex retry out)"
proof -
  let ?H = "holds view (nm (mg_key m)) (in_ref i)"
  have reg: "establishes (\<lambda>_. True) ?H (ledger_register l (mg_key m) (in_ref i) n)"
    and add: "establishes (\<lambda>_. True) ?H (ledger_add_ref l (mg_key m) (in_ref i) opts)" for n opts
    by (rule tripleI, auto dest: register_holds[OF o] add_ref_holds[OF o])+
  note ok = ensure_update_holds[OF o u]
  show ?thesis
    by (cases entry) (auto simp: ensure_existing_def Let_def e intro!: triple_fail triple_try[OF reg] triple_try[OF add] retry ok)
qed

lemma ensure_missing_holds:
  assumes e: "env_ledger e = l" and o: "others_keep_ref view env (nm (mg_key m)) (in_ref i)"
    and u: "managed_leaves env m"
    and retry: "\<And>out. establishes (\<lambda>_. True) (holds view (nm (mg_key m)) (in_ref i)) (retry out)"
  shows "establishes (\<lambda>_. True) (holds view (nm (mg_key m)) (in_ref i)) (ensure_missing e i m entry retry out)"
proof -
  let ?H = "holds view (nm (mg_key m)) (in_ref i)"
  have reg: "establishes (\<lambda>_. True) ?H (ensure_register e i m entry)"
    and add: "establishes ?H ?H (ledger_add_ref l (mg_key m) (in_ref i) opts)" for opts
    by (rule tripleI, auto dest: ensure_register_holds[OF e o] add_ref_holds[OF o])+
  have "leaves_ledger env (mg_create m)" using u by (simp add: managed_leaves_def)
  note create = upstream_keeps[OF o this]
  have made: "establishes ?H ?H (io_try (mg_create m) (\<lambda>c. case c of
      Inl x \<Rightarrow> if is_upstream_conflict x then retry out else io_fail x
    | Inr eid \<Rightarrow>
        if eid = [] then io_return (out\<lparr>mr_disposition := dispositionOf reg (in_ref i)\<rparr>)
        else io_bind (ledger_add_ref l (mg_key m) (in_ref i) \<lparr>ao_manage = False, ao_external_id = eid\<rparr>)
               (\<lambda>reg'. io_return (out\<lparr>mr_external_id := eid, mr_disposition := dispositionOf reg' (in_ref i)\<rparr>))))" for reg
    by (rule triple_try[OF create]) (auto intro!: triple_fail triple_return triple_bind[OF add] retry)
  show ?thesis unfolding ensure_missing_def Let_def e
    by (rule triple_try[OF reg]) (auto intro!: made triple_fail retry)
qed

lemma ensure_loop_holds:
  assumes e: "env_ledger e = l" and o: "others_keep_ref view env (nm (mg_key m)) (in_ref i)"
    and u: "managed_leaves env m"
  shows "establishes (\<lambda>_. True) (holds view (nm (mg_key m)) (in_ref i)) (ensure_loop e i m n out)"
proof (induction n arbitrary: out)
  case (Suc n)
  have any: "triple (\<lambda>_. True) f (\<lambda>_ _. True) (\<lambda>_ _. True)" for f :: "('w, 'a) call" by (rule tripleI) auto
  have "establishes (\<lambda>_. True) (holds view (nm (mg_key m)) (in_ref i))
      (case found of Some ex \<Rightarrow> ensure_existing e i m entry ex (ensure_loop e i m n) out
       | None \<Rightarrow> ensure_missing e i m entry (ensure_loop e i m n) out)" for found entry
    by (cases found) (auto intro!: ensure_existing_holds[OF e o u] ensure_missing_holds[OF e o u] Suc.IH)
  then show ?case unfolding ensure_loop.simps
    by (intro triple_bind[OF any] triple_if triple_fail) auto
qed (simp add: triple_fail)

text \<open>Guarding the creation changes nothing: it is only reached with the reference in the ledger.\<close>

lemma ensure_missing_guarded:
  assumes e: "env_ledger e = l" and o: "others_keep_ref view env (nm (mg_key m)) (in_ref i)"
  shows "ensure_missing e i (guarded view (nm (mg_key m)) (in_ref i) m) entry retry out w =
         ensure_missing e i m entry retry out w"
proof (cases "ensure_register e i m entry w")
  case (Pair r w1)
  have same: "ensure_register e i (guarded view (nm (mg_key m)) (in_ref i) m) entry = ensure_register e i m entry"
    by (simp add: ensure_register_def split: option.splits)
  show ?thesis
  proof (cases r)
    case (Inr reg)
    have "holds view (nm (mg_key m)) (in_ref i) w1" using ensure_register_holds[OF e o] Pair Inr by simp
    then have "mg_create (guarded view (nm (mg_key m)) (in_ref i) m) w1 = mg_create m w1" by (simp add: guarded_def)
    then show ?thesis unfolding ensure_missing_def same Let_def guarded_sel by (simp add: io_try_def Pair Inr)
  qed (simp add: ensure_missing_def same Let_def io_try_def Pair)
qed

lemma ensure_loop_guarded:
  assumes e: "env_ledger e = l" and o: "others_keep_ref view env (nm (mg_key m)) (in_ref i)"
  shows "ensure_loop e i (guarded view (nm (mg_key m)) (in_ref i) m) n = ensure_loop e i m n"
proof (induction n)
  case (Suc n)
  have "ensure_existing e i (guarded view (nm (mg_key m)) (in_ref i) m) entry ex retry out =
      ensure_existing e i m entry ex retry out" for entry ex retry out
    unfolding ensure_existing_def ensure_update_def guarded_sel ..
  note ex = this
  have mi: "ensure_missing e i (guarded view (nm (mg_key m)) (in_ref i) m) entry retry out =
      ensure_missing e i m entry retry out" for entry retry out
    by (rule ext) (rule ensure_missing_guarded[OF e o])
  show ?case by (intro ext) (simp only: ensure_loop.simps guarded_sel Suc.IH ex mi)
qed (intro ext, simp)

end

section \<open>Properties\<close>

text \<open>An environment for concrete runs: upstream services that refuse every connection, the ledger over
  the store above.\<close>

definition refusing :: "('w, 'a) call" where
  "refusing = io_fail (Errorf (Lit ''connection refused''))"

definition dead_forge :: "'w forge_api" where
  "dead_forge = \<lparr>fa_get_watcher = (\<lambda>_. refusing), fa_create_watcher = (\<lambda>_. refusing), fa_delete_watcher = (\<lambda>_. refusing),
     fa_list_builds = (\<lambda>_ _. refusing), fa_get_build = (\<lambda>_. refusing)\<rparr>"

definition dead_index :: "'w index_api" where
  "dead_index = \<lparr>ia_find_artifact = (\<lambda>_. refusing), ia_list_versions = (\<lambda>_. refusing),
     ia_set_tag = (\<lambda>_ _ _. refusing), ia_delete_tag = (\<lambda>_ _. refusing), ia_delete_artifact = (\<lambda>_. refusing)\<rparr>"

definition dead_weave :: "'w weave_api" where
  "dead_weave = \<lparr>wa_get = (\<lambda>_ _. refusing), wa_create = (\<lambda>_ _. refusing), wa_delete = (\<lambda>_ _. refusing),
     wa_fire = (\<lambda>_. refusing), wa_patch_labels = (\<lambda>_ _. refusing), wa_create_batch = (\<lambda>_ _ _. refusing),
     wa_delete_batch = (\<lambda>_. refusing)\<rparr>"

definition sample_env :: "'w ledger \<Rightarrow> 'w env" where
  "sample_env l = \<lparr>env_cfg = sample_config, env_forge = dead_forge, env_index = dead_index, env_weave = dead_weave,
     env_ledger = l, env_now = (\<lambda>_. 0)\<rparr>"

lemma sample_env_sel [simp]: "env_ledger (sample_env l) = l" "env_cfg (sample_env l) = sample_config"
  "env_now (sample_env l) w = 0" "env_index (sample_env l) = dead_index" "env_forge (sample_env l) = dead_forge"
  "env_weave (sample_env l) = dead_weave"
  by (simp_all add: sample_env_def)

text \<open>Run \<open>b\<close> wants the chain of run \<open>a\<close>: it exists (or not), and takes no update.\<close>

definition input_b :: input where
  "input_b = \<lparr>in_run = ''b'', in_key = ''chain'', in_params = [], in_prior = [], in_started = None\<rparr>"

definition chain_exists :: "bool \<Rightarrow> store managed" where
  "chain_exists there = \<lparr>mg_key = sample_key, mg_hash = [], mg_claim = False,
     mg_get = io_return (if there then Some \<lparr>ex_external_id = [], ex_matches = True, ex_detail = Lit []\<rparr> else None),
     mg_create = io_return [], mg_update = None\<rparr>"

lemma chain_leaves: "managed_leaves (store_env me gl) (chain_exists there)"
  by (simp add: managed_leaves_def chain_exists_def leaves_ledger_def store_env_refl)

lemma input_b_ref: "in_ref input_b = ref_b"
  by (simp add: in_ref_def input_b_def ref_b_def)

lemma b_keeps_ref: "others_keep_ref store_view (store_env ''b'' gl) n ref_b"
  using store_keeps_ref[of ref_b gl n] by (simp add: ref_b_def)

lemma quiet_ensure:
  "\<exists>out. ensure (sample_env (store_ledger ''b'' pad_lib)) input_b (chain_exists True) quiet_store =
     (Inr out, store_put (entry0\<lparr>wr_refs := [ref_a, ref_b]\<rparr>) quiet_store)"
proof -
  have e: "ensure_loop E i m (Suc n) out w = (Inr (out\<lparr>mr_external_id := ex_external_id ex, mr_disposition := d\<rparr>), w')"
    if "ledger_get (env_ledger E) (mg_key m) w = (Inr (Some en), w)" "\<not> wr_terminating en"
      "mg_get m w = (Inr (Some ex), w)" "ex_matches ex" "mg_hash m = []" "mg_update m = None"
      "ledger_add_ref (env_ledger E) (mg_key m) (in_ref i) no_options w = (Inr up, w')" "d = dispositionOf up (in_ref i)"
    for E :: "store env" and i m n out w en ex up w' d
    using that by (simp add: ensure_existing_def ensure_update_def Let_def io_bind_def io_try_def)
  show ?thesis
    unfolding ensure_def maxEnsureAttempts_def numeral_nat
    by (rule exI, rule e[OF _ _ _ _ _ _ _ refl])
      (auto simp: quiet_get chain_exists_def input_b_ref quiet_add)
qed

text \<open>C15: when \<open>ensure\<close> succeeds, the ledger holds the step's reference, whatever other clients of the
  ledger did between the calls: provided each releases only its own references, and the step's
  calls upstream leave the ledger alone.\<close>

theorem ensure_holds_reference:
  assumes "ledger_store kube view known env (env_ledger e)"
    and "others_keep_ref view env (object_name (env_lib e) (mg_key m)) (in_ref i)"
    and "managed_leaves env m"
    and "ensure e i m w = (Inr out, w')"
  shows "holds view (object_name (env_lib e) (mg_key m)) (in_ref i) w'"
  using tripleD_ok[OF ledger_store.ensure_loop_holds[OF assms(1) refl assms(2,3)] TrueI assms(4)[unfolded ensure_def]] .

theorem ensure_holds_witness:
  "\<exists>out s. ensure (sample_env (store_ledger ''b'' pad_lib)) input_b (chain_exists True) quiet_store = (Inr out, s) \<and>
     holds store_view (object_name pad_lib sample_key) ref_b s"
proof -
  obtain out where run: "ensure (sample_env (store_ledger ''b'' pad_lib)) input_b (chain_exists True) quiet_store =
     (Inr out, store_put (entry0\<lparr>wr_refs := [ref_a, ref_b]\<rparr>) quiet_store)"
    using quiet_ensure by blast
  have key: "mg_key (chain_exists True) = sample_key" by (simp add: chain_exists_def)
  have "ledger_store (store_kube ''b'' pad_lib) store_view store_known (store_env ''b'' pad_lib)
      (env_ledger (sample_env (store_ledger ''b'' pad_lib)))" by (simp add: mem.ledger_store_axioms)
  from ensure_holds_reference[OF this _ chain_leaves run] b_keeps_ref run
  show ?thesis by (auto simp: key input_b_ref)
qed

text \<open>C14: write-ahead: \<open>ensure\<close> calls \<open>create\<close> only in worlds where the ledger holds the step's
  reference. A creation that panics everywhere else makes no difference to any run, failing ones
  included, so a rollback that works from the ledger finds every resource a step created.\<close>

theorem ensure_write_ahead:
  assumes "ledger_store kube view known env (env_ledger e)"
    and "others_keep_ref view env (object_name (env_lib e) (mg_key m)) (in_ref i)"
  shows "ensure e i (guarded view (object_name (env_lib e) (mg_key m)) (in_ref i) m) w = ensure e i m w"
  using ledger_store.ensure_loop_guarded[OF assms(1) refl assms(2)] by (simp add: ensure_def)

theorem ensure_write_ahead_witness:
  "ensure (sample_env (store_ledger ''b'' pad_lib)) input_b
     (guarded store_view (object_name pad_lib sample_key) ref_b (chain_exists False)) quiet_store =
   ensure (sample_env (store_ledger ''b'' pad_lib)) input_b (chain_exists False) quiet_store"
proof -
  have key: "mg_key (chain_exists False) = sample_key" by (simp add: chain_exists_def)
  have "ledger_store (store_kube ''b'' pad_lib) store_view store_known (store_env ''b'' pad_lib)
      (env_ledger (sample_env (store_ledger ''b'' pad_lib)))" by (simp add: mem.ledger_store_axioms)
  from ensure_write_ahead[OF this, of "chain_exists False" input_b quiet_store] b_keeps_ref
  show ?thesis by (simp add: key input_b_ref)
qed

end
