(* ===== verification/ForgeSteps.thy ===== *)
theory ForgeSteps
  imports StepsProps
begin

text \<open>
  Package \<open>internal/steps\<close>, files \<open>forgesteps.go\<close> and \<open>tagstep.go\<close>: the GitWatcher that makes
  forge build a repository, the wait for its build, and the tag on the built version.
\<close>

section \<open>Helpers\<close>

definition buildListSize :: int where "buildListSize = 100"

definition not_found_as_nil :: "('w, 'a) call \<Rightarrow> ('w, 'a option) call" where
  "not_found_as_nil f =
     io_try f (\<lambda>r. case r of
       Inl x \<Rightarrow> if is_upstream_not_found x then io_return None else io_fail x
     | Inr v \<Rightarrow> io_return (Some v))"

definition same_project_dir :: "string option \<Rightarrow> string \<Rightarrow> bool" where
  "same_project_dir b watcher = (case b of None \<Rightarrow> watcher = [] | Some d \<Rightarrow> d = watcher)"

fun first_non_empty :: "string list \<Rightarrow> string" where
  "first_non_empty [] = []"
| "first_non_empty (v # vs) = (if v \<noteq> [] then v else first_non_empty vs)"

text \<open>The labels of everything a step creates.\<close>

definition owner_labels :: "string \<Rightarrow> smap" where
  "owner_labels run = [(LabelManagedBy, ManagedByWizard), (LabelRun, run)]"

section \<open>gitWatcher\<close>

definition gitWatcher_params :: param_spec where
  "gitWatcher_params = \<lparr>ps_required = [''name'', ''repoUrl''],
     ps_optional = [''repoRef'', ''projectDir'', ''autoPromote'', ''tag''], ps_prefixes = []\<rparr>"

definition watcher_auto_tag :: "'w env \<Rightarrow> smap \<Rightarrow> string" where
  "watcher_auto_tag e p =
     (if get0 p ''autoPromote'' = ''true'' then first_non_empty [get0 p ''tag'', cfg_tag_name (env_cfg e)] else [])"

definition watcher_hash_parts :: "smap \<Rightarrow> string \<Rightarrow> string list" where
  "watcher_hash_parts p auto_tag =
     [KindGitWatcher, get0 p ''repoUrl'', get0 p ''repoRef'', get0 p ''projectDir''] @
     (if auto_tag \<noteq> [] then [''autoTag='' @ auto_tag] else [])"

definition watcher_existing :: "smap \<Rightarrow> string \<Rightarrow> git_watcher \<Rightarrow> existing" where
  "watcher_existing p auto_tag gw =
     (if gs_build_type (gw_spec gw) \<noteq> ''app'' \<or> gs_repo_url (gw_spec gw) \<noteq> get0 p ''repoUrl'' \<or>
         gs_project_dir (gw_spec gw) \<noteq> get0 p ''projectDir''
      then \<lparr>ex_external_id = [], ex_matches = False, ex_detail = Lit ''it watches a different repository or subfolder''\<rparr>
      else \<lparr>ex_external_id = [], ex_matches = gs_auto_tag (gw_spec gw) = auto_tag,
             ex_detail = Fmt ''its auto-tag is %q, this run wants %q; set auto_tag on the watcher in forge or change autoPromote''
               [Lit (gs_auto_tag (gw_spec gw)), Lit auto_tag]\<rparr>)"

definition watcher_managed :: "'w env \<Rightarrow> input \<Rightarrow> 'w managed" where
  "watcher_managed e i =
     (let p = in_params i; name = get0 p ''name''; auto_tag = watcher_auto_tag e p
      in \<lparr>mg_key = \<lparr>lk_service = ServiceForge, lk_kind = KindGitWatcher, lk_name = name\<rparr>,
          mg_hash = ledger_hash (env_lib e) (watcher_hash_parts p auto_tag), mg_claim = False,
          mg_get = io_bind (not_found_as_nil (fa_get_watcher (env_forge e) name))
                     (\<lambda>gw. io_return (map_option (watcher_existing p auto_tag) gw)),
          mg_create = io_bind (fa_create_watcher (env_forge e)
              \<lparr>cgw_name = name, cgw_repo_url = get0 p ''repoUrl'', cgw_repo_ref = get0 p ''repoRef'', cgw_build_type = ''app'',
               cgw_project_dir = get0 p ''projectDir'', cgw_auto_tag = auto_tag, cgw_labels = owner_labels (in_run i)\<rparr>)
              (\<lambda>_. io_return []),
          mg_update = None\<rparr>)"

definition gitWatcher_ensure :: "'w env \<Rightarrow> input \<Rightarrow> ('w, step_result) call" where
  "gitWatcher_ensure e i = ensureStep e i (watcher_managed e i) [(''name'', get0 (in_params i) ''name'')]"

definition gitWatcherStep :: "'w step" where
  "gitWatcherStep = \<lparr>sp_type = StepGitWatcher, sp_outputs = [''name''], sp_params = gitWatcher_params,
     sp_ensure = gitWatcher_ensure\<rparr>"

section \<open>waitBuild\<close>

definition waitBuild_params :: param_spec where
  "waitBuild_params = \<lparr>ps_required = [''watcher''], ps_optional = [], ps_prefixes = []\<rparr>"

definition build_of_watcher :: "git_watcher \<Rightarrow> build \<Rightarrow> bool" where
  "build_of_watcher gw b \<longleftrightarrow>
     b_repo_url b = Some (gs_repo_url (gw_spec gw)) \<and> b_build_type b = ''app'' \<and>
     same_project_dir (b_project_dir b) (gs_project_dir (gw_spec gw))"

text \<open>The newest build of the list, read again by its ID.\<close>

definition newest_build :: "'w env \<Rightarrow> git_watcher \<Rightarrow> ('w, build option) call" where
  "newest_build e gw =
     io_bind (fa_list_builds (env_forge e) [] buildListSize) (\<lambda>builds.
       case find (build_of_watcher gw) builds of
         Some b \<Rightarrow> not_found_as_nil (fa_get_build (env_forge e) (b_id b))
       | None \<Rightarrow> io_return None)"

definition find_build :: "'w env \<Rightarrow> git_watcher \<Rightarrow> string \<Rightarrow> ('w, build option) call" where
  "find_build e gw remembered =
     (case parse_int remembered of
        Some n \<Rightarrow>
          io_bind (not_found_as_nil (fa_get_build (env_forge e) n)) (\<lambda>b. case b of
            Some b \<Rightarrow> io_return (Some b)
          | None \<Rightarrow> newest_build e gw)
      | None \<Rightarrow> newest_build e gw)"

definition not_done :: "time \<Rightarrow> msg \<Rightarrow> smap \<Rightarrow> step_result" where
  "not_done t m outs = \<lparr>res_done = False, res_requeue = t, res_message = m, res_outputs = outs, res_resources = []\<rparr>"

text \<open>The claim of the artifact that was just found.\<close>

definition artifact_managed :: "string \<Rightarrow> string \<Rightarrow> 'w managed" where
  "artifact_managed artifact_name artifact_id =
     \<lparr>mg_key = \<lparr>lk_service = ServiceIndex, lk_kind = KindArtifact, lk_name = artifact_name\<rparr>,
      mg_hash = [], mg_claim = True,
      mg_get = io_return (Some \<lparr>ex_external_id = artifact_id, ex_matches = True, ex_detail = Lit []\<rparr>),
      mg_create = io_fail (permanentf ''artifact %q vanished while it was being claimed'' [Lit artifact_name]),
      mg_update = None\<rparr>"

text \<open>The rest of the step once forge reports the build as \<open>SUCCESS\<close>.\<close>

definition claim_build :: "'w env \<Rightarrow> input \<Rightarrow> build \<Rightarrow> ('w, step_result) call" where
  "claim_build e i b =
     (let progress = [(''buildId'', format_int (b_id b))];
          artifact_name = cfg_artifact_prefix (env_cfg e) @ b_name b;
          ver = (case b_index_artifact_version b of Some v \<Rightarrow> v | None \<Rightarrow> b_version b)
      in if b_index_artifact_id b = None then
           io_fail (permanentf ''build %d succeeded but reported no index artifact'' [Num (b_id b)])
         else io_try (ia_find_artifact (env_index e) artifact_name) (\<lambda>r. case r of
           Inl x \<Rightarrow>
             if is_upstream_not_found x then
               io_return (not_done (cfg_poll_interval (env_cfg e))
                 (Fmt ''build %d succeeded but artifact %q is missing from the index; waiting for forge to notice and rebuild''
                    [Num (b_id b), Lit artifact_name]) progress)
             else io_fail x
         | Inr art \<Rightarrow>
             ensureStep e i (artifact_managed artifact_name (format_int (a_id art)))
               [(''buildId'', format_int (b_id b)), (''name'', b_name b), (''artifactName'', artifact_name),
                (''artifactId'', format_int (a_id art)), (''version'', ver)]))"

definition poll_build :: "'w env \<Rightarrow> input \<Rightarrow> string \<Rightarrow> build option \<Rightarrow> ('w, step_result) call" where
  "poll_build e i watcher b =
     (case b of
        None \<Rightarrow> io_return (not_done (cfg_poll_interval (env_cfg e)) (Lit ''waiting for forge to start a build'') [])
      | Some b \<Rightarrow>
          if b_status b = ''SUCCESS'' then claim_build e i b
          else if b_status b = ''FAILED'' then
            io_fail (permanentf ''build %d of watcher %q failed; see the forge build logs'' [Num (b_id b), Lit watcher])
          else io_return (not_done (cfg_poll_interval (env_cfg e)) (Fmt ''build %d is %s'' [Num (b_id b), Lit (b_status b)])
                 [(''buildId'', format_int (b_id b))]))"

definition timed_out :: "'w env \<Rightarrow> input \<Rightarrow> time \<Rightarrow> bool" where
  "timed_out e i now = (case in_started i of None \<Rightarrow> False | Some t \<Rightarrow> now - t > cfg_build_timeout (env_cfg e))"

definition waitBuild_ensure :: "'w env \<Rightarrow> input \<Rightarrow> ('w, step_result) call" where
  "waitBuild_ensure e i =
     (let watcher = get0 (in_params i) ''watcher''
      in io_bind (fa_get_watcher (env_forge e) watcher) (\<lambda>gw.
         if gst_phase (gw_status gw) = ''Disabled'' then
           io_fail (permanentf ''forge disabled watcher %q after %d failed build attempts: %s''
             [Lit watcher, Num (gst_consecutive_failures (gw_status gw)),
              Lit (first_non_empty [gst_last_error (gw_status gw), gst_message (gw_status gw), ''no error reported''])])
         else io_bind (clock e) (\<lambda>now.
           if timed_out e i now then
             io_fail (permanentf ''timed out after %s waiting for the build of watcher %q''
               [Lit (format_duration (cfg_build_timeout (env_cfg e))), Lit watcher])
           else io_bind (find_build e gw (get0 (in_prior i) ''buildId'')) (poll_build e i watcher))))"

definition waitBuildStep :: "'w step" where
  "waitBuildStep = \<lparr>sp_type = StepWaitBuild,
     sp_outputs = [''buildId'', ''name'', ''artifactName'', ''artifactId'', ''version''],
     sp_params = waitBuild_params, sp_ensure = waitBuild_ensure\<rparr>"

section \<open>tag\<close>

definition tag_params :: param_spec where
  "tag_params = \<lparr>ps_required = [''artifactId'', ''artifactName'', ''version''], ps_optional = [''tag''], ps_prefixes = []\<rparr>"

definition tag_existing :: "string \<Rightarrow> string \<Rightarrow> version list \<Rightarrow> existing option" where
  "tag_existing tg id_str versions =
     (if list_ex (\<lambda>v. list_ex (\<lambda>t. t_tag t = tg) (v_tags v)) versions
      then Some \<lparr>ex_external_id = id_str, ex_matches = True, ex_detail = Lit []\<rparr> else None)"

definition tag_managed :: "'w env \<Rightarrow> string \<Rightarrow> string \<Rightarrow> string \<Rightarrow> int \<Rightarrow> 'w managed" where
  "tag_managed e artifact_name tg ver artifact_id =
     \<lparr>mg_key = \<lparr>lk_service = ServiceIndex, lk_kind = KindTag, lk_name = artifact_name @ '':'' @ tg\<rparr>,
      mg_hash = [], mg_claim = False,
      mg_get = io_bind (ia_list_versions (env_index e) artifact_id)
                 (\<lambda>vs. io_return (tag_existing tg (format_int artifact_id) vs)),
      mg_create = io_bind (ia_set_tag (env_index e) artifact_id tg ver) (\<lambda>_. io_return (format_int artifact_id)),
      mg_update = Some (\<lambda>_. ia_set_tag (env_index e) artifact_id tg ver)\<rparr>"

definition tag_ensure :: "'w env \<Rightarrow> input \<Rightarrow> ('w, step_result) call" where
  "tag_ensure e i =
     (let p = in_params i; ver = get0 p ''version''; tg = first_non_empty [get0 p ''tag'', cfg_tag_name (env_cfg e)]
      in case parse_int (get0 p ''artifactId'') of
           None \<Rightarrow> io_fail (permanentf ''artifactId %q is not a number'' [Lit (get0 p ''artifactId'')])
         | Some artifact_id \<Rightarrow>
             ensureStep e i (tag_managed e (get0 p ''artifactName'') tg ver artifact_id) [(''tag'', tg), (''version'', ver)])"

definition tagStep :: "'w step" where
  "tagStep = \<lparr>sp_type = StepTag, sp_outputs = [''tag'', ''version''], sp_params = tag_params, sp_ensure = tag_ensure\<rparr>"

end
