(* ===== verification/WeaveSteps.thy ===== *)
theory WeaveSteps
  imports ForgeSteps
begin

text \<open>
  Package \<open>internal/steps\<close>, files \<open>weavesteps.go\<close> and \<open>batchtrigger.go\<close>: the steps that create one
  weave custom resource each. A Go \<open>map[string]any\<close> is the list of its members, as in \<open>weave_object\<close>;
  numbers of a decoded object stay as written and are rounded to \<open>float64\<close> where they are read.
\<close>

section \<open>Generic weave JSON\<close>

definition obj_get :: "(string \<times> json) list \<Rightarrow> string \<Rightarrow> json" where
  "obj_get m k = (case map_of (rev m) k of None \<Rightarrow> JNull | Some j \<Rightarrow> j)"

fun nested_json :: "json \<Rightarrow> string list \<Rightarrow> json" where
  "nested_json cur [] = cur"
| "nested_json (JObj m) (p # ps) = nested_json (obj_get m p) ps"
| "nested_json _ (p # ps) = JNull"

fun json_str :: "json \<Rightarrow> string" where
  "json_str (JStr s) = s"
| "json_str _ = []"

fun json_list_of :: "json \<Rightarrow> json list" where
  "json_list_of (JArr js) = js"
| "json_list_of _ = []"

fun obj_members :: "json \<Rightarrow> (string \<times> json) list" where
  "obj_members (JObj m) = m"
| "obj_members _ = []"

definition nested_string :: "(string \<times> json) list \<Rightarrow> string list \<Rightarrow> string" where
  "nested_string m path = json_str (nested_json (JObj m) path)"

text \<open>\<open>resourcesMap\<close>: encoding the requirements and decoding them again gives the members.\<close>

definition resources_map :: "(string \<times> json) list \<Rightarrow> (string \<times> json) list option" where
  "resources_map rr = (if rr = [] then None else Some rr)"

definition resources_field :: "'w env \<Rightarrow> (string \<times> json) list" where
  "resources_field e = (case resources_map (cfg_resources (env_cfg e)) of None \<Rightarrow> [] | Some r \<Rightarrow> [(''resources'', JObj r)])"

definition sorted_pairs :: "smap \<Rightarrow> string list" where
  "sorted_pairs m = map (\<lambda>k. k @ ''='' @ get0 m k) (sorted_keys m)"

section \<open>One weave resource\<close>

definition stamp_owner_labels :: "weave_object \<Rightarrow> string \<Rightarrow> weave_object" where
  "stamp_owner_labels obj run =
     assoc_set ''metadata'' (JObj (assoc_set ''labels''
       (JObj [(LabelManagedBy, JStr ManagedByWizard), (LabelRun, JStr run)]) (obj_members (obj_get obj ''metadata'')))) obj"

text \<open>\<open>matches\<close> gives the difference found in the existing spec, the empty string for none.\<close>

definition weave_existing :: "((string \<times> json) list \<Rightarrow> string) \<Rightarrow> weave_object \<Rightarrow> existing" where
  "weave_existing matches found =
     (let diff = matches (obj_members (obj_get found ''spec''))
      in \<lparr>ex_external_id = [], ex_matches = diff = [], ex_detail = Lit diff\<rparr>)"

definition weave_managed ::
  "'w env \<Rightarrow> input \<Rightarrow> string \<Rightarrow> string \<Rightarrow> string \<Rightarrow> weave_object \<Rightarrow> ((string \<times> json) list \<Rightarrow> string) \<Rightarrow>
   ('w, unit) call option \<Rightarrow> 'w managed" where
  "weave_managed e i kind name hash obj matches after_create =
     \<lparr>mg_key = \<lparr>lk_service = ServiceWeave, lk_kind = kind, lk_name = name\<rparr>, mg_hash = hash, mg_claim = False,
      mg_get = io_bind (not_found_as_nil (wa_get (env_weave e) (weaveCollection kind) name))
                 (\<lambda>found. io_return (map_option (weave_existing matches) found)),
      mg_create = io_bind (wa_create (env_weave e) (weaveCollection kind) (stamp_owner_labels obj (in_run i))) (\<lambda>_.
                    io_bind (case after_create of None \<Rightarrow> io_return () | Some f \<Rightarrow> f) (\<lambda>_. io_return [])),
      mg_update = None\<rparr>"

definition weaveResource ::
  "'w env \<Rightarrow> input \<Rightarrow> string \<Rightarrow> string \<Rightarrow> string list \<Rightarrow> weave_object \<Rightarrow> ((string \<times> json) list \<Rightarrow> string) \<Rightarrow>
   ('w, unit) call option \<Rightarrow> ('w, step_result) call" where
  "weaveResource e i kind name hash_parts obj matches after_create =
     ensureStep e i (weave_managed e i kind name (ledger_hash (env_lib e) hash_parts) obj matches after_create)
       [(''name'', name)]"

definition same_artifact :: "(string \<times> json) list \<Rightarrow> string \<Rightarrow> string \<Rightarrow> bool" where
  "same_artifact spec artifact_name tg \<longleftrightarrow>
     nested_string spec [''codeSource'', ''artifactName''] = artifact_name \<and> nested_string spec [''codeSource'', ''tag''] = tg"

definition code_source :: "string \<Rightarrow> string \<Rightarrow> (string \<times> json) list" where
  "code_source artifact_name tg =
     (if artifact_name \<noteq> []
      then [(''codeSource'', JObj [(''artifactName'', JStr artifact_name), (''tag'', JStr tg)])] else [])"

section \<open>jobTemplate\<close>

definition jobTemplate_params :: param_spec where
  "jobTemplate_params = \<lparr>ps_required = [''name''], ps_optional = [''artifactName'', ''tag'', ''image''], ps_prefixes = []\<rparr>"

definition template_image :: "'w env \<Rightarrow> smap \<Rightarrow> string" where
  "template_image e p = first_non_empty [get0 p ''image'', cfg_runner_image (env_cfg e)]"

definition jobTemplate_spec :: "'w env \<Rightarrow> smap \<Rightarrow> (string \<times> json) list" where
  "jobTemplate_spec e p =
     [(''image'', JStr (template_image e p))] @ code_source (get0 p ''artifactName'') (get0 p ''tag'') @ resources_field e"

definition jobTemplate_hash :: "smap \<Rightarrow> string list" where
  "jobTemplate_hash p =
     (if get0 p ''artifactName'' \<noteq> [] then [KindJobTemplate, get0 p ''artifactName'', get0 p ''tag'']
      else [KindJobTemplate, ''image-only''])"

definition jobTemplate_matches :: "smap \<Rightarrow> (string \<times> json) list \<Rightarrow> string" where
  "jobTemplate_matches p spec =
     (if \<not> same_artifact spec (get0 p ''artifactName'') (get0 p ''tag'') then ''it runs a different artifact or tag'' else [])"

definition jobTemplate_ensure :: "'w env \<Rightarrow> input \<Rightarrow> ('w, step_result) call" where
  "jobTemplate_ensure e i =
     (let p = in_params i; name = get0 p ''name''
      in if (get0 p ''artifactName'' = []) \<noteq> (get0 p ''tag'' = []) then
           io_fail (permanentf ''jobTemplate %q needs artifactName and tag together, or neither (image-only)'' [Lit name])
         else weaveResource e i KindJobTemplate name (jobTemplate_hash p)
                (new_weave_object ''WeaveJobTemplate'' name (jobTemplate_spec e p)) (jobTemplate_matches p) None)"

definition jobTemplateStep :: "'w step" where
  "jobTemplateStep = \<lparr>sp_type = StepJobTemplate, sp_outputs = [''name''], sp_params = jobTemplate_params,
     sp_ensure = jobTemplate_ensure\<rparr>"

section \<open>serviceTemplate\<close>

definition serviceTemplate_params :: param_spec where
  "serviceTemplate_params = \<lparr>ps_required = [''name'', ''port''],
     ps_optional = [''artifactName'', ''tag'', ''image'', ''ingressName''], ps_prefixes = []\<rparr>"

definition servicePortName :: string where "servicePortName = ''http''"

definition port_json :: "int \<Rightarrow> json" where
  "port_json n = JArr [JObj [(''name'', JStr servicePortName), (''port'', JInt n)]]"

definition serviceTemplate_spec :: "'w env \<Rightarrow> smap \<Rightarrow> int \<Rightarrow> (string \<times> json) list" where
  "serviceTemplate_spec e p port =
     [(''image'', JStr (template_image e p)), (''ports'', port_json port)] @
     code_source (get0 p ''artifactName'') (get0 p ''tag'') @ resources_field e @
     (if get0 p ''ingressName'' \<noteq> []
      then [(''ingress'', JObj [(''rules'', JArr [JObj [(''name'', JStr (get0 p ''ingressName'')),
              (''servicePort'', JStr servicePortName)]])])] else [])"

definition serviceTemplate_hash :: "smap \<Rightarrow> string list" where
  "serviceTemplate_hash p =
     (if get0 p ''artifactName'' \<noteq> []
      then [KindServiceTemplate, get0 p ''artifactName'', get0 p ''tag'', get0 p ''port'', get0 p ''ingressName'']
      else [KindServiceTemplate, ''image-only'', get0 p ''port'', get0 p ''ingressName''])"

fun port_text :: "go_lib \<Rightarrow> json \<Rightarrow> string" where
  "port_text gl (JInt n) = format_int n"
| "port_text gl (JNum d) = (case gl_float gl d of Some x \<Rightarrow> format_decimal x | None \<Rightarrow> [])"
| "port_text gl (JStr s) = s"
| "port_text gl _ = []"

definition existing_port :: "go_lib \<Rightarrow> json \<Rightarrow> string" where
  "existing_port gl ports =
     (case json_list_of ports of JObj m # _ \<Rightarrow> port_text gl (obj_get m ''port'') | _ \<Rightarrow> [])"

definition existing_ingress_name :: "(string \<times> json) list \<Rightarrow> string" where
  "existing_ingress_name spec =
     (case json_list_of (nested_json (JObj spec) [''ingress'', ''rules'']) of
        JObj m # _ \<Rightarrow> nested_string m [''name''] | _ \<Rightarrow> [])"

definition serviceTemplate_matches :: "go_lib \<Rightarrow> smap \<Rightarrow> (string \<times> json) list \<Rightarrow> string" where
  "serviceTemplate_matches gl p spec =
     (if \<not> same_artifact spec (get0 p ''artifactName'') (get0 p ''tag'') then ''it runs a different artifact or tag''
      else if existing_port gl (obj_get spec ''ports'') \<noteq> get0 p ''port'' then ''it exposes a different port''
      else if existing_ingress_name spec \<noteq> get0 p ''ingressName'' then ''it has a different ingress''
      else [])"

definition serviceTemplate_ensure :: "'w env \<Rightarrow> input \<Rightarrow> ('w, step_result) call" where
  "serviceTemplate_ensure e i =
     (let p = in_params i; name = get0 p ''name''
      in case parse_int (get0 p ''port'') of
           None \<Rightarrow> io_fail (permanentf ''port %q is not a whole number'' [Lit (get0 p ''port'')])
         | Some port \<Rightarrow>
             if (get0 p ''artifactName'' = []) \<noteq> (get0 p ''tag'' = []) then
               io_fail (permanentf ''serviceTemplate %q needs artifactName and tag together, or neither (image-only)'' [Lit name])
             else weaveResource e i KindServiceTemplate name (serviceTemplate_hash p)
                    (new_weave_object ''WeaveServiceTemplate'' name (serviceTemplate_spec e p port))
                    (serviceTemplate_matches (env_lib e) p) None)"

definition serviceTemplateStep :: "'w step" where
  "serviceTemplateStep = \<lparr>sp_type = StepServiceTemplate, sp_outputs = [''name''], sp_params = serviceTemplate_params,
     sp_ensure = serviceTemplate_ensure\<rparr>"

section \<open>External authentication\<close>

text \<open>An \<open>externalAuthRef\<close> by its mode and name.\<close>

definition external_auth_from_params :: "smap \<Rightarrow> string \<Rightarrow> string \<Rightarrow> err + (string \<times> string) option" where
  "external_auth_from_params p mode_key name_key =
     (let mode = get0 p mode_key; name = get0 p name_key
      in if mode = [] \<and> name = [] then Inr None
         else if mode = [] \<or> name = [] then Inl (permanentf ''%s and %s must be set together'' [Lit mode_key, Lit name_key])
         else if mode \<noteq> ''serviceAccount'' \<and> mode \<noteq> ''oidc'' then
           Inl (permanentf ''%s %q is not supported (use serviceAccount or oidc)'' [Lit mode_key, Lit mode])
         else Inr (Some (mode, name)))"

definition validate_external_auth_params :: "step_type \<Rightarrow> smap \<Rightarrow> err option" where
  "validate_external_auth_params t p =
     (let check = (\<lambda>mk nk. case external_auth_from_params p mk nk of Inl x \<Rightarrow> Some x | Inr _ \<Rightarrow> None)
      in case t of
           StepChain \<Rightarrow> check ''externalAuthMode'' ''externalAuthName''
         | StepTrigger \<Rightarrow> check ''externalAuthOverrideMode'' ''externalAuthOverrideName''
         | _ \<Rightarrow> None)"

definition auth_ref_key :: "(string \<times> string) option \<Rightarrow> string" where
  "auth_ref_key r = (case r of None \<Rightarrow> [] | Some (m, n) \<Rightarrow> m @ ''/'' @ n)"

definition auth_hash_parts :: "(string \<times> string) option \<Rightarrow> string list \<Rightarrow> string list" where
  "auth_hash_parts r parts = (if r = None then parts else parts @ [''externalAuth'', auth_ref_key r])"

definition existing_auth_key :: "(string \<times> json) list \<Rightarrow> string \<Rightarrow> string" where
  "existing_auth_key spec field =
     (let mode = nested_string spec [field, ''mode'']; name = nested_string spec [field, ''name'']
      in if mode = [] \<and> name = [] then [] else mode @ ''/'' @ name)"

definition auth_field :: "string \<Rightarrow> (string \<times> string) option \<Rightarrow> (string \<times> json) list" where
  "auth_field field r =
     (case r of None \<Rightarrow> [] | Some (m, n) \<Rightarrow> [(field, JObj [(''mode'', JStr m), (''name'', JStr n)])])"

section \<open>chain\<close>

definition chain_params :: param_spec where
  "chain_params = \<lparr>ps_required = [''name''],
     ps_optional = [''jobTemplate'', ''serviceTemplate'', ''stepName'', ''externalAuthMode'', ''externalAuthName''],
     ps_prefixes = []\<rparr>"

text \<open>The template a chain runs, the field that refers to it, and whether its step is a Deploy.\<close>

definition chain_target :: "smap \<Rightarrow> err + (string \<times> string \<times> bool)" where
  "chain_target p =
     (let job = get0 p ''jobTemplate''; service = get0 p ''serviceTemplate''; name = get0 p ''name''
      in if job \<noteq> [] \<and> service \<noteq> [] then
           Inl (permanentf ''chain step %q cannot have both jobTemplate and serviceTemplate'' [Lit name])
         else if job \<noteq> [] then Inr (job, ''jobTemplateRef'', False)
         else if service \<noteq> [] then Inr (service, ''serviceTemplateRef'', True)
         else Inl (permanentf ''chain step %q needs either jobTemplate or serviceTemplate'' [Lit name]))"

definition chain_spec :: "string \<Rightarrow> string \<Rightarrow> string \<Rightarrow> bool \<Rightarrow> (string \<times> string) option \<Rightarrow> (string \<times> json) list" where
  "chain_spec step_name template ref deploy auth =
     [(''steps'', JArr [JObj ([(''name'', JStr step_name), (''stepKind'', JStr (if deploy then ''Deploy'' else ''Job'')),
         (ref, JObj [(''name'', JStr template)])] @ (if deploy then [(''runOnSuccess'', JBool True)] else []))])] @
     auth_field ''externalAuthRef'' auth"

definition chain_matches :: "string \<Rightarrow> string \<Rightarrow> (string \<times> string) option \<Rightarrow> (string \<times> json) list \<Rightarrow> string" where
  "chain_matches template ref auth spec =
     (if existing_auth_key spec ''externalAuthRef'' \<noteq> auth_ref_key auth then ''it has a different externalAuthRef''
      else if list_ex (\<lambda>s. (case s of JObj m \<Rightarrow> nested_string m [ref, ''name''] = template | _ \<Rightarrow> False))
                (json_list_of (obj_get spec ''steps'')) then []
      else ''it does not run this template'')"

definition chain_hash :: "string \<Rightarrow> string \<Rightarrow> string \<Rightarrow> (string \<times> string) option \<Rightarrow> string list" where
  "chain_hash step_name template ref auth = auth_hash_parts auth [KindChain, ref, template, step_name]"

definition chain_step_name :: "'w env \<Rightarrow> smap \<Rightarrow> string" where
  "chain_step_name e p = first_non_empty [get0 p ''stepName'', cfg_chain_step_name (env_cfg e)]"

definition chain_ensure :: "'w env \<Rightarrow> input \<Rightarrow> ('w, step_result) call" where
  "chain_ensure e i =
     (let p = in_params i; name = get0 p ''name''; step_name = chain_step_name e p
      in case chain_target p of
           Inl x \<Rightarrow> io_fail x
         | Inr (template, ref, deploy) \<Rightarrow>
             (case external_auth_from_params p ''externalAuthMode'' ''externalAuthName'' of
                Inl x \<Rightarrow> io_fail x
              | Inr auth \<Rightarrow>
                  if auth \<noteq> None \<and> deploy then
                    io_fail (permanentf ''externalAuth is not supported for a service template (its token would expire under a long-running deployment)'' [])
                  else weaveResource e i KindChain name (chain_hash step_name template ref auth)
                         (new_weave_object ''WeaveChain'' name (chain_spec step_name template ref deploy auth))
                         (chain_matches template ref auth) None))"

definition chainStep :: "'w step" where
  "chainStep = \<lparr>sp_type = StepChain, sp_outputs = [''name''], sp_params = chain_params, sp_ensure = chain_ensure\<rparr>"

section \<open>trigger\<close>

definition overridePrefix :: string where "overridePrefix = ''override.''"

definition trigger_params :: param_spec where
  "trigger_params = \<lparr>ps_required = [''name'', ''chain''],
     ps_optional = [''type'', ''schedule'', ''fireOnCreate'', ''externalAuthOverrideMode'', ''externalAuthOverrideName''],
     ps_prefixes = [overridePrefix]\<rparr>"

definition trigger_type :: "smap \<Rightarrow> string" where
  "trigger_type p = first_non_empty [get0 p ''type'', ''OnDemand'']"

definition trigger_problem :: "smap \<Rightarrow> err option" where
  "trigger_problem p =
     (let typ = trigger_type p; schedule = get0 p ''schedule''
      in if typ \<noteq> ''OnDemand'' \<and> typ \<noteq> ''Cron'' then
           Some (permanentf ''trigger type %q is not supported (use OnDemand or Cron)'' [Lit typ])
         else if typ = ''Cron'' \<and> schedule = [] then Some (permanentf ''a Cron trigger needs a schedule'' [])
         else if typ \<noteq> ''Cron'' \<and> schedule \<noteq> [] then Some (permanentf ''schedule is only valid for a Cron trigger'' [])
         else None)"

definition trigger_overrides :: "smap \<Rightarrow> smap" where
  "trigger_overrides p =
     map (\<lambda>k. (drop (length overridePrefix) k, get0 p k)) (filter (\<lambda>k. has_prefix k overridePrefix) (sorted_keys p))"

definition trigger_spec :: "smap \<Rightarrow> (string \<times> string) option \<Rightarrow> (string \<times> json) list" where
  "trigger_spec p auth =
     (let schedule = get0 p ''schedule''; ov = trigger_overrides p
      in [(''chainRef'', JObj [(''name'', JStr (get0 p ''chain''))]), (''type'', JStr (trigger_type p))] @
         auth_field ''externalAuthRefOverride'' auth @
         (if schedule \<noteq> [] then [(''schedule'', JStr schedule)] else []) @
         (if ov \<noteq> []
          then [(''parameterOverrides'', JArr (map (\<lambda>k. JObj [(''name'', JStr k), (''value'', JStr (get0 ov k))]) (sorted_keys ov)))]
          else []))"

fun add_pair :: "smap \<Rightarrow> json \<Rightarrow> smap" where
  "add_pair m (JObj kv) = assoc_set (json_str (obj_get kv ''name'')) (json_str (obj_get kv ''value'')) m"
| "add_pair m _ = m"

definition existing_pairs :: "(string \<times> json) list \<Rightarrow> string list" where
  "existing_pairs spec = sorted_pairs (foldl add_pair [] (json_list_of (obj_get spec ''parameterOverrides'')))"

definition trigger_matches :: "smap \<Rightarrow> (string \<times> string) option \<Rightarrow> (string \<times> json) list \<Rightarrow> string" where
  "trigger_matches p auth spec =
     (if nested_string spec [''chainRef'', ''name''] \<noteq> get0 p ''chain'' then ''it triggers a different chain''
      else if nested_string spec [''type''] \<noteq> trigger_type p \<or> nested_string spec [''schedule''] \<noteq> get0 p ''schedule''
      then ''it has a different type or schedule''
      else if join nul (existing_pairs spec) \<noteq> join nul (sorted_pairs (trigger_overrides p))
      then ''it has different parameter overrides''
      else if existing_auth_key spec ''externalAuthRefOverride'' \<noteq> auth_ref_key auth
      then ''it has a different externalAuthRefOverride''
      else [])"

definition trigger_hash :: "smap \<Rightarrow> (string \<times> string) option \<Rightarrow> string list" where
  "trigger_hash p auth =
     auth_hash_parts auth ([KindTrigger, get0 p ''chain'', trigger_type p, get0 p ''schedule''] @ sorted_pairs (trigger_overrides p))"

definition trigger_ensure :: "'w env \<Rightarrow> input \<Rightarrow> ('w, step_result) call" where
  "trigger_ensure e i =
     (let p = in_params i; name = get0 p ''name''
      in case trigger_problem p of
           Some x \<Rightarrow> io_fail x
         | None \<Rightarrow>
             (case external_auth_from_params p ''externalAuthOverrideMode'' ''externalAuthOverrideName'' of
                Inl x \<Rightarrow> io_fail x
              | Inr auth \<Rightarrow>
                  weaveResource e i KindTrigger name (trigger_hash p auth)
                    (new_weave_object ''WeaveTrigger'' name (trigger_spec p auth)) (trigger_matches p auth)
                    (if get0 p ''fireOnCreate'' = ''true'' then Some (wa_fire (env_weave e) name) else None)))"

definition triggerStep :: "'w step" where
  "triggerStep = \<lparr>sp_type = StepTrigger, sp_outputs = [''name''], sp_params = trigger_params, sp_ensure = trigger_ensure\<rparr>"

section \<open>batchTrigger\<close>

definition batchTrigger_params :: param_spec where
  "batchTrigger_params = \<lparr>ps_required = [''name'', ''chain'', ''jobs''], ps_optional = [], ps_prefixes = []\<rparr>"

definition batchTrigger_matches :: "smap \<Rightarrow> (string \<times> json) list \<Rightarrow> string" where
  "batchTrigger_matches p spec =
     (if nested_string spec [''type''] \<noteq> ''BatchCron'' then ''it is not a BatchCron trigger''
      else if nested_string spec [''chainRef'', ''name''] \<noteq> get0 p ''chain'' then ''it triggers a different chain''
      else [])"

definition batchTrigger_managed :: "'w env \<Rightarrow> input \<Rightarrow> 'w managed" where
  "batchTrigger_managed e i =
     (let p = in_params i; name = get0 p ''name'';
          chain = get0 p ''chain''; jobs = get0 p ''jobs''
      in \<lparr>mg_key = \<lparr>lk_service = ServiceWeave, lk_kind = KindBatchTrigger, lk_name = name\<rparr>,
          mg_hash = ledger_hash (env_lib e) [KindBatchTrigger, chain, jobs], mg_claim = False,
          mg_get = io_bind (not_found_as_nil (wa_get (env_weave e) WeaveTriggers name))
                     (\<lambda>found. io_return (map_option (weave_existing (batchTrigger_matches p)) found)),
          mg_create = io_bind (wa_create_batch (env_weave e) name chain jobs) (\<lambda>_.
                        io_bind (wa_patch_labels (env_weave e) name (owner_labels (in_run i))) (\<lambda>_. io_return [])),
          mg_update = None\<rparr>)"

definition batchTrigger_ensure :: "'w env \<Rightarrow> input \<Rightarrow> ('w, step_result) call" where
  "batchTrigger_ensure e i = ensureStep e i (batchTrigger_managed e i) [(''name'', get0 (in_params i) ''name'')]"

definition batchTriggerStep :: "'w step" where
  "batchTriggerStep = \<lparr>sp_type = StepBatchTrigger, sp_outputs = [''name''], sp_params = batchTrigger_params,
     sp_ensure = batchTrigger_ensure\<rparr>"

end
