(* ===== verification/AppStep.thy ===== *)
theory AppStep
  imports WeaveSteps
begin

text \<open>
  Package \<open>internal/steps\<close>, file \<open>appstep.go\<close>: the step that creates one WeaveApp, and the checks of
  its params that the API server also runs when a run is created.
\<close>

section \<open>Names\<close>

definition appTypeService :: string where "appTypeService = ''service''"
definition appTypeJob :: string where "appTypeJob = ''job''"
definition appFireAnnotation :: string where "appFireAnnotation = ''fusion-platform.io/fire''"
definition defaultEntrypoint :: string where "defaultEntrypoint = ''main''"
definition maxEntrypointName :: nat where "maxEntrypointName = 40"
definition entrypointEnv :: string where "entrypointEnv = ''ENTRYPOINT''"
definition Pending :: string where "Pending = CHR 0x00 # ''pending''"

lemmas app_names = appTypeService_def appTypeJob_def defaultEntrypoint_def entrypointEnv_def

definition app_params :: param_spec where
  "app_params = \<lparr>ps_required = [''name'', ''type''],
     ps_optional = [''image'', ''artifactName'', ''tag'', ''port'', ''ingressName'', ''schedule'', ''entrypoints'',
       ''fireOnCreate'', ''externalAuthMode'', ''externalAuthName''], ps_prefixes = []\<rparr>"

section \<open>Entrypoints\<close>

record app_entrypoint =
  ae_key :: string
  ae_type :: string
  ae_schedule :: string

definition entrypoint_name :: "app_entrypoint \<Rightarrow> string" where
  "entrypoint_name x =
     (let n = k8s_name (stem (ae_key x))
      in if length n > maxEntrypointName then trim_right CHR ''-'' (take maxEntrypointName n) else n)"

definition dec_entrypoint :: "(string \<times> json) list \<Rightarrow> app_entrypoint option" where
  "dec_entrypoint kvs =
     (case (str_field kvs ''key'', str_field kvs ''type'', str_field kvs ''schedule'') of
        (Some k, Some t, Some s) \<Rightarrow> Some \<lparr>ae_key = k, ae_type = t, ae_schedule = s\<rparr>
      | _ \<Rightarrow> None)"

definition parse_entrypoints :: "go_lib \<Rightarrow> string \<Rightarrow> err + app_entrypoint list" where
  "parse_entrypoints gl raw =
     (let bad = permanentf ''entrypoints is not a JSON list of objects: %v'' [Lit raw]
      in case gl_json gl raw of
           RawJson j \<Rightarrow> (case as_slice (as_struct dec_entrypoint) j of Some l \<Rightarrow> Inr l | None \<Rightarrow> Inl bad)
         | _ \<Rightarrow> Inl bad)"

text \<open>The members of one entrypoint of the created app.\<close>

definition schedule_field :: "string \<Rightarrow> (string \<times> json) list" where
  "schedule_field s = (if s \<noteq> [] then [(''schedule'', JStr s)] else [])"

definition listed_entrypoint :: "app_entrypoint \<Rightarrow> (string \<times> json) list" where
  "listed_entrypoint x =
     [(''name'', JStr (entrypoint_name x)),
      (''env'', JArr [JObj [(''name'', JStr entrypointEnv), (''value'', JStr (ae_key x))]])] @
     schedule_field (ae_schedule x)"

definition app_entrypoints :: "go_lib \<Rightarrow> smap \<Rightarrow> err + (string \<times> json) list list" where
  "app_entrypoints gl p =
     (if get0 p ''entrypoints'' = []
      then Inr [[(''name'', JStr defaultEntrypoint)] @ schedule_field (get0 p ''schedule'')]
      else (case parse_entrypoints gl (get0 p ''entrypoints'') of
              Inl x \<Rightarrow> Inl x
            | Inr l \<Rightarrow> Inr (map listed_entrypoint l)))"

definition app_entrypoint_key :: "(string \<times> json) list \<Rightarrow> string" where
  "app_entrypoint_key ep =
     (let ev = (case json_list_of (obj_get ep ''env'') of x # _ \<Rightarrow> json_str (obj_get (obj_members x) ''value'') | [] \<Rightarrow> [])
      in json_str (obj_get ep ''name'') @ ''|'' @ json_str (obj_get ep ''schedule'') @ ''|'' @ ev)"

definition app_entrypoint_keys :: "(string \<times> json) list list \<Rightarrow> string list" where
  "app_entrypoint_keys eps = sort (map app_entrypoint_key eps)"

fun object_members :: "json list \<Rightarrow> (string \<times> json) list list" where
  "object_members [] = []"
| "object_members (JObj m # js) = m # object_members js"
| "object_members (_ # js) = object_members js"

definition existing_entrypoint_keys :: "(string \<times> json) list \<Rightarrow> string list" where
  "existing_entrypoint_keys spec = app_entrypoint_keys (object_members (json_list_of (obj_get spec ''entrypoints'')))"

definition existing_app_port :: "go_lib \<Rightarrow> (string \<times> json) list \<Rightarrow> string" where
  "existing_app_port gl spec = existing_port gl (nested_json (JObj spec) [''service'', ''ports''])"

section \<open>Checking the params\<close>

text \<open>The checks run in order and stop at the first problem.\<close>

fun first_problem :: "err option list \<Rightarrow> err option" where
  "first_problem [] = None"
| "first_problem (x # xs) = (case x of Some e \<Rightarrow> Some e | None \<Rightarrow> first_problem xs)"

definition has_immutable_ref :: "string \<Rightarrow> bool" where
  "has_immutable_ref img =
     (contains_str ''@sha256:'' img \<or>
      (let name = (case last_index CHR ''/'' img of None \<Rightarrow> img | Some j \<Rightarrow> drop (j + 1) img)
       in case last_index CHR '':'' name of
            None \<Rightarrow> False
          | Some j \<Rightarrow> drop (j + 1) name \<noteq> [] \<and> drop (j + 1) name \<noteq> ''latest''))"

definition validate_immutable_image :: "string \<Rightarrow> err option" where
  "validate_immutable_image img =
     (if img = [] \<or> list_ex (\<lambda>c. c = CHR '' '' \<or> c = CHR 0x09 \<or> c = CHR 0x0A) img then
        Some (permanentf ''image %q is empty or contains whitespace'' [Lit img])
      else if \<not> has_immutable_ref img then
        Some (permanentf ''image %q must have an explicit tag (not \":latest\") or a digest'' [Lit img])
      else None)"

abbreviation known_param :: "smap \<Rightarrow> string \<Rightarrow> bool" where
  "known_param p k \<equiv> get0 p k \<noteq> Pending"

definition app_code_problem :: "smap \<Rightarrow> err option" where
  "app_code_problem p =
     (if known_param p ''artifactName'' \<and> known_param p ''tag'' then
        if (get0 p ''artifactName'' = []) \<noteq> (get0 p ''tag'' = []) then
          Some (permanentf ''app needs artifactName and tag together, or neither (image only)'' [])
        else if get0 p ''artifactName'' = [] \<and> known_param p ''image'' then validate_immutable_image (get0 p ''image'')
        else None
      else None)"

definition app_auth_problem :: "smap \<Rightarrow> err option" where
  "app_auth_problem p =
     (if known_param p ''externalAuthMode'' \<and> known_param p ''externalAuthName'' then
        (case external_auth_from_params p ''externalAuthMode'' ''externalAuthName'' of
           Inl x \<Rightarrow> Some x
         | Inr r \<Rightarrow>
             if r \<noteq> None \<and> get0 p ''type'' = appTypeService then
               Some (permanentf ''externalAuth is not supported for a service app (its token would expire under a long-running deployment)'' [])
             else None)
      else None)"

text \<open>A param that must not be set for this type of app.\<close>

definition foreign_param :: "smap \<Rightarrow> string \<Rightarrow> string \<Rightarrow> err option" where
  "foreign_param p fmt k = (if known_param p k \<and> get0 p k \<noteq> [] then Some (permanentf fmt [Lit k]) else None)"

definition app_port_problem :: "smap \<Rightarrow> err option" where
  "app_port_problem p =
     (if known_param p ''port'' \<and> get0 p ''port'' \<noteq> [] then
        (case parse_int (get0 p ''port'') of
           Some n \<Rightarrow> if n < 1 \<or> n > 65535 then Some (permanentf ''port %q is not a valid port number'' [Lit (get0 p ''port'')]) else None
         | None \<Rightarrow> Some (permanentf ''port %q is not a valid port number'' [Lit (get0 p ''port'')]))
      else None)"

definition entrypoint_problem :: "app_entrypoint \<Rightarrow> err option" where
  "entrypoint_problem x =
     (if ae_type x \<noteq> [] \<and> ae_type x \<noteq> ''OnDemand'' \<and> ae_type x \<noteq> ''Cron'' then
        Some (permanentf ''entrypoint %q: type %q is not supported (use OnDemand or Cron)'' [Lit (ae_key x), Lit (ae_type x)])
      else if ae_type x = ''Cron'' \<and> ae_schedule x = [] then
        Some (permanentf ''entrypoint %q: a Cron entrypoint needs a schedule'' [Lit (ae_key x)])
      else if ae_type x \<noteq> ''Cron'' \<and> ae_schedule x \<noteq> [] then
        Some (permanentf ''entrypoint %q: schedule is only valid for a Cron entrypoint'' [Lit (ae_key x)])
      else None)"

text \<open>\<open>seen\<close>: the file key of every entrypoint name so far.\<close>

fun entrypoints_problem :: "smap \<Rightarrow> app_entrypoint list \<Rightarrow> err option" where
  "entrypoints_problem seen [] = None"
| "entrypoints_problem seen (x # xs) =
     (case entrypoint_problem x of
        Some e \<Rightarrow> Some e
      | None \<Rightarrow>
          (case map_of seen (entrypoint_name x) of
             Some other \<Rightarrow> Some (permanentf ''entrypoints %q and %q both map to the name %q''
                             [Lit other, Lit (ae_key x), Lit (entrypoint_name x)])
           | None \<Rightarrow> entrypoints_problem (assoc_set (entrypoint_name x) (ae_key x) seen) xs))"

definition app_list_problem :: "go_lib \<Rightarrow> smap \<Rightarrow> err option" where
  "app_list_problem gl p =
     (if \<not> known_param p ''entrypoints'' \<or> \<not> known_param p ''schedule'' \<or> \<not> known_param p ''fireOnCreate'' then None
      else if get0 p ''entrypoints'' = [] then None
      else if get0 p ''schedule'' \<noteq> [] \<or> get0 p ''fireOnCreate'' = ''true'' then
        Some (permanentf ''schedule and fireOnCreate are only valid without an entrypoints list'' [])
      else (case parse_entrypoints gl (get0 p ''entrypoints'') of
              Inl x \<Rightarrow> Some x
            | Inr l \<Rightarrow> if l = [] then Some (permanentf ''entrypoints must not be empty'' []) else entrypoints_problem [] l))"

definition service_app_problem :: "smap \<Rightarrow> err option" where
  "service_app_problem p =
     first_problem [foreign_param p ''%s is only valid for a job app'' ''entrypoints'',
       foreign_param p ''%s is only valid for a job app'' ''schedule'',
       foreign_param p ''%s is only valid for a job app'' ''fireOnCreate'', app_port_problem p]"

definition job_app_problem :: "go_lib \<Rightarrow> smap \<Rightarrow> err option" where
  "job_app_problem gl p =
     first_problem [foreign_param p ''%s is only valid for a service app'' ''port'',
       foreign_param p ''%s is only valid for a service app'' ''ingressName'', app_list_problem gl p]"

definition validate_app_params :: "go_lib \<Rightarrow> step_type \<Rightarrow> smap \<Rightarrow> err option" where
  "validate_app_params gl t p =
     (let typ = get0 p ''type''
      in if t \<noteq> StepApp then None
         else if \<not> known_param p ''type'' then None
         else if typ \<noteq> appTypeService \<and> typ \<noteq> appTypeJob then
           Some (permanentf ''app type %q is not supported (use service or job)'' [Lit typ])
         else first_problem [app_code_problem p, app_auth_problem p,
                if typ = appTypeService then service_app_problem p else job_app_problem gl p])"

definition validates_early :: "step_type \<Rightarrow> string \<Rightarrow> bool" where
  "validates_early t key =
     (case t of
        StepChain \<Rightarrow> has_prefix key ''externalAuth''
      | StepTrigger \<Rightarrow> has_prefix key ''externalAuth''
      | StepApp \<Rightarrow> key \<noteq> ''name''
      | _ \<Rightarrow> False)"

section \<open>The step\<close>

definition app_image :: "'w env \<Rightarrow> smap \<Rightarrow> string" where
  "app_image e p =
     (if get0 p ''artifactName'' \<noteq> [] then first_non_empty [get0 p ''image'', cfg_runner_image (env_cfg e)]
      else get0 p ''image'')"

text \<open>A port that reaches this point unchecked is no number, and \<open>Atoi\<close> then gives 0.\<close>

definition app_service_field :: "smap \<Rightarrow> (string \<times> json) list" where
  "app_service_field p =
     (let service =
            (if get0 p ''port'' \<noteq> []
             then [(''ports'', port_json (case parse_int (get0 p ''port'') of Some n \<Rightarrow> n | None \<Rightarrow> 0))] else []) @
            (if get0 p ''ingressName'' \<noteq> [] then [(''ingressName'', JStr (get0 p ''ingressName''))] else [])
      in if service \<noteq> [] then [(''service'', JObj service)] else [])"

definition app_spec ::
  "'w env \<Rightarrow> smap \<Rightarrow> (string \<times> string) option \<Rightarrow> (string \<times> json) list list \<Rightarrow> (string \<times> json) list" where
  "app_spec e p auth eps =
     [(''type'', JStr (get0 p ''type'')), (''image'', JStr (app_image e p))] @
     code_source (get0 p ''artifactName'') (get0 p ''tag'') @ resources_field e @
     (if get0 p ''type'' = appTypeService then app_service_field p
      else (''entrypoints'', JArr (map JObj eps)) # auth_field ''externalAuthRef'' auth)"

definition app_hash_parts :: "'w env \<Rightarrow> smap \<Rightarrow> (string \<times> json) list list \<Rightarrow> string list" where
  "app_hash_parts e p eps =
     [KindApp, get0 p ''type'', get0 p ''artifactName'', get0 p ''tag''] @
     (if get0 p ''artifactName'' = [] then [''image'', app_image e p] else []) @
     (if get0 p ''type'' = appTypeService then [get0 p ''port'', get0 p ''ingressName'']
      else map app_entrypoint_key eps)"

definition app_matches ::
  "'w env \<Rightarrow> smap \<Rightarrow> (string \<times> string) option \<Rightarrow> (string \<times> json) list list \<Rightarrow> (string \<times> json) list \<Rightarrow> string" where
  "app_matches e p auth eps spec =
     (let typ = get0 p ''type''
      in if nested_string spec [''type''] \<noteq> typ then ''it is a different type of app''
         else if \<not> same_artifact spec (get0 p ''artifactName'') (get0 p ''tag'') then ''it runs a different artifact or tag''
         else if get0 p ''artifactName'' = [] \<and> nested_string spec [''image''] \<noteq> app_image e p then ''it runs a different image''
         else if typ = appTypeService \<and> existing_app_port (env_lib e) spec \<noteq> get0 p ''port'' then ''it exposes a different port''
         else if typ = appTypeService \<and> nested_string spec [''service'', ''ingressName''] \<noteq> get0 p ''ingressName''
         then ''it has a different ingress''
         else if typ = appTypeJob \<and> join nul (existing_entrypoint_keys spec) \<noteq> join nul (app_entrypoint_keys eps)
         then ''it has different entrypoints''
         else if typ = appTypeJob \<and> existing_auth_key spec ''externalAuthRef'' \<noteq> auth_ref_key auth
         then ''it has a different externalAuthRef''
         else [])"

definition annotate_fire :: "(string \<times> json) list \<Rightarrow> weave_object \<Rightarrow> weave_object" where
  "annotate_fire ep obj =
     assoc_set ''metadata'' (JObj (assoc_set ''annotations'' (JObj [(appFireAnnotation, obj_get ep ''name'')])
       (obj_members (obj_get obj ''metadata'')))) obj"

definition app_hash ::
  "'w env \<Rightarrow> smap \<Rightarrow> (string \<times> string) option \<Rightarrow> (string \<times> json) list list \<Rightarrow> string list" where
  "app_hash e p auth eps = auth_hash_parts auth (app_hash_parts e p eps)"

definition app_create :: "'w env \<Rightarrow> input \<Rightarrow> (string \<times> string) option \<Rightarrow> (string \<times> json) list list \<Rightarrow> ('w, step_result) call" where
  "app_create e i auth eps =
     (let p = in_params i; name = get0 p ''name'';
          obj = new_weave_object ''WeaveApp'' name (app_spec e p auth eps);
          run = (\<lambda>obj. weaveResource e i KindApp name (app_hash e p auth eps) obj
                         (app_matches e p auth eps) None)
      in if get0 p ''fireOnCreate'' = ''true'' then
           (case eps of [] \<Rightarrow> io_fail (Panic ''index out of range'') | ep # _ \<Rightarrow> run (annotate_fire ep obj))
         else run obj)"

definition app_ensure :: "'w env \<Rightarrow> input \<Rightarrow> ('w, step_result) call" where
  "app_ensure e i =
     (let p = in_params i
      in case validate_app_params (env_lib e) StepApp p of
           Some x \<Rightarrow> io_fail x
         | None \<Rightarrow>
             (case external_auth_from_params p ''externalAuthMode'' ''externalAuthName'' of
                Inl x \<Rightarrow> io_fail x
              | Inr auth \<Rightarrow>
                  if get0 p ''type'' = appTypeService then app_create e i auth []
                  else (case app_entrypoints (env_lib e) p of
                          Inl x \<Rightarrow> io_fail x | Inr eps \<Rightarrow> app_create e i auth eps)))"

definition appStep :: "'w step" where
  "appStep = \<lparr>sp_type = StepApp, sp_outputs = [''name''], sp_params = app_params, sp_ensure = app_ensure\<rparr>"

end
