(* ===== verification/Catalogue.thy ===== *)
theory Catalogue
  imports AppStep
begin

text \<open>
  Package \<open>internal/steps\<close>, file \<open>catalog.go\<close>: the catalogue of steps and the static check of a
  definition. The closure \<open>fail\<close> appends to a list of problems; here every check returns its list.
\<close>

section \<open>The catalogue\<close>

definition catalogueOrder :: "step_type list" where
  "catalogueOrder = [StepGitWatcher, StepWaitBuild, StepTag, StepApp, StepJobTemplate, StepServiceTemplate,
     StepChain, StepTrigger, StepBatchTrigger]"

definition registry :: "'w step list" where
  "registry = [gitWatcherStep, waitBuildStep, tagStep, appStep, jobTemplateStep, serviceTemplateStep,
     chainStep, triggerStep, batchTriggerStep]"

definition lookup_step :: "step_type \<Rightarrow> 'w step option" where
  "lookup_step t = find (\<lambda>s. sp_type s = t) registry"

fun position :: "'a \<Rightarrow> 'a list \<Rightarrow> nat option" where
  "position x [] = None"
| "position x (y # ys) = (if y = x then Some 0 else map_option Suc (position x ys))"

definition orderIndex :: "step_type \<Rightarrow> int" where
  "orderIndex t = (case position t catalogueOrder of None \<Rightarrow> -1 | Some n \<Rightarrow> int n)"

definition orderString :: string where
  "orderString = join '' -> '' (map step_type_str catalogueOrder)"

definition zero_config :: config where
  "zero_config = \<lparr>cfg_runner_image = [], cfg_resources = [], cfg_tag_name = [], cfg_artifact_prefix = [],
     cfg_chain_step_name = [], cfg_poll_interval = 0, cfg_build_timeout = 0, cfg_forge_url = [],
     cfg_index_url = [], cfg_weave_url = []\<rparr>"

definition configKeys :: "string list" where
  "configKeys = map fst (config_values zero_config)"

section \<open>Parameters\<close>

type_synonym declared = "(string \<times> wizard_parameter) list"

fun check_declarations :: "go_lib \<Rightarrow> declared \<Rightarrow> wizard_parameter list \<Rightarrow> err list \<times> declared" where
  "check_declarations gl decl [] = ([], decl)"
| "check_declarations gl decl (p # ps) =
     (let dup = (if map_of decl (wp_name p) \<noteq> None
                 then [Errorf (Fmt ''parameter %q is declared twice'' [Lit (wp_name p)])] else []);
          pat = (if wp_pattern p \<noteq> [] \<and> gl_regexp gl (wp_pattern p) = None
                 then [Errorf (Fmt ''parameter %q has an invalid pattern: %v'' [Lit (wp_name p), Lit (wp_pattern p)])] else [])
      in case check_declarations gl (assoc_set (wp_name p) p decl) ps of
           (errs, decl') \<Rightarrow> (dup @ pat @ errs, decl'))"

definition relaxed :: "wizard_parameter list \<Rightarrow> wizard_parameter list" where
  "relaxed ps = map (\<lambda>p. p\<lparr>wp_required := False\<rparr>) ps"

fun supplied_defaults :: "(string \<times> raw_json) list \<Rightarrow> wizard_parameter list \<Rightarrow> (string \<times> raw_json) list" where
  "supplied_defaults acc [] = acc"
| "supplied_defaults acc (p # ps) =
     supplied_defaults (case wp_default p of Some d \<Rightarrow> assoc_set (wp_name p) d acc | None \<Rightarrow> acc) ps"

definition checkDefaults :: "go_lib \<Rightarrow> wizard_parameter list \<Rightarrow> err list" where
  "checkDefaults gl ps =
     (case resolve_parameters gl (relaxed ps) (supplied_defaults [] ps) of
        Inl e \<Rightarrow> [Wrapf (Lit ''invalid parameter default'') e] | Inr v \<Rightarrow> [])"

definition checkForEach :: "wizard_step \<Rightarrow> declared \<Rightarrow> err list" where
  "checkForEach st decl =
     (case list_ref (ws_for_each st) of
        Inl e \<Rightarrow> [Errorf (Fmt ''step %q: %v'' [Lit (ws_name st), err_text e])]
      | Inr name \<Rightarrow>
          (case map_of decl name of
             None \<Rightarrow> [Errorf (Fmt ''step %q forEach refers to undeclared parameter %q'' [Lit (ws_name st), Lit name])]
           | Some p \<Rightarrow>
               if wp_type p \<noteq> ParameterStringList \<and> wp_type p \<noteq> ParameterObjectList
               then [Errorf (Fmt ''step %q forEach parameter %q must be of type stringList or objectList''
                       [Lit (ws_name st), Lit name])]
               else []))"

section \<open>References\<close>

record earlier_step =
  es_type :: step_type
  es_outputs :: "string list"
  es_for_each :: bool

definition contains :: "string list \<Rightarrow> string \<Rightarrow> bool" where
  "contains l v \<longleftrightarrow> list_ex (\<lambda>s. s = v) l"

definition check_ref :: "msg \<Rightarrow> bool \<Rightarrow> declared \<Rightarrow> (string \<times> earlier_step) list \<Rightarrow> tref \<Rightarrow> err list" where
  "check_ref place in_for_each decl earlier r =
     (case r_kind r of
        RefParams \<Rightarrow>
          (case map_of decl (r_name r) of
             None \<Rightarrow> [Errorf (Fmt ''%s refers to undeclared parameter %q'' [place, Lit (r_name r)])]
           | Some p \<Rightarrow>
               if wp_type p = ParameterStringList then
                 [Errorf (Fmt ''%s: list parameter %q can only be used as forEach'' [place, Lit (r_name r)])]
               else if wp_type p = ParameterObjectList \<and> r_filters r \<noteq> [] then
                 [Errorf (Fmt ''%s: objectList parameter %q renders as JSON and takes no filters'' [place, Lit (r_name r)])]
               else [])
      | RefConfig \<Rightarrow>
          if \<not> contains configKeys (r_name r) then
            [Errorf (Fmt ''%s refers to unknown config key %q'' [place, Lit (r_name r)])]
          else []
      | RefSteps \<Rightarrow>
          (case map_of earlier (r_name r) of
             None \<Rightarrow> [Errorf (Fmt ''%s refers to step %q, which does not exist or does not run before it'' [place, Lit (r_name r)])]
           | Some s \<Rightarrow>
               if es_for_each s then
                 [Errorf (Fmt ''%s refers to step %q, which has forEach: it runs several times, so its outputs are ambiguous''
                    [place, Lit (r_name r)])]
               else if \<not> contains (es_outputs s) (r_key r) then
                 [Errorf (Fmt ''%s refers to output %q, which step %q (%s) does not provide (has: %s)''
                    [place, Lit (r_key r), Lit (r_name r), Lit (step_type_str (es_type s)), Lit (join '', '' (es_outputs s))])]
               else [])
      | RefItem \<Rightarrow>
          if \<not> in_for_each then [Errorf (Fmt ''%s uses ${item} but the step has no forEach'' [place])] else [])"

definition checkRefs :: "string \<Rightarrow> msg \<Rightarrow> bool \<Rightarrow> declared \<Rightarrow> (string \<times> earlier_step) list \<Rightarrow> err list" where
  "checkRefs value place in_for_each decl earlier =
     (case parse value of
        Inl e \<Rightarrow> [Errorf (Fmt ''%s: %v'' [place, err_text e])]
      | Inr t \<Rightarrow> concat (map (check_ref place in_for_each decl earlier) (refs t)))"

section \<open>Steps\<close>

definition missing_params :: "wizard_step \<Rightarrow> param_spec \<Rightarrow> err list" where
  "missing_params st ps =
     map (\<lambda>r. Errorf (Fmt ''step %q (%s) is missing required param %q''
            [Lit (ws_name st), Lit (step_type_str (ws_type st)), Lit r]))
       (filter (\<lambda>r. map_of (ws_params st) r = None) (ps_required ps))"

definition check_param :: "wizard_step \<Rightarrow> param_spec \<Rightarrow> declared \<Rightarrow> (string \<times> earlier_step) list \<Rightarrow> string \<Rightarrow> err list" where
  "check_param st ps decl earlier k =
     (if \<not> param_allows ps k
      then [Errorf (Fmt ''step %q (%s) has unknown param %q'' [Lit (ws_name st), Lit (step_type_str (ws_type st)), Lit k])]
      else checkRefs (get0 (ws_params st) k) (Fmt ''step %q param %q'' [Lit (ws_name st), Lit k])
             (ws_for_each st \<noteq> []) decl earlier)"

text \<open>The checks of one step of a known type, given the steps before it.\<close>

definition check_step ::
  "wizard_step \<Rightarrow> unit step \<Rightarrow> declared \<Rightarrow> (string \<times> earlier_step) list \<Rightarrow> int \<Rightarrow> err list" where
  "check_step st step decl earlier last_order =
     (if map_of earlier (ws_name st) \<noteq> None
      then [Errorf (Fmt ''step name %q is used twice'' [Lit (ws_name st)])] else []) @
     (if orderIndex (ws_type st) < last_order
      then [Errorf (Fmt ''step %q (%s) is out of order; steps must follow %s''
             [Lit (ws_name st), Lit (step_type_str (ws_type st)), Lit orderString])] else []) @
     missing_params st (sp_params step) @
     concat (map (check_param st (sp_params step) decl earlier) (sorted_keys (ws_params st))) @
     (if ws_for_each st \<noteq> [] then checkForEach st decl else [])"

fun check_steps :: "declared \<Rightarrow> (string \<times> earlier_step) list \<Rightarrow> int \<Rightarrow> wizard_step list \<Rightarrow> err list" where
  "check_steps decl earlier last_order [] = []"
| "check_steps decl earlier last_order (st # sts) =
     (case lookup_step (ws_type st) of
        None \<Rightarrow>
          Errorf (Fmt ''step %q has unknown type %q'' [Lit (ws_name st), Lit (step_type_str (ws_type st))])
            # check_steps decl earlier last_order sts
      | Some step \<Rightarrow>
          check_step st step decl earlier last_order @
          check_steps decl
            (assoc_set (ws_name st) \<lparr>es_type = sp_type step, es_outputs = sp_outputs step, es_for_each = ws_for_each st \<noteq> []\<rparr> earlier)
            (if orderIndex (ws_type st) < last_order then last_order else orderIndex (ws_type st)) sts)"

definition validate_definition :: "go_lib \<Rightarrow> definition_spec \<Rightarrow> err option" where
  "validate_definition gl spec =
     (case check_declarations gl [] (ds_parameters spec) of
        (errs, decl) \<Rightarrow> errors_join (errs @ checkDefaults gl (ds_parameters spec) @ check_steps decl [] (-1) (ds_steps spec)))"

end
