(* ===== verification/Rollback.thy ===== *)
theory Rollback
  imports Catalogue
begin

text \<open>
  Package \<open>internal/steps\<close>, file \<open>rollback.go\<close>: giving back everything a run holds, in an order in
  which forge does not rebuild what was removed. The errors of one call are collected; only a failing
  list ends it early.
\<close>

definition undoRank :: "(string \<times> nat) list" where
  "undoRank = [(KindApp, 5), (KindTrigger, 10), (KindBatchTrigger, 10), (KindChain, 20), (KindJobTemplate, 30),
     (KindServiceTemplate, 30), (KindGitWatcher, 40), (KindTag, 50), (KindArtifact, 60)]"

definition rankOf :: "string \<Rightarrow> nat" where
  "rankOf kind = (case map_of undoRank kind of Some r \<Rightarrow> r | None \<Rightarrow> 100)"

definition refsOf :: "wizard_resource \<Rightarrow> string \<Rightarrow> resource_reference list" where
  "refsOf en run = filter (\<lambda>r. rr_run r = run) (wr_refs en)"

definition entry_key :: "wizard_resource \<Rightarrow> lkey" where
  "entry_key en = \<lparr>lk_service = wr_service en, lk_kind = wr_kind en, lk_name = wr_name en\<rparr>"

text \<open>The order of \<open>sort.SliceStable\<close>.\<close>

definition undo_le :: "wizard_resource \<Rightarrow> wizard_resource \<Rightarrow> bool" where
  "undo_le a b \<longleftrightarrow>
     (if rankOf (wr_kind a) \<noteq> rankOf (wr_kind b) then rankOf (wr_kind a) < rankOf (wr_kind b) else wr_name a \<le> wr_name b)"

definition undo_sort :: "wizard_resource list \<Rightarrow> wizard_resource list" where
  "undo_sort es = sort_by undo_le es"

definition releaseAndDelete :: "'w env \<Rightarrow> lkey \<Rightarrow> resource_reference \<Rightarrow> ('w, unit) call" where
  "releaseAndDelete e k ref =
     io_bind (io_wrap (Wrapf (Fmt ''release %s %q'' [Lit (lk_kind k), Lit (lk_name k)])) (ledger_release (env_ledger e) k ref))
       (\<lambda>(out, entry).
         if out \<noteq> OutcomeDelete then io_return ()
         else (case entry of
           None \<Rightarrow> io_fail (Panic ''nil entry'')
         | Some en \<Rightarrow>
             io_bind (io_wrap (Wrapf (Fmt ''delete %s %q'' [Lit (lk_kind k), Lit (lk_name k)])) (deleteUpstream e en)) (\<lambda>_.
               io_wrap (Wrapf (Fmt ''finish %s %q'' [Lit (lk_kind k), Lit (lk_name k)])) (ledger_finish (env_ledger e) k))))"

text \<open>Running all of a list of calls and collecting their errors.\<close>

fun io_collect :: "('w, unit) call list \<Rightarrow> 'w \<Rightarrow> err list \<times> 'w" where
  "io_collect [] w = ([], w)"
| "io_collect (f # fs) w =
     (case f w of
        (r, w1) \<Rightarrow> (case io_collect fs w1 of
          (errs, w2) \<Rightarrow> ((case r of Inl x \<Rightarrow> x # errs | Inr _ \<Rightarrow> errs), w2)))"

definition joined :: "err list \<Rightarrow> err + unit" where
  "joined errs = (case errors_join errs of Some x \<Rightarrow> Inl x | None \<Rightarrow> Inr ())"

text \<open>One entry of the sweep.\<close>

definition sweep_entry :: "'w env \<Rightarrow> wizard_resource \<Rightarrow> ('w, unit) call" where
  "sweep_entry e en =
     (if \<not> wr_terminating en \<or> wr_refs en \<noteq> [] then io_return ()
      else io_bind (if wr_managed en
                    then io_wrap (Wrapf (Fmt ''delete %s %q'' [Lit (wr_kind en), Lit (wr_name en)])) (deleteUpstream e en)
                    else io_return ())
             (\<lambda>_. io_wrap (Wrapf (Fmt ''finish %s %q'' [Lit (wr_kind en), Lit (wr_name en)]))
                    (ledger_finish (env_ledger e) (entry_key en))))"

definition SweepTerminating :: "'w env \<Rightarrow> ('w, unit) call" where
  "SweepTerminating e =
     io_bind (io_wrap (Wrapf (Lit ''list ledger'')) (ledger_list (env_ledger e))) (\<lambda>entries w.
       (case io_collect (map (sweep_entry e) entries) w of (errs, w') \<Rightarrow> (joined errs, w')))"

definition releases_of :: "'w env \<Rightarrow> string \<Rightarrow> wizard_resource list \<Rightarrow> ('w, unit) call list" where
  "releases_of e run entries =
     concat (map (\<lambda>en. map (releaseAndDelete e (entry_key en)) (refsOf en run))
       (undo_sort (filter (\<lambda>en. refsOf en run \<noteq> []) entries)))"

definition rollback_run :: "'w env \<Rightarrow> string \<Rightarrow> ('w, unit) call" where
  "rollback_run e run =
     io_try (SweepTerminating e) (\<lambda>s.
       let errs0 = (case s of Inl x \<Rightarrow> [x] | Inr _ \<Rightarrow> [])
       in io_try (ledger_list (env_ledger e)) (\<lambda>r. case r of
            Inl x \<Rightarrow> (\<lambda>w. (joined (errs0 @ [Wrapf (Lit ''list ledger'') x]), w))
          | Inr entries \<Rightarrow> (\<lambda>w.
              case io_collect (releases_of e run entries) w of (errs, w') \<Rightarrow> (joined (errs0 @ errs), w'))))"

end
