(* ===== verification/Plan.thy ===== *)
theory Plan
  imports Parameters
begin

text \<open>
  Package \<open>internal/plan\<close>: a definition and resolved parameter values give the ordered list of
  step instances a run executes, every forEach expanded.
\<close>

record step_instance =
  pi_key :: string
  pi_step :: wizard_step
  pi_item :: "string option"
  pi_item_fields :: "smap option"

text \<open>The closure \<open>add\<close>; \<open>seen\<close> holds the keys added so far.\<close>

definition add_instance ::
  "step_instance \<Rightarrow> string list \<times> step_instance list \<Rightarrow> err + (string list \<times> step_instance list)" where
  "add_instance i st =
     (case st of (seen, out) \<Rightarrow>
        if pi_key i \<in> set seen
        then Inl (Errorf (Fmt ''step instance %q occurs twice (forEach items must be unique)'' [Lit (pi_key i)]))
        else Inr (pi_key i # seen, out @ [i]))"

text \<open>The instance of one forEach item.\<close>

definition item_instance :: "wizard_step \<Rightarrow> for_each_item \<Rightarrow> step_instance" where
  "item_instance st it =
     \<lparr>pi_key = ws_name st @ ''/'' @ fe_key it, pi_step = st,
      pi_item = Some (fe_key it), pi_item_fields = fe_fields it\<rparr>"

fun expand_items ::
  "wizard_step \<Rightarrow> for_each_item list \<Rightarrow> string list \<times> step_instance list \<Rightarrow>
   err + (string list \<times> step_instance list)" where
  "expand_items st [] acc = Inr acc"
| "expand_items st (it # its) acc =
     (if fe_key it = []
      then Inl (Errorf (Fmt ''step %q: forEach items must not be empty'' [Lit (ws_name st)]))
      else (case add_instance (item_instance st it) acc of
              Inl e \<Rightarrow> Inl e
            | Inr acc' \<Rightarrow> expand_items st its acc'))"

definition plan_ctx :: "(string \<times> val) list \<Rightarrow> tctx" where
  "plan_ctx values = \<lparr>c_params = values, c_config = [], c_steps = [], c_item = None, c_item_fields = None\<rparr>"

fun expand_steps ::
  "(string \<times> val) list \<Rightarrow> wizard_step list \<Rightarrow> string list \<times> step_instance list \<Rightarrow>
   err + (string list \<times> step_instance list)" where
  "expand_steps values [] acc = Inr acc"
| "expand_steps values (st # sts) acc =
     (if ws_for_each st = []
      then (case add_instance \<lparr>pi_key = ws_name st, pi_step = st, pi_item = None, pi_item_fields = None\<rparr> acc of
              Inl e \<Rightarrow> Inl e
            | Inr acc' \<Rightarrow> expand_steps values sts acc')
      else (case resolve_list (ws_for_each st) (plan_ctx values) of
              Inl e \<Rightarrow> Inl (Wrapf (Fmt ''step %q'' [Lit (ws_name st)]) e)
            | Inr items \<Rightarrow>
                (case expand_items st items acc of
                   Inl e \<Rightarrow> Inl e
                 | Inr acc' \<Rightarrow> expand_steps values sts acc')))"

definition expand :: "definition_spec \<Rightarrow> (string \<times> val) list \<Rightarrow> err + step_instance list" where
  "expand def values =
     (case expand_steps values (ds_steps def) ([], []) of Inl e \<Rightarrow> Inl e | Inr (seen, out) \<Rightarrow> Inr out)"

section \<open>The plan as a specification\<close>

text \<open>What a step contributes to the plan, without the checks.\<close>

definition instances_of :: "(string \<times> val) list \<Rightarrow> wizard_step \<Rightarrow> step_instance list" where
  "instances_of values st =
     (if ws_for_each st = []
      then [\<lparr>pi_key = ws_name st, pi_step = st, pi_item = None, pi_item_fields = None\<rparr>]
      else (case resolve_list (ws_for_each st) (plan_ctx values) of
              Inl e \<Rightarrow> []
            | Inr items \<Rightarrow> map (item_instance st) items))"

definition step_expandable :: "(string \<times> val) list \<Rightarrow> wizard_step \<Rightarrow> bool" where
  "step_expandable values st \<longleftrightarrow>
     ws_for_each st = [] \<or>
     (case resolve_list (ws_for_each st) (plan_ctx values) of
        Inl e \<Rightarrow> False | Inr items \<Rightarrow> \<forall>it\<in>set items. fe_key it \<noteq> [])"

definition acc_ok :: "string list \<times> step_instance list \<Rightarrow> bool" where
  "acc_ok acc \<longleftrightarrow> set (fst acc) = set (map pi_key (snd acc)) \<and> distinct (map pi_key (snd acc))"

lemma add_instance_iff:
  assumes "acc_ok acc"
  shows "(\<exists>acc'. add_instance i acc = Inr acc') \<longleftrightarrow> distinct (map pi_key (snd acc @ [i]))"
    and "add_instance i acc = Inr acc' \<Longrightarrow> acc_ok acc' \<and> snd acc' = snd acc @ [i]"
  using assms by (cases acc, auto simp: add_instance_def acc_ok_def split: if_splits)+

lemma expand_items_ok:
  "acc_ok acc \<Longrightarrow> expand_items st its acc = Inr acc' \<Longrightarrow>
   acc_ok acc' \<and> snd acc' = snd acc @ map (item_instance st) its \<and> (\<forall>it\<in>set its. fe_key it \<noteq> [])"
proof (induction its arbitrary: acc)
  case (Cons it its)
  from Cons.prems obtain acc1 where ne: "fe_key it \<noteq> []"
    and a: "add_instance (item_instance st it) acc = Inr acc1" and r: "expand_items st its acc1 = Inr acc'"
    by (auto split: if_splits sum.splits)
  from add_instance_iff(2)[OF Cons.prems(1) a] Cons.IH[OF _ r] ne show ?case by auto
qed simp

lemma expand_items_succeeds:
  "acc_ok acc \<Longrightarrow> (\<forall>it\<in>set its. fe_key it \<noteq> []) \<Longrightarrow>
   distinct (map pi_key (snd acc @ map (item_instance st) its)) \<Longrightarrow> \<exists>acc'. expand_items st its acc = Inr acc'"
proof (induction its arbitrary: acc)
  case (Cons it its)
  then have "distinct (map pi_key (snd acc @ [item_instance st it]))" by auto
  then obtain acc1 where a: "add_instance (item_instance st it) acc = Inr acc1"
    using add_instance_iff(1)[OF Cons.prems(1)] by blast
  from add_instance_iff(2)[OF Cons.prems(1) a] Cons have "\<exists>acc'. expand_items st its acc1 = Inr acc'"
    by (intro Cons.IH) auto
  with a Cons.prems(2) show ?case by auto
qed simp

lemma expand_steps_ok:
  "acc_ok acc \<Longrightarrow> expand_steps values sts acc = Inr acc' \<Longrightarrow>
   acc_ok acc' \<and> snd acc' = snd acc @ concat (map (instances_of values) sts) \<and>
   (\<forall>st\<in>set sts. step_expandable values st)"
proof (induction sts arbitrary: acc)
  case (Cons st sts)
  show ?case
  proof (cases "ws_for_each st = []")
    case True
    with Cons.prems(2) obtain acc1 where
      a: "add_instance (hd (instances_of values st)) acc = Inr acc1" and r: "expand_steps values sts acc1 = Inr acc'"
      by (auto simp: instances_of_def split: sum.splits)
    from add_instance_iff(2)[OF Cons.prems(1) a] Cons.IH[OF _ r] True show ?thesis
      by (auto simp: instances_of_def step_expandable_def)
  next
    case False
    with Cons.prems(2) obtain items acc1 where
      l: "resolve_list (ws_for_each st) (plan_ctx values) = Inr items" and
      a: "expand_items st items acc = Inr acc1" and r: "expand_steps values sts acc1 = Inr acc'"
      by (auto split: sum.splits)
    from expand_items_ok[OF Cons.prems(1) a] Cons.IH[OF _ r] False l show ?thesis
      by (auto simp: instances_of_def step_expandable_def)
  qed
qed simp

lemma expand_steps_succeeds:
  "acc_ok acc \<Longrightarrow> (\<forall>st\<in>set sts. step_expandable values st) \<Longrightarrow>
   distinct (map pi_key (snd acc @ concat (map (instances_of values) sts))) \<Longrightarrow>
   \<exists>acc'. expand_steps values sts acc = Inr acc'"
proof (induction sts arbitrary: acc)
  case (Cons st sts)
  show ?case
  proof (cases "ws_for_each st = []")
    case True
    then have i: "instances_of values st = [hd (instances_of values st)]" by (simp add: instances_of_def)
    with Cons.prems(3) have "distinct (map pi_key (snd acc @ [hd (instances_of values st)]))"
      by (metis append_assoc concat.simps(2) distinct_append list.simps(9) map_append)
    then obtain acc1 where a: "add_instance (hd (instances_of values st)) acc = Inr acc1"
      using add_instance_iff(1)[OF Cons.prems(1)] by blast
    with add_instance_iff(2)[OF Cons.prems(1) a] Cons.prems i
    have "\<exists>acc'. expand_steps values sts acc1 = Inr acc'"
      by (intro Cons.IH) (metis append_assoc concat.simps(2) list.simps(9) list.set_intros(2))+
    with a True show ?thesis by (simp add: instances_of_def)
  next
    case False
    with Cons.prems(2) obtain items where l: "resolve_list (ws_for_each st) (plan_ctx values) = Inr items"
      and ne: "\<forall>it\<in>set items. fe_key it \<noteq> []"
      by (auto simp: step_expandable_def split: sum.splits)
    with False Cons.prems(3) have "distinct (map pi_key (snd acc @ instances_of values st))" by auto
    with l False have "distinct (map pi_key (snd acc @ map (item_instance st) items))"
      by (simp add: instances_of_def)
    from expand_items_succeeds[OF Cons.prems(1) ne this]
    obtain acc1 where a: "expand_items st items acc = Inr acc1" by blast
    with expand_items_ok[OF Cons.prems(1) a] Cons.prems l False
    have "\<exists>acc'. expand_steps values sts acc1 = Inr acc'"
      by (intro Cons.IH) (auto simp: instances_of_def)
    with a l False show ?thesis by simp
  qed
qed simp

lemma acc_ok_empty: "acc_ok ([], [])"
  by (simp add: acc_ok_def)

text \<open>\<open>Expand\<close> computes exactly this plan, and refuses exactly the definitions whose forEach does
  not resolve, has an empty item, or yields two instances with one key.\<close>

lemma expand_iff:
  "expand def values = Inr insts \<longleftrightarrow>
     (insts = concat (map (instances_of values) (ds_steps def)) \<and>
      (\<forall>st\<in>set (ds_steps def). step_expandable values st) \<and> distinct (map pi_key insts))"
proof
  assume "expand def values = Inr insts"
  then obtain seen where "expand_steps values (ds_steps def) ([], []) = Inr (seen, insts)"
    by (auto simp: expand_def split: sum.splits)
  from expand_steps_ok[OF acc_ok_empty this]
  have "distinct (map pi_key insts)" "insts = concat (map (instances_of values) (ds_steps def))"
    "\<forall>st\<in>set (ds_steps def). step_expandable values st"
    unfolding acc_ok_def by auto
  then show "insts = concat (map (instances_of values) (ds_steps def)) \<and>
      (\<forall>st\<in>set (ds_steps def). step_expandable values st) \<and> distinct (map pi_key insts)"
    by blast
next
  assume r: "insts = concat (map (instances_of values) (ds_steps def)) \<and>
      (\<forall>st\<in>set (ds_steps def). step_expandable values st) \<and> distinct (map pi_key insts)"
  note i = conjunct1[OF r] and e = conjunct1[OF conjunct2[OF r]] and d = conjunct2[OF conjunct2[OF r]]
  have "distinct (map pi_key (snd ([], []) @ concat (map (instances_of values) (ds_steps def))))"
    using d unfolding i snd_conv append_Nil .
  then obtain acc' where a: "expand_steps values (ds_steps def) ([], []) = Inr acc'"
    using expand_steps_succeeds[OF acc_ok_empty e] by blast
  with expand_steps_ok[OF acc_ok_empty a] i show "expand def values = Inr insts"
    by (cases acc') (simp add: expand_def)
qed

lemma expand_keys_distinct: "expand def values = Inr insts \<Longrightarrow> distinct (map pi_key insts)"
  by (rule conjunct2[OF conjunct2[OF expand_iff[THEN iffD1]]])

lemma expand_steps_of: "expand def values = Inr insts \<Longrightarrow> i \<in> set insts \<Longrightarrow> pi_step i \<in> set (ds_steps def)"
  by (auto simp: expand_iff instances_of_def item_instance_def split: if_splits sum.splits)

lemma expand_item: "expand def values = Inr insts \<Longrightarrow> i \<in> set insts \<Longrightarrow>
   (pi_item i = None) = (ws_for_each (pi_step i) = [])"
  by (auto simp: expand_iff instances_of_def item_instance_def split: if_splits sum.splits)

section \<open>Properties\<close>

text \<open>C30: \<open>Expand\<close> returns the plan of a definition, the instances of its steps in definition order
  with every forEach expanded in item order, exactly when every forEach resolves to items with
  non-empty keys and no two instances of the plan share a key; otherwise it fails.\<close>

theorem expand_correct:
  "(expand def values = Inr insts) =
     (insts = concat (map (instances_of values) (ds_steps def)) \<and>
      (\<forall>st\<in>set (ds_steps def). step_expandable values st) \<and> distinct (map pi_key insts))"
  by (rule expand_iff)

definition sample_spec :: definition_spec where
  "sample_spec = \<lparr>ds_description = [], ds_parameters = [],
     ds_steps = [\<lparr>ws_name = ''build'', ws_type = StepGitWatcher, ws_for_each = ''${params.f}'', ws_params = []\<rparr>]\<rparr>"

theorem expand_witness:
  "expand sample_spec [(''f'', VList [''a'', ''b''])] =
     Inr (concat (map (instances_of [(''f'', VList [''a'', ''b''])]) (ds_steps sample_spec)))"
proof -
  let ?v = "[(''f'', VList [''a'', ''b''])]"
  have r: "resolve_list ''${params.f}'' (plan_ctx ?v) =
      Inr [\<lparr>fe_key = ''a'', fe_fields = None\<rparr>, \<lparr>fe_key = ''b'', fe_fields = None\<rparr>]"
    by code_simp
  show ?thesis
    unfolding expand_correct by (simp add: sample_spec_def step_expandable_def instances_of_def r item_instance_def)
qed

end
