(* ===== verification/Controller.thy ===== *)
theory Controller
  imports Rollback Plan
begin

text \<open>
  Package \<open>internal/controller\<close>: the reconciler of wizard runs and the factory of step environments.
  The Kubernetes client is the record \<open>run_api\<close>; a patch answers with the object the server then
  has, which replaces the caller's copy as in the code. Times are nanoseconds.
\<close>

section \<open>The reconciler\<close>

definition maxStepFailures :: int where "maxStepFailures = 10"
definition rollbackRetryInterval :: time where "rollbackRetryInterval = 30 * 1000000000"
definition envRetryInterval :: time where "envRetryInterval = 30 * 1000000000"
definition defaultPoll :: time where "defaultPoll = 5 * 1000000000"
definition maxRetryDelay :: time where "maxRetryDelay = 60 * 1000000000"

record 'w run_api =
  ra_get_run :: "string \<Rightarrow> ('w, wizard_run) call"
  ra_get_definition :: "string \<Rightarrow> ('w, wizard_definition) call"
  ra_patch :: "wizard_run \<Rightarrow> wizard_run \<Rightarrow> ('w, wizard_run) call"
  ra_patch_status :: "wizard_run \<Rightarrow> wizard_run \<Rightarrow> ('w, wizard_run) call"

text \<open>\<open>WizardRunReconciler\<close>.\<close>

record 'w reconciler =
  rc_api :: "'w run_api"
  rc_envs :: "('w, 'w env) call"
  rc_now :: "'w \<Rightarrow> time"
  rc_lib :: go_lib

text \<open>\<open>runChanged\<close>: which updates of a run trigger a reconcile.\<close>

definition run_changed :: "wizard_run \<Rightarrow> wizard_run \<Rightarrow> bool" where
  "run_changed old new \<longleftrightarrow>
     run_generation new \<noteq> run_generation old \<or>
     set (run_annotations new) \<noteq> set (run_annotations old) \<or>
     run_deletion new \<noteq> run_deletion old"

section \<open>Status helpers\<close>

text \<open>\<open>equality.Semantic.DeepEqual\<close> of two statuses: the outputs are maps.\<close>

definition norm_map :: "smap \<Rightarrow> smap" where
  "norm_map m = map (\<lambda>k. (k, get0 m k)) (sorted_keys m)"

definition norm_status :: "run_status \<Rightarrow> run_status" where
  "norm_status st = st\<lparr>rs_steps := map (\<lambda>s. s\<lparr>ss_outputs := norm_map (ss_outputs s)\<rparr>) (rs_steps st)\<rparr>"

definition status_eq :: "run_status \<Rightarrow> run_status \<Rightarrow> bool" where
  "status_eq a b \<longleftrightarrow> norm_status a = norm_status b"

text \<open>\<open>meta.SetStatusCondition\<close>, for a new condition without a transition time.\<close>

fun set_condition :: "time \<Rightarrow> condition \<Rightarrow> condition list \<Rightarrow> condition list" where
  "set_condition now c [] = [c\<lparr>cond_transition := now\<rparr>]"
| "set_condition now c (x # xs) =
     (if cond_type x = cond_type c
      then c\<lparr>cond_transition := (if cond_status x \<noteq> cond_status c then now else cond_transition x)\<rparr> # xs
      else x # set_condition now c xs)"

definition set_run :: "time \<Rightarrow> run_phase \<Rightarrow> msg \<Rightarrow> int \<Rightarrow> run_status \<Rightarrow> run_status" where
  "set_run now phase m gen st =
     st\<lparr>rs_phase := phase, rs_message := m, rs_generation := gen,
        rs_completed_at :=
          (if phase \<in> set [RunReady, RunFailed, RunRolledBack, RunRollbackFailed]
           then (case rs_completed_at st of None \<Rightarrow> Some now | Some t \<Rightarrow> Some t)
           else None),
        rs_conditions := set_condition now
          \<lparr>cond_type = ConditionReady, cond_status = phase = RunReady, cond_reason = phase, cond_message = m,
           cond_generation = gen, cond_transition = 0\<rparr> (rs_conditions st)\<rparr>"

definition new_step_status :: "step_instance \<Rightarrow> step_status" where
  "new_step_status i =
     \<lparr>ss_key = pi_key i, ss_name = ws_name (pi_step i), ss_type = ws_type (pi_step i),
      ss_item = (case pi_item i of Some x \<Rightarrow> x | None \<Rightarrow> []), ss_phase = StepPending, ss_message = Lit [],
      ss_failures = 0, ss_outputs = [], ss_resources = [], ss_started_at = None, ss_completed_at = None\<rparr>"

definition known_steps :: "step_status list \<Rightarrow> (string \<times> step_status) list" where
  "known_steps ss = foldl (\<lambda>m s. assoc_set (ss_key s) s m) [] ss"

definition sync_steps :: "step_instance list \<Rightarrow> run_status \<Rightarrow> run_status" where
  "sync_steps insts st =
     st\<lparr>rs_steps := map (\<lambda>i. case map_of (known_steps (rs_steps st)) (pi_key i) of
                               Some s \<Rightarrow> s | None \<Rightarrow> new_step_status i) insts\<rparr>"

definition find_step :: "run_status \<Rightarrow> string \<Rightarrow> step_status option" where
  "find_step st key = find (\<lambda>s. ss_key s = key) (rs_steps st)"

text \<open>Writing through the pointer \<open>findStep\<close> returns.\<close>

fun put_step :: "step_status \<Rightarrow> step_status list \<Rightarrow> step_status list" where
  "put_step s [] = []"
| "put_step s (x # xs) = (if ss_key x = ss_key s then s # xs else x # put_step s xs)"

definition reset_step :: "step_status \<Rightarrow> step_status" where
  "reset_step s =
     (if ss_phase s = StepFailed
      then s\<lparr>ss_phase := StepPending, ss_message := Lit [], ss_failures := 0, ss_started_at := None, ss_completed_at := None\<rparr>
      else s)"

definition reset_failed :: "run_status \<Rightarrow> run_status" where
  "reset_failed st = st\<lparr>rs_steps := map reset_step (rs_steps st)\<rparr>"

definition rolled_back_step :: "time \<Rightarrow> step_status \<Rightarrow> step_status" where
  "rolled_back_step now s =
     (if ss_phase s \<noteq> StepPending
      then s\<lparr>ss_phase := StepRolledBack, ss_message := Lit [], ss_completed_at := Some now\<rparr> else s)"

section \<open>One step instance\<close>

datatype run_outcome = OutcomeDone | OutcomeWait | OutcomeFailed

text \<open>The loop of \<open>retryDelay\<close>, \<open>n\<close> more doublings at most.\<close>

fun delay_loop :: "nat \<Rightarrow> time \<Rightarrow> time" where
  "delay_loop 0 d = d"
| "delay_loop (Suc n) d = (if d < maxRetryDelay then delay_loop n (d * 2) else d)"

definition retry_delay :: "int \<Rightarrow> time" where
  "retry_delay failures =
     (let d = delay_loop (nat (failures - 1)) (2 * 1000000000) in if d > maxRetryDelay then maxRetryDelay else d)"

text \<open>What \<open>logUpstreamDetail\<close> logs.\<close>

definition log_detail :: "err \<Rightarrow> msg" where
  "log_detail e =
     (case find (\<lambda>x. status_of x \<noteq> None) (err_tree e) of Some a \<Rightarrow> api_detail a | None \<Rightarrow> err_text e)"

definition fail_step :: "time \<Rightarrow> msg \<Rightarrow> step_status \<Rightarrow> run_outcome \<times> time \<times> step_status" where
  "fail_step now m s =
     (OutcomeFailed, 0, s\<lparr>ss_phase := StepFailed, ss_message := m, ss_failures := 0, ss_completed_at := Some now\<rparr>)"

text \<open>How the result of \<open>Ensure\<close> is recorded.\<close>

definition record_result :: "time \<Rightarrow> err + step_result \<Rightarrow> step_status \<Rightarrow> run_outcome \<times> time \<times> step_status" where
  "record_result now r s =
     (case r of
        Inl x \<Rightarrow>
          if is_permanent x then fail_step now (err_text x) s
          else (let n = ss_failures s + 1; s1 = s\<lparr>ss_failures := n\<rparr>
                in if n \<ge> maxStepFailures then
                     fail_step now (Fmt ''giving up after %d attempts: %v'' [Num n, err_text x]) s1
                   else (OutcomeWait, retry_delay n,
                         s1\<lparr>ss_message := Fmt ''attempt %d failed, will retry: %v'' [Num n, err_text x]\<rparr>))
      | Inr res \<Rightarrow>
          if res_done res then
            (OutcomeDone, 0, s\<lparr>ss_phase := StepSucceeded, ss_message := Lit [], ss_failures := 0,
               ss_outputs := res_outputs res, ss_resources := res_resources res, ss_completed_at := Some now\<rparr>)
          else
            (OutcomeWait, if res_requeue res \<le> 0 then defaultPoll else res_requeue res,
             s\<lparr>ss_message := res_message res, ss_failures := 0,
               ss_outputs := if res_outputs res \<noteq> [] then res_outputs res else ss_outputs s\<rparr>))"

definition step_context :: "'w env \<Rightarrow> (string \<times> val) list \<Rightarrow> (string \<times> smap) list \<Rightarrow> step_instance \<Rightarrow> tctx" where
  "step_context e values outputs i =
     \<lparr>c_params = values, c_config = config_values (env_cfg e), c_steps = outputs, c_item = pi_item i,
      c_item_fields = pi_item_fields i\<rparr>"

definition started :: "time \<Rightarrow> step_instance \<Rightarrow> step_status \<Rightarrow> step_status" where
  "started now i s =
     s\<lparr>ss_started_at := (case ss_started_at s of None \<Rightarrow> Some now | Some t \<Rightarrow> Some t),
       ss_phase := StepRunning, ss_type := ws_type (pi_step i)\<rparr>"

definition step_input :: "string \<Rightarrow> step_instance \<Rightarrow> smap \<Rightarrow> step_status \<Rightarrow> input" where
  "step_input run i resolved s =
     \<lparr>in_run = run, in_key = pi_key i, in_params = resolved, in_prior = ss_outputs s, in_started = ss_started_at s\<rparr>"

definition run_instance ::
  "'w reconciler \<Rightarrow> 'w env \<Rightarrow> string \<Rightarrow> step_instance \<Rightarrow> step_status \<Rightarrow> (string \<times> val) list \<Rightarrow>
   (string \<times> smap) list \<Rightarrow> 'w \<Rightarrow> (run_outcome \<times> time \<times> step_status) \<times> 'w" where
  "run_instance r e run i s values outputs w =
     (let now = rc_now r w
      in case lookup_step (ws_type (pi_step i)) of
           None \<Rightarrow> (fail_step now (Fmt ''unknown step type %q'' [Lit (step_type_str (ws_type (pi_step i)))]) s, w)
         | Some step \<Rightarrow>
             (case resolve_map (ws_params (pi_step i)) (step_context e values outputs i) of
                Inl x \<Rightarrow> (fail_step now (Fmt ''resolving params: %s'' [err_text x]) s, w)
              | Inr resolved \<Rightarrow>
                  (let s1 = started now i s
                   in case sp_ensure step e (step_input run i resolved s1) w of
                        (res, w') \<Rightarrow> (record_result now res s1, w'))))"

section \<open>Advancing a run\<close>

definition step_failed_msg :: "step_instance \<Rightarrow> step_status \<Rightarrow> msg" where
  "step_failed_msg i s = Fmt ''step %q failed: %s'' [Lit (pi_key i), ss_message s]"

definition add_outputs :: "step_instance \<Rightarrow> step_status \<Rightarrow> (string \<times> smap) list \<Rightarrow> (string \<times> smap) list" where
  "add_outputs i s outputs = (if pi_item i = None then assoc_set (ws_name (pi_step i)) (ss_outputs s) outputs else outputs)"

text \<open>The environment is built for the first instance that needs it.\<close>

definition get_env :: "'w reconciler \<Rightarrow> 'w env option \<Rightarrow> ('w, 'w env) call" where
  "get_env r e = (case e of Some e \<Rightarrow> io_return e | None \<Rightarrow> rc_envs r)"

text \<open>The loop of \<open>advance\<close>: the requeue delay and the status; a missing step status would be a nil pointer.\<close>

fun advance_loop ::
  "'w reconciler \<Rightarrow> wizard_run \<Rightarrow> (string \<times> val) list \<Rightarrow> 'w env option \<Rightarrow> (string \<times> smap) list \<Rightarrow>
   step_instance list \<Rightarrow> run_status \<Rightarrow> ('w, time \<times> run_status) call" where
  "advance_loop r run values e outputs [] st =
     (\<lambda>w. (Inr (0, set_run (rc_now r w) RunReady (Lit []) (run_generation run) st), w))"
| "advance_loop r run values e outputs (i # is) st =
     (let gen = run_generation run in case find_step st (pi_key i) of
        None \<Rightarrow> io_fail (Panic ''nil step status'')
      | Some s \<Rightarrow>
          if ss_phase s = StepSucceeded then advance_loop r run values e (add_outputs i s outputs) is st
          else if ss_phase s = StepFailed then
            (\<lambda>w. (Inr (0, set_run (rc_now r w) RunFailed (step_failed_msg i s) gen st), w))
          else io_try (get_env r e) (\<lambda>x. case x of
            Inl x \<Rightarrow> (\<lambda>w. (Inr (envRetryInterval,
                set_run (rc_now r w) RunRunning (Fmt ''waiting for a valid instance config: %s'' [err_text x]) gen st), w))
          | Inr e1 \<Rightarrow> (\<lambda>w.
              case run_instance r e1 (run_name run) i s values outputs w of
                ((out, wait, s1), w1) \<Rightarrow>
                  (let st1 = st\<lparr>rs_steps := put_step s1 (rs_steps st)\<rparr>
                   in case out of
                        OutcomeFailed \<Rightarrow> (Inr (0, set_run (rc_now r w1) RunFailed (step_failed_msg i s1) gen st1), w1)
                      | OutcomeWait \<Rightarrow>
                          (Inr (wait, set_run (rc_now r w1) RunRunning
                             (if ss_message s1 \<noteq> Lit [] then Fmt ''step %q: %s'' [Lit (pi_key i), ss_message s1] else Lit []) gen st1), w1)
                      | OutcomeDone \<Rightarrow> advance_loop r run values (Some e1) (add_outputs i s1 outputs) is st1 w1))))"

text \<open>The status \<open>advance\<close> starts its loop from.\<close>

definition begin_status :: "time \<Rightarrow> int \<Rightarrow> step_instance list \<Rightarrow> bool \<Rightarrow> run_status \<Rightarrow> run_status" where
  "begin_status now gen insts retry st =
     (let st1 = sync_steps insts (st\<lparr>rs_generation := gen\<rparr>);
          st2 = (if retry then reset_failed st1 else st1)
      in st2\<lparr>rs_started_at := (case rs_started_at st2 of None \<Rightarrow> Some now | Some t \<Rightarrow> Some t)\<rparr>)"

definition advance ::
  "'w reconciler \<Rightarrow> wizard_run \<Rightarrow> step_instance list \<Rightarrow> (string \<times> val) list \<Rightarrow> bool \<Rightarrow> ('w, time \<times> run_status) call" where
  "advance r run insts values retry =
     (\<lambda>w. advance_loop r run values None [] insts
            (begin_status (rc_now r w) (run_generation run) insts retry (run_status run)) w)"

section \<open>Reconciling\<close>

definition update_status :: "'w reconciler \<Rightarrow> wizard_run \<Rightarrow> (time \<Rightarrow> run_status \<Rightarrow> run_status) \<Rightarrow> ('w, wizard_run) call" where
  "update_status r run mutate =
     (\<lambda>w. let new = run\<lparr>run_status := mutate (rc_now r w) (run_status run)\<rparr>
          in if status_eq (run_status run) (run_status new) then (Inr new, w)
             else ra_patch_status (rc_api r) run new w)"

definition fail_run :: "'w reconciler \<Rightarrow> wizard_run \<Rightarrow> msg \<Rightarrow> ('w, time) call" where
  "fail_run r run m =
     io_bind (update_status r run (\<lambda>now. set_run now RunFailed m (run_generation run))) (\<lambda>_. io_return 0)"

text \<open>\<open>takeSnapshot\<close>: a failure message, or the run with its snapshot.\<close>

definition take_snapshot :: "'w reconciler \<Rightarrow> wizard_run \<Rightarrow> ('w, msg + wizard_run) call" where
  "take_snapshot r run =
     (let name = rp_definition_ref (run_spec run)
      in io_try (ra_get_definition (rc_api r) name) (\<lambda>d. case d of
           Inl x \<Rightarrow> if kube_not_found x then io_return (Inl (Fmt ''definition %q not found'' [Lit name])) else io_fail x
         | Inr def \<Rightarrow>
             (case validate_definition (rc_lib r) (wd_spec def) of
                Some x \<Rightarrow> io_return (Inl (Fmt ''definition %q is invalid: %v'' [Lit name, err_text x]))
              | None \<Rightarrow>
                  io_bind (ra_patch (rc_api r) run
                      (run\<lparr>run_spec := (run_spec run)\<lparr>rp_snapshot := Some (wd_spec def),
                                                      rp_definition_generation := wd_generation def\<rparr>\<rparr>))
                    (\<lambda>run'. io_return (Inr run')))))"

definition retry_requested :: "wizard_run \<Rightarrow> bool" where
  "retry_requested run \<longleftrightarrow> map_of (run_annotations run) AnnotationRetry \<noteq> None"

definition drop_annotation :: "string \<Rightarrow> wizard_run \<Rightarrow> wizard_run" where
  "drop_annotation k run = run\<lparr>run_annotations := filter (\<lambda>(k', v). k' \<noteq> k) (run_annotations run)\<rparr>"

text \<open>From the planned instances on: advance, write the status, then remove a retry request.\<close>

definition apply_plan :: "'w reconciler \<Rightarrow> wizard_run \<Rightarrow> step_instance list \<Rightarrow> (string \<times> val) list \<Rightarrow> ('w, time) call" where
  "apply_plan r run insts values =
     (let retry = retry_requested run
      in io_bind (advance r run insts values retry) (\<lambda>(wait, st).
           let new = run\<lparr>run_status := st\<rparr>
           in io_bind (if status_eq (run_status run) st then io_return new else ra_patch_status (rc_api r) run new) (\<lambda>run1.
                io_bind (if retry then ra_patch (rc_api r) run1 (drop_annotation AnnotationRetry run1) else io_return run1)
                  (\<lambda>_. io_return wait))))"

definition apply_definition :: "'w reconciler \<Rightarrow> wizard_run \<Rightarrow> ('w, time) call" where
  "apply_definition r run =
     (case rp_snapshot (run_spec run) of
        None \<Rightarrow> io_fail (Panic ''nil definition'')
      | Some def \<Rightarrow>
          (case resolve_parameters (rc_lib r) (ds_parameters def) (rp_parameters (run_spec run)) of
             Inl x \<Rightarrow> fail_run r run (Fmt ''invalid parameters: %s'' [err_text x])
           | Inr values \<Rightarrow>
               (case expand def values of
                  Inl x \<Rightarrow> fail_run r run (err_text x)
                | Inr insts \<Rightarrow> apply_plan r run insts values)))"

definition reconcile_apply :: "'w reconciler \<Rightarrow> wizard_run \<Rightarrow> ('w, time) call" where
  "reconcile_apply r run =
     (if rs_phase (run_status run) \<in> set [RunRolledBack, RunRollingBack, RunRollbackFailed] then
        io_bind (update_status r run (\<lambda>now st. st\<lparr>rs_message :=
            Lit ''this run was rolled back; create a new run to provision again''\<rparr>)) (\<lambda>_. io_return 0)
      else if rp_snapshot (run_spec run) = None then
        io_bind (take_snapshot r run) (\<lambda>x. case x of
          Inl m \<Rightarrow> fail_run r run m
        | Inr run1 \<Rightarrow> apply_definition r run1)
      else apply_definition r run)"

text \<open>\<open>rollback\<close>: the requeue delay, whether it is done, and the run as it then is.\<close>

definition undo_and_report :: "'w reconciler \<Rightarrow> wizard_run \<Rightarrow> ('w, time \<times> bool \<times> wizard_run) call" where
  "undo_and_report r run =
     io_try (io_bind (rc_envs r) (\<lambda>e. rollback_run e (run_name run))) (\<lambda>x. case x of
       Inl x \<Rightarrow>
         io_bind (update_status r run (\<lambda>now. set_run now RunRollbackFailed
                    (Fmt ''rollback failed, will retry: %s'' [err_text x]) (run_generation run)))
           (\<lambda>run1. io_return (rollbackRetryInterval, False, run1))
     | Inr u \<Rightarrow>
         io_bind (update_status r run (\<lambda>now st.
                    set_run now RunRolledBack (Lit []) (run_generation run)
                      (st\<lparr>rs_steps := map (rolled_back_step now) (rs_steps st)\<rparr>)))
           (\<lambda>run1. io_return (0, True, run1)))"

definition rollback_of :: "'w reconciler \<Rightarrow> wizard_run \<Rightarrow> ('w, time \<times> bool \<times> wizard_run) call" where
  "rollback_of r run =
     io_bind (if rs_phase (run_status run) \<noteq> RunRollingBack \<and> rs_phase (run_status run) \<noteq> RunRollbackFailed
              then update_status r run (\<lambda>now. set_run now RunRollingBack (Lit []) (run_generation run))
              else io_return run)
       (undo_and_report r)"

definition add_finalizer :: "wizard_run \<Rightarrow> wizard_run" where
  "add_finalizer run = run\<lparr>run_finalizers := run_finalizers run @ [FinalizerRollback]\<rparr>"

definition remove_finalizer :: "wizard_run \<Rightarrow> wizard_run" where
  "remove_finalizer run = run\<lparr>run_finalizers := filter (\<lambda>f. f \<noteq> FinalizerRollback) (run_finalizers run)\<rparr>"

definition reconcile_delete :: "'w reconciler \<Rightarrow> wizard_run \<Rightarrow> ('w, time) call" where
  "reconcile_delete r run =
     (if FinalizerRollback \<notin> set (run_finalizers run) then io_return 0
      else io_bind (if rs_phase (run_status run) \<noteq> RunRolledBack then rollback_of r run else io_return (0, True, run))
             (\<lambda>(wait, done, run1).
                if \<not> done then io_return wait
                else io_bind (ra_patch (rc_api r) run1 (remove_finalizer run1)) (\<lambda>_. io_return 0)))"

text \<open>The part of \<open>Reconcile\<close> for a run that holds the finalizer.\<close>

definition reconcile_live :: "'w reconciler \<Rightarrow> wizard_run \<Rightarrow> ('w, time) call" where
  "reconcile_live r run =
     (if rp_desired (run_spec run) = DesiredRolledBack then
        if rs_phase (run_status run) = RunRolledBack then io_return 0
        else io_bind (rollback_of r run) (\<lambda>(wait, done, run1). io_return wait)
      else reconcile_apply r run)"

definition reconcile :: "'w reconciler \<Rightarrow> string \<Rightarrow> ('w, time) call" where
  "reconcile r name =
     io_try (ra_get_run (rc_api r) name) (\<lambda>x. case x of
       Inl x \<Rightarrow> if kube_not_found x then io_return 0 else io_fail x
     | Inr run \<Rightarrow>
         if run_deletion run \<noteq> None then reconcile_delete r run
         else io_bind (if FinalizerRollback \<notin> set (run_finalizers run)
                       then ra_patch (rc_api r) run (add_finalizer run) else io_return run)
                (reconcile_live r))"

section \<open>The environment factory and the sweeper\<close>

text \<open>\<open>ConfigEnvFactory\<close>, with the transport of the clients.\<close>

record 'w env_factory =
  ef_lib :: go_lib
  ef_read :: "string \<Rightarrow> string \<Rightarrow> ('w, smap) call"
  ef_namespace :: string
  ef_config_map :: string
  ef_ledger :: "'w ledger"
  ef_http :: "http_request \<Rightarrow> ('w, http_response) call"
  ef_forge_tokens :: "('w, string) call option"
  ef_index_tokens :: "('w, string) call option"
  ef_weave_tokens :: "('w, string) call option"
  ef_pages :: nat
  ef_now :: "'w \<Rightarrow> time"

definition factory_env :: "'w env_factory \<Rightarrow> ('w, 'w env) call" where
  "factory_env f =
     io_bind (load_config (ef_lib f) (ef_read f) (ef_namespace f) (ef_config_map f)) (\<lambda>cfg.
       io_return
         \<lparr>env_cfg = cfg,
          env_forge = forge_client (ef_lib f) (new_client ''forge'' (cfg_forge_url cfg) (ef_http f) (ef_forge_tokens f)),
          env_index = index_client_api (ef_lib f) (ef_pages f)
                        (new_client ''index'' (cfg_index_url cfg) (ef_http f) (ef_index_tokens f)),
          env_weave = weave_client_api (ef_lib f) (new_client ''weave'' (cfg_weave_url cfg) (ef_http f) (ef_weave_tokens f)),
          env_ledger = ef_ledger f, env_now = ef_now f\<rparr>)"

definition sweep :: "('w, 'w env) call \<Rightarrow> ('w, unit) call" where
  "sweep envs = io_bind (io_wrap (Wrapf (Lit ''instance config'')) envs) SweepTerminating"

text \<open>\<open>Sweeper.Start\<close> until the context ends, which it is seen to do after \<open>n\<close> ticks; errors are only logged.\<close>

fun sweeper_start :: "('w, 'w env) call \<Rightarrow> ('w \<Rightarrow> 'w) \<Rightarrow> nat \<Rightarrow> 'w \<Rightarrow> 'w" where
  "sweeper_start envs tick 0 w = snd (sweep envs w)"
| "sweeper_start envs tick (Suc n) w = sweeper_start envs tick n (tick (snd (sweep envs w)))"

end
