(* ===== verification/ListQuery.thy ===== *)
theory ListQuery
  imports InstanceCfg
begin

text \<open>
  The vendored package \<open>fusion-shared/listquery\<close> that the run list uses: the shared query parameters,
  filtering, sorting and paging. RFC 3339 times and base64 are parameters of the model; a time
  is \<open>None\<close> for Go's zero time.
\<close>

section \<open>Parameters\<close>

text \<open>\<open>url.Values\<close>: every key with its values.\<close>

type_synonym query = "(string \<times> string list) list"

record list_lib =
  ll_rfc3339 :: "string \<Rightarrow> time option"
  ll_encode :: "string \<Rightarrow> string"
  ll_decode :: "string \<Rightarrow> string option"

record list_spec =
  lsp_sort_keys :: "string list"
  lsp_default_sort :: string
  lsp_default_limit :: int
  lsp_max_limit :: int

record list_params =
  lp_query :: string
  lp_since :: "time option"
  lp_until :: "time option"
  lp_sources :: "string list"
  lp_sort_key :: string
  lp_sort_desc :: bool
  lp_limit :: nat
  lp_offset :: nat

definition no_params :: list_params where
  "no_params = \<lparr>lp_query = [], lp_since = None, lp_until = None, lp_sources = [], lp_sort_key = [],
     lp_sort_desc = False, lp_limit = 0, lp_offset = 0\<rparr>"

definition values_at :: "query \<Rightarrow> string \<Rightarrow> string list" where
  "values_at q k = (case map_of q k of Some vs \<Rightarrow> vs | None \<Rightarrow> [])"

definition query_values :: "query \<Rightarrow> string \<Rightarrow> string list" where
  "query_values q k =
     filter (\<lambda>s. s \<noteq> []) (map trim_space (concat (map (split_on CHR '','') (values_at q k))))"

text \<open>\<open>Any\<close> and \<open>Set.Match\<close>: no value at all matches everything.\<close>

definition set_match :: "string list \<Rightarrow> string \<Rightarrow> bool" where
  "set_match vs x \<longleftrightarrow> vs = [] \<or> x \<in> set vs"

definition query_first :: "query \<Rightarrow> string \<Rightarrow> string" where
  "query_first q k = (case values_at q k of v # _ \<Rightarrow> trim_space v | [] \<Rightarrow> [])"

definition maxQueryLen :: nat where "maxQueryLen = 256"
definition DefaultMaxLimit :: int where "DefaultMaxLimit = 500"
definition continuePrefix :: string where "continuePrefix = ''o1:''"

definition param_err :: "string \<Rightarrow> string \<Rightarrow> err" where
  "param_err k m = Errorf (Fmt ''%s: %s'' [Lit k, Lit m])"

definition hour :: time where "hour = 3600 * 1000000000"

text \<open>A duration back from now; the arithmetic of \<open>time.Duration\<close> wraps at 64 bits.\<close>

definition wrap64 :: "int \<Rightarrow> int" where
  "wrap64 i = (i + 2 ^ 63) mod 2 ^ 64 - 2 ^ 63"

definition back_duration :: "go_lib \<Rightarrow> string \<Rightarrow> time option" where
  "back_duration gl raw =
     (if raw \<noteq> [] \<and> last raw = CHR ''d''
      then (case parse_int (butlast raw) of Some n \<Rightarrow> Some (wrap64 (wrap64 (n * 24) * hour)) | None \<Rightarrow> None)
      else parse_duration gl raw)"

text \<open>The zero \<open>time.Time\<close>, January 1 of the year 1: as a bound it means none, even when the text spells it.\<close>

definition zero_time :: time where "zero_time = - 62135596800 * 1000000000"

definition list_time :: "go_lib \<Rightarrow> list_lib \<Rightarrow> string \<Rightarrow> string \<Rightarrow> time \<Rightarrow> err + time option" where
  "list_time gl ll k raw now =
     (if raw = [] then Inr None
      else (case ll_rfc3339 ll (map (\<lambda>c. if c = CHR '' '' then CHR ''+'' else c) raw) of
              Some t \<Rightarrow> Inr (if t = zero_time then None else Some t)
            | None \<Rightarrow>
                (case back_duration gl raw of
                   None \<Rightarrow> Inl (param_err k ''must be an RFC 3339 time or a duration like 24h or 7d'')
                 | Some d \<Rightarrow> if d \<le> 0 then Inl (param_err k ''duration must be positive'') else Inr (Some (now - d)))))"

text \<open>\<open>labelValueRe\<close>.\<close>

definition label_char :: "char \<Rightarrow> bool" where
  "label_char c \<longleftrightarrow> is_upper c \<or> is_lower c \<or> is_digit c"

definition label_value :: "string \<Rightarrow> bool" where
  "label_value s \<longleftrightarrow>
     s \<noteq> [] \<and> length s \<le> 63 \<and> label_char (hd s) \<and> label_char (last s) \<and>
     list_all (\<lambda>c. label_char c \<or> c \<in> set ''-_.'') s"

definition encode_continue :: "list_lib \<Rightarrow> nat \<Rightarrow> string" where
  "encode_continue ll offset = ll_encode ll (continuePrefix @ format_nat offset)"

definition decode_continue :: "list_lib \<Rightarrow> string \<Rightarrow> nat option" where
  "decode_continue ll tok =
     (case ll_decode ll tok of
        None \<Rightarrow> None
      | Some b \<Rightarrow>
          if \<not> has_prefix b continuePrefix then None
          else (case parse_int (drop (length continuePrefix) b) of
                  Some n \<Rightarrow> if n < 0 then None else Some (nat n)
                | None \<Rightarrow> None))"

definition parse_window :: "go_lib \<Rightarrow> list_lib \<Rightarrow> query \<Rightarrow> time \<Rightarrow> err + (time option \<times> time option)" where
  "parse_window gl ll q now =
     (case list_time gl ll ''since'' (query_first q ''since'') now of
        Inl e \<Rightarrow> Inl e
      | Inr since \<Rightarrow>
          (case list_time gl ll ''until'' (query_first q ''until'') now of
             Inl e \<Rightarrow> Inl e
           | Inr upto_t \<Rightarrow>
               if (case (since, upto_t) of (Some a, Some b) \<Rightarrow> \<not> a < b | _ \<Rightarrow> False)
               then Inl (param_err ''since'' ''must be before until'')
               else Inr (since, upto_t)))"

definition parse_sort :: "list_spec \<Rightarrow> query \<Rightarrow> err + (string \<times> bool)" where
  "parse_sort spec q =
     (let raw0 = query_first q ''sort''; raw = (if raw0 = [] then lsp_default_sort spec else raw0)
      in if raw = [] then Inr ([], False)
         else (let desc = has_prefix raw ''-''; key = (if desc then tl raw else raw)
               in if key \<notin> set (lsp_sort_keys spec)
                  then Inl (param_err ''sort'' (''must be one of '' @ join '', '' (lsp_sort_keys spec) @ '' (prefix - for descending)''))
                  else Inr (key, desc)))"

definition parse_limit :: "list_spec \<Rightarrow> query \<Rightarrow> err + nat" where
  "parse_limit spec q =
     (let max_limit = (if lsp_max_limit spec \<le> 0 then DefaultMaxLimit else lsp_max_limit spec);
          raw = query_first q ''limit'';
          bad = param_err ''limit'' (''must be a number between 1 and '' @ format_int max_limit)
      in if raw = [] then Inr (nat (lsp_default_limit spec))
         else (case parse_int raw of
                 None \<Rightarrow> Inl bad
               | Some n \<Rightarrow> if n < 1 \<or> n > max_limit then Inl bad else Inr (nat n)))"

definition parse_offset :: "list_lib \<Rightarrow> query \<Rightarrow> err + nat" where
  "parse_offset ll q =
     (let raw = query_first q ''continue''
      in if raw = [] then Inr 0
         else (case decode_continue ll raw of None \<Rightarrow> Inl (param_err ''continue'' ''invalid token'') | Some n \<Rightarrow> Inr n))"

definition parse_list :: "go_lib \<Rightarrow> list_lib \<Rightarrow> query \<Rightarrow> list_spec \<Rightarrow> time \<Rightarrow> err + list_params" where
  "parse_list gl ll q spec now =
     (let term = query_first q ''q''; sources = query_values q ''source''
      in if length term > maxQueryLen
         then Inl (param_err ''q'' (''must be at most '' @ format_nat maxQueryLen @ '' characters''))
         else (case parse_window gl ll q now of
           Inl e \<Rightarrow> Inl e
         | Inr (since, upto_t) \<Rightarrow>
             if \<not> list_all label_value sources then Inl (param_err ''source'' ''invalid value'')
             else (case parse_sort spec q of
               Inl e \<Rightarrow> Inl e
             | Inr (key, desc) \<Rightarrow>
                 (case parse_limit spec q of
                    Inl e \<Rightarrow> Inl e
                  | Inr limit \<Rightarrow>
                      (case parse_offset ll q of
                         Inl e \<Rightarrow> Inl e
                       | Inr offset \<Rightarrow>
                           Inr \<lparr>lp_query = to_lower term, lp_since = since, lp_until = upto_t, lp_sources = sources,
                                lp_sort_key = key, lp_sort_desc = desc, lp_limit = limit, lp_offset = offset\<rparr>)))))"

section \<open>Filtering, sorting, paging\<close>

record 'a list_fields =
  lf_name :: "'a \<Rightarrow> string"
  lf_time :: "'a \<Rightarrow> time option"
  lf_labels :: "'a \<Rightarrow> smap"
  lf_sort :: "(string \<times> ('a \<Rightarrow> 'a \<Rightarrow> int)) list"

record 'a page =
  pg_items :: "'a list"
  pg_total :: nat
  pg_continue :: string
  pg_remaining :: nat

definition LabelFluxKustomization :: string where
  "LabelFluxKustomization = ''kustomize.toolkit.fluxcd.io/name''"

definition SourceGitOps :: string where "SourceGitOps = ''gitops''"

definition sources_of :: "smap \<Rightarrow> string list" where
  "sources_of labels =
     (let m = get0 labels ''fusion-platform.io/managed-by''
      in (if get0 labels LabelFluxKustomization \<noteq> [] \<or> m = SourceGitOps then [SourceGitOps] else []) @
         (if m \<noteq> [] \<and> m \<noteq> SourceGitOps then [m] else []))"

definition in_window :: "list_params \<Rightarrow> time option \<Rightarrow> bool" where
  "in_window p t \<longleftrightarrow>
     (lp_since p = None \<and> lp_until p = None) \<or>
     (case t of
        None \<Rightarrow> False
      | Some x \<Rightarrow> (case lp_since p of Some a \<Rightarrow> a \<le> x | None \<Rightarrow> True) \<and> (case lp_until p of Some b \<Rightarrow> x < b | None \<Rightarrow> True))"

definition list_keep :: "list_params \<Rightarrow> 'a list_fields \<Rightarrow> ('a \<Rightarrow> bool) \<Rightarrow> 'a \<Rightarrow> bool" where
  "list_keep p f extra x \<longleftrightarrow>
     (lp_query p = [] \<or> contains_str (lp_query p) (to_lower (lf_name f x))) \<and> in_window p (lf_time f x) \<and>
     (lp_sources p = [] \<or> list_ex (\<lambda>w. w \<in> set (sources_of (lf_labels f x))) (lp_sources p)) \<and> extra x"

definition cmp_str :: "string \<Rightarrow> string \<Rightarrow> int" where
  "cmp_str a b = (if a < b then -1 else if a = b then 0 else 1)"

definition cmp_time :: "time \<Rightarrow> time \<Rightarrow> int" where
  "cmp_time a b = (if a < b then -1 else if a = b then 0 else 1)"

definition list_order :: "list_params \<Rightarrow> 'a list_fields \<Rightarrow> ('a \<Rightarrow> 'a \<Rightarrow> int) \<Rightarrow> 'a \<Rightarrow> 'a \<Rightarrow> int" where
  "list_order p f cmpf a b =
     (let c0 = cmpf a b; c = (if lp_sort_desc p then - c0 else c0)
      in if c \<noteq> 0 then c else cmp_str (lf_name f a) (lf_name f b))"

text \<open>A sort key without comparator is a programming error, and panics.\<close>

definition list_sort :: "list_params \<Rightarrow> 'a list_fields \<Rightarrow> 'a list \<Rightarrow> err + 'a list" where
  "list_sort p f xs =
     (if lp_sort_key p = [] then Inr xs
      else (case map_of (lf_sort f) (lp_sort_key p) of
              None \<Rightarrow> Inl (Panic ''listquery: no comparator for sort key'')
            | Some cmpf \<Rightarrow> Inr (sort_by (\<lambda>a b. list_order p f cmpf a b \<le> 0) xs)))"

definition paginate :: "list_lib \<Rightarrow> list_params \<Rightarrow> 'a list \<Rightarrow> 'a page" where
  "paginate ll p xs =
     (let start = min (lp_offset p) (length xs);
          cut = lp_limit p > 0 \<and> start + lp_limit p < length xs;
          stop = (if cut then start + lp_limit p else length xs)
      in \<lparr>pg_items = take (stop - start) (drop start xs), pg_total = length xs,
          pg_continue = (if cut then encode_continue ll stop else []), pg_remaining = length xs - stop\<rparr>)"

definition list_apply ::
  "list_lib \<Rightarrow> list_params \<Rightarrow> 'a list_fields \<Rightarrow> ('a \<Rightarrow> bool) \<Rightarrow> 'a list \<Rightarrow> err + 'a page" where
  "list_apply ll p f extra xs =
     (case list_sort p f (filter (list_keep p f extra) xs) of Inl e \<Rightarrow> Inl e | Inr ys \<Rightarrow> Inr (paginate ll p ys))"

end
