(* ===== verification/ApiServer.thy ===== *)
theory ApiServer
  imports Controller ListQuery
begin

text \<open>
  Package \<open>internal/apiserver\<close>: the REST API. A handler acts on the world and ends with a response; an
  early return of the code is a response in the error position of the call. Request loggers are in
  \<open>RequestLog\<close>, the HTTP server in \<open>Startup\<close>.
\<close>

section \<open>Requests and responses\<close>

record request =
  rq_method :: string
  rq_path :: "string list"
  rq_query :: query
  rq_headers :: smap
  rq_body :: raw_json

record run_view =
  rv_name :: string
  rv_definition :: string
  rv_desired :: desired_state
  rv_parameters :: "(string \<times> raw_json) list"
  rv_created_by :: string
  rv_created_by_email :: string
  rv_created_at :: time
  rv_deleting :: bool
  rv_status :: run_status

record definition_view =
  dv_name :: string
  dv_generation :: int
  dv_valid :: bool
  dv_error :: msg
  dv_spec :: definition_spec

text \<open>Without the creation time, which the model of ledger entries leaves out.\<close>

record resource_view =
  vr_service :: service_name
  vr_kind :: string
  vr_name :: string
  vr_external_id :: string
  vr_spec_hash :: string
  vr_managed :: bool
  vr_terminating :: bool
  vr_refs :: "resource_reference list"

datatype body =
    NoBody
  | ErrorBody msg "msg list"
  | StatusBody string
  | RunBody run_view
  | RunPageBody "run_view list" nat string
  | DefinitionBody definition_view
  | DefinitionsBody "definition_view list"
  | ResourcesBody "resource_view list"
  | BulkBody "string list" "(string \<times> string) list"

record response =
  rp_status :: int
  rp_headers :: smap
  rp_body :: body

type_synonym 'w handler = "('w, response, response) io"

definition write_json :: "int \<Rightarrow> body \<Rightarrow> response" where
  "write_json status b = \<lparr>rp_status = status, rp_headers = [(''Content-Type'', ''application/json'')], rp_body = b\<rparr>"

definition write_error :: "int \<Rightarrow> msg \<Rightarrow> msg list \<Rightarrow> response" where
  "write_error status m details = write_json status (ErrorBody m details)"

definition internal_error :: "err \<Rightarrow> response" where
  "internal_error x = write_error 500 (Lit ''internal server error'') []"

definition not_found_or_internal :: "string \<Rightarrow> err \<Rightarrow> response" where
  "not_found_or_internal what x =
     (if kube_not_found x then write_error 404 (Lit (what @ '' not found'')) [] else internal_error x)"

text \<open>A call whose error ends the request with a response.\<close>

definition or_respond :: "(err \<Rightarrow> response) \<Rightarrow> ('w, 'a) call \<Rightarrow> ('w, response, 'a) io" where
  "or_respond h f = (\<lambda>w. case f w of (Inl x, w') \<Rightarrow> (Inl (h x), w') | (Inr a, w') \<Rightarrow> (Inr a, w'))"

fun error_details :: "err \<Rightarrow> msg list" where
  "error_details (Joined es) = concat (map error_details es)"
| "error_details e = [err_text e]"

section \<open>The server\<close>

record server_config =
  sc_addr :: string
  sc_namespace :: string
  sc_allowed :: "string list"
  sc_audience :: string
  sc_allow_unauthenticated :: bool

definition bad_account :: "string \<Rightarrow> bool" where
  "bad_account sa =
     (case cut CHR ''/'' sa of None \<Rightarrow> True | Some (ns, name) \<Rightarrow> ns = [] \<or> name = [] \<or> CHR ''/'' \<in> set name)"

definition validate_server_config :: "server_config \<Rightarrow> err option" where
  "validate_server_config c =
     (let problems =
            (if sc_namespace c = [] then [Lit ''namespace is required''] else []) @
            (if \<not> sc_allow_unauthenticated c \<and> sc_allowed c = []
             then [Lit ''set AUTH_ALLOWED_SA (comma-separated <namespace>/<name>) or, for local development only, ALLOW_UNAUTHENTICATED=true'']
             else []) @
            map (\<lambda>sa. Fmt ''allowed service account %q must look like <namespace>/<name>'' [Lit sa])
              (filter bad_account (sc_allowed c))
      in if problems = [] then None else Some (Errorf (Fmt ''invalid API server config: %s'' problems)))"

record principal =
  pr_namespace :: string
  pr_name :: string

definition principal_str :: "principal \<Rightarrow> string" where
  "principal_str p = pr_namespace p @ ''/'' @ pr_name p"

text \<open>The Kubernetes client of the server; \<open>ac_create\<close> takes the \<open>GenerateName\<close> with the run.\<close>

record 'w api_client =
  ac_get_run :: "string \<Rightarrow> ('w, wizard_run) call"
  ac_list_runs :: "('w, wizard_run list) call"
  ac_create_run :: "string \<Rightarrow> wizard_run \<Rightarrow> ('w, wizard_run) call"
  ac_patch_run :: "wizard_run \<Rightarrow> wizard_run \<Rightarrow> ('w, wizard_run) call"
  ac_delete_run :: "wizard_run \<Rightarrow> ('w, unit) call"
  ac_get_definition :: "string \<Rightarrow> ('w, wizard_definition) call"
  ac_list_definitions :: "('w, wizard_definition list) call"

record 'w server =
  sv_cfg :: server_config
  sv_client :: "'w api_client"
  sv_authn :: "string \<Rightarrow> ('w, principal option) call"
  sv_allowed :: "string list"
  sv_ledger :: "'w ledger"
  sv_lib :: go_lib
  sv_list_lib :: list_lib
  sv_now :: "'w \<Rightarrow> time"

section \<open>Authentication\<close>

definition headerUserID :: string where "headerUserID = ''X-User-ID''"
definition headerUserEmail :: string where "headerUserEmail = ''X-User-Email''"
definition maxHeaderLen :: nat where "maxHeaderLen = 256"

text \<open>A token review answers whether the token is valid, and the user name.\<close>

definition principal_of :: "string \<Rightarrow> principal option" where
  "principal_of username =
     (case split_on CHR '':'' username of
        [a, b, ns, name] \<Rightarrow>
          if a \<noteq> ''system'' \<or> b \<noteq> ''serviceaccount'' \<or> ns = [] \<or> name = [] then None
          else Some \<lparr>pr_namespace = ns, pr_name = name\<rparr>
      | _ \<Rightarrow> None)"

definition review_authenticate ::
  "(string \<Rightarrow> string list \<Rightarrow> ('w, bool \<times> string) call) \<Rightarrow> string list \<Rightarrow> string \<Rightarrow> ('w, principal option) call" where
  "review_authenticate review audiences token =
     io_bind (review token audiences) (\<lambda>(authenticated, username).
       io_return (if authenticated then principal_of username else None))"

definition new_server ::
  "server_config \<Rightarrow> 'w api_client \<Rightarrow> (string \<Rightarrow> string list \<Rightarrow> ('w, bool \<times> string) call) option \<Rightarrow>
   'w ledger \<Rightarrow> go_lib \<Rightarrow> list_lib \<Rightarrow> ('w \<Rightarrow> time) \<Rightarrow> err + 'w server" where
  "new_server cfg c review l gl ll now =
     (if \<not> sc_allow_unauthenticated cfg \<and> review = None
      then Inl (Errorf (Lit ''a Kubernetes clientset is required for token review''))
      else (case validate_server_config cfg of
        Some x \<Rightarrow> Inl x
      | None \<Rightarrow> Inr \<lparr>sv_cfg = cfg, sv_client = c,
          sv_authn = (case review of
            Some rv \<Rightarrow> review_authenticate rv (if sc_audience cfg = [] then [] else [sc_audience cfg])
          | None \<Rightarrow> (\<lambda>t. io_fail (Panic ''nil authenticator''))),
          sv_allowed = sc_allowed cfg, sv_ledger = l, sv_lib = gl, sv_list_lib = ll, sv_now = now\<rparr>))"

record caller =
  ca_principal :: string
  ca_user_id :: string
  ca_user_email :: string

definition bearer_token :: "request \<Rightarrow> string option" where
  "bearer_token rq =
     (case cut CHR '' '' (get0 (rq_headers rq) ''Authorization'') of
        None \<Rightarrow> None
      | Some (scheme, token) \<Rightarrow>
          if map lower_char scheme \<noteq> ''bearer'' \<or> trim_space token = [] then None else Some (trim_space token))"

definition control_char :: "char \<Rightarrow> bool" where
  "control_char c \<longleftrightarrow> (of_char c :: nat) < 32 \<or> (of_char c :: nat) = 127"

definition header_value :: "request \<Rightarrow> string \<Rightarrow> string option" where
  "header_value rq name =
     (let v = trim_space (get0 (rq_headers rq) name)
      in if length v > maxHeaderLen \<or> list_ex control_char v then None else Some v)"

definition unauthorized :: "string \<Rightarrow> response" where
  "unauthorized m = (write_error 401 (Lit m) [])\<lparr>rp_headers := [(''WWW-Authenticate'', ''Bearer''), (''Content-Type'', ''application/json'')]\<rparr>"

text \<open>The principal of a request, \<open>anonymous\<close> without authentication.\<close>

definition auth_principal :: "'w server \<Rightarrow> request \<Rightarrow> ('w, response, string) io" where
  "auth_principal s rq =
     (if sc_allow_unauthenticated (sv_cfg s) then io_return ''anonymous''
      else (case bearer_token rq of
        None \<Rightarrow> io_fail (unauthorized ''missing bearer token'')
      | Some token \<Rightarrow>
          io_bind (or_respond (\<lambda>x. write_error 503 (Lit ''authentication is temporarily unavailable'') []) (sv_authn s token)) (\<lambda>p.
            case p of
              None \<Rightarrow> io_fail (unauthorized ''invalid token'')
            | Some p \<Rightarrow>
                if principal_str p \<notin> set (sv_allowed s)
                then io_fail (write_error 403 (Lit ''service account is not allowed to use this API'') [])
                else io_return (principal_str p))))"

definition auth_caller :: "'w server \<Rightarrow> request \<Rightarrow> ('w, response, caller) io" where
  "auth_caller s rq =
     io_bind (auth_principal s rq) (\<lambda>p.
       case header_value rq headerUserID of
         None \<Rightarrow> io_fail (write_error 400 (Lit (''invalid '' @ headerUserID @ '' header'')) [])
       | Some user \<Rightarrow>
           (case header_value rq headerUserEmail of
              None \<Rightarrow> io_fail (write_error 400 (Lit (''invalid '' @ headerUserEmail @ '' header'')) [])
            | Some email \<Rightarrow> io_return \<lparr>ca_principal = p, ca_user_id = user, ca_user_email = email\<rparr>))"

section \<open>Definitions and resources\<close>

definition view_definition :: "go_lib \<Rightarrow> wizard_definition \<Rightarrow> definition_view" where
  "view_definition gl d =
     (let problem = validate_definition gl (wd_spec d)
      in \<lparr>dv_name = wd_name d, dv_generation = wd_generation d, dv_valid = problem = None,
          dv_error = (case problem of None \<Rightarrow> Lit [] | Some x \<Rightarrow> err_text x), dv_spec = wd_spec d\<rparr>)"

definition load_definition :: "'w server \<Rightarrow> string \<Rightarrow> ('w, response, wizard_definition) io" where
  "load_definition s name = or_respond (not_found_or_internal ''definition'') (ac_get_definition (sv_client s) name)"

definition list_definitions :: "'w server \<Rightarrow> 'w handler" where
  "list_definitions s =
     io_bind (or_respond internal_error (ac_list_definitions (sv_client s))) (\<lambda>ds.
       io_return (write_json 200 (DefinitionsBody
         (sort_by (\<lambda>a b. dv_name a \<le> dv_name b) (map (view_definition (sv_lib s)) ds)))))"

definition get_definition :: "'w server \<Rightarrow> string \<Rightarrow> 'w handler" where
  "get_definition s name =
     io_bind (load_definition s name) (\<lambda>d. io_return (write_json 200 (DefinitionBody (view_definition (sv_lib s) d))))"

text \<open>\<open>url.Values.Get\<close>.\<close>

definition query_get :: "query \<Rightarrow> string \<Rightarrow> string" where
  "query_get q k = (case values_at q k of v # _ \<Rightarrow> v | [] \<Rightarrow> [])"

definition view_resource :: "wizard_resource \<Rightarrow> resource_view" where
  "view_resource e =
     \<lparr>vr_service = wr_service e, vr_kind = wr_kind e, vr_name = wr_name e, vr_external_id = wr_external_id e,
      vr_spec_hash = wr_spec_hash e, vr_managed = wr_managed e, vr_terminating = wr_terminating e, vr_refs = wr_refs e\<rparr>"

definition resource_le :: "resource_view \<Rightarrow> resource_view \<Rightarrow> bool" where
  "resource_le a b \<longleftrightarrow>
     (if vr_service a \<noteq> vr_service b then service_str (vr_service a) < service_str (vr_service b)
      else if vr_kind a \<noteq> vr_kind b then vr_kind a < vr_kind b
      else vr_name a \<le> vr_name b)"

definition list_resources :: "'w server \<Rightarrow> request \<Rightarrow> 'w handler" where
  "list_resources s rq =
     (let service = query_get (rq_query rq) ''service''; kind = query_get (rq_query rq) ''kind''
      in io_bind (or_respond internal_error (ledger_list (sv_ledger s))) (\<lambda>entries.
           io_return (write_json 200 (ResourcesBody (sort_by resource_le (map view_resource
             (filter (\<lambda>e. (service = [] \<or> service_str (wr_service e) = service) \<and> (kind = [] \<or> wr_kind e = kind)) entries)))))))"

end
