(* ===== verification/Envutil.thy ===== *)
theory Envutil
  imports ApiServer
begin

text \<open>
  Package \<open>internal/envutil\<close> and \<open>cmd/api/config.go\<close>: options from the environment and the command line.
  \<open>os.Getenv\<close> is a function, empty for an unset variable; a flag given on the command line is \<open>Some\<close>.
\<close>

type_synonym getenv = "string \<Rightarrow> string"

definition env_string :: "getenv \<Rightarrow> string \<Rightarrow> string \<Rightarrow> string" where
  "env_string g key dflt = (let v = g key in if v \<noteq> [] then v else dflt)"

definition env_bool :: "getenv \<Rightarrow> string \<Rightarrow> bool" where
  "env_bool g key \<longleftrightarrow> to_lower (g key) \<in> set [''true'', ''1'', ''yes'']"

definition env_split :: "string \<Rightarrow> string list" where
  "env_split value = filter (\<lambda>p. p \<noteq> []) (map trim_space (split_on CHR '','' value))"

definition env_list :: "getenv \<Rightarrow> string \<Rightarrow> string list" where
  "env_list g key = env_split (g key)"

record flags =
  fl_string :: "string \<Rightarrow> string option"
  fl_bool :: "string \<Rightarrow> bool option"

record options =
  op_config :: server_config
  op_log_level :: string
  op_log_format :: string

definition flag_or :: "'a option \<Rightarrow> 'a \<Rightarrow> 'a" where
  "flag_or f dflt = (case f of Some v \<Rightarrow> v | None \<Rightarrow> dflt)"

definition options_from_flags :: "getenv \<Rightarrow> flags \<Rightarrow> options" where
  "options_from_flags g f =
     (let allowed = flag_or (fl_string f ''allowed-sa'') (join '','' (env_list g ''AUTH_ALLOWED_SA''))
      in \<lparr>op_config =
            \<lparr>sc_addr = flag_or (fl_string f ''addr'') (env_string g ''API_ADDR'' '':8083''),
             sc_namespace = flag_or (fl_string f ''namespace'') (env_string g ''NAMESPACE'' ''fusion''),
             sc_allowed = env_split allowed,
             sc_audience = flag_or (fl_string f ''auth-audience'') (env_string g ''AUTH_AUDIENCE'' []),
             sc_allow_unauthenticated = flag_or (fl_bool f ''allow-unauthenticated'') (env_bool g ''ALLOW_UNAUTHENTICATED'')\<rparr>,
          op_log_level = flag_or (fl_string f ''log-level'') (env_string g ''LOG_LEVEL'' ''info''),
          op_log_format = flag_or (fl_string f ''log-format'') (env_string g ''LOG_FORMAT'' ''json'')\<rparr>)"

end
