(* ===== verification/ReferenceDefs.thy ===== *)
theory ReferenceDefs
  imports Catalogue
begin

text \<open>
  Package \<open>internal/steps/stepstest\<close>, file \<open>definition.go\<close>: the definitions the project ships and
  tests against, as data. The catalogue accepts all of them.
\<close>

definition ref_param ::
  "string \<Rightarrow> parameter_type \<Rightarrow> bool \<Rightarrow> raw_json option \<Rightarrow> string \<Rightarrow> string \<Rightarrow> wizard_parameter" where
  "ref_param n ty req dflt pat desc =
     \<lparr>wp_name = n, wp_type = ty, wp_description = desc, wp_required = req, wp_default = dflt, wp_pattern = pat\<rparr>"

definition IngressNamePattern :: string where
  "IngressNamePattern = ''^([a-z0-9]([-a-z0-9]{0,61}[a-z0-9])?)?$''"

definition autoPromoteParam :: wizard_parameter where
  "autoPromoteParam = ref_param ''autoPromote'' ParameterBoolean False (Some (RawJson (JBool True))) [] ''Move the tag to every new version forge builds from the repository (false: move it by hand)''"

definition ingressNameParam :: wizard_parameter where
  "ingressNameParam = ref_param ''ingressName'' ParameterUnset False (Some (RawJson (JStr []))) IngressNamePattern ''DNS label to expose the service at <ingressName>.<cluster hostSuffix> (optional)''"

definition PythonJob :: definition_spec where
  "PythonJob =
     \<lparr>ds_description = ''Build a Python app from a Git repository and schedule its entrypoints'',
      ds_parameters = [ref_param ''jobName'' ParameterUnset True (None) ''^[a-z0-9-]+$'' [],
        ref_param ''repoUrl'' ParameterUnset True (None) [] [],
        ref_param ''repoRef'' ParameterUnset False (Some (RawJson (JStr ''main''))) [] [],
        ref_param ''projectDir'' ParameterUnset False (Some (RawJson (JStr []))) [] ''Relative path containing metadata.yaml (optional)'',
        autoPromoteParam,
        ref_param ''entrypoints'' ParameterObjectList True (None) [] ''One entry per entrypoint file: key (filename), type (OnDemand or Cron), schedule (cron expression, Cron only, empty otherwise)'',
        ref_param ''externalAuthMode'' ParameterUnset False (Some (RawJson (JStr []))) [] (''Optional: serviceAccount or oidc '' @ bytes [226, 128, 148] @ '' inject a short-lived token into the job pods (set together with externalAuthName)''),
        ref_param ''externalAuthName'' ParameterUnset False (Some (RawJson (JStr []))) [] (''Optional: allowlisted ServiceAccount name or OIDC secret name (see weave'' @ [CHR 0x27] @ ''s external-auth options)'')],
      ds_steps = [\<lparr>ws_name = ''watcher'', ws_type = StepGitWatcher, ws_for_each = [],
        ws_params = [(''name'', ''${params.jobName}''),
          (''repoUrl'', ''${params.repoUrl}''),
          (''repoRef'', ''${params.repoRef}''),
          (''projectDir'', ''${params.projectDir}''),
          (''autoPromote'', ''${params.autoPromote}''),
          (''tag'', ''${config.tagName}'')]\<rparr>,
       \<lparr>ws_name = ''build'', ws_type = StepWaitBuild, ws_for_each = [],
        ws_params = [(''watcher'', ''${steps.watcher.outputs.name}'')]\<rparr>,
       \<lparr>ws_name = ''tag'', ws_type = StepTag, ws_for_each = [],
        ws_params = [(''artifactId'', ''${steps.build.outputs.artifactId}''),
          (''artifactName'', ''${steps.build.outputs.artifactName}''),
          (''version'', ''${steps.build.outputs.version}''),
          (''tag'', ''${config.tagName}'')]\<rparr>,
       \<lparr>ws_name = ''app'', ws_type = StepApp, ws_for_each = [],
        ws_params = [(''name'', ''${params.jobName}''),
          (''type'', ''job''),
          (''artifactName'', ''${steps.build.outputs.artifactName}''),
          (''tag'', ''${steps.tag.outputs.tag}''),
          (''entrypoints'', ''${params.entrypoints}''),
          (''externalAuthMode'', ''${params.externalAuthMode}''),
          (''externalAuthName'', ''${params.externalAuthName}'')]\<rparr>]\<rparr>"

definition TriggerJob :: definition_spec where
  "TriggerJob =
     \<lparr>ds_description = ''Build a Python app from a Git repository and schedule its entrypoints'',
      ds_parameters = [ref_param ''jobName'' ParameterUnset True (None) ''^[a-z0-9-]+$'' [],
        ref_param ''repoUrl'' ParameterUnset True (None) [] [],
        ref_param ''repoRef'' ParameterUnset False (Some (RawJson (JStr ''main''))) [] [],
        ref_param ''projectDir'' ParameterUnset False (Some (RawJson (JStr []))) [] ''Relative path containing metadata.yaml (optional)'',
        ref_param ''entrypoints'' ParameterObjectList True (None) [] ''One entry per entrypoint file: key (filename), type (OnDemand or Cron), schedule (cron expression, Cron only, empty otherwise)'',
        ref_param ''externalAuthMode'' ParameterUnset False (Some (RawJson (JStr []))) [] (''Optional: serviceAccount or oidc '' @ bytes [226, 128, 148] @ '' inject a short-lived token into the job pods (set together with externalAuthName)''),
        ref_param ''externalAuthName'' ParameterUnset False (Some (RawJson (JStr []))) [] (''Optional: allowlisted ServiceAccount name or OIDC secret name (see weave'' @ [CHR 0x27] @ ''s external-auth options)''),
        ref_param ''externalAuthOverrideMode'' ParameterUnset False (Some (RawJson (JStr []))) [] (''Optional: serviceAccount or oidc '' @ bytes [226, 128, 148] @ '' overrides the chain'' @ [CHR 0x27] @ ''s token injection for this trigger'' @ [CHR 0x27] @ ''s runs (set together with externalAuthOverrideName)''),
        ref_param ''externalAuthOverrideName'' ParameterUnset False (Some (RawJson (JStr []))) [] ''Optional: allowlisted ServiceAccount or OIDC secret name for the trigger-level override''],
      ds_steps = [\<lparr>ws_name = ''watcher'', ws_type = StepGitWatcher, ws_for_each = [],
        ws_params = [(''name'', ''${params.jobName}''),
          (''repoUrl'', ''${params.repoUrl}''),
          (''repoRef'', ''${params.repoRef}''),
          (''projectDir'', ''${params.projectDir}'')]\<rparr>,
       \<lparr>ws_name = ''build'', ws_type = StepWaitBuild, ws_for_each = [],
        ws_params = [(''watcher'', ''${steps.watcher.outputs.name}'')]\<rparr>,
       \<lparr>ws_name = ''tag'', ws_type = StepTag, ws_for_each = [],
        ws_params = [(''artifactId'', ''${steps.build.outputs.artifactId}''),
          (''artifactName'', ''${steps.build.outputs.artifactName}''),
          (''version'', ''${steps.build.outputs.version}''),
          (''tag'', ''${config.tagName}'')]\<rparr>,
       \<lparr>ws_name = ''template'', ws_type = StepJobTemplate, ws_for_each = [],
        ws_params = [(''name'', ''${params.jobName}''),
          (''artifactName'', ''${steps.build.outputs.artifactName}''),
          (''tag'', ''${steps.tag.outputs.tag}''),
          (''image'', ''${config.runnerImage}'')]\<rparr>,
       \<lparr>ws_name = ''chain'', ws_type = StepChain, ws_for_each = [],
        ws_params = [(''name'', ''${params.jobName}''),
          (''jobTemplate'', ''${steps.template.outputs.name}''),
          (''externalAuthMode'', ''${params.externalAuthMode}''),
          (''externalAuthName'', ''${params.externalAuthName}'')]\<rparr>,
       \<lparr>ws_name = ''trigger'', ws_type = StepTrigger, ws_for_each = ''${params.entrypoints}'',
        ws_params = [(''name'', ''${params.jobName|k8sName}-${item|stem|k8sName}''),
          (''chain'', ''${steps.chain.outputs.name}''),
          (''type'', ''${item.type}''),
          (''schedule'', ''${item.schedule}''),
          (''override.ENTRYPOINT'', ''${item}''),
          (''externalAuthOverrideMode'', ''${params.externalAuthOverrideMode}''),
          (''externalAuthOverrideName'', ''${params.externalAuthOverrideName}'')]\<rparr>]\<rparr>"

definition PythonService :: definition_spec where
  "PythonService =
     \<lparr>ds_description = ''Build a long-running Python service (e.g. a Streamlit app) from a Git repository'',
      ds_parameters = [ref_param ''serviceName'' ParameterUnset True (None) ''^[a-z0-9-]+$'' [],
        ref_param ''repoUrl'' ParameterUnset True (None) [] [],
        ref_param ''repoRef'' ParameterUnset False (Some (RawJson (JStr ''main''))) [] [],
        ref_param ''projectDir'' ParameterUnset False (Some (RawJson (JStr []))) [] ''Relative path containing metadata.yaml (optional)'',
        autoPromoteParam,
        ref_param ''port'' ParameterNumber False (Some (RawJson (JNum (Dec False 8501 0)))) [] (''Port the service listens on (Streamlit'' @ [CHR 0x27] @ ''s default is 8501)''),
        ingressNameParam],
      ds_steps = [\<lparr>ws_name = ''watcher'', ws_type = StepGitWatcher, ws_for_each = [],
        ws_params = [(''name'', ''${params.serviceName}''),
          (''repoUrl'', ''${params.repoUrl}''),
          (''repoRef'', ''${params.repoRef}''),
          (''projectDir'', ''${params.projectDir}''),
          (''autoPromote'', ''${params.autoPromote}''),
          (''tag'', ''${config.tagName}'')]\<rparr>,
       \<lparr>ws_name = ''build'', ws_type = StepWaitBuild, ws_for_each = [],
        ws_params = [(''watcher'', ''${steps.watcher.outputs.name}'')]\<rparr>,
       \<lparr>ws_name = ''tag'', ws_type = StepTag, ws_for_each = [],
        ws_params = [(''artifactId'', ''${steps.build.outputs.artifactId}''),
          (''artifactName'', ''${steps.build.outputs.artifactName}''),
          (''version'', ''${steps.build.outputs.version}''),
          (''tag'', ''${config.tagName}'')]\<rparr>,
       \<lparr>ws_name = ''app'', ws_type = StepApp, ws_for_each = [],
        ws_params = [(''name'', ''${params.serviceName}''),
          (''type'', ''service''),
          (''artifactName'', ''${steps.build.outputs.artifactName}''),
          (''tag'', ''${steps.tag.outputs.tag}''),
          (''port'', ''${params.port}''),
          (''ingressName'', ''${params.ingressName}'')]\<rparr>]\<rparr>"

definition ImageService :: definition_spec where
  "ImageService =
     \<lparr>ds_description = ''Deploy a long-running service from a container image'',
      ds_parameters = [ref_param ''serviceName'' ParameterUnset True (None) ''^[a-z0-9-]+$'' (''Name of the service'' @ [CHR 0x27] @ ''s app, and so of its Deployment''),
        ref_param ''image'' ParameterUnset True (None) [] (''Full image reference with an explicit tag (not latest) or a digest, within weave'' @ [CHR 0x27] @ ''s allowed image prefixes''),
        ref_param ''port'' ParameterNumber False (Some (RawJson (JNum (Dec False 8080 0)))) [] ''Port the service listens on'',
        ingressNameParam],
      ds_steps = [\<lparr>ws_name = ''app'', ws_type = StepApp, ws_for_each = [],
        ws_params = [(''name'', ''${params.serviceName}''),
          (''type'', ''service''),
          (''image'', ''${params.image}''),
          (''port'', ''${params.port}''),
          (''ingressName'', ''${params.ingressName}'')]\<rparr>]\<rparr>"

definition ImageJob :: definition_spec where
  "ImageJob =
     \<lparr>ds_description = ''Run a one-shot job from a container image'',
      ds_parameters = [ref_param ''jobName'' ParameterUnset True (None) ''^[a-z0-9-]+$'' (''Name of this job'' @ [CHR 0x27] @ ''s app''),
        ref_param ''image'' ParameterUnset True (None) [] (''Full image reference with an explicit tag (not latest) or a digest, within weave'' @ [CHR 0x27] @ ''s allowed image prefixes'')],
      ds_steps = [\<lparr>ws_name = ''app'', ws_type = StepApp, ws_for_each = [],
        ws_params = [(''name'', ''${params.jobName}''),
          (''type'', ''job''),
          (''image'', ''${params.image}''),
          (''fireOnCreate'', ''true'')]\<rparr>]\<rparr>"

definition ImageCronJob :: definition_spec where
  "ImageCronJob =
     \<lparr>ds_description = ''Run a container image on a cron schedule'',
      ds_parameters = [ref_param ''jobName'' ParameterUnset True (None) ''^[a-z0-9-]+$'' (''Name of this job'' @ [CHR 0x27] @ ''s app''),
        ref_param ''image'' ParameterUnset True (None) [] (''Full image reference with an explicit tag (not latest) or a digest, within weave'' @ [CHR 0x27] @ ''s allowed image prefixes''),
        ref_param ''schedule'' ParameterUnset True (None) [] ''Cron expression with seconds first (6 fields)''],
      ds_steps = [\<lparr>ws_name = ''app'', ws_type = StepApp, ws_for_each = [],
        ws_params = [(''name'', ''${params.jobName}''),
          (''type'', ''job''),
          (''image'', ''${params.image}''),
          (''schedule'', ''${params.schedule}'')]\<rparr>]\<rparr>"

definition BatchJob :: definition_spec where
  "BatchJob =
     \<lparr>ds_description = ''Build and start a single batch job from a Git repository, branch and subfolder'',
      ds_parameters = [ref_param ''jobName'' ParameterUnset True (None) ''^[a-z0-9-]+$'' ''Shared Kubernetes name for the watcher, chain, job blueprint and trigger'',
        ref_param ''repoUrl'' ParameterUnset True (None) [] ''Public HTTP(S) git URL'',
        ref_param ''repoRef'' ParameterUnset False (Some (RawJson (JStr ''main''))) [] ''Branch or tag to watch'',
        ref_param ''projectDir'' ParameterUnset False (Some (RawJson (JStr []))) [] ''Relative path containing metadata.yaml (optional)'',
        autoPromoteParam,
        ref_param ''triggerType'' ParameterUnset False (Some (RawJson (JStr ''OnDemand''))) [] (''OnDemand or Cron '' @ bytes [226, 128, 148] @ '' the batch always starts once immediately either way''),
        ref_param ''schedule'' ParameterUnset False (Some (RawJson (JStr []))) [] ''Cron schedule for future runs; only used when triggerType is Cron'',
        ref_param ''externalAuthMode'' ParameterUnset False (Some (RawJson (JStr []))) [] (''Optional: serviceAccount or oidc '' @ bytes [226, 128, 148] @ '' inject a short-lived token into the job pods (set together with externalAuthName)''),
        ref_param ''externalAuthName'' ParameterUnset False (Some (RawJson (JStr []))) [] (''Optional: allowlisted ServiceAccount name or OIDC secret name (see weave'' @ [CHR 0x27] @ ''s external-auth options)''),
        ref_param ''externalAuthOverrideMode'' ParameterUnset False (Some (RawJson (JStr []))) [] (''Optional: serviceAccount or oidc '' @ bytes [226, 128, 148] @ '' overrides the chain'' @ [CHR 0x27] @ ''s token injection for this trigger'' @ [CHR 0x27] @ ''s runs (set together with externalAuthOverrideName)''),
        ref_param ''externalAuthOverrideName'' ParameterUnset False (Some (RawJson (JStr []))) [] ''Optional: allowlisted ServiceAccount or OIDC secret name for the trigger-level override''],
      ds_steps = [\<lparr>ws_name = ''watcher'', ws_type = StepGitWatcher, ws_for_each = [],
        ws_params = [(''name'', ''${params.jobName}''),
          (''repoUrl'', ''${params.repoUrl}''),
          (''repoRef'', ''${params.repoRef}''),
          (''projectDir'', ''${params.projectDir}''),
          (''autoPromote'', ''${params.autoPromote}''),
          (''tag'', ''${config.tagName}'')]\<rparr>,
       \<lparr>ws_name = ''build'', ws_type = StepWaitBuild, ws_for_each = [],
        ws_params = [(''watcher'', ''${steps.watcher.outputs.name}'')]\<rparr>,
       \<lparr>ws_name = ''tag'', ws_type = StepTag, ws_for_each = [],
        ws_params = [(''artifactId'', ''${steps.build.outputs.artifactId}''),
          (''artifactName'', ''${steps.build.outputs.artifactName}''),
          (''version'', ''${steps.build.outputs.version}''),
          (''tag'', ''${config.tagName}'')]\<rparr>,
       \<lparr>ws_name = ''template'', ws_type = StepJobTemplate, ws_for_each = [],
        ws_params = [(''name'', ''${params.jobName}''),
          (''artifactName'', ''${steps.build.outputs.artifactName}''),
          (''tag'', ''${steps.tag.outputs.tag}''),
          (''image'', ''${config.runnerImage}'')]\<rparr>,
       \<lparr>ws_name = ''chain'', ws_type = StepChain, ws_for_each = [],
        ws_params = [(''name'', ''${params.jobName}''),
          (''jobTemplate'', ''${steps.template.outputs.name}''),
          (''externalAuthMode'', ''${params.externalAuthMode}''),
          (''externalAuthName'', ''${params.externalAuthName}'')]\<rparr>,
       \<lparr>ws_name = ''trigger'', ws_type = StepTrigger, ws_for_each = [],
        ws_params = [(''name'', ''${params.jobName}''),
          (''chain'', ''${steps.chain.outputs.name}''),
          (''type'', ''${params.triggerType}''),
          (''schedule'', ''${params.schedule}''),
          (''fireOnCreate'', ''true''),
          (''externalAuthOverrideMode'', ''${params.externalAuthOverrideMode}''),
          (''externalAuthOverrideName'', ''${params.externalAuthOverrideName}'')]\<rparr>]\<rparr>"

definition BatchCronJob :: definition_spec where
  "BatchCronJob =
     \<lparr>ds_description = ''Build a job and wire up a BatchCron trigger from a pasted list of many cron-scheduled entries'',
      ds_parameters = [ref_param ''jobName'' ParameterUnset True (None) ''^[a-z0-9-]+$'' ''Shared Kubernetes name for the watcher, chain, and job blueprint'',
        ref_param ''repoUrl'' ParameterUnset True (None) [] ''Public HTTP(S) git URL'',
        ref_param ''repoRef'' ParameterUnset False (Some (RawJson (JStr ''main''))) [] ''Branch or tag to watch'',
        ref_param ''projectDir'' ParameterUnset False (Some (RawJson (JStr []))) [] ''Relative path containing metadata.yaml (optional)'',
        autoPromoteParam,
        ref_param ''jobs'' ParameterUnset True (None) [] (''YAML or JSON list of {cron, params} entries '' @ bytes [226, 128, 148] @ '' validated by weave at creation time''),
        ref_param ''externalAuthMode'' ParameterUnset False (Some (RawJson (JStr []))) [] (''Optional: serviceAccount or oidc '' @ bytes [226, 128, 148] @ '' inject a short-lived token into the job pods (set together with externalAuthName)''),
        ref_param ''externalAuthName'' ParameterUnset False (Some (RawJson (JStr []))) [] (''Optional: allowlisted ServiceAccount name or OIDC secret name (see weave'' @ [CHR 0x27] @ ''s external-auth options)'')],
      ds_steps = [\<lparr>ws_name = ''watcher'', ws_type = StepGitWatcher, ws_for_each = [],
        ws_params = [(''name'', ''${params.jobName}''),
          (''repoUrl'', ''${params.repoUrl}''),
          (''repoRef'', ''${params.repoRef}''),
          (''projectDir'', ''${params.projectDir}''),
          (''autoPromote'', ''${params.autoPromote}''),
          (''tag'', ''${config.tagName}'')]\<rparr>,
       \<lparr>ws_name = ''build'', ws_type = StepWaitBuild, ws_for_each = [],
        ws_params = [(''watcher'', ''${steps.watcher.outputs.name}'')]\<rparr>,
       \<lparr>ws_name = ''tag'', ws_type = StepTag, ws_for_each = [],
        ws_params = [(''artifactId'', ''${steps.build.outputs.artifactId}''),
          (''artifactName'', ''${steps.build.outputs.artifactName}''),
          (''version'', ''${steps.build.outputs.version}''),
          (''tag'', ''${config.tagName}'')]\<rparr>,
       \<lparr>ws_name = ''template'', ws_type = StepJobTemplate, ws_for_each = [],
        ws_params = [(''name'', ''${params.jobName}''),
          (''artifactName'', ''${steps.build.outputs.artifactName}''),
          (''tag'', ''${steps.tag.outputs.tag}''),
          (''image'', ''${config.runnerImage}'')]\<rparr>,
       \<lparr>ws_name = ''chain'', ws_type = StepChain, ws_for_each = [],
        ws_params = [(''name'', ''${params.jobName}''),
          (''jobTemplate'', ''${steps.template.outputs.name}''),
          (''externalAuthMode'', ''${params.externalAuthMode}''),
          (''externalAuthName'', ''${params.externalAuthName}'')]\<rparr>,
       \<lparr>ws_name = ''trigger'', ws_type = StepBatchTrigger, ws_for_each = [],
        ws_params = [(''name'', ''${params.jobName}''),
          (''chain'', ''${steps.chain.outputs.name}''),
          (''jobs'', ''${params.jobs}'')]\<rparr>]\<rparr>"

end
