(* ===== verification/Fakes.thy ===== *)
theory Fakes
  imports Rollback
begin

text \<open>
  Package \<open>internal/steps/stepstest\<close>, file \<open>fakes.go\<close>: forge, index and weave in memory, together with
  the store of ledger entries. They are the world of the concrete runs below, and each of the three
  fakes is a model of the interface the steps use. The mutexes make every call one atomic step.
\<close>

section \<open>State\<close>

record fakes =
  fk_events :: "string list"
  fk_watchers :: "(string \<times> git_watcher) list"
  fk_builds :: "(int \<times> build) list"
  fk_artifacts :: "(string \<times> artifact) list"
  fk_versions :: "(int \<times> version list) list"
  fk_objs :: "(string \<times> weave_object) list"
  fk_delete_err :: "err option"
  fk_fire_err :: "err option"
  fk_batch_err :: "err option"
  fk_labels_err :: "err option"

text \<open>The fakes and the Kubernetes store.\<close>

record fake_world =
  fw_fakes :: fakes
  fw_store :: store

definition no_fakes :: fakes where
  "no_fakes = \<lparr>fk_events = [], fk_watchers = [], fk_builds = [], fk_artifacts = [], fk_versions = [], fk_objs = [],
     fk_delete_err = None, fk_fire_err = None, fk_batch_err = None, fk_labels_err = None\<rparr>"

definition map_delete :: "'k \<Rightarrow> ('k \<times> 'v) list \<Rightarrow> ('k \<times> 'v) list" where
  "map_delete k m = filter (\<lambda>(k', v). k' \<noteq> k) m"

lemma map_of_map_delete [simp]: "map_of (map_delete k m) = (map_of m)(k := None)"
  by (induction m) (auto simp: map_delete_def fun_eq_iff)

definition api_err :: "int \<Rightarrow> err" where
  "api_err status = APIError ''fake'' ''GET'' ''/x'' status (Lit ''status text'') None"

section \<open>The event log\<close>

definition add_event :: "string \<Rightarrow> fakes \<Rightarrow> fakes" where
  "add_event e f = f\<lparr>fk_events := fk_events f @ [e]\<rparr>"

definition count_events :: "string \<Rightarrow> fakes \<Rightarrow> nat" where
  "count_events pre f = length (filter (\<lambda>e. has_prefix e pre) (fk_events f))"

definition index_of_event :: "string \<Rightarrow> fakes \<Rightarrow> int" where
  "index_of_event e f = (case position e (fk_events f) of Some n \<Rightarrow> int n | None \<Rightarrow> -1)"

section \<open>forge\<close>

type_synonym 'a fake_op = "fakes \<Rightarrow> (err + 'a) \<times> fakes"

definition fake_get_watcher :: "string \<Rightarrow> git_watcher fake_op" where
  "fake_get_watcher name f = (case map_of (fk_watchers f) name of Some w \<Rightarrow> (Inr w, f) | None \<Rightarrow> (Inl (api_err 404), f))"

definition active_status :: git_watcher_status where
  "active_status = (gw_status zero_watcher)\<lparr>gst_phase := ''Active''\<rparr>"

definition fake_create_watcher :: "create_git_watcher \<Rightarrow> git_watcher fake_op" where
  "fake_create_watcher r f =
     (case map_of (fk_watchers f) (cgw_name r) of
        Some w \<Rightarrow> (Inl (api_err 409), f)
      | None \<Rightarrow>
          (let w = \<lparr>gw_name = cgw_name r, gw_namespace = [],
                    gw_spec = \<lparr>gs_repo_url = cgw_repo_url r, gs_repo_ref = cgw_repo_ref r, gs_build_type = cgw_build_type r,
                      gs_project_dir = cgw_project_dir r, gs_auto_tag = cgw_auto_tag r\<rparr>,
                    gw_status = active_status\<rparr>
           in (Inr w, add_event (''create forge/gitwatcher/'' @ cgw_name r)
                 (f\<lparr>fk_watchers := assoc_set (cgw_name r) w (fk_watchers f)\<rparr>))))"

definition fake_delete_watcher :: "string \<Rightarrow> unit fake_op" where
  "fake_delete_watcher name f =
     (Inr (), add_event (''delete forge/gitwatcher/'' @ name) (f\<lparr>fk_watchers := map_delete name (fk_watchers f)\<rparr>))"

definition fake_list_builds :: "string \<Rightarrow> int \<Rightarrow> build list fake_op" where
  "fake_list_builds name n f = (Inr (sort_by (\<lambda>a b. b_id a \<ge> b_id b) (map snd (fk_builds f))), f)"

definition fake_get_build :: "int \<Rightarrow> build fake_op" where
  "fake_get_build i f = (case map_of (fk_builds f) i of Some b \<Rightarrow> (Inr b, f) | None \<Rightarrow> (Inl (api_err 404), f))"

definition fake_set_build :: "build \<Rightarrow> fakes \<Rightarrow> fakes" where
  "fake_set_build b f = f\<lparr>fk_builds := assoc_set (b_id b) b (fk_builds f)\<rparr>"

text \<open>A missing watcher is a nil pointer there; the tests set the status of existing ones.\<close>

definition fake_set_watcher_status :: "string \<Rightarrow> git_watcher_status \<Rightarrow> unit fake_op" where
  "fake_set_watcher_status name st f =
     (case map_of (fk_watchers f) name of
        None \<Rightarrow> (Inl (Panic ''nil watcher''), f)
      | Some w \<Rightarrow> (Inr (), f\<lparr>fk_watchers := assoc_set name (w\<lparr>gw_status := st\<rparr>) (fk_watchers f)\<rparr>))"

section \<open>index\<close>

fun number_versions :: "int \<Rightarrow> nat \<Rightarrow> string list \<Rightarrow> version list" where
  "number_versions i n [] = []"
| "number_versions i n (v # vs) =
     \<lparr>v_id = i * 100 + int n, v_artifact_id = i, v_version = v, v_tags = []\<rparr> # number_versions i (Suc n) vs"

definition versions_at :: "fakes \<Rightarrow> int \<Rightarrow> version list" where
  "versions_at f i = (case map_of (fk_versions f) i of Some vs \<Rightarrow> vs | None \<Rightarrow> [])"

definition fake_add_artifact :: "int \<Rightarrow> string \<Rightarrow> string list \<Rightarrow> fakes \<Rightarrow> fakes" where
  "fake_add_artifact i full_name vs f =
     f\<lparr>fk_artifacts := assoc_set full_name \<lparr>a_id = i, a_full_name = full_name, a_description = None\<rparr> (fk_artifacts f),
       fk_versions := (if vs = [] then fk_versions f
                       else assoc_set i (versions_at f i @ number_versions i 0 vs) (fk_versions f))\<rparr>"

definition fake_find_artifact :: "string \<Rightarrow> artifact fake_op" where
  "fake_find_artifact full_name f =
     (case map_of (fk_artifacts f) full_name of Some a \<Rightarrow> (Inr a, f) | None \<Rightarrow> (Inl (api_err 404), f))"

definition fake_list_versions :: "int \<Rightarrow> version list fake_op" where
  "fake_list_versions i f = (case map_of (fk_versions f) i of Some vs \<Rightarrow> (Inr vs, f) | None \<Rightarrow> (Inl (api_err 404), f))"

definition retag :: "string \<Rightarrow> string \<Rightarrow> version \<Rightarrow> version" where
  "retag tg ver v =
     v\<lparr>v_tags := filter (\<lambda>t. t_tag t \<noteq> tg) (v_tags v) @
                 (if v_version v = ver then [\<lparr>t_tag = tg, t_version_id = v_id v\<rparr>] else [])\<rparr>"

text \<open>The tags are moved in the stored versions even when no version matches.\<close>

definition fake_set_tag :: "int \<Rightarrow> string \<Rightarrow> string \<Rightarrow> unit fake_op" where
  "fake_set_tag i tg ver f =
     (let vs = versions_at f i;
          f1 = (if map_of (fk_versions f) i = None then f
                else f\<lparr>fk_versions := assoc_set i (map (retag tg ver) vs) (fk_versions f)\<rparr>)
      in if list_ex (\<lambda>v. v_version v = ver) vs
         then (Inr (), add_event (''settag index/'' @ format_int i @ ''/'' @ tg @ ''='' @ ver) f1)
         else (Inl (api_err 404), f1))"

definition untag :: "string \<Rightarrow> version \<Rightarrow> version" where
  "untag tg v = v\<lparr>v_tags := filter (\<lambda>t. t_tag t \<noteq> tg) (v_tags v)\<rparr>"

definition fake_delete_tag :: "int \<Rightarrow> string \<Rightarrow> unit fake_op" where
  "fake_delete_tag i tg f =
     (Inr (), add_event (''delete index/tag/'' @ format_int i @ ''/'' @ tg)
        (if map_of (fk_versions f) i = None then f
         else f\<lparr>fk_versions := assoc_set i (map (untag tg) (versions_at f i)) (fk_versions f)\<rparr>))"

definition fake_delete_artifact :: "int \<Rightarrow> unit fake_op" where
  "fake_delete_artifact i f =
     (Inr (), add_event (''delete index/artifact/'' @ format_int i)
        (f\<lparr>fk_artifacts := filter (\<lambda>(n, a). a_id a \<noteq> i) (fk_artifacts f), fk_versions := map_delete i (fk_versions f)\<rparr>))"

section \<open>weave\<close>

definition obj_key :: "string \<Rightarrow> string \<Rightarrow> string" where
  "obj_key collection name = collection @ ''/'' @ name"

definition fake_weave_get :: "string \<Rightarrow> string \<Rightarrow> weave_object fake_op" where
  "fake_weave_get collection name f =
     (case map_of (fk_objs f) (obj_key collection name) of Some x \<Rightarrow> (Inr x, f) | None \<Rightarrow> (Inl (api_err 404), f))"

text \<open>The hook of the tests runs first and may fail the call.\<close>

definition fake_weave_create ::
  "(fakes \<Rightarrow> string \<Rightarrow> weave_object \<Rightarrow> (err + unit) \<times> fakes) option \<Rightarrow> string \<Rightarrow> weave_object \<Rightarrow> weave_object fake_op" where
  "fake_weave_create hook collection obj f =
     (case (case hook of None \<Rightarrow> (Inr (), f) | Some h \<Rightarrow> h f collection obj) of
        (Inl x, f1) \<Rightarrow> (Inl x, f1)
      | (Inr u, f1) \<Rightarrow>
          (case obj_get obj ''metadata'' of
             JObj meta \<Rightarrow>
               (case obj_get meta ''name'' of
                  JStr name \<Rightarrow>
                    (let key = obj_key collection name
                     in if map_of (fk_objs f1) key \<noteq> None then (Inl (api_err 409), f1)
                        else (Inr obj, add_event (''create weave/'' @ key) (f1\<lparr>fk_objs := assoc_set key obj (fk_objs f1)\<rparr>)))
                | _ \<Rightarrow> (Inl (Panic ''name is not a string''), f1))
           | _ \<Rightarrow> (Inl (Panic ''metadata is not an object''), f1)))"

definition fake_weave_delete :: "string \<Rightarrow> string \<Rightarrow> unit fake_op" where
  "fake_weave_delete collection name f =
     (case fk_delete_err f of
        Some x \<Rightarrow> (Inl x, f)
      | None \<Rightarrow> (Inr (), add_event (''delete weave/'' @ obj_key collection name)
                   (f\<lparr>fk_objs := map_delete (obj_key collection name) (fk_objs f)\<rparr>)))"

definition fake_fire :: "string \<Rightarrow> unit fake_op" where
  "fake_fire name f =
     (case fk_fire_err f of Some x \<Rightarrow> (Inl x, f) | None \<Rightarrow> (Inr (), add_event (''fire weave/triggers/'' @ name) f))"

definition fake_create_batch :: "string \<Rightarrow> string \<Rightarrow> string \<Rightarrow> unit fake_op" where
  "fake_create_batch name chain jobs f =
     (case fk_batch_err f of
        Some x \<Rightarrow> (Inl x, f)
      | None \<Rightarrow>
          (let key = obj_key ''triggers'' name
           in if map_of (fk_objs f) key \<noteq> None then (Inl (api_err 409), f)
              else (Inr (), add_event (''create weave/'' @ key) (f\<lparr>fk_objs := assoc_set key
                     (new_weave_object ''WeaveTrigger'' name
                        [(''type'', JStr ''BatchCron''), (''chainRef'', JObj [(''name'', JStr chain)]), (''jobs'', JStr jobs)])
                     (fk_objs f)\<rparr>))))"

definition fake_delete_batch :: "string \<Rightarrow> unit fake_op" where
  "fake_delete_batch name f =
     (case fk_delete_err f of
        Some x \<Rightarrow> (Inl x, f)
      | None \<Rightarrow> (Inr (), add_event (''delete weave/triggers/'' @ name)
                   (f\<lparr>fk_objs := map_delete (obj_key ''triggers'' name) (fk_objs f)\<rparr>)))"

definition fake_patch_labels :: "string \<Rightarrow> smap \<Rightarrow> unit fake_op" where
  "fake_patch_labels name labels f =
     (case fk_labels_err f of
        Some x \<Rightarrow> (Inl x, f)
      | None \<Rightarrow>
          (case map_of (fk_objs f) (obj_key ''triggers'' name) of
             None \<Rightarrow> (Inl (api_err 404), f)
           | Some obj \<Rightarrow>
               (Inr (), add_event (''label weave/triggers/'' @ name) (f\<lparr>fk_objs := assoc_set (obj_key ''triggers'' name)
                  (assoc_set ''metadata'' (JObj (assoc_set ''labels'' (labels_json labels)
                     (obj_members (obj_get obj ''metadata'')))) obj) (fk_objs f)\<rparr>))))"

definition fake_seed :: "string \<Rightarrow> string \<Rightarrow> (string \<times> json) list \<Rightarrow> fakes \<Rightarrow> fakes" where
  "fake_seed collection name spec f =
     f\<lparr>fk_objs := assoc_set (obj_key collection name) (new_weave_object ''X'' name spec) (fk_objs f)\<rparr>"

definition fake_has :: "string \<Rightarrow> string \<Rightarrow> fakes \<Rightarrow> bool" where
  "fake_has collection name f \<longleftrightarrow> map_of (fk_objs f) (obj_key collection name) \<noteq> None"

section \<open>The interfaces\<close>

definition on_fakes :: "'a fake_op \<Rightarrow> ('z fake_world_scheme, 'a) call" where
  "on_fakes h w = (case h (fw_fakes w) of (r, f) \<Rightarrow> (r, w\<lparr>fw_fakes := f\<rparr>))"

definition on_kube :: "(store, 'a) call \<Rightarrow> ('z fake_world_scheme, 'a) call" where
  "on_kube h w = (case h (fw_store w) of (r, s) \<Rightarrow> (r, w\<lparr>fw_store := s\<rparr>))"

definition fake_forge :: "'z fake_world_scheme forge_api" where
  "fake_forge = \<lparr>fa_get_watcher = (\<lambda>n. on_fakes (fake_get_watcher n)),
     fa_create_watcher = (\<lambda>r. on_fakes (fake_create_watcher r)), fa_delete_watcher = (\<lambda>n. on_fakes (fake_delete_watcher n)),
     fa_list_builds = (\<lambda>n k. on_fakes (fake_list_builds n k)), fa_get_build = (\<lambda>i. on_fakes (fake_get_build i))\<rparr>"

definition fake_index :: "'z fake_world_scheme index_api" where
  "fake_index = \<lparr>ia_find_artifact = (\<lambda>n. on_fakes (fake_find_artifact n)),
     ia_list_versions = (\<lambda>i. on_fakes (fake_list_versions i)), ia_set_tag = (\<lambda>i t v. on_fakes (fake_set_tag i t v)),
     ia_delete_tag = (\<lambda>i t. on_fakes (fake_delete_tag i t)), ia_delete_artifact = (\<lambda>i. on_fakes (fake_delete_artifact i))\<rparr>"

definition fake_weave :: "'z fake_world_scheme weave_api" where
  "fake_weave = \<lparr>wa_get = (\<lambda>c n. on_fakes (fake_weave_get c n)), wa_create = (\<lambda>c x. on_fakes (fake_weave_create None c x)),
     wa_delete = (\<lambda>c n. on_fakes (fake_weave_delete c n)), wa_fire = (\<lambda>n. on_fakes (fake_fire n)),
     wa_patch_labels = (\<lambda>n l. on_fakes (fake_patch_labels n l)),
     wa_create_batch = (\<lambda>n c j. on_fakes (fake_create_batch n c j)), wa_delete_batch = (\<lambda>n. on_fakes (fake_delete_batch n))\<rparr>"

definition world_kube :: "string \<Rightarrow> go_lib \<Rightarrow> 'z fake_world_scheme kube" where
  "world_kube me gl =
     \<lparr>kb_get = (\<lambda>n. on_kube (kb_get (store_kube me gl) n)), kb_create = (\<lambda>e. on_kube (kb_create (store_kube me gl) e)),
      kb_update = (\<lambda>e. on_kube (kb_update (store_kube me gl) e)), kb_delete = (\<lambda>e. on_kube (kb_delete (store_kube me gl) e)),
      kb_list = on_kube (kb_list (store_kube me gl))\<rparr>"

definition world_ledger :: "string \<Rightarrow> go_lib \<Rightarrow> 'z fake_world_scheme ledger" where
  "world_ledger me gl = \<lparr>lg_kube = world_kube me gl, lg_lib = gl, lg_sleep = (\<lambda>w. w\<lparr>fw_store := others_step me gl (fw_store w)\<rparr>)\<rparr>"

definition fake_env :: "string \<Rightarrow> go_lib \<Rightarrow> 'z fake_world_scheme env" where
  "fake_env me gl = \<lparr>env_cfg = sample_config, env_forge = fake_forge, env_index = fake_index, env_weave = fake_weave,
     env_ledger = world_ledger me gl, env_now = (\<lambda>_. 0)\<rparr>"

section \<open>Running programs\<close>

text \<open>The empty world, and the definitions a run of a step in a fake world unfolds.\<close>

definition empty_world :: fake_world where
  "empty_world = \<lparr>fw_fakes = no_fakes, fw_store = \<lparr>st_objects = [], st_next = 0, st_foreign = []\<rparr>\<rparr>"

lemmas fake_defs = fake_env_def fake_forge_def fake_index_def fake_weave_def on_fakes_def no_fakes_def add_event_def
  fake_get_watcher_def fake_create_watcher_def fake_delete_watcher_def fake_list_builds_def fake_get_build_def
  fake_find_artifact_def fake_list_versions_def fake_set_tag_def fake_delete_tag_def fake_delete_artifact_def
  fake_weave_get_def fake_weave_create_def fake_weave_delete_def fake_fire_def fake_create_batch_def
  fake_delete_batch_def fake_patch_labels_def obj_key_def api_err_def versions_at_def

lemmas store_defs = world_ledger_def world_kube_def on_kube_def store_kube_def on_store_def others_step_def
  store_wf_def store_view_def store_put_def stamped_def store_remove_def

lemmas ledger_defs = ledger_get_def ledger_register_def ledger_add_ref_def add_ref_once_def retry_on_conflict_def
  retry_loop.simps[of _ conflictBackoff] ledger_release_def release_once_def ledger_finish_def ledger_list_def
  delete_entry_def new_resource_def add_ref_entry_def no_options_def hasRef_def release_entry_def
  kube_not_found_def kube_exists_def is_upstream_not_found_def is_upstream_conflict_def status_of_def as_api_def

lemmas step_run_defs = ensureStep_def ensure_def maxEnsureAttempts_def numeral_nat ensure_missing_def
  ensure_existing_def ensure_register_def ensure_update_def in_ref_def not_found_as_nil_def Let_def dispositionOf_def

lemmas run_defs = run_apply fake_defs store_defs ledger_defs step_run_defs empty_world_def

end
