(* ===== verification/CatalogueProps.thy ===== *)
theory CatalogueProps
  imports Controller Fakes TemplateProps
begin

text \<open>
  What the static check of a definition promises to a run of it: the outputs a step really provides, and
  the references that can still fail at run time.
\<close>

section \<open>Every step provides the outputs it declares\<close>

text \<open>A step of the catalogue that is done returns exactly its declared outputs, in order.\<close>

definition provides :: "string list \<Rightarrow> ('w, step_result) call \<Rightarrow> bool" where
  "provides outs f \<longleftrightarrow> (\<forall>w res w'. f w = (Inr res, w') \<longrightarrow> res_done res \<longrightarrow> map fst (res_outputs res) = outs)"

named_theorems provides_intros

lemma provides_return [provides_intros]:
  "(res_done res \<Longrightarrow> map fst (res_outputs res) = outs) \<Longrightarrow> provides outs (io_return res)"
  by (simp add: provides_def)

lemma provides_fail [provides_intros]: "provides outs (io_fail x)"
  by (simp add: provides_def)

lemma provides_bind [provides_intros]: "(\<And>a. provides outs (g a)) \<Longrightarrow> provides outs (io_bind f g)"
  unfolding provides_def by (blast elim: io_bind_cases)

lemma provides_try [provides_intros]: "(\<And>r. provides outs (g r)) \<Longrightarrow> provides outs (io_try f g)"
  unfolding provides_def by (blast elim: io_try_cases)

lemma provides_ensureStep [provides_intros]: "map fst outputs = outs \<Longrightarrow> provides outs (ensureStep e i m outputs)"
  unfolding ensureStep_def
  by (rule provides_try) (auto split: sum.splits intro!: provides_intros)

lemma not_done_not [simp]: "\<not> res_done (not_done t m o')"
  by (simp add: not_done_def)

lemma waitBuild_provides: "provides (sp_outputs waitBuildStep) (waitBuild_ensure e i)"
  unfolding waitBuildStep_def waitBuild_ensure_def poll_build_def claim_build_def Let_def
  by (auto intro!: provides_intros split: option.splits sum.splits)

lemma weave_provides: "provides [''name''] (weaveResource e i kind name h obj mt ac)"
  by (simp add: weaveResource_def provides_ensureStep)

lemma app_create_provides: "provides [''name''] (app_create e i auth eps)"
  unfolding app_create_def Let_def by (auto intro!: provides_intros weave_provides split: list.splits)

lemmas step_defs = gitWatcherStep_def tagStep_def jobTemplateStep_def serviceTemplateStep_def chainStep_def
  triggerStep_def batchTriggerStep_def appStep_def
lemmas ensure_defs = gitWatcher_ensure_def tag_ensure_def jobTemplate_ensure_def serviceTemplate_ensure_def
  chain_ensure_def trigger_ensure_def batchTrigger_ensure_def app_ensure_def

lemma other_steps_provide:
  "s \<in> {gitWatcherStep, tagStep, appStep, jobTemplateStep, serviceTemplateStep, chainStep, triggerStep, batchTriggerStep}
   \<Longrightarrow> provides (sp_outputs s) (sp_ensure s e i)"
  by (auto simp: step_defs ensure_defs Let_def split: option.splits sum.splits prod.splits
      intro!: provides_intros weave_provides app_create_provides)

lemma lookup_in_registry: "lookup_step t = Some s \<Longrightarrow> s \<in> set registry \<and> sp_type s = t"
  by (auto simp: lookup_step_def dest: find_SomeD)

lemma registry_provides: "s \<in> set registry \<Longrightarrow> provides (sp_outputs s) (sp_ensure s e i)"
  using other_steps_provide[of s e i] waitBuild_provides[of e i]
  by (auto simp: registry_def waitBuildStep_def)

text \<open>C40: a catalogue step that reports it is done returns exactly the outputs the catalogue declares
  for its type, so a reference the static check accepted finds its key.\<close>

theorem step_outputs_declared:
  assumes "lookup_step t = Some s" and "sp_ensure s e i w = (Inr res, w')" and "res_done res"
  shows "map fst (res_outputs res) = sp_outputs s"
  using registry_provides[of s e i] lookup_in_registry[OF assms(1)] assms(2,3) by (auto simp: provides_def)

definition watch_input :: input where
  "watch_input = \<lparr>in_run = ''b'', in_key = ''watch'', in_params = [(''name'', ''w''), (''repoUrl'', ''u'')],
     in_prior = [], in_started = None\<rparr>"

text \<open>The outcome of a step: done or not, and its outputs.\<close>

definition done_with :: "(err + step_result) \<times> 'w \<Rightarrow> smap option" where
  "done_with x = (case x of (Inr res, w) \<Rightarrow> if res_done res then Some (res_outputs res) else None | _ \<Rightarrow> None)"

lemma done_with_Some: "done_with x = Some outs \<Longrightarrow> \<exists>res w'. x = (Inr res, w') \<and> res_done res \<and> res_outputs res = outs"
  by (auto simp: done_with_def split: prod.splits sum.splits if_splits)

lemma watch_run: "done_with (gitWatcher_ensure (fake_env ''b'' pad_lib) watch_input empty_world) = Some [(''name'', ''w'')]"
  by (simp add: done_with_def run_defs gitWatcher_ensure_def watcher_managed_def watch_input_def get0_def cong: run_cong)

theorem step_outputs_witness:
  "\<exists>res w'. sp_ensure gitWatcherStep (fake_env ''b'' pad_lib) watch_input empty_world = (Inr res, w') \<and>
     map fst (res_outputs res) = sp_outputs (gitWatcherStep :: fake_world step)"
proof -
  let ?s = "gitWatcherStep :: fake_world step"
  have l: "lookup_step StepGitWatcher = Some ?s" by (simp add: lookup_step_def registry_def gitWatcherStep_def)
  have "sp_ensure ?s = gitWatcher_ensure" by (simp add: gitWatcherStep_def)
  with watch_run done_with_Some obtain res w' where
    r: "sp_ensure ?s (fake_env ''b'' pad_lib) watch_input empty_world = (Inr res, w')" "res_done res"
    by metis
  from r step_outputs_declared[OF l r] show ?thesis by blast
qed

section \<open>Soundness of the static check\<close>

subsection \<open>What a check without problems says\<close>

lemma check_declarations_ok:
  "check_declarations gl decl ps = ([], decl') \<Longrightarrow>
   map_of decl' n = (case find (\<lambda>p. wp_name p = n) ps of Some p \<Rightarrow> Some p | None \<Rightarrow> map_of decl n) \<and>
   distinct (map wp_name ps) \<and> (\<forall>p\<in>set ps. map_of decl (wp_name p) = None)"
proof (induction ps arbitrary: decl)
  case (Cons p ps)
  obtain errs d' where r: "check_declarations gl (assoc_set (wp_name p) p decl) ps = (errs, d')" by fastforce
  with Cons.prems have new: "map_of decl (wp_name p) = None" and e: "errs = []" "d' = decl'"
    by (auto simp: Let_def split: if_splits)
  from Cons.IH[OF r[unfolded e]] new show ?case
    by (auto split: option.splits if_splits dest: find_SomeD)
qed simp

text \<open>The steps the check knows when it reaches a step.\<close>

definition note_step :: "wizard_step \<Rightarrow> (string \<times> earlier_step) list \<Rightarrow> (string \<times> earlier_step) list" where
  "note_step st earlier =
     (case lookup_step (ws_type st) :: unit step option of
        None \<Rightarrow> earlier
      | Some step \<Rightarrow> assoc_set (ws_name st)
          \<lparr>es_type = sp_type step, es_outputs = sp_outputs step, es_for_each = ws_for_each st \<noteq> []\<rparr> earlier)"

lemma check_steps_ok:
  "check_steps decl earlier lo (pre @ st # post) = [] \<Longrightarrow>
   \<exists>step lo'. lookup_step (ws_type st) = Some step \<and> check_step st step decl (fold note_step pre earlier) lo' = []"
proof (induction pre arbitrary: earlier lo)
  case (Cons p pre)
  then show ?case by (auto simp: note_step_def split: option.splits)
qed (auto split: option.splits)

lemma noted:
  "map_of (fold note_step pre earlier) n = Some s \<Longrightarrow>
   map_of earlier n = Some s \<or>
   (\<exists>st\<in>set pre. \<exists>step. ws_name st = n \<and> (lookup_step (ws_type st) :: unit step option) = Some step \<and>
      s = \<lparr>es_type = sp_type step, es_outputs = sp_outputs step, es_for_each = ws_for_each st \<noteq> []\<rparr>)"
  by (induction pre arbitrary: earlier) (fastforce simp: note_step_def split: option.splits if_splits)+

subsection \<open>References\<close>

text \<open>What a run can still lack: a value for an optional parameter, a field of the current item.\<close>

definition available :: "tctx \<Rightarrow> tref \<Rightarrow> bool" where
  "available c r \<longleftrightarrow>
     (case r_kind r of
        RefParams \<Rightarrow> map_of (c_params c) (r_name r) \<noteq> None
      | RefItem \<Rightarrow> r_name r = [] \<or> (\<exists>flds. c_item_fields c = Some flds \<and> map_of flds (r_name r) \<noteq> None)
      | _ \<Rightarrow> True)"

text \<open>A context that fits the point of the definition the check is at.\<close>

definition fits :: "declared \<Rightarrow> (string \<times> earlier_step) list \<Rightarrow> bool \<Rightarrow> tctx \<Rightarrow> bool" where
  "fits decl earlier in_for_each c \<longleftrightarrow>
     (\<forall>n v p. map_of (c_params c) n = Some v \<longrightarrow> map_of decl n = Some p \<longrightarrow> type_ok (wp_type p) v) \<and>
     set configKeys \<subseteq> fst ` set (c_config c) \<and>
     (\<forall>n s. map_of earlier n = Some s \<longrightarrow> \<not> es_for_each s \<longrightarrow>
        (\<exists>outs. map_of (c_steps c) n = Some outs \<and> set (es_outputs s) \<subseteq> fst ` set outs)) \<and>
     (in_for_each \<longrightarrow> c_item c \<noteq> None)"

lemma contains_iff: "contains l v \<longleftrightarrow> v \<in> set l"
  by (auto simp: contains_def list_ex_iff)

lemma not_list_value: "type_ok t v \<Longrightarrow> t \<noteq> ParameterStringList \<Longrightarrow> v \<noteq> VList l"
  by (cases t) auto

lemma check_ref_sound:
  assumes "check_ref place fe decl earlier r = []" and "fits decl earlier fe c"
  shows "resolvable c r \<longleftrightarrow> available c r"
proof (cases "r_kind r")
  case RefParams
  with assms(1) obtain p where p: "map_of decl (r_name r) = Some p" "wp_type p \<noteq> ParameterStringList"
    by (auto simp: check_ref_def split: option.splits if_splits)
  from assms(2) p have "v \<noteq> VList l" if "map_of (c_params c) (r_name r) = Some v" for v l
    using not_list_value[OF _ p(2)] assms(2) p(1) that unfolding fits_def by blast
  then show ?thesis using RefParams
    by (auto simp: resolvable_def available_def lookup_def split: option.splits val.splits)
next
  case RefConfig
  with assms have "r_name r \<in> fst ` set (c_config c)"
    by (auto simp: check_ref_def contains_iff fits_def split: if_splits)
  then show ?thesis using RefConfig map_of_in_fst[of "r_name r" "c_config c"]
    by (auto simp: resolvable_def available_def lookup_def)
next
  case RefSteps
  with assms(1) obtain s where s: "map_of earlier (r_name r) = Some s" "\<not> es_for_each s" "r_key r \<in> set (es_outputs s)"
    by (auto simp: check_ref_def contains_iff split: option.splits if_splits)
  with assms(2) obtain outs where "map_of (c_steps c) (r_name r) = Some outs" "r_key r \<in> fst ` set outs"
    unfolding fits_def by blast
  then show ?thesis using RefSteps map_of_in_fst[of "r_key r" outs]
    by (auto simp: resolvable_def available_def lookup_def)
next
  case RefItem
  with assms have "c_item c \<noteq> None" by (auto simp: check_ref_def fits_def split: if_splits)
  then show ?thesis using RefItem
    by (auto simp: resolvable_def available_def lookup_def split: option.splits)
qed

lemma checkRefs_sound:
  assumes "checkRefs v place fe decl earlier = []" and "fits decl earlier fe c"
  shows "\<exists>t. parse v = Inr t \<and> (\<forall>r\<in>set (refs t). resolvable c r \<longleftrightarrow> available c r)"
  using assms check_ref_sound[of place fe decl earlier _ c] by (auto simp: checkRefs_def split: sum.splits)

text \<open>All references of a step's params are available.\<close>

definition params_available :: "tctx \<Rightarrow> smap \<Rightarrow> bool" where
  "params_available c m \<longleftrightarrow>
     (\<forall>k\<in>fst ` set m. \<forall>t. parse (get0 m k) = Inr t \<longrightarrow> (\<forall>r\<in>set (refs t). available c r))"

lemma check_step_sound:
  assumes "check_step st step decl earlier lo = []" and "fits decl earlier (ws_for_each st \<noteq> []) c"
  shows "(\<exists>out. resolve_map (ws_params st) c = Inr out) \<longleftrightarrow> params_available c (ws_params st)"
proof -
  have "\<exists>t. parse (get0 (ws_params st) k) = Inr t \<and> (\<forall>r\<in>set (refs t). resolvable c r \<longleftrightarrow> available c r)"
    if "k \<in> fst ` set (ws_params st)" for k
  proof -
    from assms(1) that have "check_param st (sp_params step) decl earlier k = []" by (auto simp: check_step_def)
    then show ?thesis using checkRefs_sound[OF _ assms(2)] by (auto simp: check_param_def split: if_splits)
  qed
  then have "(\<forall>k\<in>fst ` set (ws_params st). \<exists>v. resolve (get0 (ws_params st) k) c = Inr v)
      \<longleftrightarrow> params_available c (ws_params st)"
    unfolding resolve_ok_iff params_available_def by (metis sum.inject(2))
  moreover have "(\<exists>out. resolve_map (ws_params st) c = Inr out)
      \<longleftrightarrow> (\<forall>k\<in>fst ` set (ws_params st). \<exists>v. resolve (get0 (ws_params st) k) c = Inr v)"
    using resolve_map_succeeds[of "ws_params st" c] resolve_map_ok(2)[of "ws_params st" c] by blast
  ultimately show ?thesis by blast
qed

subsection \<open>Plans of a checked definition\<close>

lemma concat_map_split:
  "concat (map f xs) = before @ i # rest \<Longrightarrow>
   \<exists>pre x post b a. xs = pre @ x # post \<and> f x = b @ i # a \<and> before = concat (map f pre) @ b"
proof (induction xs arbitrary: before)
  case (Cons x xs)
  then obtain us where "f x = before @ us \<and> us @ concat (map f xs) = i # rest \<or>
      f x @ us = before \<and> concat (map f xs) = us @ i # rest"
    by (auto simp: append_eq_append_conv2)
  then consider (here) a where "f x = before @ i # a" | (later) us where "before = f x @ us" "concat (map f xs) = us @ i # rest"
    by (cases us) auto
  then show ?case
  proof cases
    case here
    then show ?thesis by (intro exI[of _ "[]"] exI[of _ x] exI[of _ xs] exI[of _ before] exI[of _ a]) simp
  next
    case later
    with Cons.IH[OF later(2)] obtain pre y post b a where "xs = pre @ y # post" "f y = b @ i # a"
      "us = concat (map f pre) @ b" by blast
    with later show ?thesis
      by (intro exI[of _ "x # pre"] exI[of _ y] exI[of _ post] exI[of _ b] exI[of _ a]) simp
  qed
qed simp

text \<open>The outputs of the steps that already ran: complete for every step that is not a forEach.\<close>

definition outputs_complete :: "(string \<times> smap) list \<Rightarrow> step_instance list \<Rightarrow> bool" where
  "outputs_complete outputs insts \<longleftrightarrow>
     (\<forall>j\<in>set insts. pi_item j = None \<longrightarrow>
        (\<exists>outs. map_of outputs (ws_name (pi_step j)) = Some outs \<and>
           (\<forall>step :: unit step. lookup_step (ws_type (pi_step j)) = Some step \<longrightarrow> set (sp_outputs step) \<subseteq> fst ` set outs)))"

lemma config_keys: "map fst (config_values c) = configKeys"
  by (simp add: configKeys_def config_values_def)

lemma plan_instance:
  "instances_of values st = b @ i # a \<Longrightarrow> pi_step i = st \<and> (ws_for_each st \<noteq> [] \<longrightarrow> pi_item i \<noteq> None)"
proof -
  assume "instances_of values st = b @ i # a"
  then have "i \<in> set (instances_of values st)" by simp
  then show ?thesis by (auto simp: instances_of_def item_instance_def split: if_splits sum.splits)
qed

lemma plan_declared:
  assumes "check_declarations gl [] ps = ([], decl)" and "resolve_parameters gl ps given = Inr values"
    and v: "map_of values n = Some v" and d: "map_of decl n = Some p"
  shows "type_ok (wp_type p) v"
proof -
  note decl = check_declarations_ok[OF assms(1)]
  from decl d have "find (\<lambda>q. wp_name q = n) ps = Some p" by (auto split: option.splits)
  then have p: "p \<in> set ps" "wp_name p = n" by (auto dest: find_SomeD)
  with resolve_parameters_ok(2)[OF assms(2)] decl v have "param_value gl given p = Some v" by auto
  then show ?thesis using param_value_ok by (auto simp: value_ok_def)
qed

lemma plan_fits:
  assumes decl: "check_declarations gl [] (ds_parameters spec) = ([], decl)"
    and vs: "resolve_parameters gl (ds_parameters spec) given = Inr values"
    and i: "instances_of values st = b @ i # a"
    and ran: "outputs_complete outputs (concat (map (instances_of values) pre))"
  shows "fits decl (fold note_step pre []) (ws_for_each st \<noteq> []) (step_context e values outputs i)"
proof -
  have "\<exists>outs. map_of outputs n = Some outs \<and> set (es_outputs s) \<subseteq> fst ` set outs"
    if "map_of (fold note_step pre []) n = Some s" "\<not> es_for_each s" for n s
  proof -
    from noted[OF that(1)] that(2) obtain st' and step :: "unit step" where st': "st' \<in> set pre" "ws_name st' = n"
      "lookup_step (ws_type st') = Some step" "es_outputs s = sp_outputs step" "ws_for_each st' = []"
      by auto
    then have "\<exists>j. j \<in> set (concat (map (instances_of values) pre)) \<and> pi_item j = None \<and> pi_step j = st'"
      by (intro exI[of _ "hd (instances_of values st')"]) (auto simp: instances_of_def)
    with ran st' show ?thesis unfolding outputs_complete_def by metis
  qed
  moreover have "set configKeys \<subseteq> fst ` set (config_values (env_cfg e))"
    unfolding config_keys[of "env_cfg e", symmetric] by simp
  ultimately show ?thesis using plan_declared[OF decl vs] plan_instance[OF i]
    by (simp add: fits_def step_context_def)
qed

text \<open>The params of an instance, once the instances before it have provided their outputs.\<close>

lemma checked_instance_resolves:
  assumes "validate_definition gl spec = None"
    and "resolve_parameters gl (ds_parameters spec) given = Inr values"
    and "expand spec values = Inr (before @ i # rest)"
    and "outputs_complete outputs before"
  shows "(\<exists>out. resolve_map (ws_params (pi_step i)) (step_context e values outputs i) = Inr out) =
     params_available (step_context e values outputs i) (ws_params (pi_step i))"
proof -
  from assms(1) obtain decl where decl: "check_declarations gl [] (ds_parameters spec) = ([], decl)"
    and steps: "check_steps decl [] (-1) (ds_steps spec) = []"
    by (auto simp: validate_definition_def errors_join_def split: prod.splits if_splits)
  from assms(3) have "concat (map (instances_of values) (ds_steps spec)) = before @ i # rest"
    by (simp add: expand_iff)
  from concat_map_split[OF this] obtain pre st post b a where split: "ds_steps spec = pre @ st # post"
      "instances_of values st = b @ i # a" "before = concat (map (instances_of values) pre) @ b"
    by blast
  from check_steps_ok[OF steps[unfolded split(1)]] obtain step lo where
    "check_step st step decl (fold note_step pre []) lo = []" by blast
  moreover have "outputs_complete outputs (concat (map (instances_of values) pre))"
    using assms(4) split(3) by (auto simp: outputs_complete_def)
  ultimately show ?thesis
    using check_step_sound plan_fits[OF decl assms(2) split(2)] plan_instance[OF split(2)] by blast
qed

text \<open>Two steps, the second using the output of the first.\<close>

definition two_steps :: definition_spec where
  "two_steps = \<lparr>ds_description = [], ds_parameters = [sample_parameter ''repo'' ParameterString True],
     ds_steps =
       [\<lparr>ws_name = ''watch'', ws_type = StepGitWatcher, ws_for_each = [],
          ws_params = [(''name'', ''${params.repo|k8sName}''), (''repoUrl'', ''${params.repo}'')]\<rparr>,
        \<lparr>ws_name = ''wait'', ws_type = StepWaitBuild, ws_for_each = [],
          ws_params = [(''watcher'', ''${steps.watch.outputs.name}'')]\<rparr>]\<rparr>"

definition repo_values :: "(string \<times> val) list" where
  "repo_values = [(''repo'', VString ''a'')]"

lemma two_steps_plan:
  "expand two_steps repo_values = Inr ([\<lparr>pi_key = ''watch'', pi_step = hd (ds_steps two_steps), pi_item = None, pi_item_fields = None\<rparr>] @
     \<lparr>pi_key = ''wait'', pi_step = ds_steps two_steps ! 1, pi_item = None, pi_item_fields = None\<rparr> # [])"
  by (simp add: expand_def two_steps_def add_instance_def)

lemma two_steps_valid: "validate_definition sample_lib two_steps = None"
  by code_simp

lemma two_steps_values:
  "resolve_parameters sample_lib (ds_parameters two_steps) [(''repo'', RawJson (JStr ''a''))] = Inr repo_values"
  by code_simp

end
