(* ===== verification/World.thy ===== *)
theory World
  imports Controller Fakes
begin

text \<open>
  An API server for runs and definitions in memory, on top of the fakes and the ledger store: the world in
  which the concrete runs of the reconciler take place. A patch changes what differs between the two
  copies the caller gives, and answers with the object the server then has; an object that is being
  deleted goes away with its last finalizer.
\<close>

record sys = fake_world +
  sys_runs :: "wizard_run list"
  sys_defs :: "wizard_definition list"

definition find_run :: "string \<Rightarrow> sys \<Rightarrow> wizard_run option" where
  "find_run n w = find (\<lambda>r. run_name r = n) (sys_runs w)"

definition sys_get :: "string \<Rightarrow> (sys, wizard_run) call" where
  "sys_get n w = (case find_run n w of Some r \<Rightarrow> (Inr r, w) | None \<Rightarrow> (Inl (KubeError KubeNotFound), w))"

definition sys_definition :: "string \<Rightarrow> (sys, wizard_definition) call" where
  "sys_definition n w =
     (case find (\<lambda>d. wd_name d = n) (sys_defs w) of Some d \<Rightarrow> (Inr d, w) | None \<Rightarrow> (Inl (KubeError KubeNotFound), w))"

definition replace_run :: "wizard_run \<Rightarrow> sys \<Rightarrow> sys" where
  "replace_run r w =
     w\<lparr>sys_runs := (if run_deletion r \<noteq> None \<and> run_finalizers r = []
                   then filter (\<lambda>x. run_name x \<noteq> run_name r) (sys_runs w)
                   else map (\<lambda>x. if run_name x = run_name r then r else x) (sys_runs w))\<rparr>"

definition merge_run :: "wizard_run \<Rightarrow> wizard_run \<Rightarrow> wizard_run \<Rightarrow> wizard_run" where
  "merge_run c old new =
     c\<lparr>run_finalizers := (if run_finalizers new = run_finalizers old then run_finalizers c else run_finalizers new),
       run_annotations := (if run_annotations new = run_annotations old then run_annotations c else run_annotations new),
       run_spec := (if run_spec new = run_spec old then run_spec c else run_spec new),
       run_generation := (if run_spec new = run_spec old then run_generation c else run_generation c + 1)\<rparr>"

definition sys_patch :: "wizard_run \<Rightarrow> wizard_run \<Rightarrow> (sys, wizard_run) call" where
  "sys_patch old new w =
     (case find_run (run_name old) w of
        None \<Rightarrow> (Inl (KubeError KubeNotFound), w)
      | Some c \<Rightarrow> (Inr (merge_run c old new), replace_run (merge_run c old new) w))"

definition sys_patch_status :: "wizard_run \<Rightarrow> wizard_run \<Rightarrow> (sys, wizard_run) call" where
  "sys_patch_status old new w =
     (case find_run (run_name old) w of
        None \<Rightarrow> (Inl (KubeError KubeNotFound), w)
      | Some c \<Rightarrow> (Inr (c\<lparr>run_status := run_status new\<rparr>), replace_run (c\<lparr>run_status := run_status new\<rparr>) w))"

definition sys_api :: "sys run_api" where
  "sys_api = \<lparr>ra_get_run = sys_get, ra_get_definition = sys_definition, ra_patch = sys_patch,
     ra_patch_status = sys_patch_status\<rparr>"

definition sys_reconciler :: "string \<Rightarrow> go_lib \<Rightarrow> sys reconciler" where
  "sys_reconciler me gl = \<lparr>rc_api = sys_api, rc_envs = io_return (fake_env me gl), rc_now = (\<lambda>w. 0), rc_lib = gl\<rparr>"

definition blank_status :: run_status where
  "blank_status = \<lparr>rs_phase = RunUnset, rs_message = Lit [], rs_generation = 0, rs_steps = [], rs_conditions = [],
     rs_started_at = None, rs_completed_at = None\<rparr>"

definition blank_run :: "string \<Rightarrow> string \<Rightarrow> (string \<times> raw_json) list \<Rightarrow> wizard_run" where
  "blank_run n def ps = \<lparr>run_name = n, run_generation = 1, run_created = 0, run_deletion = None, run_finalizers = [],
     run_annotations = [], run_labels = [],
     run_spec = \<lparr>rp_definition_ref = def, rp_snapshot = None, rp_definition_generation = 0, rp_parameters = ps,
       rp_created_by = [], rp_created_by_email = [], rp_desired = DesiredApplied\<rparr>,
     run_status = blank_status\<rparr>"

definition sys_of :: "wizard_run list \<Rightarrow> wizard_definition list \<Rightarrow> sys" where
  "sys_of rs ds = \<lparr>fw_fakes = no_fakes, fw_store = \<lparr>st_objects = [], st_next = 0, st_foreign = []\<rparr>,
     sys_runs = rs, sys_defs = ds\<rparr>"

lemmas sys_api_defs = sys_api_def sys_reconciler_def sys_get_def sys_definition_def sys_patch_def sys_patch_status_def
  find_run_def replace_run_def merge_run_def

end
