(* ===== verification/ControllerProps.thy ===== *)
theory ControllerProps
  imports CatalogueProps World
begin

text \<open>
  Properties of the reconciler: the delays between retries, the conditions of a run, and what one pass of
  \<open>advance\<close> does to the steps of a run.
\<close>

section \<open>Delays and conditions\<close>

lemma delay_loop_min: "0 < d \<Longrightarrow> min maxRetryDelay (delay_loop n d) = min maxRetryDelay (d * 2 ^ n)"
proof (induction n arbitrary: d)
  case (Suc n)
  show ?case
  proof (cases "d < maxRetryDelay")
    case True
    with Suc.IH[of "d * 2"] Suc.prems show ?thesis by (simp add: mult.assoc)
  next
    case False
    moreover have "(1::int) \<le> 2 ^ Suc n" by (rule one_le_power) simp
    then have "d * 1 \<le> d * 2 ^ Suc n" using Suc.prems by (intro mult_left_mono) simp_all
    ultimately show ?thesis by (simp add: min_def)
  qed
qed simp

text \<open>The delay before the next attempt of a failing step is 2 s after the first failure, doubles with
  every further one and is capped at one minute.\<close>

theorem retry_delay_doubles:
  "retry_delay n = min (60 * 1000000000) (2 * 1000000000 * 2 ^ nat (n - 1))"
  using delay_loop_min[of "2 * 1000000000" "nat (n - 1)"]
  by (simp add: retry_delay_def Let_def maxRetryDelay_def min_def split: if_splits)

definition condition_of :: "string \<Rightarrow> condition list \<Rightarrow> condition option" where
  "condition_of t cs = find (\<lambda>c. cond_type c = t) cs"

lemma condition_of_set:
  "condition_of t (set_condition now c cs) =
     (if t = cond_type c
      then Some (c\<lparr>cond_transition := (case condition_of t cs of
             Some x \<Rightarrow> if cond_status x = cond_status c then cond_transition x else now | None \<Rightarrow> now)\<rparr>)
      else condition_of t cs)"
  by (induction cs) (auto simp: condition_of_def)

lemma set_condition_types:
  "map cond_type (set_condition now c cs) =
     (if cond_type c \<in> cond_type ` set cs then map cond_type cs else map cond_type cs @ [cond_type c])"
  by (induction cs) auto

text \<open>\<open>setRun\<close> writes the phase and a Ready condition that agrees with it: true exactly for a ready run,
  with the phase as its reason, a transition time that moves only when the truth value changes, every
  other condition untouched and no type listed twice; the completion time is set exactly in a final phase.\<close>

theorem set_run_correct:
  "rs_phase (set_run now phase m gen st) = phase \<and>
   condition_of t (rs_conditions (set_run now phase m gen st)) =
     (if t = ConditionReady
      then Some \<lparr>cond_type = ConditionReady, cond_status = phase = RunReady, cond_reason = phase, cond_message = m,
             cond_generation = gen,
             cond_transition = (case condition_of ConditionReady (rs_conditions st) of
                Some x \<Rightarrow> if cond_status x = (phase = RunReady) then cond_transition x else now | None \<Rightarrow> now)\<rparr>
      else condition_of t (rs_conditions st)) \<and>
   distinct (map cond_type (rs_conditions (set_run now phase m gen st))) = distinct (map cond_type (rs_conditions st)) \<and>
   (rs_completed_at (set_run now phase m gen st) = None) =
     (phase \<notin> {RunReady, RunFailed, RunRolledBack, RunRollbackFailed})"
  by (auto simp: set_run_def condition_of_set set_condition_types split: option.splits)

section \<open>One step instance\<close>

text \<open>The phases of a step.\<close>

inductive phase_move :: "step_phase \<Rightarrow> step_phase \<Rightarrow> bool" where
  start: "phase_move StepPending StepRunning"
| finish: "phase_move StepRunning StepSucceeded"
| give_up: "phase_move p StepFailed" if "p = StepPending \<or> p = StepRunning"
| retry: "phase_move StepFailed StepPending"
| undo: "phase_move p StepRolledBack" if "p \<noteq> StepPending"

inductive_cases from_succeeded: "phase_move StepSucceeded p"
inductive_cases from_rolled_back: "phase_move StepRolledBack p"
inductive_simps to_pending: "phase_move p StepPending"
inductive_simps to_succeeded: "phase_move p StepSucceeded"

lemma succeeded_stays: "phase_move\<^sup>*\<^sup>* StepSucceeded p \<Longrightarrow> p = StepSucceeded \<or> p = StepRolledBack"
  by (induction rule: rtranclp_induct) (auto elim: from_succeeded from_rolled_back)

lemma run_moves:
  "phase_move\<^sup>*\<^sup>* StepPending StepRunning" "phase_move\<^sup>*\<^sup>* StepPending StepFailed"
  "phase_move\<^sup>*\<^sup>* StepPending StepSucceeded" "phase_move\<^sup>*\<^sup>* StepRunning StepFailed"
  "phase_move\<^sup>*\<^sup>* StepRunning StepSucceeded" "phase_move\<^sup>*\<^sup>* StepFailed StepPending"
  using phase_move.intros by (blast intro: rtranclp.rtrancl_into_rtrancl)+

text \<open>A step instance that is recorded as succeeded has the outputs its type declares.\<close>

definition outputs_ok :: "step_instance \<Rightarrow> step_status \<Rightarrow> bool" where
  "outputs_ok i s \<longleftrightarrow>
     (ss_phase s = StepSucceeded \<longrightarrow>
        (\<exists>step :: unit step. lookup_step (ws_type (pi_step i)) = Some step \<and> map fst (ss_outputs s) = sp_outputs step))"

text \<open>What one pass may do to the status of a step that has neither succeeded nor failed.\<close>

definition moved :: "step_instance \<Rightarrow> step_status \<Rightarrow> step_status \<Rightarrow> bool" where
  "moved i s s' \<longleftrightarrow>
     ss_key s' = ss_key s \<and> ss_name s' = ss_name s \<and> ss_item s' = ss_item s \<and>
     ss_phase s \<notin> {StepSucceeded, StepFailed} \<and> ss_phase s' \<in> {StepRunning, StepSucceeded, StepFailed} \<and>
     (0 \<le> ss_failures s \<and> ss_failures s < maxStepFailures \<longrightarrow> 0 \<le> ss_failures s' \<and> ss_failures s' < maxStepFailures) \<and>
     outputs_ok i s'"

lemma lookup_outputs:
  "lookup_step t = Some (s :: 'w step) \<Longrightarrow> \<exists>s' :: unit step. lookup_step t = Some s' \<and> sp_outputs s' = sp_outputs s"
  by (cases t) (auto simp: lookup_step_def registry_def step_defs waitBuildStep_def)

lemma record_result_cases:
  assumes "record_result now res s = (out, wait, s')"
  shows "ss_key s' = ss_key s \<and> ss_name s' = ss_name s \<and> ss_item s' = ss_item s \<and> ss_type s' = ss_type s \<and>
    (0 \<le> ss_failures s \<and> ss_failures s < maxStepFailures \<longrightarrow> 0 \<le> ss_failures s' \<and> ss_failures s' < maxStepFailures) \<and>
    ss_phase s' = (case out of OutcomeDone \<Rightarrow> StepSucceeded | OutcomeWait \<Rightarrow> ss_phase s | OutcomeFailed \<Rightarrow> StepFailed) \<and>
    (out = OutcomeDone \<longrightarrow> (\<exists>r. res = Inr r \<and> res_done r \<and> ss_outputs s' = res_outputs r))"
  using assms by (auto simp: record_result_def fail_step_def maxStepFailures_def Let_def split: sum.splits if_splits)

lemma started_sel [simp]:
  "ss_key (started now i s) = ss_key s" "ss_name (started now i s) = ss_name s" "ss_item (started now i s) = ss_item s"
  "ss_phase (started now i s) = StepRunning" "ss_failures (started now i s) = ss_failures s"
  "ss_type (started now i s) = ws_type (pi_step i)"
  by (simp_all add: started_def)

text \<open>The phase a step instance is left in tells the outcome.\<close>

lemma run_instance_moved:
  assumes "run_instance r e run i s values outputs w = ((out, wait, s'), w')"
    and "ss_phase s \<notin> {StepSucceeded, StepFailed}"
  shows "moved i s s' \<and>
    ss_phase s' = (case out of OutcomeDone \<Rightarrow> StepSucceeded | OutcomeWait \<Rightarrow> StepRunning | OutcomeFailed \<Rightarrow> StepFailed)"
proof (cases "lookup_step (ws_type (pi_step i)) :: 'a step option")
  case None
  with assms show ?thesis
    by (auto simp: run_instance_def Let_def fail_step_def moved_def outputs_ok_def maxStepFailures_def)
next
  case (Some step)
  show ?thesis
  proof (cases "resolve_map (ws_params (pi_step i)) (step_context e values outputs i)")
    case (Inl x)
    with Some assms show ?thesis
      by (auto simp: run_instance_def Let_def fail_step_def moved_def outputs_ok_def maxStepFailures_def)
  next
    case (Inr resolved)
    let ?s1 = "started (rc_now r w) i s"
    obtain res w1 where run: "sp_ensure step e (step_input run i resolved ?s1) w = (res, w1)" by fastforce
    with Some Inr assms(1) have rec: "record_result (rc_now r w) res ?s1 = (out, wait, s')"
      by (simp add: run_instance_def Let_def)
    note c = record_result_cases[OF rec]
    have "outputs_ok i s'"
    proof (cases "out = OutcomeDone")
      case True
      with c obtain rr where "res = Inr rr" "res_done rr" "ss_outputs s' = res_outputs rr" by blast
      moreover from this run registry_provides[of step e] lookup_in_registry[OF Some]
      have "map fst (res_outputs rr) = sp_outputs step" unfolding provides_def by blast
      ultimately show ?thesis using lookup_outputs[OF Some] by (auto simp: outputs_ok_def)
    next
      case False
      with c show ?thesis by (cases out) (auto simp: outputs_ok_def)
    qed
    with c assms(2) show ?thesis by (cases out) (auto simp: moved_def)
  qed
qed

section \<open>One pass over a run\<close>

text \<open>What a pass does to the steps: succeeded ones are left alone, each other one runs in turn, and the
  first that does not succeed ends the pass.\<close>

inductive ran :: "step_instance list \<Rightarrow> step_status list \<Rightarrow> step_status list \<Rightarrow> bool" where
  all_done: "ran [] [] []"
| skip: "ran (i # insts) (s # ss) (s # ss')" if "ss_phase s = StepSucceeded" "ran insts ss ss'"
| pass: "ran (i # insts) (s # ss) (s' # ss')" if "moved i s s'" "ss_phase s' = StepSucceeded" "ran insts ss ss'"
| stop: "ran (i # insts) (s # ss) (s' # ss)" if "moved i s s'" "ss_phase s' \<noteq> StepSucceeded"
| blocked: "ran (i # insts) (s # ss) (s # ss)" if "ss_phase s \<noteq> StepSucceeded"

text \<open>The phase of a run as a function of its steps.\<close>

definition phase_of :: "step_status list \<Rightarrow> run_phase" where
  "phase_of ss =
     (case find (\<lambda>s. ss_phase s \<noteq> StepSucceeded) ss of
        None \<Rightarrow> RunReady
      | Some s \<Rightarrow> if ss_phase s = StepFailed then RunFailed else RunRunning)"

lemma phase_of_simps [simp]:
  "phase_of [] = RunReady"
  "ss_phase s = StepSucceeded \<Longrightarrow> phase_of (s # ss) = phase_of ss"
  "ss_phase s = StepFailed \<Longrightarrow> phase_of (s # ss) = RunFailed"
  "ss_phase s \<noteq> StepSucceeded \<Longrightarrow> ss_phase s \<noteq> StepFailed \<Longrightarrow> phase_of (s # ss) = RunRunning"
  by (simp_all add: phase_of_def)

lemma phase_of_done [simp]: "\<forall>s\<in>set pre. ss_phase s = StepSucceeded \<Longrightarrow> phase_of (pre @ ss) = phase_of ss"
  by (induction pre) auto

lemma set_run_sel [simp]:
  "rs_phase (set_run now p m gen st) = p" "rs_steps (set_run now p m gen st) = rs_steps st"
  by (simp_all add: set_run_def)

lemma find_step_at:
  "rs_steps st = pre @ s # ss \<Longrightarrow> ss_key s \<notin> ss_key ` set pre \<Longrightarrow> find_step st (ss_key s) = Some s"
proof -
  assume st: "rs_steps st = pre @ s # ss" and key: "ss_key s \<notin> ss_key ` set pre"
  have "find (\<lambda>x. ss_key x = ss_key s) (pre @ s # ss) = Some s"
    using key by (induction pre) auto
  with st show ?thesis by (simp add: find_step_def)
qed

lemma put_step_at: "ss_key s = ss_key s' \<Longrightarrow> ss_key s \<notin> ss_key ` set pre \<Longrightarrow> put_step s' (pre @ s # ss) = pre @ s' # ss"
  by (induction pre) auto

lemma retry_delay_pos: "retry_delay n > 0"
  using delay_loop_min[of "2 * 1000000000" "nat (n - 1)"]
  by (simp add: retry_delay_def Let_def maxRetryDelay_def min_def split: if_splits)

lemma run_instance_waits:
  "run_instance r e run i s values outputs w = ((OutcomeWait, wait, s'), w') \<Longrightarrow> wait > 0"
  by (auto simp: run_instance_def record_result_def fail_step_def Let_def defaultPoll_def retry_delay_pos
      split: option.splits sum.splits prod.splits if_splits)

text \<open>What holds of the result of the loop.\<close>

definition pass_result ::
  "step_instance list \<Rightarrow> step_status list \<Rightarrow> step_status list \<Rightarrow> (err + time \<times> run_status) \<times> 'w \<Rightarrow> bool" where
  "pass_result insts pre ss x \<longleftrightarrow>
     (\<exists>wait st' w' ss'. x = (Inr (wait, st'), w') \<and> rs_steps st' = pre @ ss' \<and> ran insts ss ss' \<and>
        rs_phase st' = phase_of ss' \<and> (wait > 0) = (rs_phase st' = RunRunning))"

lemma pass_resultI:
  "ran insts ss ss' \<Longrightarrow> phase = phase_of ss' \<Longrightarrow> (wait > 0) = (phase = RunRunning) \<Longrightarrow> rs_steps st = pre @ ss' \<Longrightarrow>
   pass_result insts pre ss (Inr (wait, set_run now phase m gen st), w')"
  by (auto simp: pass_result_def)

lemma pass_result_later:
  "pass_result insts (pre @ [s']) ss x \<Longrightarrow> ss_phase s' = StepSucceeded \<Longrightarrow> s' = s \<or> moved i s s' \<Longrightarrow>
   pass_result (i # insts) pre (s # ss) x"
  unfolding pass_result_def by (fastforce intro: ran.skip ran.pass)

lemma advance_loop_result:
  assumes "distinct (map ss_key (pre @ ss))" "map ss_key ss = map pi_key insts" "rs_steps st = pre @ ss"
  shows "pass_result insts pre ss (advance_loop r run values e outputs insts st w)"
  using assms
proof (induction insts arbitrary: pre ss st e outputs w)
  case Nil
  then show ?case by (auto intro!: pass_resultI ran.intros)
next
  case (Cons i insts)
  then obtain s ss1 where ss: "ss = s # ss1" "ss_key s = pi_key i" "map ss_key ss1 = map pi_key insts"
    by (cases ss) auto
  have key: "ss_key s \<notin> ss_key ` set pre" using Cons.prems(1) ss by auto
  have fs: "find_step st (pi_key i) = Some s" using find_step_at[OF _ key] Cons.prems(3) ss by simp
  have later: "pass_result (i # insts) pre ss (advance_loop r run values e' outputs' insts st' w1)"
    if "ss_phase s' = StepSucceeded" "s' = s \<or> moved i s s'" "rs_steps st' = pre @ s' # ss1" for s' st' e' outputs' w1
  proof -
    have "ss_key s' = ss_key s" using that(2) by (auto simp: moved_def)
    with Cons.prems(1) ss(1) have "distinct (map ss_key ((pre @ [s']) @ ss1))" by auto
    from Cons.IH[OF this ss(3)] that(3)
    have "pass_result insts (pre @ [s']) ss1 (advance_loop r run values e' outputs' insts st' w1)" by simp
    from pass_result_later[OF this that(1,2)] ss(1) show ?thesis by simp
  qed
  consider (succ) "ss_phase s = StepSucceeded" | (fail) "ss_phase s = StepFailed"
    | (todo) "ss_phase s \<notin> {StepSucceeded, StepFailed}" by auto
  then show ?case
  proof cases
    case succ
    then show ?thesis using fs later[of s st] Cons.prems(3) ss by (simp add: Let_def)
  next
    case fail
    then show ?thesis using fs Cons.prems(3) ss
      by (auto simp: Let_def intro!: pass_resultI ran.blocked)
  next
    case todo
    obtain x w1 where env: "get_env r e w = (x, w1)" by fastforce
    show ?thesis
    proof (cases x)
      case (Inl x)
      with env todo fs Cons.prems(3) ss show ?thesis
        by (auto simp: Let_def envRetryInterval_def intro!: pass_resultI ran.blocked)
    next
      case (Inr e1)
      obtain out wait s' w2 where ri: "run_instance r e1 (run_name run) i s values outputs w1 = ((out, wait, s'), w2)"
        by (metis prod.collapse)
      from run_instance_moved[OF ri] todo have m: "moved i s s'" and
        p: "ss_phase s' = (case out of OutcomeDone \<Rightarrow> StepSucceeded | OutcomeWait \<Rightarrow> StepRunning | OutcomeFailed \<Rightarrow> StepFailed)"
        by auto
      from m key Cons.prems(3) ss(1) have put: "put_step s' (rs_steps st) = pre @ s' # ss1"
        by (simp add: put_step_at moved_def)
      note step = env Inr ri put todo fs
      show ?thesis
      proof (cases out)
        case OutcomeDone
        with step m p later[of s' "st\<lparr>rs_steps := pre @ s' # ss1\<rparr>"] show ?thesis by (simp add: Let_def)
      next
        case OutcomeWait
        with step m p run_instance_waits ri ss(1) show ?thesis
          by (auto simp: Let_def intro!: pass_resultI ran.stop)
      next
        case OutcomeFailed
        with step m p ss(1) show ?thesis
          by (auto simp: Let_def intro!: pass_resultI ran.stop)
      qed
    qed
  qed
qed

lemma ran_keys: "ran insts ss ss' \<Longrightarrow> map ss_key ss' = map ss_key ss"
  by (induction rule: ran.induct) (auto simp: moved_def)

lemma known_steps_key: "map_of (known_steps ss) k = Some s \<Longrightarrow> ss_key s = k"
proof -
  have "map_of (foldl (\<lambda>m s. assoc_set (ss_key s) s m) m ss) k = Some s \<Longrightarrow>
      (\<forall>k s. map_of m k = Some s \<longrightarrow> ss_key s = k) \<Longrightarrow> ss_key s = k" for m
    by (induction ss arbitrary: m) (auto split: if_splits)
  then show "map_of (known_steps ss) k = Some s \<Longrightarrow> ss_key s = k" by (simp add: known_steps_def)
qed

lemma reset_step_key [simp]: "ss_key (reset_step s) = ss_key s"
  by (simp add: reset_step_def)

lemma sync_keys: "map ss_key (rs_steps (sync_steps insts st)) = map pi_key insts"
  by (auto simp: sync_steps_def new_step_status_def dest: known_steps_key split: option.splits)

lemma begin_keys [simp]: "map ss_key (rs_steps (begin_status now gen insts retry st)) = map pi_key insts"
  using sync_keys[of insts "st\<lparr>rs_generation := gen\<rparr>"]
  by (simp add: begin_status_def Let_def reset_failed_def comp_def)

text \<open>C3: a pass of \<open>advance\<close> over a plan with distinct keys always returns: it never fails and never
  meets a missing step status, whatever the upstream services, the environment factory and the old status
  are. It leaves succeeded steps alone, runs the others in order and stops at the first that does not
  succeed; the phase of the run is then a function of its steps, and it asks to be called again exactly
  while the run is running.\<close>

theorem advance_correct:
  assumes "distinct (map pi_key insts)"
  shows "\<exists>wait st w'. advance r run insts vals retry w = (Inr (wait, st), w') \<and>
     map ss_key (rs_steps st) = map pi_key insts \<and>
     ran insts (rs_steps (begin_status (rc_now r w) (run_generation run) insts retry (run_status run))) (rs_steps st) \<and>
     rs_phase st = phase_of (rs_steps st) \<and> (wait > 0) = (rs_phase st = RunRunning)"
proof -
  let ?b = "begin_status (rc_now r w) (run_generation run) insts retry (run_status run)"
  have d: "distinct (map ss_key ([] @ rs_steps ?b))" using assms begin_keys by (simp only: append_Nil)
  have "pass_result insts [] (rs_steps ?b) (advance_loop r run vals None [] insts ?b w)"
    by (rule advance_loop_result[OF d begin_keys]) simp
  then obtain wait st w' where r: "advance_loop r run vals None [] insts ?b w = (Inr (wait, st), w')"
    "ran insts (rs_steps ?b) (rs_steps st)" "rs_phase st = phase_of (rs_steps st)" "(wait > 0) = (rs_phase st = RunRunning)"
    by (auto simp: pass_result_def)
  from ran_keys[OF r(2)] have "map ss_key (rs_steps st) = map pi_key insts" by simp
  with r show ?thesis unfolding advance_def by (intro exI conjI)
qed

section \<open>The status of a run\<close>

text \<open>Succeeded steps first, then at most one that has begun, then only pending ones.\<close>

fun in_order :: "step_status list \<Rightarrow> bool" where
  "in_order [] = True"
| "in_order (s # ss) = (if ss_phase s = StepSucceeded then in_order ss else \<forall>x\<in>set ss. ss_phase x = StepPending)"

definition failures_ok :: "step_status \<Rightarrow> bool" where
  "failures_ok s \<longleftrightarrow> 0 \<le> ss_failures s \<and> ss_failures s < maxStepFailures"

text \<open>The steps of a status fit a plan; no step is recorded before the first pass.\<close>

definition fits_plan :: "step_instance list \<Rightarrow> step_status list \<Rightarrow> bool" where
  "fits_plan insts ss \<longleftrightarrow>
     map ss_key ss = map pi_key insts \<and> list_all2 outputs_ok insts ss \<and> in_order ss \<and> (\<forall>s\<in>set ss. failures_ok s)"

lemma pending_in_order: "\<forall>x\<in>set ss. ss_phase x = StepPending \<Longrightarrow> in_order ss"
  by (cases ss) auto

lemma ran_in_order: "ran insts ss ss' \<Longrightarrow> in_order ss \<Longrightarrow> in_order ss'"
proof (induction rule: ran.induct)
  case (pass i s s' insts ss ss')
  then have "ss_phase s \<noteq> StepSucceeded" by (simp add: moved_def)
  with pass show ?case by (simp add: pending_in_order)
next
  case (stop i s s' insts ss)
  then have "ss_phase s \<noteq> StepSucceeded" by (simp add: moved_def)
  with stop show ?case by simp
qed simp_all

lemma ran_outputs: "ran insts ss ss' \<Longrightarrow> list_all2 outputs_ok insts ss \<Longrightarrow> list_all2 outputs_ok insts ss'"
  by (induction rule: ran.induct) (simp_all add: moved_def)

lemma moved_failures: "moved i s s' \<Longrightarrow> failures_ok s \<Longrightarrow> failures_ok s'"
  by (simp add: moved_def failures_ok_def)

lemma ran_failures: "ran insts ss ss' \<Longrightarrow> \<forall>s\<in>set ss. failures_ok s \<Longrightarrow> \<forall>s\<in>set ss'. failures_ok s"
  by (induction rule: ran.induct) (auto dest: moved_failures)

lemma find_key: "distinct (map ss_key ss) \<Longrightarrow> s \<in> set ss \<Longrightarrow> find (\<lambda>x. ss_key x = ss_key s) ss = Some s"
  by (induction ss) (auto simp: rev_image_eqI)

lemma find_no_key: "k \<notin> ss_key ` set ss \<Longrightarrow> find (\<lambda>x. ss_key x = k) ss = None"
  by (induction ss) auto

lemma known_steps_id:
  assumes "distinct (map ss_key ss)" "s \<in> set ss"
  shows "map_of (known_steps ss) (ss_key s) = Some s"
proof -
  have "distinct (map ss_key ss) \<Longrightarrow> map_of (foldl (\<lambda>m s. assoc_set (ss_key s) s m) m ss) k =
      (case find (\<lambda>s. ss_key s = k) ss of Some s \<Rightarrow> Some s | None \<Rightarrow> map_of m k)" for m k
    by (induction ss arbitrary: m) (auto simp: find_no_key split: option.splits)
  with assms find_key[OF assms] show ?thesis by (simp add: known_steps_def)
qed

lemma sync_same:
  assumes "map ss_key (rs_steps st) = map pi_key insts" "distinct (map pi_key insts)"
  shows "rs_steps (sync_steps insts st) = rs_steps st"
proof (rule nth_equalityI)
  show len: "length (rs_steps (sync_steps insts st)) = length (rs_steps st)"
    using arg_cong[OF assms(1), of length] by (simp add: sync_steps_def)
  fix n assume "n < length (rs_steps (sync_steps insts st))"
  then have n: "n < length (rs_steps st)" "n < length insts" using len by (simp_all add: sync_steps_def)
  then have "pi_key (insts ! n) = ss_key (rs_steps st ! n)" using arg_cong[OF assms(1), of "\<lambda>l. l ! n"] by simp
  with known_steps_id[of "rs_steps st" "rs_steps st ! n"] assms n
  show "rs_steps (sync_steps insts st) ! n = rs_steps st ! n" by (simp add: sync_steps_def)
qed

lemma reset_fits:
  "list_all2 outputs_ok insts ss \<Longrightarrow> list_all2 outputs_ok insts (map reset_step ss)"
  "in_order ss \<Longrightarrow> in_order (map reset_step ss)"
  "\<forall>s\<in>set ss. failures_ok s \<Longrightarrow> \<forall>s\<in>set (map reset_step ss). failures_ok s"
  by (auto simp: list_all2_conv_all_nth outputs_ok_def reset_step_def failures_ok_def maxStepFailures_def)
    (induction ss rule: in_order.induct, auto simp: reset_step_def)

lemma new_fits:
  "list_all2 outputs_ok insts (map new_step_status insts) \<and> in_order (map new_step_status insts) \<and>
   (\<forall>s\<in>set (map new_step_status insts). failures_ok s)"
proof -
  have "in_order (map new_step_status insts)"
    by (cases insts) (auto simp: new_step_status_def)
  then show ?thesis
    by (auto simp: list_all2_conv_all_nth outputs_ok_def failures_ok_def maxStepFailures_def new_step_status_def)
qed

lemma begin_fits:
  assumes "rs_steps st = [] \<or> fits_plan insts (rs_steps st)" "distinct (map pi_key insts)"
  shows "fits_plan insts (rs_steps (begin_status now gen insts retry st))"
proof -
  let ?ss = "rs_steps (sync_steps insts (st\<lparr>rs_generation := gen\<rparr>))"
  have "list_all2 outputs_ok insts ?ss \<and> in_order ?ss \<and> (\<forall>s\<in>set ?ss. failures_ok s)"
  proof (cases "rs_steps st = []")
    case True
    then have "?ss = map new_step_status insts" by (simp add: sync_steps_def known_steps_def)
    then show ?thesis using new_fits by simp
  next
    case False
    with assms sync_same[of "st\<lparr>rs_generation := gen\<rparr>" insts] show ?thesis by (simp add: fits_plan_def)
  qed
  with reset_fits(1)[of insts ?ss] reset_fits(2,3)[of ?ss] show ?thesis unfolding fits_plan_def begin_keys
    by (simp add: begin_status_def Let_def reset_failed_def)
qed

text \<open>C2: every pass keeps the recorded steps consistent with the plan: one status per instance, in plan
  order; succeeded steps first, then at most one that has begun, then only pending ones, so no step runs
  before all steps before it succeeded; every succeeded step holds exactly the outputs its type declares;
  and no step carries ten or more failures, because the tenth fails it.\<close>

theorem advance_keeps_plan:
  assumes "distinct (map pi_key insts)"
    and "rs_steps (run_status run) = [] \<or> fits_plan insts (rs_steps (run_status run))"
    and "advance r run insts vals retry w = (Inr (wait, st), w')"
  shows "fits_plan insts (rs_steps st)"
proof -
  let ?b = "begin_status (rc_now r w) (run_generation run) insts retry (run_status run)"
  have d: "distinct (map ss_key ([] @ rs_steps ?b))" using assms(1) begin_keys by (simp only: append_Nil)
  have "pass_result insts [] (rs_steps ?b) (advance_loop r run vals None [] insts ?b w)"
    by (rule advance_loop_result[OF d begin_keys]) simp
  with assms(3) have ran: "ran insts (rs_steps ?b) (rs_steps st)" by (auto simp: pass_result_def advance_def)
  with ran_in_order[OF ran] ran_outputs[OF ran] ran_failures[OF ran] ran_keys[OF ran] begin_fits[OF assms(2,1)] show ?thesis
    unfolding fits_plan_def by simp
qed

section \<open>A checked definition in a run\<close>

text \<open>The outputs \<open>advance\<close> has collected when it reaches an instance, from the instances before it.\<close>

definition collected :: "step_instance list \<Rightarrow> step_status list \<Rightarrow> (string \<times> smap) list" where
  "collected insts ss = foldl (\<lambda>acc (i, s). add_outputs i s acc) [] (zip insts ss)"

lemma collected_snoc:
  "length insts = length ss \<Longrightarrow> collected (insts @ [i]) (ss @ [s]) = add_outputs i s (collected insts ss)"
  by (simp add: collected_def)

text \<open>In a plan the key of an instance that is not of a forEach is the name of its step.\<close>

definition named :: "step_instance list \<Rightarrow> bool" where
  "named insts \<longleftrightarrow> distinct (map pi_key insts) \<and> (\<forall>i\<in>set insts. pi_item i = None \<longrightarrow> pi_key i = ws_name (pi_step i))"

lemma collected_complete:
  assumes "list_all2 outputs_ok insts ss" "\<forall>s\<in>set ss. ss_phase s = StepSucceeded" "named insts"
  shows "outputs_complete (collected insts ss) insts"
  using assms
proof (induction insts arbitrary: ss rule: rev_induct)
  case (snoc i insts)
  then obtain ss' s where ss: "ss = ss' @ [s]" "list_all2 outputs_ok insts ss'" "outputs_ok i s"
    by (auto simp: list_all2_append1 list_all2_Cons1)
  have len: "length insts = length ss'" using ss(2) by (rule list_all2_lengthD)
  have "ss_phase s = StepSucceeded" using snoc.prems(2) ss(1) by simp
  with ss(3) obtain step :: "unit step" where step: "lookup_step (ws_type (pi_step i)) = Some step"
    "map fst (ss_outputs s) = sp_outputs step" by (auto simp: outputs_ok_def)
  then have provided: "set (sp_outputs step) \<subseteq> fst ` set (ss_outputs s)" by (metis list.set_map subset_refl)
  have ih: "outputs_complete (collected insts ss') insts"
    using snoc ss by (intro snoc.IH) (auto simp: named_def)
  have other: "ws_name (pi_step j) \<noteq> ws_name (pi_step i)" if "j \<in> set insts" "pi_item j = None" "pi_item i = None" for j
    using snoc.prems(3) that by (auto simp: named_def image_iff)
  show ?case
    unfolding outputs_complete_def ss(1) collected_snoc[OF len]
    using ih step provided other by (auto simp: outputs_complete_def add_outputs_def)
qed (simp add: outputs_complete_def)

lemma expand_named: "expand spec vals = Inr insts \<Longrightarrow> named insts"
  using expand_keys_distinct[of spec vals insts]
  by (auto simp: named_def expand_iff instances_of_def item_instance_def split: if_splits sum.splits)

lemma named_append: "named (a @ b) \<Longrightarrow> named a"
  by (auto simp: named_def)

text \<open>C1: the static check is sound. In a plan made from a checked definition and resolved parameters,
  once the instances before an instance have succeeded (and so hold the outputs their types declare), the
  params of that instance resolve, except for references to a parameter without a value (optional and not
  given) or to a field its forEach item lacks; these always fail. No unknown name, no list parameter in a
  text, and no output of a later, unknown or forEach step can stop a run.\<close>

theorem checked_run_resolves:
  assumes "validate_definition gl spec = None"
    and "resolve_parameters gl (ds_parameters spec) given = Inr vals"
    and "expand spec vals = Inr (before @ i # rest)"
    and "list_all2 outputs_ok before ss" and "\<forall>s\<in>set ss. ss_phase s = StepSucceeded"
  shows "(\<exists>out. resolve_map (ws_params (pi_step i)) (step_context e vals (collected before ss) i) = Inr out) =
     params_available (step_context e vals (collected before ss) i) (ws_params (pi_step i))"
  using checked_instance_resolves[OF assms(1-3) collected_complete[OF assms(4,5)]]
    named_append[OF expand_named[OF assms(3)]] by blast

definition watch_status :: step_status where
  "watch_status = (new_step_status \<lparr>pi_key = ''watch'', pi_step = hd (ds_steps two_steps), pi_item = None, pi_item_fields = None\<rparr>)
     \<lparr>ss_phase := StepSucceeded, ss_outputs := [(''name'', ''a'')]\<rparr>"

theorem checked_run_witness:
  "\<exists>out. resolve_map (ws_params (ds_steps two_steps ! 1))
     (step_context (fake_env ''b'' pad_lib :: fake_world env) repo_values [(''watch'', [(''name'', ''a'')])]
        \<lparr>pi_key = ''wait'', pi_step = ds_steps two_steps ! 1, pi_item = None, pi_item_fields = None\<rparr>) = Inr out"
proof -
  have p: "parse ''${steps.watch.outputs.name}'' = Inr [SegRef \<lparr>r_kind = RefSteps, r_name = ''watch'', r_key = ''name'',
      r_filters = [], r_raw = ''steps.watch.outputs.name''\<rparr>]" by code_simp
  let ?i = "\<lparr>pi_key = ''watch'', pi_step = hd (ds_steps two_steps), pi_item = None, pi_item_fields = None\<rparr>"
  have ran: "list_all2 outputs_ok [?i] [watch_status]" "\<forall>s\<in>set [watch_status]. ss_phase s = StepSucceeded"
    and c: "collected [?i] [watch_status] = [(''watch'', [(''name'', ''a'')])]"
    by (simp_all add: outputs_ok_def watch_status_def two_steps_def lookup_step_def registry_def gitWatcherStep_def
        collected_def add_outputs_def)
  show ?thesis
    using checked_run_resolves[OF two_steps_valid two_steps_values two_steps_plan ran,
        of "fake_env ''b'' pad_lib :: fake_world env", unfolded c] p
    by (simp add: params_available_def two_steps_def get0_def available_def)
qed

section \<open>A pass in a concrete world\<close>

definition two_plan :: "step_instance list" where
  "two_plan = [\<lparr>pi_key = ''watch'', pi_step = hd (ds_steps two_steps), pi_item = None, pi_item_fields = None\<rparr>,
     \<lparr>pi_key = ''wait'', pi_step = ds_steps two_steps ! 1, pi_item = None, pi_item_fields = None\<rparr>]"

definition run_b :: wizard_run where
  "run_b = blank_run ''b'' ''two'' [(''repo'', RawJson (JStr ''a''))]"

lemma two_plan_keys: "distinct (map pi_key two_plan)"
  by (simp add: two_plan_def)

lemma run_b_new: "rs_steps (run_status run_b) = [] \<or> fits_plan two_plan (rs_steps (run_status run_b))"
  by (simp add: run_b_def blank_run_def blank_status_def)

abbreviation advance_b :: "sys \<Rightarrow> (err + time \<times> run_status) \<times> sys" where
  "advance_b \<equiv> advance (sys_reconciler ''b'' pad_lib) run_b two_plan repo_values False"

theorem advance_witness:
  "\<exists>wait st w'. advance_b (sys_of [run_b] []) = (Inr (wait, st), w') \<and> map ss_key (rs_steps st) = [''watch'', ''wait'']"
  using advance_correct[OF two_plan_keys, of "sys_reconciler ''b'' pad_lib" run_b repo_values False "sys_of [run_b] []"]
  by (auto simp: two_plan_def)

lemma advance_b_returns: "\<exists>wait st w'. advance_b w = (Inr (wait, st), w')"
proof -
  let ?b = "begin_status (rc_now (sys_reconciler ''b'' pad_lib) w) (run_generation run_b) two_plan False (run_status run_b)"
  have "distinct (map ss_key ([] @ rs_steps ?b))" using two_plan_keys begin_keys by (simp only: append_Nil)
  from advance_loop_result[OF this begin_keys] show ?thesis
    unfolding advance_def pass_result_def by (metis append_Nil)
qed

theorem advance_keeps_witness:
  "\<exists>wait st w'. advance_b (sys_of [run_b] []) = (Inr (wait, st), w') \<and> fits_plan two_plan (rs_steps st)"
proof -
  obtain wait st w' where r: "advance_b (sys_of [run_b] []) = (Inr (wait, st), w')" using advance_b_returns by blast
  from advance_keeps_plan[OF two_plan_keys run_b_new r] r show ?thesis by blast
qed

end
