(* ===== verification/ReconcileProps.thy ===== *)
theory ReconcileProps
  imports ControllerProps
begin

text \<open>
  Properties of \<open>Reconcile\<close>: the phases a run goes through, the rollback finalizer, and the number of
  times a failing step is tried.
\<close>

section \<open>The phases of a run\<close>

text \<open>Phases in which a run may still be provisioned, and those of its rollback.\<close>

definition provisioning :: "run_phase set" where
  "provisioning = {RunUnset, RunPending, RunRunning, RunReady, RunFailed}"

definition undoing :: "run_phase set" where
  "undoing = {RunRollingBack, RunRollbackFailed}"

inductive run_move :: "run_phase \<Rightarrow> run_phase \<Rightarrow> bool" where
  provision: "run_move p q" if "p \<in> provisioning" "q \<in> {RunRunning, RunReady, RunFailed}"
| begin_rollback: "run_move p RunRollingBack" if "p \<in> provisioning"
| rolled_back: "run_move p RunRolledBack" if "p \<in> undoing"
| rollback_fails: "run_move p RunRollbackFailed" if "p \<in> undoing"
| remark: "run_move p p" if "p \<in> insert RunRolledBack undoing"

inductive_cases from_rolled_back_run: "run_move RunRolledBack q"
inductive_simps run_move_simps: "run_move p q"

lemmas phase_sets = provisioning_def undoing_def

lemma rolled_back_final: "run_move\<^sup>*\<^sup>* RunRolledBack q \<Longrightarrow> q = RunRolledBack"
  by (induction rule: rtranclp_induct) (auto elim: from_rolled_back_run simp: phase_sets)

lemma undoing_never_provisions: "run_move\<^sup>*\<^sup>* p q \<Longrightarrow> p \<in> insert RunRolledBack undoing \<Longrightarrow> q \<in> insert RunRolledBack undoing"
  by (induction rule: rtranclp_induct) (auto simp: run_move_simps phase_sets)

text \<open>A status write that panics unless the machine allows it.\<close>

definition guard_status :: "'w run_api \<Rightarrow> 'w run_api" where
  "guard_status api = api\<lparr>ra_patch_status :=
     (\<lambda>old new. if run_move (rs_phase (run_status old)) (rs_phase (run_status new))
                then ra_patch_status api old new else io_fail (Panic ''illegal phase''))\<rparr>"

abbreviation guarded_rec :: "'w reconciler \<Rightarrow> 'w reconciler" where
  "guarded_rec r \<equiv> r\<lparr>rc_api := guard_status (rc_api r)\<rparr>"

text \<open>Only this reconciler writes statuses: the object a patch answers with has the status of the copy that
  was sent, and its name.\<close>

definition sole_writer :: "'w run_api \<Rightarrow> bool" where
  "sole_writer api \<longleftrightarrow>
     (\<forall>old new w run' w'. ra_patch api old new w = (Inr run', w') \<longrightarrow>
        run_status run' = run_status new \<and> run_name run' = run_name new) \<and>
     (\<forall>old new w run' w'. ra_patch_status api old new w = (Inr run', w') \<longrightarrow>
        run_status run' = run_status new \<and> run_name run' = run_name new)"

lemma guard_sel [simp]:
  "ra_get_run (guard_status api) = ra_get_run api" "ra_get_definition (guard_status api) = ra_get_definition api"
  "ra_patch (guard_status api) = ra_patch api"
  by (simp_all add: guard_status_def)

lemma guard_patch: "run_move (rs_phase (run_status old)) (rs_phase (run_status new)) \<Longrightarrow>
   ra_patch_status (guard_status api) old new = ra_patch_status api old new"
  by (simp add: guard_status_def)

lemma update_guarded:
  "run_move (rs_phase (run_status run)) (rs_phase (mutate (rc_now r w) (run_status run))) \<Longrightarrow>
   update_status (guarded_rec r) run mutate w = update_status r run mutate w"
  by (simp add: update_status_def Let_def guard_patch)

lemma sole_writerD:
  "sole_writer api \<Longrightarrow> ra_patch api old new w = (Inr run', w') \<Longrightarrow> run_status run' = run_status new"
  "sole_writer api \<Longrightarrow> ra_patch api old new w = (Inr run', w') \<Longrightarrow> run_name run' = run_name new"
  "sole_writer api \<Longrightarrow> ra_patch_status api old new w = (Inr run', w') \<Longrightarrow> run_status run' = run_status new"
  "sole_writer api \<Longrightarrow> ra_patch_status api old new w = (Inr run', w') \<Longrightarrow> run_name run' = run_name new"
  unfolding sole_writer_def by blast+

lemma update_name_status:
  assumes "sole_writer (rc_api r)" "update_status r run mutate w = (Inr run', w')"
  shows "run_name run' = run_name run \<and> run_status run' = mutate (rc_now r w) (run_status run)"
  using assms by (auto simp: update_status_def Let_def split: if_splits dest: sole_writerD)

text \<open>The environment and the clock are all a pass uses.\<close>

lemma run_instance_api: "run_instance (r\<lparr>rc_api := a\<rparr>) = run_instance r"
  by (intro ext) (simp add: run_instance_def)

lemma advance_loop_api: "advance_loop (r\<lparr>rc_api := a\<rparr>) run vals e outputs insts st w = advance_loop r run vals e outputs insts st w"
proof (induction insts arbitrary: e outputs st w)
  case (Cons i insts)
  have ge: "get_env (r\<lparr>rc_api := a\<rparr>) e = get_env r e" for e by (cases e) (simp_all add: get_env_def)
  show ?case
    by (auto simp: Let_def ge run_instance_api Cons.IH io_try_def split: option.splits prod.splits sum.splits run_outcome.splits)
qed simp

lemma advance_api: "advance (r\<lparr>rc_api := a\<rparr>) = advance r"
  by (intro ext) (simp add: advance_def advance_loop_api)

lemma advance_loop_phase:
  "advance_loop r run vals e outputs insts st w = (Inr (wait, st'), w') \<Longrightarrow> rs_phase st' \<in> {RunRunning, RunReady, RunFailed}"
proof (induction insts arbitrary: e outputs st w)
  case (Cons i insts)
  then show ?case
    by (auto simp: Let_def io_try_def split: option.splits prod.splits sum.splits run_outcome.splits if_splits)
qed auto

lemma io_bind_same: "f w = f' w \<Longrightarrow> (\<And>a w1. f w = (Inr a, w1) \<Longrightarrow> g a w1 = g' a w1) \<Longrightarrow> io_bind f g w = io_bind f' g' w"
  by (auto simp: io_bind_def split: prod.split sum.split)

lemma io_try_same: "f w = f' w \<Longrightarrow> (\<And>x w1. f w = (x, w1) \<Longrightarrow> g x w1 = g' x w1) \<Longrightarrow> io_try f g w = io_try f' g' w"
  by (auto simp: io_try_def split: prod.split)

lemma fail_run_guarded:
  "rs_phase (run_status run) \<in> provisioning \<Longrightarrow> fail_run (guarded_rec r) run m w = fail_run r run m w"
  unfolding fail_run_def by (rule io_bind_same) (simp_all add: update_guarded run_move_simps)

lemma apply_plan_guarded:
  assumes "rs_phase (run_status run) \<in> provisioning"
  shows "apply_plan (guarded_rec r) run insts vals w = apply_plan r run insts vals w"
proof -
  have legal: "run_move (rs_phase (run_status run)) (rs_phase st)"
    if "advance r run insts vals retry w = (Inr (wait, st), w1)" for retry wait st w1
    using provision[OF assms advance_loop_phase[OF that[unfolded advance_def]]] .
  show ?thesis
    unfolding apply_plan_def Let_def advance_api
    by (rule io_bind_same) (auto simp: guard_patch dest!: legal intro!: io_bind_same)
qed

lemma apply_definition_guarded:
  "rs_phase (run_status run) \<in> provisioning \<Longrightarrow>
   apply_definition (guarded_rec r) run w = apply_definition r run w"
  by (auto simp: apply_definition_def fail_run_guarded apply_plan_guarded split: option.splits sum.splits)

lemma rec_sel:
  "rc_lib (r\<lparr>rc_api := a\<rparr>) = rc_lib r" "rc_api (r\<lparr>rc_api := a\<rparr>) = a" "rc_envs (r\<lparr>rc_api := a\<rparr>) = rc_envs r"
  "rc_now (r\<lparr>rc_api := a\<rparr>) = rc_now r"
  by simp_all

lemma take_snapshot_guarded: "take_snapshot (guarded_rec r) = take_snapshot r"
  unfolding take_snapshot_def rec_sel guard_sel ..

lemma take_snapshot_status:
  assumes "sole_writer (rc_api r)" "take_snapshot r run w = (Inr (Inr run'), w')"
  shows "run_status run' = run_status run"
proof -
  have "triple (\<lambda>_. True) (take_snapshot r run) (\<lambda>x _. \<forall>run'. x = Inr run' \<longrightarrow> run_status run' = run_status run) (\<lambda>_ _. True)"
    unfolding take_snapshot_def Let_def
  proof (rule triple_try[where R="\<lambda>_ _. True" and F="\<lambda>_ _. True"])
    fix d
    have p: "triple (\<lambda>_. True) (ra_patch (rc_api r) run run2) (\<lambda>x _. run_status x = run_status run2) (\<lambda>_ _. True)" for run2
      by (rule tripleI) (auto dest: sole_writerD(1)[OF assms(1)])
    show "triple (\<lambda>_. True) (case Inr d of Inl x \<Rightarrow> if kube_not_found x then io_return (Inl (Fmt ''definition %q not found''
          [Lit (rp_definition_ref (run_spec run))])) else io_fail x
        | Inr def \<Rightarrow> (case validate_definition (rc_lib r) (wd_spec def) of
            Some x \<Rightarrow> io_return (Inl (Fmt ''definition %q is invalid: %v'' [Lit (rp_definition_ref (run_spec run)), err_text x]))
          | None \<Rightarrow> io_bind (ra_patch (rc_api r) run (run\<lparr>run_spec := (run_spec run)\<lparr>rp_snapshot := Some (wd_spec def),
                rp_definition_generation := wd_generation def\<rparr>\<rparr>)) (\<lambda>run'. io_return (Inr run'))))
        (\<lambda>x _. \<forall>run'. x = Inr run' \<longrightarrow> run_status run' = run_status run) (\<lambda>_ _. True)"
      by (auto split: option.splits intro!: triple_return triple_bind[OF p])
  qed (auto intro!: triple_intros simp: triple_def split: prod.splits sum.splits)
  from tripleD_ok[OF this TrueI assms(2)] show ?thesis by simp
qed

lemma reconcile_apply_guarded:
  assumes "sole_writer (rc_api r)"
  shows "reconcile_apply (guarded_rec r) run w = reconcile_apply r run w"
proof (cases "rs_phase (run_status run) \<in> set [RunRolledBack, RunRollingBack, RunRollbackFailed]")
  case True
  then show ?thesis unfolding reconcile_apply_def
    by (simp only: if_True) (rule io_bind_same, auto simp: run_move_simps phase_sets intro!: update_guarded)
next
  case False
  then have p: "rs_phase (run_status run) \<in> provisioning" by (cases "rs_phase (run_status run)") (auto simp: phase_sets)
  show ?thesis
  proof (cases "rp_snapshot (run_spec run) = None")
    case True
    with False show ?thesis unfolding reconcile_apply_def
      by (simp only: if_False if_True refl)
        (rule io_bind_same, auto simp: take_snapshot_guarded fail_run_guarded p apply_definition_guarded
           dest: take_snapshot_status[OF assms] split: sum.splits)
  next
    case False
    with \<open>rs_phase (run_status run) \<notin> _\<close> show ?thesis unfolding reconcile_apply_def
      by (simp only: if_False apply_definition_guarded[OF p])
  qed
qed

lemma undo_guarded:
  "rs_phase (run_status run) \<in> undoing \<Longrightarrow> undo_and_report (guarded_rec r) run w = undo_and_report r run w"
  unfolding undo_and_report_def rec_sel
  by (rule io_try_same, rule refl)
    (auto split: sum.splits intro!: io_bind_same simp: update_guarded run_move_simps phase_sets)

text \<open>Rolling back starts from any phase but the final one.\<close>

lemma rollback_of_guarded:
  assumes "sole_writer (rc_api r)" "rs_phase (run_status run) \<noteq> RunRolledBack"
  shows "rollback_of (guarded_rec r) run w = rollback_of r run w"
proof (cases "rs_phase (run_status run) \<in> undoing")
  case True
  then have "\<not> (rs_phase (run_status run) \<noteq> RunRollingBack \<and> rs_phase (run_status run) \<noteq> RunRollbackFailed)"
    by (auto simp: phase_sets)
  then show ?thesis unfolding rollback_of_def
    by (simp only: if_False) (rule io_bind_same, auto simp: undo_guarded undoing_def)
next
  case False
  then have p: "rs_phase (run_status run) \<in> provisioning"
    using assms(2) by (cases "rs_phase (run_status run)") (auto simp: phase_sets)
  then have c: "rs_phase (run_status run) \<noteq> RunRollingBack \<and> rs_phase (run_status run) \<noteq> RunRollbackFailed"
    by (auto simp: phase_sets)
  let ?m = "\<lambda>now. set_run now RunRollingBack (Lit []) (run_generation run)"
  have u: "update_status (guarded_rec r) run ?m w = update_status r run ?m w"
    by (rule update_guarded) (simp add: begin_rollback[OF p])
  have "undo_and_report (guarded_rec r) run1 w1 = undo_and_report r run1 w1"
    if "update_status r run ?m w = (Inr run1, w1)" for run1 w1
    using update_name_status[OF assms(1) that] by (intro undo_guarded) (simp add: undoing_def)
  with u c show ?thesis unfolding rollback_of_def
    by (simp only: if_True simp_thms) (rule io_bind_same, simp_all only: u)
qed

lemma reconcile_delete_guarded:
  assumes "sole_writer (rc_api r)"
  shows "reconcile_delete (guarded_rec r) run w = reconcile_delete r run w"
  unfolding reconcile_delete_def rec_sel guard_sel
  by (auto intro!: io_bind_same simp: rollback_of_guarded[OF assms])

lemma reconcile_live_guarded:
  assumes "sole_writer (rc_api r)"
  shows "reconcile_live (guarded_rec r) run w = reconcile_live r run w"
  unfolding reconcile_live_def
  by (auto intro!: io_bind_same simp: rollback_of_guarded[OF assms] reconcile_apply_guarded[OF assms])

text \<open>C5: every status write of \<open>Reconcile\<close> moves the phase of the run along the machine above, in every
  branch: a guard that panics on any other write changes nothing. So a rollback starts from any phase
  before it, ends in rolled back or is reported as failed and retried, and once it has begun no pass
  provisions again; a rolled back run stays rolled back.\<close>

theorem run_phase_machine:
  assumes "sole_writer (rc_api r)"
  shows "reconcile (r\<lparr>rc_api := guard_status (rc_api r)\<rparr>) name w = reconcile r name w"
  unfolding reconcile_def rec_sel guard_sel
  by (rule io_try_same, rule refl)
    (auto split: sum.splits intro!: io_bind_same simp: reconcile_delete_guarded[OF assms] reconcile_live_guarded[OF assms])

text \<open>A server that answers every write with the object it was sent.\<close>

definition echo_api :: "wizard_run \<Rightarrow> 'w run_api" where
  "echo_api run = \<lparr>ra_get_run = (\<lambda>_. io_return run), ra_get_definition = (\<lambda>_. io_fail (KubeError KubeNotFound)),
     ra_patch = (\<lambda>_. io_return), ra_patch_status = (\<lambda>_. io_return)\<rparr>"

lemma echo_sole_writer: "sole_writer (echo_api run)"
  by (simp add: sole_writer_def echo_api_def)

definition echo_reconciler :: "wizard_run \<Rightarrow> fake_world reconciler" where
  "echo_reconciler run = \<lparr>rc_api = echo_api run, rc_envs = io_return (fake_env ''b'' pad_lib), rc_now = (\<lambda>_. 0), rc_lib = pad_lib\<rparr>"

theorem run_phase_witness:
  "reconcile ((echo_reconciler run_b)\<lparr>rc_api := guard_status (rc_api (echo_reconciler run_b))\<rparr>) ''b'' empty_world =
   reconcile (echo_reconciler run_b) ''b'' empty_world"
  by (rule run_phase_machine) (simp add: echo_reconciler_def echo_sole_writer)

section \<open>The rollback finalizer\<close>

text \<open>No environment in which the rollback of this run succeeds.\<close>

definition rollback_stuck :: "'w reconciler \<Rightarrow> string \<Rightarrow> bool" where
  "rollback_stuck r n \<longleftrightarrow> (\<forall>w0 e w1 w2. rc_envs r w0 = (Inr e, w1) \<longrightarrow> rollback_run e n w1 \<noteq> (Inr (), w2))"

lemma undo_stuck:
  assumes "rollback_stuck r (run_name run)" "undo_and_report r run w = (Inr (wait, done, run1), w')"
  shows "wait = rollbackRetryInterval \<and> \<not> done"
proof -
  obtain x w1 where x: "io_bind (rc_envs r) (\<lambda>e. rollback_run e (run_name run)) w = (x, w1)" by fastforce
  have "x \<noteq> Inr ()"
    using x assms(1) by (auto simp: rollback_stuck_def io_bind_def split: prod.splits sum.splits)
  then obtain y where "x = Inl y" by (cases x) auto
  with x assms(2) show ?thesis
    by (auto simp: undo_and_report_def elim!: io_bind_cases)
qed

lemma rollback_of_stuck:
  assumes "sole_writer (rc_api r)" "rollback_stuck r (run_name run)" "rollback_of r run w = (Inr (wait, done, run1), w')"
  shows "wait = rollbackRetryInterval \<and> \<not> done"
  using assms(3) unfolding rollback_of_def
  by (elim io_bind_cases) (auto split: if_splits dest: update_name_status[OF assms(1)] intro!: undo_stuck[rotated] simp: assms(2))

text \<open>C6: a run that is being deleted keeps its finalizer until its rollback has succeeded. As long as no
  rollback succeeds, the patch that removes the finalizer is never sent (replacing it by any other call
  changes nothing), and a pass that does not fail asks for another attempt half a minute later.\<close>

theorem finalizer_outlives_rollback:
  assumes "sole_writer (rc_api r)" and "rollback_stuck r (run_name run)"
    and "rs_phase (run_status run) \<noteq> RunRolledBack" and "FinalizerRollback \<in> set (run_finalizers run)"
  shows "reconcile_delete (r\<lparr>rc_api := (rc_api r)\<lparr>ra_patch := p\<rparr>\<rparr>) run w = reconcile_delete r run w \<and>
    (case fst (reconcile_delete r run w) of Inl x \<Rightarrow> True | Inr wait \<Rightarrow> wait = 30 * 1000000000)"
proof -
  let ?r = "r\<lparr>rc_api := (rc_api r)\<lparr>ra_patch := p\<rparr>\<rparr>"
  have u: "update_status ?r run m = update_status r run m" for run m
    by (intro ext) (simp add: update_status_def Let_def)
  have undo: "undo_and_report ?r = undo_and_report r"
    unfolding undo_and_report_def rec_sel u ..
  have roll: "rollback_of ?r run = rollback_of r run"
    unfolding rollback_of_def u undo ..
  obtain x w1 where x: "rollback_of r run w = (x, w1)" by fastforce
  show ?thesis
  proof (cases x)
    case (Inr y)
    with x rollback_of_stuck[OF assms(1,2)] obtain run1 where "x = Inr (rollbackRetryInterval, False, run1)"
      by (cases y) blast
    with x roll assms(3,4) show ?thesis by (simp add: reconcile_delete_def rollbackRetryInterval_def)
  qed (use x roll assms(3,4) in \<open>simp add: reconcile_delete_def\<close>)
qed

text \<open>A run under deletion while the instance config cannot be read.\<close>

definition deleted_b :: wizard_run where
  "deleted_b = run_b\<lparr>run_deletion := Some 0, run_finalizers := [FinalizerRollback]\<rparr>"

definition no_config :: "fake_world reconciler" where
  "no_config = (echo_reconciler deleted_b)\<lparr>rc_envs := refusing\<rparr>"

theorem finalizer_witness:
  "fst (reconcile_delete no_config deleted_b empty_world) = Inr (30 * 1000000000)"
proof -
  have s: "rollback_stuck no_config (run_name deleted_b)" "sole_writer (rc_api no_config)"
    by (simp_all add: rollback_stuck_def no_config_def refusing_def echo_reconciler_def echo_sole_writer)
  have r: "rs_phase (run_status deleted_b) \<noteq> RunRolledBack" "FinalizerRollback \<in> set (run_finalizers deleted_b)"
    by (simp_all add: deleted_b_def run_b_def blank_run_def blank_status_def)
  obtain t w' where "reconcile_delete no_config deleted_b empty_world = (Inr t, w')"
    by (simp add: reconcile_delete_def no_config_def echo_reconciler_def echo_api_def rollback_of_def undo_and_report_def
        deleted_b_def run_b_def blank_run_def blank_status_def update_status_def Let_def refusing_def run_apply cong: run_cong)
  with finalizer_outlives_rollback[OF s(2,1) r, of "\<lambda>_. io_return" empty_world] show ?thesis by simp
qed

end
