(* ===== verification/ApiRuns.thy ===== *)
theory ApiRuns
  imports ApiServer
begin

text \<open>
  Package \<open>internal/apiserver\<close>, files \<open>runs.go\<close> and \<open>router.go\<close>: creating, listing, retrying, rolling
  back and deleting runs, and the routes of the API.
\<close>

section \<open>Views\<close>

definition defaultListLimit :: int where "defaultListLimit = 100"
definition maxListLimit :: int where "maxListLimit = 500"
definition maxBulkTargets :: nat where "maxBulkTargets = 200"

definition run_phase_of :: "wizard_run \<Rightarrow> run_phase" where
  "run_phase_of run = (if rs_phase (run_status run) = RunUnset then RunPending else rs_phase (run_status run))"

fun run_phase_str :: "run_phase \<Rightarrow> string" where
  "run_phase_str RunUnset = []"
| "run_phase_str RunPending = ''Pending''"
| "run_phase_str RunRunning = ''Running''"
| "run_phase_str RunReady = ''Ready''"
| "run_phase_str RunFailed = ''Failed''"
| "run_phase_str RunRollingBack = ''RollingBack''"
| "run_phase_str RunRolledBack = ''RolledBack''"
| "run_phase_str RunRollbackFailed = ''RollbackFailed''"

definition view_run :: "wizard_run \<Rightarrow> run_view" where
  "view_run run =
     \<lparr>rv_name = run_name run, rv_definition = rp_definition_ref (run_spec run),
      rv_desired = (if rp_desired (run_spec run) = DesiredUnset then DesiredApplied else rp_desired (run_spec run)),
      rv_parameters = rp_parameters (run_spec run), rv_created_by = rp_created_by (run_spec run),
      rv_created_by_email = rp_created_by_email (run_spec run), rv_created_at = run_created run,
      rv_deleting = run_deletion run \<noteq> None, rv_status = (run_status run)\<lparr>rs_phase := run_phase_of run\<rparr>\<rparr>"

section \<open>Creating a run\<close>

record create_request =
  cr_definition :: string
  cr_name :: string
  cr_parameters :: "(string \<times> raw_json) list"

text \<open>Decoding with \<open>DisallowUnknownFields\<close>: members in order, \<open>None\<close> once something is wrong.\<close>

fun create_member :: "create_request \<Rightarrow> string \<times> json \<Rightarrow> create_request option" where
  "create_member c (k, j) =
     (if fold_name k = ''definition'' then
        (case j of JStr s \<Rightarrow> Some (c\<lparr>cr_definition := s\<rparr>) | JNull \<Rightarrow> Some c | _ \<Rightarrow> None)
      else if fold_name k = ''name'' then
        (case j of JStr s \<Rightarrow> Some (c\<lparr>cr_name := s\<rparr>) | JNull \<Rightarrow> Some c | _ \<Rightarrow> None)
      else if fold_name k = ''parameters'' then
        (case j of
           JObj m \<Rightarrow> Some (c\<lparr>cr_parameters := foldl (\<lambda>ps (k, v). assoc_set k (RawJson v) ps) (cr_parameters c) m\<rparr>)
         | JNull \<Rightarrow> Some (c\<lparr>cr_parameters := []\<rparr>)
         | _ \<Rightarrow> None)
      else None)"

definition decode_members :: "('r \<Rightarrow> string \<times> json \<Rightarrow> 'r option) \<Rightarrow> 'r \<Rightarrow> raw_json \<Rightarrow> 'r option" where
  "decode_members f zero b =
     (case b of
        RawJson (JObj kvs) \<Rightarrow> foldl (\<lambda>acc kv. case acc of None \<Rightarrow> None | Some r \<Rightarrow> f r kv) (Some zero) kvs
      | RawJson JNull \<Rightarrow> Some zero
      | _ \<Rightarrow> None)"

definition decode_body :: "('r \<Rightarrow> string \<times> json \<Rightarrow> 'r option) \<Rightarrow> 'r \<Rightarrow> request \<Rightarrow> ('w, response, 'r) io" where
  "decode_body f zero rq =
     (case decode_members f zero (rq_body rq) of
        None \<Rightarrow> io_fail (write_error 400 (Lit ''invalid JSON body'') [])
      | Some r \<Rightarrow> io_return r)"

text \<open>\<open>validation.IsDNS1123Subdomain\<close> (apimachinery): labels of lower case letters, digits and dashes.\<close>

definition dns_part :: "string \<Rightarrow> bool" where
  "dns_part s \<longleftrightarrow>
     s \<noteq> [] \<and> list_all (\<lambda>c. is_alnum c \<or> c = CHR ''-'') s \<and> is_alnum (hd s) \<and> is_alnum (last s)"

definition dns_subdomain :: "string \<Rightarrow> bool" where
  "dns_subdomain s \<longleftrightarrow> length s \<le> 253 \<and> list_all dns_part (split_on CHR ''.'' s)"

text \<open>The params of a step that resolve from the run's parameters, and how many there should be.\<close>

definition early_keys :: "step_instance \<Rightarrow> string list" where
  "early_keys i = filter (validates_early (ws_type (pi_step i))) (sorted_keys (ws_params (pi_step i)))"

definition early_context :: "(string \<times> val) list \<Rightarrow> step_instance \<Rightarrow> tctx" where
  "early_context values i =
     \<lparr>c_params = values, c_config = [], c_steps = [], c_item = pi_item i, c_item_fields = pi_item_fields i\<rparr>"

fun early_params :: "step_instance \<Rightarrow> tctx \<Rightarrow> string list \<Rightarrow> smap" where
  "early_params i c [] = []"
| "early_params i c (k # ks) =
     (case resolve (get0 (ws_params (pi_step i)) k) c of
        Inr v \<Rightarrow> (k, v) # early_params i c ks
      | Inl x \<Rightarrow> if ws_type (pi_step i) = StepApp then (k, Pending) # early_params i c ks else early_params i c ks)"

definition instance_problems :: "go_lib \<Rightarrow> (string \<times> val) list \<Rightarrow> step_instance \<Rightarrow> err list" where
  "instance_problems gl values i =
     (let t = ws_type (pi_step i); resolved = early_params i (early_context values i) (early_keys i);
          wrap = (\<lambda>p. case p of None \<Rightarrow> [] | Some x \<Rightarrow> [Wrapf (Fmt ''step %q'' [Lit (pi_key i)]) x])
      in if length resolved < length (early_keys i) then []
         else wrap (validate_external_auth_params t resolved) @ wrap (validate_app_params gl t resolved))"

definition validate_step_params :: "go_lib \<Rightarrow> step_instance list \<Rightarrow> (string \<times> val) list \<Rightarrow> err option" where
  "validate_step_params gl insts values = errors_join (concat (map (instance_problems gl values) insts))"

text \<open>The checks of the parameters: everything the reconciler would find out before its first step.\<close>

definition check_run :: "go_lib \<Rightarrow> definition_spec \<Rightarrow> (string \<times> raw_json) list \<Rightarrow> err option" where
  "check_run gl spec supplied =
     (case resolve_parameters gl (ds_parameters spec) supplied of
        Inl x \<Rightarrow> Some x
      | Inr values \<Rightarrow>
          (case expand spec values of
             Inl x \<Rightarrow> Some x
           | Inr insts \<Rightarrow> validate_step_params gl insts values))"

definition no_status :: run_status where
  "no_status = \<lparr>rs_phase = RunUnset, rs_message = Lit [], rs_generation = 0, rs_steps = [], rs_conditions = [],
     rs_started_at = None, rs_completed_at = None\<rparr>"

definition new_run :: "string \<Rightarrow> wizard_definition \<Rightarrow> (string \<times> raw_json) list \<Rightarrow> caller \<Rightarrow> wizard_run" where
  "new_run name def supplied who =
     \<lparr>run_name = name, run_generation = 0, run_created = 0, run_deletion = None, run_finalizers = [],
      run_annotations = [], run_labels = [],
      run_spec = \<lparr>rp_definition_ref = wd_name def, rp_snapshot = Some (wd_spec def),
        rp_definition_generation = wd_generation def, rp_parameters = supplied, rp_created_by = ca_user_id who,
        rp_created_by_email = ca_user_email who, rp_desired = DesiredApplied\<rparr>,
      run_status = no_status\<rparr>"

definition create_error :: "err \<Rightarrow> response" where
  "create_error x =
     (if kube_exists x then write_error 409 (Lit ''a run with this name already exists'') [] else internal_error x)"

definition create_run :: "'w server \<Rightarrow> request \<Rightarrow> caller \<Rightarrow> 'w handler" where
  "create_run s rq who =
     io_bind (decode_body create_member \<lparr>cr_definition = [], cr_name = [], cr_parameters = []\<rparr> rq) (\<lambda>req.
       if cr_definition req = [] then io_fail (write_error 400 (Lit ''definition is required'') [])
       else if cr_name req \<noteq> [] \<and> \<not> dns_subdomain (cr_name req) then io_fail (write_error 400 (Lit ''invalid run name'') [])
       else io_bind (load_definition s (cr_definition req)) (\<lambda>def.
         case validate_definition (sv_lib s) (wd_spec def) of
           Some x \<Rightarrow> io_fail (write_error 422 (Lit ''the definition is invalid'') (error_details x))
         | None \<Rightarrow>
             (case check_run (sv_lib s) (wd_spec def) (cr_parameters req) of
                Some x \<Rightarrow> io_fail (write_error 422 (Lit ''invalid parameters'') (error_details x))
              | None \<Rightarrow>
                  io_bind (or_respond create_error (ac_create_run (sv_client s)
                      (if cr_name req \<noteq> [] then [] else wd_name def @ ''-'')
                      (new_run (cr_name req) def (cr_parameters req) who))) (\<lambda>run.
                    io_return \<lparr>rp_status = 201, rp_headers = [(''Location'', ''/api/v1/runs/'' @ run_name run),
                        (''Content-Type'', ''application/json'')], rp_body = RunBody (view_run run)\<rparr>))))"

section \<open>Listing and reading\<close>

definition runListSpec :: list_spec where
  "runListSpec = \<lparr>lsp_sort_keys = [''created'', ''name'', ''phase'', ''definition''], lsp_default_sort = ''-created'',
     lsp_default_limit = defaultListLimit, lsp_max_limit = maxListLimit\<rparr>"

definition runFields :: "wizard_run list_fields" where
  "runFields = \<lparr>lf_name = run_name, lf_time = (\<lambda>r. Some (run_created r)), lf_labels = run_labels,
     lf_sort = [(''created'', \<lambda>a b. cmp_time (run_created a) (run_created b)),
       (''name'', \<lambda>a b. cmp_str (run_name a) (run_name b)),
       (''phase'', \<lambda>a b. cmp_str (run_phase_str (run_phase_of a)) (run_phase_str (run_phase_of b))),
       (''definition'', \<lambda>a b. cmp_str (rp_definition_ref (run_spec a)) (rp_definition_ref (run_spec b)))]\<rparr>"

definition run_selected :: "query \<Rightarrow> wizard_run \<Rightarrow> bool" where
  "run_selected q run \<longleftrightarrow>
     set_match (query_values q ''definition'') (rp_definition_ref (run_spec run)) \<and>
     set_match (query_values q ''phase'') (run_phase_str (run_phase_of run)) \<and>
     (query_get q ''createdBy'' = [] \<or> rp_created_by (run_spec run) = query_get q ''createdBy'')"

definition list_all_runs :: "'w server \<Rightarrow> ('w, response, wizard_run list) io" where
  "list_all_runs s = or_respond internal_error (ac_list_runs (sv_client s))"

definition list_runs :: "'w server \<Rightarrow> request \<Rightarrow> 'w handler" where
  "list_runs s rq = (\<lambda>w.
     case parse_list (sv_lib s) (sv_list_lib s) (rq_query rq) runListSpec (sv_now s w) of
       Inl x \<Rightarrow> (Inl (write_error 400 (err_text x) []), w)
     | Inr p \<Rightarrow>
         io_bind (list_all_runs s) (\<lambda>runs.
           case list_apply (sv_list_lib s) p runFields (run_selected (rq_query rq)) runs of
             Inl x \<Rightarrow> io_fail (internal_error x)
           | Inr pg \<Rightarrow> io_return (write_json 200
               (RunPageBody (map view_run (pg_items pg)) (pg_total pg) (pg_continue pg)))) w)"

definition load_run :: "'w server \<Rightarrow> string \<Rightarrow> ('w, response, wizard_run) io" where
  "load_run s name = or_respond (not_found_or_internal ''run'') (ac_get_run (sv_client s) name)"

definition get_run :: "'w server \<Rightarrow> string \<Rightarrow> 'w handler" where
  "get_run s name = io_bind (load_run s name) (\<lambda>run. io_return (write_json 200 (RunBody (view_run run))))"

section \<open>Retrying, rolling back, deleting\<close>

definition with_annotation :: "string \<Rightarrow> string \<Rightarrow> wizard_run \<Rightarrow> wizard_run" where
  "with_annotation k v run = run\<lparr>run_annotations := assoc_set k v (run_annotations run)\<rparr>"

definition retry_run :: "'w server \<Rightarrow> string \<Rightarrow> 'w handler" where
  "retry_run s name =
     io_bind (load_run s name) (\<lambda>run.
       if rs_phase (run_status run) \<noteq> RunFailed then
         io_fail (write_error 409 (Lit (''only a failed run can be retried; this run is '' @ run_phase_str (run_phase_of run))) [])
       else io_bind (or_respond (not_found_or_internal ''run'')
                       (ac_patch_run (sv_client s) run (with_annotation AnnotationRetry ''true'' run))) (\<lambda>run1.
              io_return (write_json 202 (RunBody (view_run run1)))))"

definition rolled_back :: "wizard_run \<Rightarrow> wizard_run" where
  "rolled_back run = run\<lparr>run_spec := (run_spec run)\<lparr>rp_desired := DesiredRolledBack\<rparr>\<rparr>"

definition request_rollback :: "'w server \<Rightarrow> wizard_run \<Rightarrow> ('w, wizard_run) call" where
  "request_rollback s run =
     (if rp_desired (run_spec run) = DesiredRolledBack then io_return run
      else ac_patch_run (sv_client s) run (rolled_back run))"

definition rollback_handler :: "'w server \<Rightarrow> string \<Rightarrow> 'w handler" where
  "rollback_handler s name =
     io_bind (load_run s name) (\<lambda>run.
       io_bind (or_respond (not_found_or_internal ''run'') (request_rollback s run)) (\<lambda>run1.
         io_return (write_json (if rp_desired (run_spec run) = DesiredRolledBack then 200 else 202) (RunBody (view_run run1)))))"

definition delete_run :: "'w server \<Rightarrow> string \<Rightarrow> 'w handler" where
  "delete_run s name =
     io_bind (load_run s name) (\<lambda>run.
       io_bind (\<lambda>w. case ac_delete_run (sv_client s) run w of
                      (Inl x, w') \<Rightarrow> if kube_not_found x then (Inr (), w') else (Inl (internal_error x), w')
                    | (Inr u, w') \<Rightarrow> (Inr (), w')) (\<lambda>_.
         (\<lambda>w. case ac_get_run (sv_client s) (run_name run) w of
                (Inl x, w') \<Rightarrow> (if kube_not_found x then Inr \<lparr>rp_status = 204, rp_headers = [], rp_body = NoBody\<rparr>
                               else Inl (internal_error x), w')
              | (Inr current, w') \<Rightarrow> (Inr (write_json 202 (RunBody (view_run current))), w'))))"

section \<open>Bulk rollback\<close>

record bulk_request =
  br_names :: "string list"
  br_definition :: string

fun bulk_member :: "bulk_request \<Rightarrow> string \<times> json \<Rightarrow> bulk_request option" where
  "bulk_member b (k, j) =
     (if fold_name k = ''names'' then map_option (\<lambda>ns. b\<lparr>br_names := ns\<rparr>) (as_slice json_to_string j)
      else if fold_name k = ''definition'' then
        (case j of JStr s \<Rightarrow> Some (b\<lparr>br_definition := s\<rparr>) | JNull \<Rightarrow> Some b | _ \<Rightarrow> None)
      else None)"

text \<open>The runs selected by name, and the names that select none; a name counts once.\<close>

fun bulk_names ::
  "bulk_request \<Rightarrow> wizard_run list \<Rightarrow> string list \<Rightarrow> string list \<Rightarrow> wizard_run list \<times> (string \<times> string) list" where
  "bulk_names b runs seen [] = ([], [])"
| "bulk_names b runs seen (n # ns) =
     (if n \<in> set seen then bulk_names b runs seen ns
      else (case bulk_names b runs (n # seen) ns of (ts, fs) \<Rightarrow>
        (case map_of (rev (map (\<lambda>r. (run_name r, r)) runs)) n of
           None \<Rightarrow> (ts, (n, ''run not found'') # fs)
         | Some run \<Rightarrow>
             if br_definition b \<noteq> [] \<and> rp_definition_ref (run_spec run) \<noteq> br_definition b
             then (ts, (n, ''run belongs to a different definition'') # fs)
             else (run # ts, fs))))"

definition bulk_targets :: "bulk_request \<Rightarrow> wizard_run list \<Rightarrow> wizard_run list \<times> (string \<times> string) list" where
  "bulk_targets b runs =
     (if br_names b \<noteq> [] then bulk_names b runs [] (br_names b)
      else (filter (\<lambda>r. rp_definition_ref (run_spec r) = br_definition b) runs, []))"

fun bulk_rollback_all :: "'w server \<Rightarrow> wizard_run list \<Rightarrow> 'w \<Rightarrow> (string list \<times> (string \<times> string) list) \<times> 'w" where
  "bulk_rollback_all s [] w = (([], []), w)"
| "bulk_rollback_all s (run # runs) w =
     (case request_rollback s run w of (r, w1) \<Rightarrow>
        (case bulk_rollback_all s runs w1 of ((acc, failed), w2) \<Rightarrow>
           ((case r of Inl x \<Rightarrow> (acc, (run_name run, ''could not request the rollback'') # failed)
             | Inr _ \<Rightarrow> (run_name run # acc, failed)), w2)))"

definition bulk_rollback :: "'w server \<Rightarrow> request \<Rightarrow> 'w handler" where
  "bulk_rollback s rq =
     io_bind (decode_body bulk_member \<lparr>br_names = [], br_definition = []\<rparr> rq) (\<lambda>b.
       if br_names b = [] \<and> br_definition b = [] then
         io_fail (write_error 400 (Lit ''give names and/or a definition to select runs; refusing to roll back everything'') [])
       else io_bind (list_all_runs s) (\<lambda>runs.
         case bulk_targets b runs of (targets, failed) \<Rightarrow>
           if length targets > maxBulkTargets then
             io_fail (write_error 400 (Lit (''the selection matches '' @ format_nat (length targets) @
               '' runs; narrow it to at most '' @ format_nat maxBulkTargets)) [])
           else (\<lambda>w. case bulk_rollback_all s (sort_by (\<lambda>a b. run_name a \<le> run_name b) targets) w of
                   ((acc, failed'), w') \<Rightarrow>
                     (Inr (write_json (if acc \<noteq> [] then 202 else 200) (BulkBody acc (failed @ failed'))), w'))))"

section \<open>Routes\<close>

text \<open>The methods of a path below \<open>/api/v1\<close>; a path parameter is never empty.\<close>

definition routes :: "'w server \<Rightarrow> request \<Rightarrow> caller \<Rightarrow> string list \<Rightarrow> (string \<times> 'w handler) list" where
  "routes s rq who path =
     (if path = [''definitions''] then [(''GET'', list_definitions s)]
      else if path = [''runs''] then [(''GET'', list_runs s rq), (''POST'', create_run s rq who)]
      else if path = [''resources''] then [(''GET'', list_resources s rq)]
      else (case path of
          [col, name] \<Rightarrow>
            if name = [] then []
            else if col = ''definitions'' then [(''GET'', get_definition s name)]
            else if col = ''runs'' then
              (if name = ''bulk-rollback'' then [(''POST'', bulk_rollback s rq)] else []) @
              [(''GET'', get_run s name), (''DELETE'', delete_run s name)]
            else []
        | [col, name, act] \<Rightarrow>
            if col \<noteq> ''runs'' \<or> name = [] then []
            else if act = ''retry'' then [(''POST'', retry_run s name)]
            else if act = ''rollback'' then [(''POST'', rollback_handler s name)]
            else []
        | _ \<Rightarrow> []))"

definition dispatch :: "string \<Rightarrow> (string \<times> 'w handler) list \<Rightarrow> 'w handler" where
  "dispatch m rs =
     (case map_of rs m of
        Some h \<Rightarrow> h
      | None \<Rightarrow> io_return \<lparr>rp_status = (if rs = [] then 404 else 405), rp_headers = [], rp_body = NoBody\<rparr>)"

definition healthz :: response where
  "healthz = write_json 200 (StatusBody ''ok'')"

definition handle :: "'w server \<Rightarrow> request \<Rightarrow> 'w handler" where
  "handle s rq =
     (case rq_path rq of
        a # b # path \<Rightarrow>
          if a = ''api'' \<and> b = ''v1'' then
            io_bind (auth_caller s rq) (\<lambda>who. dispatch (rq_method rq) (routes s rq who path))
          else dispatch (rq_method rq) []
      | path \<Rightarrow> dispatch (rq_method rq)
          (if path = [''healthz''] \<or> path = [''readyz''] then [(''GET'', io_return healthz)] else []))"

section \<open>Middleware\<close>

text \<open>
  A handler answers or panics (\<open>Inl\<close>, with the text of the panic). The access log is part of the world here;
  a line has the method, the path and the status. Request IDs, latencies and the loggers in the
  context of a request are in \<open>RequestLog\<close>.
\<close>

record log_line =
  ll_method :: string
  ll_path :: "string list"
  ll_status :: int

type_synonym 'w http_handler = "request \<Rightarrow> ('w \<times> log_line list, string, response) io"

definition loggingMiddleware :: "'w http_handler \<Rightarrow> 'w http_handler" where
  "loggingMiddleware nxt rq = (\<lambda>s.
     case nxt rq s of
       (Inl panic, s') \<Rightarrow> (Inl panic, s')
     | (Inr p, (w, log)) \<Rightarrow>
         (Inr p, (w, log @ [\<lparr>ll_method = rq_method rq, ll_path = rq_path rq, ll_status = rp_status p\<rparr>])))"

definition recoveryMiddleware :: "'w http_handler \<Rightarrow> 'w http_handler" where
  "recoveryMiddleware nxt rq = (\<lambda>s.
     case nxt rq s of
       (Inl panic, s') \<Rightarrow> (Inr (write_error 500 (Lit ''internal server error'') []), s')
     | (Inr p, s') \<Rightarrow> (Inr p, s'))"

text \<open>\<open>Handler\<close>: the routes behind both, the recovery outermost.\<close>

definition router :: "'w server \<Rightarrow> 'w http_handler" where
  "router s rq = (\<lambda>(w, log). case handle s rq w of (Inl p, w') \<Rightarrow> (Inr p, (w', log)) | (Inr p, w') \<Rightarrow> (Inr p, (w', log)))"

definition Handler :: "'w server \<Rightarrow> 'w http_handler" where
  "Handler s = recoveryMiddleware (loggingMiddleware (router s))"

lemma Handler_logs:
  "Handler s rq (w, log) =
     (case handle s rq w of (r, w') \<Rightarrow>
        let p = (case r of Inl p \<Rightarrow> p | Inr p \<Rightarrow> p)
        in (Inr p, (w', log @ [\<lparr>ll_method = rq_method rq, ll_path = rq_path rq, ll_status = rp_status p\<rparr>])))"
  by (auto simp: Handler_def recoveryMiddleware_def loggingMiddleware_def router_def Let_def split: prod.split sum.split)

text \<open>A panic becomes a response, and goes past the access log.\<close>

lemma panic_unlogged:
  "nxt rq (w, log) = (Inl panic, (w', log)) \<Longrightarrow>
   recoveryMiddleware (loggingMiddleware nxt) rq (w, log) = (Inr (write_error 500 (Lit ''internal server error'') []), (w', log))"
  by (simp add: recoveryMiddleware_def loggingMiddleware_def)

text \<open>What the client gets, for requests that only the routes answer.\<close>

definition serve :: "'w server \<Rightarrow> request \<Rightarrow> 'w \<Rightarrow> response \<times> 'w" where
  "serve s rq w = (case handle s rq w of (Inl p, w') \<Rightarrow> (p, w') | (Inr p, w') \<Rightarrow> (p, w'))"

end
