(* ===== verification/RollbackProps.thy ===== *)
theory RollbackProps
  imports Rollback StepsProps
begin

text \<open>
  Rollback over a store that satisfies the ledger's contract, with the ledger operations of other
  runs in between: what one release does to the run's reference and to the references of others,
  carried through the collected calls of a whole rollback, and the order of the releases.
\<close>

section \<open>Collecting errors\<close>

lemma io_collect_Cons:
  assumes "io_collect (f # fs) w = (errs, w')"
  obtains r w1 es where "f w = (r, w1)" "io_collect fs w1 = (es, w')" "errs = (case r of Inl x \<Rightarrow> x # es | Inr _ \<Rightarrow> es)"
  using assms by (auto split: prod.splits)

lemma io_collect_keeps:
  assumes "\<And>f. f \<in> set fs \<Longrightarrow> keeps I f" "I w" "io_collect fs w = (errs, w')"
  shows "I w'"
  using assms
proof (induction fs arbitrary: w errs)
  case (Cons f fs)
  obtain r w1 es where c: "f w = (r, w1)" "io_collect fs w1 = (es, w')" using Cons.prems(3) by (rule io_collect_Cons)
  have "I w1" using keeps_snd[of I f w] Cons.prems(1,2) c(1) by auto
  with Cons.IH[OF Cons.prems(1) _ c(2)] show ?case by simp
qed simp

lemma io_collect_snd: "(\<And>f. f \<in> set fs \<Longrightarrow> keeps I f) \<Longrightarrow> I w \<Longrightarrow> I (snd (io_collect fs w))"
  using io_collect_keeps[of fs I w "fst (io_collect fs w)" "snd (io_collect fs w)"] by simp

text \<open>When nothing failed, each of the calls established what it establishes on success.\<close>

lemma io_collect_all:
  assumes "\<And>g. g \<in> set fs \<Longrightarrow> keeps I g" "\<And>g. g \<in> set fs \<Longrightarrow> keeps H g"
    and "f \<in> set fs" "triple I f (\<lambda>_. H) (\<lambda>_ _. True)" "I w" "io_collect fs w = ([], w')"
  shows "H w'"
  using assms
proof (induction fs arbitrary: w)
  case (Cons g fs)
  obtain r w1 es where c: "g w = (r, w1)" "io_collect fs w1 = (es, w')" "[] = (case r of Inl x \<Rightarrow> x # es | Inr _ \<Rightarrow> es)"
    using Cons.prems(6) by (rule io_collect_Cons)
  then obtain u where r: "r = Inr u" "es = []" by (cases r) auto
  have i: "I w1" using keeps_snd[of I g w] Cons.prems(1,5) c(1) by auto
  show ?case
  proof (cases "f \<in> set fs")
    case True
    show ?thesis
      by (rule Cons.IH) (use Cons.prems(1,2,4) True i c(2) r(2) in auto)
  next
    case False
    then have "f = g" using Cons.prems(3) by simp
    then have h: "H w1" using tripleD_ok[OF Cons.prems(4,5)] c(1) r(1) by blast
    show ?thesis by (rule io_collect_keeps[of fs H w1 es]) (use Cons.prems(2) h c(2) in auto)
  qed
qed simp

text \<open>Calls that agree while an invariant holds are interchangeable.\<close>

lemma io_collect_cong:
  assumes "list_all2 (\<lambda>f g. keeps I f \<and> (\<forall>w. I w \<longrightarrow> f w = g w)) fs gs" "I w"
  shows "io_collect fs w = io_collect gs w"
  using assms
proof (induction fs gs arbitrary: w rule: list_all2_induct)
  case (Cons f fs g gs)
  obtain r w1 where f: "f w = (r, w1)" by fastforce
  have "I w1" using keeps_snd[of I f w] Cons.hyps(1) Cons.prems f by auto
  then show ?case using f Cons.hyps(1) Cons.prems Cons.IH by auto
qed simp

lemma joined_ok: "joined errs = Inr () \<longleftrightarrow> errs = []" "Inr () = joined errs \<longleftrightarrow> errs = []"
  by (cases errs) (auto simp: joined_def errors_join_def split: option.splits if_splits)

lemma rollback_run_ok:
  assumes sw: "SweepTerminating e w = (x, w1)" and r: "rollback_run e run w = (Inr (), w')"
  obtains entries w2 where "ledger_list (env_ledger e) w1 = (Inr entries, w2)" "x = Inr ()"
    "io_collect (releases_of e run entries) w2 = ([], w')"
proof -
  obtain y w2 where li: "ledger_list (env_ledger e) w1 = (y, w2)" by fastforce
  have eq: "rollback_run e run w = (case y of
      Inl z \<Rightarrow> (joined ((case x of Inl z \<Rightarrow> [z] | Inr _ \<Rightarrow> []) @ [Wrapf (Lit ''list ledger'') z]), w2)
    | Inr entries \<Rightarrow> (case io_collect (releases_of e run entries) w2 of
        (errs, w') \<Rightarrow> (joined ((case x of Inl z \<Rightarrow> [z] | Inr _ \<Rightarrow> []) @ errs), w')))"
    unfolding rollback_run_def io_try_def[of "SweepTerminating e"] sw prod.case Let_def io_try_def[of "ledger_list (env_ledger e)"] li
    by (cases y) simp_all
  show thesis
  proof (cases y)
    case (Inl z)
    with eq r show thesis by (simp add: joined_ok)
  next
    case (Inr entries)
    obtain errs w3 where c: "io_collect (releases_of e run entries) w2 = (errs, w3)" by fastforce
    from eq r have "x = Inr ()" "errs = []" "w3 = w'" by (cases x; simp add: Inr c joined_ok)+
    with li Inr c that show thesis by simp
  qed
qed

text \<open>A release and what follows it.\<close>

lemma releaseAndDelete_run:
  assumes "ledger_release (env_ledger e) k ref w = (r, w1)"
  shows "releaseAndDelete e k ref w = (case r of
      Inl x \<Rightarrow> (Inl (Wrapf (Fmt ''release %s %q'' [Lit (lk_kind k), Lit (lk_name k)]) x), w1)
    | Inr (out, entry) \<Rightarrow>
        if out \<noteq> OutcomeDelete then (Inr (), w1)
        else (case entry of None \<Rightarrow> (Inl (Panic ''nil entry''), w1)
         | Some en \<Rightarrow> io_bind (io_wrap (Wrapf (Fmt ''delete %s %q'' [Lit (lk_kind k), Lit (lk_name k)])) (deleteUpstream e en))
             (\<lambda>_. io_wrap (Wrapf (Fmt ''finish %s %q'' [Lit (lk_kind k), Lit (lk_name k)])) (ledger_finish (env_ledger e) k)) w1))"
proof -
  have wrap: "io_wrap h (ledger_release (env_ledger e) k ref) w = (case r of Inl x \<Rightarrow> (Inl (h x), w1) | Inr a \<Rightarrow> (Inr a, w1))" for h
    by (simp add: io_wrap_def assms)
  show ?thesis
    unfolding releaseAndDelete_def io_bind_def[of "io_wrap _ (ledger_release _ _ _)"] wrap
    by (cases r) (auto split: option.splits)
qed

section \<open>References through a rollback\<close>

lemma remove1_same: "remove1 x xs = xs \<Longrightarrow> x \<notin> set xs"
  by (induction xs) (auto split: if_splits)

text \<open>Nobody else adds references of a run.\<close>

definition others_add_none ::
  "('w \<Rightarrow> string \<Rightarrow> wizard_resource option) \<Rightarrow> ('w \<Rightarrow> 'w \<Rightarrow> bool) \<Rightarrow> string \<Rightarrow> bool" where
  "others_add_none view env run \<longleftrightarrow>
     (\<forall>n ref w w'. rr_run ref = run \<longrightarrow> env w w' \<longrightarrow> \<not> holds view n ref w \<longrightarrow> \<not> holds view n ref w')"

lemma entry_key_key_of: "entry_key en = key_of en"
  by (simp add: entry_key_def key_of_def)

lemma holds_Some: "view w n = Some en \<Longrightarrow> holds view n ref w \<longleftrightarrow> ref \<in> set (wr_refs en)"
  by (simp add: holds_def)

lemma holds_cases: "holds view n ref w \<Longrightarrow> \<exists>en. view w n = Some en \<and> ref \<in> set (wr_refs en)"
  by (auto simp: holds_def split: option.splits)

lemma ledger_okD: "ledger_ok gl view w \<Longrightarrow> view w n = Some e \<Longrightarrow> entry_ok gl n e"
  by (simp add: ledger_ok_def)

context ledger_store
begin

abbreviation lib_ok :: "'w \<Rightarrow> bool" where
  "lib_ok \<equiv> ledger_ok (lg_lib l) view"

text \<open>A reference that is not there stays away: through what others do, and through one of our changes
  unless it adds the reference.\<close>

lemma unheld_env: "others_add_none view env (rr_run ref) \<Longrightarrow> env w w' \<Longrightarrow> \<not> holds view n ref w \<Longrightarrow> \<not> holds view n ref w'"
  by (simp add: others_add_none_def)

lemma unheld_act:
  assumes o: "others_add_none view env (rr_run ref)" and a: "act w w' n x y" and "\<not> holds view m ref w"
    and new: "\<And>e'. y = Some e' \<Longrightarrow> m = n \<Longrightarrow> ref \<in> set (wr_refs e') \<Longrightarrow> \<exists>e. x = Some e \<and> ref \<in> set (wr_refs e)"
  shows "\<not> holds view m ref w'"
proof -
  obtain w1 w2 where w: "env w w1" "view w1 n = x" "view w2 = (view w1)(n := y)" "env w2 w'"
    using a unfolding acts_def by blast
  have "\<not> holds view m ref w1" using unheld_env[OF o w(1)] assms(3) .
  then have "\<not> holds view m ref w2"
    using w(2,3) new by (auto simp: holds_def split: option.splits if_splits)
  with unheld_env[OF o w(4)] show ?thesis .
qed

lemma unheld_dropped:
  assumes "others_add_none view env (rr_run ref)" "dropped k r w w' e" "\<not> holds view m ref w"
  shows "\<not> holds view m ref w'"
  using assms(2) unfolding dropped_def
proof (elim disjE exE conjE)
  assume "rd w w' (nm k) (Some e)"
  then show ?thesis using unheld_env[OF assms(1) rd_env assms(3)] by blast
next
  fix e0 assume s: "same_object (release_entry r e0) e" and a: "act w w' (nm k) (Some e0) (Some e)"
  show ?thesis
    by (rule unheld_act[OF assms(1) a assms(3)]) (use same_object_fields(2)[OF s] in \<open>auto dest: notin_set_remove1 set_remove1_subset[THEN subsetD]\<close>)
qed

lemma unheld_removed:
  assumes "others_add_none view env (rr_run ref)" "removed k w w'" "\<not> holds view m ref w"
  shows "\<not> holds view m ref w'"
  using assms(2) unheld_env[OF assms(1) rd_env assms(3)] unheld_act[OF assms(1) _ assms(3)]
  unfolding removed_def by blast

lemma unheld_release: "others_add_none view env (rr_run ref) \<Longrightarrow> keeps (\<lambda>w. \<not> holds view m ref w) (ledger_release l k r)"
proof (rule tripleI)
  fix w a w' assume o: "others_add_none view env (rr_run ref)" and u: "\<not> holds view m ref w"
    and "ledger_release l k r w = (Inr a, w')"
  from release_spec[OF this(3)] have "release_result k r w a w'" by simp
  then show "\<not> holds view m ref w'"
    unfolding release_result_def using u
    by (auto split: prod.splits outcome.splits dest: unheld_dropped[OF o] unheld_removed[OF o] unheld_env[OF o rd_env])
next
  fix w x w' assume o: "others_add_none view env (rr_run ref)" and u: "\<not> holds view m ref w"
    and "ledger_release l k r w = (Inl x, w')"
  from release_spec[OF this(3)] have "release_failed k r w w'" by simp
  then show "\<not> holds view m ref w'"
    unfolding release_failed_def using u
    by (auto dest: unheld_dropped[OF o] unheld_removed[OF o] unheld_env[OF o])
qed

lemma finish_any:
  assumes "ledger_finish l k w = (r, w')"
  shows "env w w' \<or> removed k w w'"
  using assms unfolding ledger_finish_def
proof (cases rule: io_bind_cases)
  case (fail x)
  then show ?thesis using get_Inl by blast
next
  case (ok a w1)
  show ?thesis
  proof (cases a)
    case None
    with ok get_None[of k w w1] show ?thesis by (auto dest: rd_env)
  next
    case (Some en)
    with ok get_Some[of k w en w1] have "env w1 w' \<or> removed k w1 w'"
      by (cases r) (auto dest: delete_entry_ok delete_entry_err)
    with get_env[OF ok(1)] show ?thesis using env_trans removed_before by blast
  qed
qed

text \<open>After a successful release the reference is gone, since it was there at most once.\<close>

lemma release_frees:
  assumes ok: "others_ok (lg_lib l) view env" and none: "others_add_none view env (rr_run ref)" and i: "lib_ok w"
    and r: "ledger_release l k ref w = (Inr out, w')"
  shows "\<not> holds view (nm k) ref w'"
proof -
  have dr: "\<not> holds view (nm k) ref v'" if "dropped k ref w v' e" for v' e
    using that unfolding dropped_def
  proof (elim disjE exE conjE)
    assume e: "release_entry ref e = e" and "rd w v' (nm k) (Some e)"
    then obtain w1 where w1: "env w w1" "view w1 (nm k) = Some e" "env w1 v'" unfolding reads_def by blast
    have "remove1 ref (wr_refs e) = wr_refs e" using arg_cong[OF e, of wr_refs] by simp
    then have "ref \<notin> set (wr_refs e)" by (rule remove1_same)
    then show ?thesis using unheld_env[OF none w1(3)] w1(2) by (simp add: holds_Some)
  next
    fix e0 assume s: "same_object (release_entry ref e0) e" and "act w v' (nm k) (Some e0) (Some e)"
    then obtain w1 w2 where w1: "env w w1" "view w1 (nm k) = Some e0" "view w2 = (view w1)(nm k \<mapsto> e)" "env w2 v'"
      unfolding acts_def by blast
    have "distinct (wr_refs e0)" using ledger_okD[OF env_ok[OF ok w1(1) i] w1(2)] by (simp add: entry_ok_def)
    then have "ref \<notin> set (wr_refs e)" using same_object_fields(2)[OF s] by simp
    then show ?thesis using unheld_env[OF none w1(4)] w1(3) by (simp add: holds_Some)
  qed
  have rd: "\<not> holds view (nm k) ref v'" if "rd w v' (nm k) None" for v'
  proof -
    obtain w1 where "view w1 (nm k) = None" "env w1 v'" using \<open>rd w v' (nm k) None\<close> unfolding reads_def by blast
    then show ?thesis using unheld_env[OF none] by (simp add: holds_def)
  qed
  from release_spec[OF r] have "release_result k ref w out w'" by simp
  then show ?thesis
    unfolding release_result_def
    by (auto split: prod.splits outcome.splits dest: dr rd unheld_removed[OF none])
qed

lemma leaves_keeps: "leaves_ledger env f \<Longrightarrow> (\<And>w w'. env w w' \<Longrightarrow> I w \<Longrightarrow> I w') \<Longrightarrow> keeps I f"
  by (rule tripleI) (auto dest: leaves_ledgerD)

lemma keeps_finish: "(\<And>w w'. env w w' \<Longrightarrow> I w \<Longrightarrow> I w') \<Longrightarrow> (\<And>w w'. removed k w w' \<Longrightarrow> I w \<Longrightarrow> I w') \<Longrightarrow> keeps I (ledger_finish l k)"
  by (rule tripleI) (use finish_any in blast)+

lemma keeps_list: "(\<And>w w'. env w w' \<Longrightarrow> I w \<Longrightarrow> I w') \<Longrightarrow> keeps I (ledger_list l)"
  unfolding ledger_list_def lg_kube by (rule tripleI) (use list_ok list_err env_trans in blast)+

text \<open>An invariant that the others, a release and a removal keep is kept by the whole rollback.\<close>

lemma keeps_release_delete:
  assumes e: "env_ledger e = l" and d: "\<And>en. keeps I (deleteUpstream e en)"
    and r: "\<And>k r. keeps I (ledger_release l k r)" and f: "\<And>k. keeps I (ledger_finish l k)"
  shows "keeps I (releaseAndDelete e k ref)"
  unfolding releaseAndDelete_def e
proof (rule triple_bind[where R = "\<lambda>_. I"])
  show "keeps I (io_wrap (Wrapf (Fmt ''release %s %q'' [Lit (lk_kind k), Lit (lk_name k)])) (ledger_release l k ref))"
    by (intro triple_wrap r)
next
  fix a :: "outcome \<times> wizard_resource option"
  have "keeps I (if out \<noteq> OutcomeDelete then io_return ()
     else (case entry of None \<Rightarrow> io_fail (Panic ''nil entry'')
       | Some en \<Rightarrow> io_bind (io_wrap (Wrapf (Fmt ''delete %s %q'' [Lit (lk_kind k), Lit (lk_name k)])) (deleteUpstream e en))
           (\<lambda>_. io_wrap (Wrapf (Fmt ''finish %s %q'' [Lit (lk_kind k), Lit (lk_name k)])) (ledger_finish l k))))" for out entry
    by (auto split: option.splits intro!: triple_intros d f)
  then show "keeps I ((\<lambda>(out, entry). if out \<noteq> OutcomeDelete then io_return ()
     else (case entry of None \<Rightarrow> io_fail (Panic ''nil entry'')
       | Some en \<Rightarrow> io_bind (io_wrap (Wrapf (Fmt ''delete %s %q'' [Lit (lk_kind k), Lit (lk_name k)])) (deleteUpstream e en))
           (\<lambda>_. io_wrap (Wrapf (Fmt ''finish %s %q'' [Lit (lk_kind k), Lit (lk_name k)])) (ledger_finish l k)))) a)"
    by (cases a) simp
qed

lemma keeps_sweep_entry:
  assumes e: "env_ledger e = l" and d: "keeps I (deleteUpstream e en)" and f: "keeps I (ledger_finish l (entry_key en))"
  shows "keeps I (sweep_entry e en)"
  unfolding sweep_entry_def e
  by (rule triple_if, rule triple_return, assumption, rule triple_bind[where R = "\<lambda>_. I"])
    (auto intro!: triple_if triple_return triple_wrap d f)

lemma keeps_collect:
  assumes "\<And>f. f \<in> set fs \<Longrightarrow> keeps I f"
  shows "keeps I (\<lambda>w. case io_collect fs w of (errs, w') \<Rightarrow> (g errs, w'))"
  unfolding triple_def
proof (intro allI impI)
  fix w assume "I w"
  obtain errs w1 where c: "io_collect fs w = (errs, w1)" by fastforce
  have "I w1" by (rule io_collect_keeps[OF assms \<open>I w\<close> c])
  then show "case (case io_collect fs w of (errs, w') \<Rightarrow> (g errs, w')) of (Inl e, w') \<Rightarrow> I w' | (Inr a, w') \<Rightarrow> I w'"
    by (simp add: c split: sum.splits)
qed

lemma keeps_sweep:
  assumes e: "env_ledger e = l" and "\<And>en. keeps I (sweep_entry e en)" and "keeps I (ledger_list l)"
  shows "keeps I (SweepTerminating e)"
  unfolding SweepTerminating_def e
  by (rule triple_bind[where R = "\<lambda>_. I"]) (use assms(2,3) in \<open>auto intro!: triple_wrap keeps_collect\<close>)

lemma finish_keeps_ok: "others_ok (lg_lib l) view env \<Longrightarrow> keeps lib_ok (ledger_finish l k)"
  by (rule keeps_finish) (auto intro: env_ok removed_ok)

lemma finish_keeps_unheld:
  "others_add_none view env (rr_run ref) \<Longrightarrow> keeps (\<lambda>w. \<not> holds view m ref w) (ledger_finish l k)"
  by (rule keeps_finish) (auto dest: unheld_env unheld_removed)

text \<open>One release, with the deletion it may cause.\<close>

lemma release_delete_frees:
  assumes e: "env_ledger e = l" and ok: "others_ok (lg_lib l) view env" and none: "others_add_none view env (rr_run ref)"
    and d: "\<And>en. leaves_ledger env (deleteUpstream e en)"
  shows "triple lib_ok (releaseAndDelete e k ref) (\<lambda>_ w. \<not> holds view (nm k) ref w) (\<lambda>_ _. True)"
proof -
  let ?H = "\<lambda>w. \<not> holds view (nm k) ref w"
  have rel: "triple lib_ok (ledger_release l k ref) (\<lambda>_. ?H) (\<lambda>_ _. True)"
    by (rule tripleI) (auto dest: release_frees[OF ok none])
  have "keeps ?H (deleteUpstream e en)" for en by (rule leaves_keeps[OF d unheld_env[OF none]])
  then have del: "triple ?H (deleteUpstream e en) (\<lambda>_. ?H) (\<lambda>_ _. True)" for en by (rule triple_weaken) auto
  have fin: "triple ?H (ledger_finish l k) (\<lambda>_. ?H) (\<lambda>_ _. True)"
    by (rule triple_weaken[OF finish_keeps_unheld[OF none]]) auto
  show ?thesis
    unfolding releaseAndDelete_def e
    by (rule triple_bind[OF triple_wrap[OF rel]])
      (auto split: prod.splits option.splits intro!: triple_intros del fin)
qed

text \<open>The list names every reference of the run, so the releases cover them all.\<close>

lemma releases_cover:
  assumes "en \<in> set entries" "ref \<in> set (wr_refs en)" "rr_run ref = run"
  shows "releaseAndDelete e (key_of en) ref \<in> set (releases_of e run entries)"
proof -
  have r: "ref \<in> set (refsOf en run)" using assms by (simp add: refsOf_def)
  then have "en \<in> set (undo_sort (filter (\<lambda>en. refsOf en run \<noteq> []) entries))"
    using assms(1) by (auto simp: undo_sort_def)
  with r show ?thesis by (auto simp: releases_of_def entry_key_key_of)
qed

lemma releases_form: "f \<in> set (releases_of e run entries) \<Longrightarrow> \<exists>k ref. f = releaseAndDelete e k ref"
  by (auto simp: releases_of_def)

lemma rollback_frees:
  assumes e: "env_ledger e = l" and ok: "others_ok (lg_lib l) view env" and none: "others_add_none view env (rr_run ref)"
    and d: "\<And>en. leaves_ledger env (deleteUpstream e en)" and i: "lib_ok w"
    and r: "rollback_run e (rr_run ref) w = (Inr (), w')"
  shows "\<not> holds view n ref w'"
proof -
  let ?H = "\<lambda>w. \<not> holds view n ref w"
  have dI: "keeps lib_ok (deleteUpstream e en)" and dH: "keeps ?H (deleteUpstream e en)" for en
    by (rule leaves_keeps[OF d], auto intro: env_ok[OF ok] dest: unheld_env[OF none])+
  have kI: "keeps lib_ok (releaseAndDelete e k x)" and kH: "keeps ?H (releaseAndDelete e k x)" for k x
    by (rule keeps_release_delete[OF e], auto intro: dI dH release_keeps[OF ok] unheld_release[OF none]
        finish_keeps_ok[OF ok] finish_keeps_unheld[OF none])+
  have sweep: "keeps lib_ok (SweepTerminating e)"
    by (rule keeps_sweep[OF e keeps_sweep_entry[OF e dI finish_keeps_ok[OF ok]]], rule keeps_list) (rule env_ok[OF ok])
  obtain x w1 where sw: "SweepTerminating e w = (x, w1)" by fastforce
  have i1: "lib_ok w1" using keeps_snd[OF sweep i] by (simp add: sw)
  obtain entries w2 where li: "ledger_list l w1 = (Inr entries, w2)" and x: "x = Inr ()"
    and co: "io_collect (releases_of e (rr_run ref) entries) w2 = ([], w')"
    using rollback_run_ok[OF sw r] by (auto simp: e)
  obtain v where v: "env w1 v" "env v w2" "\<forall>n e. view v n = Some e \<longleftrightarrow> e \<in> set entries \<and> wr_object e = n"
    using list_ok li unfolding ledger_list_def lg_kube by blast
  have i2: "lib_ok w2" using env_ok[OF ok env_trans[OF v(1,2)] i1] .
  show ?thesis
  proof (cases "holds view n ref v")
    case True
    obtain en where en: "view v n = Some en" "ref \<in> set (wr_refs en)" using holds_cases[OF True] by blast
    have "nm (key_of en) = n" using ledger_okD[OF env_ok[OF ok v(1) i1] en(1)] by (simp add: entry_ok_def)
    then have one: "triple lib_ok (releaseAndDelete e (key_of en) ref) (\<lambda>_. ?H) (\<lambda>_ _. True)"
      using release_delete_frees[OF e ok none d, of "key_of en"] by simp
    have "en \<in> set entries" using v(3) en(1) by blast
    note f = releases_cover[OF this en(2) refl, of e]
    show ?thesis
      by (rule io_collect_all[where H = ?H and I = lib_ok, OF _ _ f one i2 co]) (use releases_form kI kH in blast)+
  next
    case False
    with unheld_env[OF none v(2)] have "?H w2" by blast
    then show ?thesis using io_collect_keeps[OF _ _ co, of ?H] releases_form kH by blast
  qed
qed

text \<open>A reference of another run stays through a release of ours, and its entry is never the one to delete.\<close>

lemma held_dropped:
  assumes o: "others_keep_ref view env n own" and h: "holds view n own w" and ne: "own \<noteq> ref" and d: "dropped k ref w w' e"
  shows "holds view n own w' \<and> (nm k = n \<longrightarrow> own \<in> set (wr_refs e))"
  using d unfolding dropped_def
proof (elim disjE exE conjE)
  assume "rd w w' (nm k) (Some e)"
  then obtain w1 where w1: "env w w1" "view w1 (nm k) = Some e" "env w1 w'" unfolding reads_def by blast
  have "holds view n own w1" by (rule held_env[OF o w1(1) h])
  then show ?thesis using held_env[OF o w1(3)] w1(2) by (auto simp: holds_Some)
next
  fix e0 assume s: "same_object (release_entry ref e0) e" and "act w w' (nm k) (Some e0) (Some e)"
  then obtain w1 w2 where w1: "env w w1" "view w1 (nm k) = Some e0" "view w2 = (view w1)(nm k \<mapsto> e)" "env w2 w'"
    unfolding acts_def by blast
  have h1: "holds view n own w1" by (rule held_env[OF o w1(1) h])
  have refs: "own \<in> set (wr_refs e)" if "nm k = n"
    using h1 w1(2) ne that same_object_fields(2)[OF s] by (simp add: holds_Some in_set_remove1)
  have "holds view n own w2"
    using h1 w1(3) refs by (cases "nm k = n") (auto simp: holds_def split: option.splits)
  then show ?thesis using held_env[OF o w1(4)] refs by blast
qed

lemma held_removed:
  assumes o: "others_keep_ref view env n own" and h: "holds view n own w" and ne: "nm k \<noteq> n" and d: "removed k w w'"
  shows "holds view n own w'"
  using d unfolding removed_def
proof (elim disjE exE)
  fix c assume "act w w' (nm k) c None"
  then obtain w1 w2 where w1: "env w w1" "view w2 = (view w1)(nm k := None)" "env w2 w'"
    unfolding acts_def by blast
  have "holds view n own w2" using held_env[OF o w1(1) h] w1(2) ne by (simp add: holds_def)
  then show ?thesis by (rule held_env[OF o w1(3)])
qed (use held_env[OF o rd_env h] in blast)

lemma dropped_entry_ok:
  assumes ok: "others_ok (lg_lib l) view env" and i: "lib_ok w" and d: "dropped k ref w w' e"
  shows "entry_ok (lg_lib l) (nm k) e"
  using d unfolding dropped_def
proof (elim disjE exE conjE)
  assume "rd w w' (nm k) (Some e)"
  then show ?thesis unfolding reads_def using ledger_okD[OF env_ok[OF ok _ i]] by blast
next
  fix e0 assume s: "same_object (release_entry ref e0) e" and "act w w' (nm k) (Some e0) (Some e)"
  then obtain w1 where "env w w1" "view w1 (nm k) = Some e0" unfolding acts_def by blast
  then show ?thesis using entry_ok_release[OF ledger_okD[OF env_ok[OF ok _ i]] s] by blast
qed

lemma held_release:
  assumes o: "others_keep_ref view env n own" and ne: "own \<noteq> ref"
  shows "keeps (holds view n own) (ledger_release l k ref)"
proof (rule tripleI)
  fix w a w' assume h: "holds view n own w" and "ledger_release l k ref w = (Inr a, w')"
  from release_spec[OF this(2)] have "release_result k ref w a w'" by simp
  then show "holds view n own w'"
    unfolding release_result_def
    by (auto split: prod.splits outcome.splits dest: held_dropped[OF o h ne] held_env[OF o rd_env h])
      (metis held_dropped[OF o h ne] held_removed[OF o] emptyE empty_set)
next
  fix w x w' assume h: "holds view n own w" and "ledger_release l k ref w = (Inl x, w')"
  from release_spec[OF this(2)] have "release_failed k ref w w'" by simp
  then show "holds view n own w'"
    unfolding release_failed_def
    by (metis held_dropped[OF o h ne] held_removed[OF o] held_env[OF o _ h] emptyE empty_set)
qed

lemma release_delete_other:
  assumes ok: "others_ok (lg_lib l) view env" and o: "others_keep_ref view env n own" and ne: "own \<noteq> ref"
    and i: "lib_ok w" "holds view n own w" and r: "ledger_release l k ref w = (Inr (OutcomeDelete, Some en), w')"
  shows "nm (key_of en) = nm k \<and> nm k \<noteq> n"
proof -
  from release_spec[OF r] have en: "wr_refs en = []" and d: "dropped k ref w w' en"
    by (auto simp: release_result_def)
  have "nm (key_of en) = nm k" using dropped_entry_ok[OF ok i(1) d] by (simp add: entry_ok_def)
  moreover have "nm k \<noteq> n" using held_dropped[OF o i(2) ne d] en by auto
  ultimately show ?thesis by blast
qed

text \<open>Two environments whose deletions agree except for the object \<open>n\<close> roll back alike while \<open>n\<close> is held.\<close>

abbreviation shared :: "string \<Rightarrow> resource_reference \<Rightarrow> 'w \<Rightarrow> bool" where
  "shared n own w \<equiv> lib_ok w \<and> holds view n own w"

lemma shared_env:
  "others_ok (lg_lib l) view env \<Longrightarrow> others_keep_ref view env n own \<Longrightarrow> env w w' \<Longrightarrow> shared n own w \<Longrightarrow> shared n own w'"
  using env_ok held_env by blast

lemma shared_finish:
  assumes "others_ok (lg_lib l) view env" "others_keep_ref view env n own" "nm k \<noteq> n"
  shows "keeps (shared n own) (ledger_finish l k)"
  by (rule keeps_finish) (use assms in \<open>auto dest: env_ok held_env removed_ok held_removed\<close>)

lemma shared_release:
  assumes "others_ok (lg_lib l) view env" "others_keep_ref view env n own" "own \<noteq> ref"
  shows "keeps (shared n own) (ledger_release l k ref)"
proof -
  note k = release_keeps[OF assms(1), of k ref] held_release[OF assms(2,3), of k]
  show ?thesis by (rule tripleI) (use tripleD_ok[OF k(1)] tripleD_ok[OF k(2)] tripleD_err[OF k(1)] tripleD_err[OF k(2)] in blast)+
qed

lemma shared_release_delete:
  assumes e: "env_ledger e = l" "env_ledger e2 = l"
    and ok: "others_ok (lg_lib l) view env" and o: "others_keep_ref view env n own" and ne: "own \<noteq> ref"
    and d: "\<And>en. leaves_ledger env (deleteUpstream e en)"
    and same: "\<And>en. nm (key_of en) \<noteq> n \<Longrightarrow> deleteUpstream e2 en = deleteUpstream e en"
  shows "keeps (shared n own) (releaseAndDelete e k ref) \<and>
    (\<forall>w. shared n own w \<longrightarrow> releaseAndDelete e k ref w = releaseAndDelete e2 k ref w)"
proof -
  have del: "keeps (shared n own) (deleteUpstream e en)" for en
    by (rule leaves_keeps[OF d shared_env[OF ok o]])
  define Q where "Q = (\<lambda>(a :: outcome \<times> wizard_resource option) w. shared n own w \<and>
    (fst a = OutcomeDelete \<longrightarrow> (\<forall>en. snd a = Some en \<longrightarrow> nm (key_of en) \<noteq> n \<and> nm k \<noteq> n)))"
  have rel: "triple (shared n own) (ledger_release l k ref) Q (\<lambda>_. shared n own)"
  proof (rule tripleI)
    fix w a w' assume i: "shared n own w" and r: "ledger_release l k ref w = (Inr a, w')"
    have "shared n own w'" by (rule tripleD_ok[OF shared_release[OF ok o ne] i r])
    moreover have "nm (key_of en) \<noteq> n \<and> nm k \<noteq> n" if "fst a = OutcomeDelete" "snd a = Some en" for en
    proof -
      have "ledger_release l k ref w = (Inr (OutcomeDelete, Some en), w')" using r that by (cases a) simp
      from release_delete_other[OF ok o ne _ _ this] i show ?thesis by metis
    qed
    ultimately show "Q a w'" by (simp add: Q_def)
  qed (use tripleD_err[OF shared_release[OF ok o ne]] in blast)
  have kept: "keeps (shared n own) (releaseAndDelete e k ref)"
    unfolding releaseAndDelete_def e
  proof (rule triple_bind[OF triple_wrap[OF rel]])
    fix a :: "outcome \<times> wizard_resource option"
    show "triple (Q a) ((\<lambda>(out, entry). if out \<noteq> OutcomeDelete then io_return ()
       else (case entry of None \<Rightarrow> io_fail (Panic ''nil entry'')
         | Some en \<Rightarrow> io_bind (io_wrap (Wrapf (Fmt ''delete %s %q'' [Lit (lk_kind k), Lit (lk_name k)])) (deleteUpstream e en))
             (\<lambda>_. io_wrap (Wrapf (Fmt ''finish %s %q'' [Lit (lk_kind k), Lit (lk_name k)])) (ledger_finish l k)))) a)
        (\<lambda>_. shared n own) (\<lambda>_. shared n own)"
    proof (cases "fst a = OutcomeDelete \<and> snd a \<noteq> None \<and> nm k \<noteq> n")
      case True
      then obtain en where a: "a = (OutcomeDelete, Some en)" by (cases a) auto
      show ?thesis
        unfolding a by (simp, rule triple_bind[where R = "\<lambda>_. shared n own"])
          (use True in \<open>auto intro!: triple_wrap shared_finish[OF ok o] intro: triple_weaken[OF del] simp: Q_def\<close>)
    next
      case False
      then show ?thesis
        by (cases a) (auto simp: Q_def triple_def split: option.splits)
    qed
  qed
  moreover have "releaseAndDelete e k ref w = releaseAndDelete e2 k ref w" if i: "shared n own w" for w
  proof (cases "ledger_release l k ref w")
    case (Pair r w1)
    show ?thesis
    proof (cases "\<exists>en. r = Inr (OutcomeDelete, Some en)")
      case True
      then obtain en where r: "r = Inr (OutcomeDelete, Some en)" by blast
      have "deleteUpstream e2 en = deleteUpstream e en"
        using same tripleD_ok[OF rel i] Pair r by (auto simp: Q_def)
      then show ?thesis
        using Pair releaseAndDelete_run[of e k ref w r w1] releaseAndDelete_run[of e2 k ref w r w1] by (simp add: e r)
    next
      case False
      then show ?thesis
        using Pair releaseAndDelete_run[of e k ref w r w1] releaseAndDelete_run[of e2 k ref w r w1]
        by (auto simp: e split: sum.splits prod.splits option.splits)
    qed
  qed
  ultimately show ?thesis by blast
qed

lemma shared_sweep:
  assumes e: "env_ledger e = l" "env_ledger e2 = l"
    and ok: "others_ok (lg_lib l) view env" and o: "others_keep_ref view env n own"
    and d: "\<And>en. leaves_ledger env (deleteUpstream e en)"
    and same: "\<And>en. nm (key_of en) \<noteq> n \<Longrightarrow> deleteUpstream e2 en = deleteUpstream e en"
    and i: "shared n own w"
  shows "SweepTerminating e w = SweepTerminating e2 w \<and> shared n own (snd (SweepTerminating e w))"
proof (cases "ledger_list l w")
  case (Pair r w1)
  have l1: "keeps (shared n own) (ledger_list l)" by (rule keeps_list) (rule shared_env[OF ok o])
  have i1: "shared n own w1" using keeps_snd[OF l1 i] Pair by simp
  show ?thesis
  proof (cases r)
    case (Inl x)
    then show ?thesis using i1 by (simp add: SweepTerminating_def e io_bind_def io_wrap_def Pair)
  next
    case (Inr entries)
    obtain v where v: "env w v" "\<forall>n e. view v n = Some e \<longleftrightarrow> e \<in> set entries \<and> wr_object e = n"
      using list_ok Pair Inr unfolding ledger_list_def lg_kube by blast
    have iv: "shared n own v" by (rule shared_env[OF ok o v(1) i])
    have one: "keeps (shared n own) (sweep_entry e en) \<and> (\<forall>w. shared n own w \<longrightarrow> sweep_entry e en w = sweep_entry e2 en w)"
      if "en \<in> set entries" for en
    proof (cases "wr_terminating en \<and> wr_refs en = []")
      case True
      have en: "view v (wr_object en) = Some en" using v(2) that by blast
      have "wr_object en \<noteq> n" using iv True en by (auto simp: holds_def)
      moreover have "nm (key_of en) = wr_object en" using ledger_okD[of "lg_lib l" view v, OF _ en] iv by (auto simp: entry_ok_def)
      ultimately have ne: "nm (key_of en) \<noteq> n" by simp
      have "keeps (shared n own) (sweep_entry e en)"
        by (rule keeps_sweep_entry[OF e(1)])
          (use leaves_keeps[OF d shared_env[OF ok o]] shared_finish[OF ok o ne] in \<open>auto simp: entry_key_key_of\<close>)
      then show ?thesis by (simp add: sweep_entry_def e same[OF ne])
    next
      case False
      then show ?thesis by (auto simp: sweep_entry_def intro: triple_return)
    qed
    have rel: "list_all2 (\<lambda>f g. keeps (shared n own) f \<and> (\<forall>w. shared n own w \<longrightarrow> f w = g w))
        (map (sweep_entry e) entries) (map (sweep_entry e2) entries)"
      using one by (auto simp: list.rel_map intro: list.rel_refl_strong)
    have keep: "shared n own (snd (io_collect (map (sweep_entry e) entries) w1))"
      by (rule io_collect_snd[where I = "shared n own"]) (use one i1 in auto)
    then show ?thesis
      by (simp add: SweepTerminating_def e io_bind_def io_wrap_def Pair Inr io_collect_cong[OF rel i1] split: prod.splits)
        (use io_collect_cong[OF rel i1] in auto)
  qed
qed

lemma rollback_shared:
  assumes e: "env_ledger e = l" "env_ledger e2 = l"
    and ok: "others_ok (lg_lib l) view env" and o: "others_keep_ref view env n own" and ne: "rr_run own \<noteq> run"
    and d: "\<And>en. leaves_ledger env (deleteUpstream e en)"
    and same: "\<And>en. nm (key_of en) \<noteq> n \<Longrightarrow> deleteUpstream e2 en = deleteUpstream e en"
    and i: "shared n own w"
  shows "rollback_run e2 run w = rollback_run e run w \<and> holds view n own (snd (rollback_run e run w))"
proof -
  obtain x w1 where sw: "SweepTerminating e w = (x, w1)" by fastforce
  note s = shared_sweep[OF e ok o d same i, unfolded sw]
  have i1: "shared n own w1" using s by simp
  obtain y w2 where li: "ledger_list l w1 = (y, w2)" by fastforce
  have "keeps (shared n own) (ledger_list l)" by (rule keeps_list) (rule shared_env[OF ok o])
  then have i2: "shared n own w2" using keeps_snd[of "shared n own" "ledger_list l" w1] i1 li by simp
  have run: "rollback_run E run w = (case y of
      Inl z \<Rightarrow> (joined ((case x of Inl z \<Rightarrow> [z] | Inr _ \<Rightarrow> []) @ [Wrapf (Lit ''list ledger'') z]), w2)
    | Inr entries \<Rightarrow> (case io_collect (releases_of E run entries) w2 of
        (errs, w') \<Rightarrow> (joined ((case x of Inl z \<Rightarrow> [z] | Inr _ \<Rightarrow> []) @ errs), w')))"
    if "env_ledger E = l" "SweepTerminating E w = (x, w1)" for E
    unfolding rollback_run_def io_try_def[of "SweepTerminating E"] that prod.case Let_def io_try_def[of "ledger_list l"] li
    by (cases y) simp_all
  note runs = run[OF e(1) sw] run[OF e(2) s[THEN conjunct1, symmetric]]
  show ?thesis
  proof (cases y)
    case (Inl z)
    then show ?thesis using i2 by (simp add: runs)
  next
    case (Inr entries)
    have other: "own \<noteq> ref" if "ref \<in> set (refsOf en run)" for ref en using that ne by (auto simp: refsOf_def)
    note one = shared_release_delete[OF e ok o other d same]
    have rel: "list_all2 (\<lambda>f g. keeps (shared n own) f \<and> (\<forall>w. shared n own w \<longrightarrow> f w = g w))
        (releases_of e run entries) (releases_of e2 run entries)"
      unfolding releases_of_def
      by (rule concat_transfer[THEN rel_funD]) (auto simp: list.rel_map intro!: list.rel_refl_strong one)
    have "shared n own (snd (io_collect (releases_of e run entries) w2))"
      by (rule io_collect_snd[where I = "shared n own"])
        (use i2 list_all2_conv_all_nth[THEN iffD1, OF rel] in \<open>auto simp: in_set_conv_nth\<close>)
    then show ?thesis
      using io_collect_cong[OF rel i2] by (auto simp: runs Inr split: prod.splits)
  qed
qed

end

section \<open>The order\<close>

lemma undo_le_preorder: "total_preorder undo_le"
  unfolding total_preorder_def undo_le_def by (auto split: if_splits)

lemma undo_le_rank: "undo_le a b \<Longrightarrow> rankOf (wr_kind a) \<le> rankOf (wr_kind b)"
  by (auto simp: undo_le_def split: if_splits)

lemma concat_if: "concat (map (\<lambda>x. if P x then [f x] else []) xs) = map f (filter P xs)"
  by (induction xs) auto

text \<open>What a rollback releases, entry by entry.\<close>

definition run_refs :: "string \<Rightarrow> wizard_resource list \<Rightarrow> (wizard_resource \<times> resource_reference) list" where
  "run_refs run es = concat (map (\<lambda>en. map (Pair en) (refsOf en run)) es)"

lemma sorted_run_refs: "sorted_wrt undo_le es \<Longrightarrow> sorted_wrt (\<lambda>p q. undo_le (fst p) (fst q)) (run_refs run es)"
proof (induction es)
  case (Cons en es)
  have refl: "undo_le en en" using undo_le_preorder by (auto simp: total_preorder_def)
  have "sorted_wrt (\<lambda>p q. undo_le (fst p) (fst q)) (map (Pair en) rs)" for rs
    using refl by (induction rs) auto
  then show ?case using Cons by (auto simp: run_refs_def sorted_wrt_append)
qed (simp add: run_refs_def)

lemma mset_run_refs: "mset es = mset es' \<Longrightarrow> mset (run_refs run es) = mset (run_refs run es')"
  unfolding run_refs_def mset_concat map_map
  by (metis (no_types) mset_map sum_mset_sum_list)

lemma run_refs_filter: "run_refs run (filter (\<lambda>en. refsOf en run \<noteq> []) es) = run_refs run es"
  by (induction es) (auto simp: run_refs_def)

text \<open>C10: a rollback releases each reference of the run exactly once, one after the other, in the order
  in which forge rebuilds nothing: apps and triggers before chains, chains before templates, these
  before watchers, watchers before tags, tags before artifacts, unknown kinds last.\<close>

theorem rollback_order:
  "\<exists>ps. releases_of e run entries = map (\<lambda>(en, ref). releaseAndDelete e (entry_key en) ref) ps \<and>
     sorted_wrt (\<lambda>p q. rankOf (wr_kind (fst p)) \<le> rankOf (wr_kind (fst q))) ps \<and>
     mset ps = mset [(en, ref). en \<leftarrow> entries, ref \<leftarrow> wr_refs en, rr_run ref = run] \<and>
     sorted_wrt (<) (map rankOf [KindApp, KindTrigger, KindChain, KindJobTemplate, KindGitWatcher, KindTag, KindArtifact, ''other'']) \<and>
     rankOf KindBatchTrigger = rankOf KindTrigger \<and> rankOf KindServiceTemplate = rankOf KindJobTemplate"
proof -
  let ?es = "undo_sort (filter (\<lambda>en. refsOf en run \<noteq> []) entries)"
  have a: "releases_of e run entries = map (\<lambda>(en, ref). releaseAndDelete e (entry_key en) ref) (run_refs run ?es)"
    by (simp add: releases_of_def run_refs_def map_concat comp_def)
  have "sorted_wrt (\<lambda>p q. undo_le (fst p) (fst q)) (run_refs run ?es)"
    by (rule sorted_run_refs) (simp add: undo_sort_def sorted_sort_by undo_le_preorder)
  then have b: "sorted_wrt (\<lambda>p q. rankOf (wr_kind (fst p)) \<le> rankOf (wr_kind (fst q))) (run_refs run ?es)"
    by (rule sorted_wrt_mono_rel[rotated]) (rule undo_le_rank)
  have "mset (run_refs run ?es) = mset (run_refs run entries)"
    using mset_run_refs[of ?es "filter (\<lambda>en. refsOf en run \<noteq> []) entries"] by (simp add: undo_sort_def run_refs_filter)
  also have "run_refs run entries = [(en, ref). en \<leftarrow> entries, ref \<leftarrow> wr_refs en, rr_run ref = run]"
    by (simp add: run_refs_def refsOf_def concat_if)
  finally have c: "mset (run_refs run ?es) = mset [(en, ref). en \<leftarrow> entries, ref \<leftarrow> wr_refs en, rr_run ref = run]" .
  have d: "sorted_wrt (<) (map rankOf [KindApp, KindTrigger, KindChain, KindJobTemplate, KindGitWatcher, KindTag, KindArtifact, ''other''])"
    and f: "rankOf KindBatchTrigger = rankOf KindTrigger" "rankOf KindServiceTemplate = rankOf KindJobTemplate"
    by code_simp+
  show ?thesis by (intro exI[of _ "run_refs run ?es"] conjI a b c d f)
qed

end
