(* ===== verification/RollbackWorld.thy ===== *)
theory RollbackWorld
  imports RollbackProps Fakes
begin

text \<open>
  What a rollback guarantees: after a rollback without errors no entry carries a reference of the
  run, and a resource another run references is never deleted. Both are stated for every store
  that satisfies the ledger's contract; the fakes together with the in-memory store are one.
\<close>

section \<open>The fakes and the store as the world of a rollback\<close>

text \<open>What happens to a fake world outside our calls to the ledger: anything to the fakes, the steps of the
  others to the store.\<close>

definition world_env :: "string \<Rightarrow> go_lib \<Rightarrow> 'z fake_world_scheme \<Rightarrow> 'z fake_world_scheme \<Rightarrow> bool" where
  "world_env me gl w w' \<longleftrightarrow> store_env me gl (fw_store w) (fw_store w')"

definition world_view :: "'z fake_world_scheme \<Rightarrow> string \<Rightarrow> wizard_resource option" where
  "world_view w = store_view (fw_store w)"

definition world_known :: "'z fake_world_scheme \<Rightarrow> wizard_resource set" where
  "world_known w = store_known (fw_store w)"

lemma on_kube_cases:
  assumes "on_kube h w = (r, w')"
  obtains "h (fw_store w) = (r, fw_store w')"
  using assms by (auto simp: on_kube_def split: prod.splits)

lemma world_reads: "reads store_view (store_env me gl) (fw_store w) (fw_store w') n x \<Longrightarrow> reads world_view (world_env me gl) w w' n x"
proof -
  assume "reads store_view (store_env me gl) (fw_store w) (fw_store w') n x"
  then obtain s1 where "store_env me gl (fw_store w) s1" "store_view s1 n = x" "store_env me gl s1 (fw_store w')"
    unfolding reads_def by blast
  then show ?thesis unfolding reads_def world_view_def world_env_def
    by (intro exI[of _ "w\<lparr>fw_store := s1\<rparr>"]) simp
qed

lemma world_acts: "acts store_view (store_env me gl) (fw_store w) (fw_store w') n x y \<Longrightarrow> acts world_view (world_env me gl) w w' n x y"
proof -
  assume "acts store_view (store_env me gl) (fw_store w) (fw_store w') n x y"
  then obtain s1 s2 where "store_env me gl (fw_store w) s1" "store_view s1 n = x" "store_view s2 = (store_view s1)(n := y)"
    "store_env me gl s2 (fw_store w')" unfolding acts_def by blast
  then show ?thesis unfolding acts_def world_view_def world_env_def
    by (intro exI[of _ "w\<lparr>fw_store := s1\<rparr>"] exI[of _ "w\<lparr>fw_store := s2\<rparr>"]) simp
qed

lemma world_kube_sel:
  "kb_get (world_kube me gl) n = on_kube (kb_get (store_kube me gl) n)"
  "kb_create (world_kube me gl) e = on_kube (kb_create (store_kube me gl) e)"
  "kb_update (world_kube me gl) e = on_kube (kb_update (store_kube me gl) e)"
  "kb_delete (world_kube me gl) e = on_kube (kb_delete (store_kube me gl) e)"
  "kb_list (world_kube me gl) = on_kube (kb_list (store_kube me gl))"
  by (simp_all add: world_kube_def)

interpretation fake: ledger_store "world_kube me gl" world_view world_known "world_env me gl" "world_ledger me gl" for me gl
proof
  fix w w1 w2 :: "'z fake_world_scheme"
  show "world_env me gl w w" by (simp add: world_env_def store_env_refl)
  show "world_env me gl w w1 \<Longrightarrow> world_env me gl w1 w2 \<Longrightarrow> world_env me gl w w2"
    unfolding world_env_def by (rule store_env_trans)
  show "lg_kube (world_ledger me gl :: 'z fake_world_scheme ledger) = world_kube me gl" by (simp add: world_ledger_def)
  show "world_env me gl w (lg_sleep (world_ledger me gl) w)" by (simp add: world_ledger_def world_env_def store_env_step)
next
  fix n and w :: "'z fake_world_scheme" and e w' assume "kb_get (world_kube me gl) n w = (Inr e, w')"
  then have "kb_get (store_kube me gl) n (fw_store w) = (Inr e, fw_store w')"
    by (auto simp: world_kube_sel elim: on_kube_cases)
  from mem.get_ok[OF this] show "reads world_view (world_env me gl) w w' n (Some e) \<and> wr_object e = n \<and> e \<in> world_known w'"
    by (auto simp: world_known_def intro: world_reads)
next
  fix n and w :: "'z fake_world_scheme" and x w' assume "kb_get (world_kube me gl) n w = (Inl x, w')"
  then have "kb_get (store_kube me gl) n (fw_store w) = (Inl x, fw_store w')"
    by (auto simp: world_kube_sel elim: on_kube_cases)
  from mem.get_err[OF this] show "world_env me gl w w' \<and> (kube_not_found x \<longrightarrow> reads world_view (world_env me gl) w w' n None)"
    by (auto simp: world_env_def intro: world_reads)
next
  fix e and w :: "'z fake_world_scheme" and e' w' assume "kb_create (world_kube me gl) e w = (Inr e', w')"
  then have "kb_create (store_kube me gl) e (fw_store w) = (Inr e', fw_store w')"
    by (auto simp: world_kube_sel elim: on_kube_cases)
  from mem.create_ok[OF this]
  show "acts world_view (world_env me gl) w w' (wr_object e) None (Some e') \<and> same_object e e'" by (blast intro: world_acts)
next
  fix e and w :: "'z fake_world_scheme" and x w' assume "kb_create (world_kube me gl) e w = (Inl x, w')"
  then have "kb_create (store_kube me gl) e (fw_store w) = (Inl x, fw_store w')"
    by (auto simp: world_kube_sel elim: on_kube_cases)
  from mem.create_err[OF this]
  show "if kube_exists x then \<exists>c. reads world_view (world_env me gl) w w' (wr_object e) (Some c)
      else world_env me gl w w' \<or> (\<exists>e'. acts world_view (world_env me gl) w w' (wr_object e) None (Some e') \<and> same_object e e')"
    unfolding world_env_def[of me gl w] by (auto split: if_splits intro: world_acts world_reads)
next
  fix e and w :: "'z fake_world_scheme" and e' w' e0
  assume u: "kb_update (world_kube me gl) e w = (Inr e', w')" and k: "e0 \<in> world_known w"
    and o: "wr_object e0 = wr_object e" "wr_version e0 = wr_version e"
  from u have "kb_update (store_kube me gl) e (fw_store w) = (Inr e', fw_store w')"
    by (auto simp: world_kube_sel elim: on_kube_cases)
  from mem.update_ok[OF this _ o] k
  show "acts world_view (world_env me gl) w w' (wr_object e) (Some e0) (Some e') \<and> same_object e e'"
    by (auto simp: world_known_def intro: world_acts)
next
  fix e and w :: "'z fake_world_scheme" and x w' e0
  assume u: "kb_update (world_kube me gl) e w = (Inl x, w')" and k: "e0 \<in> world_known w"
    and o: "wr_object e0 = wr_object e" "wr_version e0 = wr_version e"
  from u have "kb_update (store_kube me gl) e (fw_store w) = (Inl x, fw_store w')"
    by (auto simp: world_kube_sel elim: on_kube_cases)
  from mem.update_err[OF this _ o] k
  show "if kube_conflict x then world_env me gl w w'
      else world_env me gl w w' \<or> (\<exists>e'. acts world_view (world_env me gl) w w' (wr_object e) (Some e0) (Some e') \<and> same_object e e')"
    unfolding world_env_def[of me gl w] by (auto simp: world_known_def split: if_splits intro: world_acts)
next
  fix e and w :: "'z fake_world_scheme" and u w' assume "kb_delete (world_kube me gl) e w = (Inr u, w')"
  then have "kb_delete (store_kube me gl) e (fw_store w) = (Inr u, fw_store w')"
    by (auto simp: world_kube_sel elim: on_kube_cases)
  from mem.delete_ok[OF this] show "\<exists>c. acts world_view (world_env me gl) w w' (wr_object e) c None" by (blast intro: world_acts)
next
  fix e and w :: "'z fake_world_scheme" and x w' assume "kb_delete (world_kube me gl) e w = (Inl x, w')"
  then have "kb_delete (store_kube me gl) e (fw_store w) = (Inl x, fw_store w')"
    by (auto simp: world_kube_sel elim: on_kube_cases)
  from mem.delete_err[OF this]
  show "if kube_not_found x then reads world_view (world_env me gl) w w' (wr_object e) None
      else \<not> kube_conflict x \<and> (world_env me gl w w' \<or> (\<exists>c. acts world_view (world_env me gl) w w' (wr_object e) c None))"
    unfolding world_env_def[of me gl w] by (auto split: if_splits intro: world_acts world_reads)
next
  fix w :: "'z fake_world_scheme" and es w' assume "kb_list (world_kube me gl) w = (Inr es, w')"
  then have "kb_list (store_kube me gl) (fw_store w) = (Inr es, fw_store w')"
    by (auto simp: world_kube_sel elim: on_kube_cases)
  from mem.list_ok[OF this] obtain s1 where "store_env me gl (fw_store w) s1" "store_env me gl s1 (fw_store w')"
    "\<forall>n e. store_view s1 n = Some e \<longleftrightarrow> e \<in> set es \<and> wr_object e = n" by blast
  then show "\<exists>w1. world_env me gl w w1 \<and> world_env me gl w1 w' \<and> (\<forall>n e. world_view w1 n = Some e \<longleftrightarrow> e \<in> set es \<and> wr_object e = n)"
    unfolding world_env_def world_view_def by (intro exI[of _ "w\<lparr>fw_store := s1\<rparr>"]) simp
next
  fix w :: "'z fake_world_scheme" and x w' assume "kb_list (world_kube me gl) w = (Inl x, w')"
  then have "kb_list (store_kube me gl) (fw_store w) = (Inl x, fw_store w')"
    by (auto simp: world_kube_sel elim: on_kube_cases)
  from mem.list_err[OF this] show "world_env me gl w w'" by (simp add: world_env_def)
qed

lemma world_others_ok: "others_ok gl world_view (world_env me gl)"
proof -
  have "ledger_ok gl world_view w \<longleftrightarrow> ledger_ok gl store_view (fw_store w)" for w :: "'a fake_world_scheme"
    by (simp add: ledger_ok_def world_view_def)
  then show ?thesis using store_others_ok[of gl me] by (auto simp: others_ok_def world_env_def)
qed

lemma world_holds: "holds world_view n ref w \<longleftrightarrow> holds store_view n ref (fw_store w)"
  by (simp add: holds_def world_view_def)

lemma world_keeps_ref: "others_keep_ref world_view (world_env (rr_run ref) gl) n ref"
  using store_keeps_ref[of ref gl n] by (auto simp: others_keep_ref_def world_holds world_env_def)

lemma unheld_apply:
  assumes "\<not> holds store_view n ref s" "\<not> acts_for (rr_run ref) f"
  shows "\<not> holds store_view n ref (foreign_apply gl f s)"
proof (cases f)
  case (ForeignRegister k r e)
  then have "r \<noteq> ref" using assms(2) by auto
  then show ?thesis using assms(1) ForeignRegister
    by (auto simp: holds_put new_resource_def split: option.splits)
next
  case (ForeignAddRef m r opts)
  then have "r \<noteq> ref" using assms(2) by auto
  then show ?thesis using assms(1) ForeignAddRef store_view_object[of s m]
    by (auto simp: holds_put add_ref_refs split: option.splits) (simp add: holds_def)
next
  case (ForeignRelease m r)
  then show ?thesis using assms(1) store_view_object[of s m]
    by (auto simp: holds_put split: option.splits) (auto simp: holds_def dest: notin_set_remove1[rotated])
next
  case (ForeignFinish m)
  then show ?thesis using assms(1)
    by (auto simp: holds_def store_view_remove split: option.splits)
qed

lemma store_adds_none: "others_add_none store_view (store_env run gl) run"
proof -
  have step: "\<not> holds store_view n ref (others_step (rr_run ref) gl s)" if "\<not> holds store_view n ref s" for n ref s
    using that by (simp add: others_step_def unheld_apply split: list.splits)
  have "\<not> holds store_view n ref ((others_step (rr_run ref) gl ^^ k) s)" if "\<not> holds store_view n ref s" for n ref k s
    using that by (induction k) (auto dest: step)
  then show ?thesis by (auto simp: others_add_none_def store_env_def)
qed

lemma world_adds_none: "others_add_none world_view (world_env run gl) run"
  using store_adds_none[of run gl] by (auto simp: others_add_none_def world_holds world_env_def)

lemma leaves_on_fakes: "leaves_ledger (world_env me gl) (on_fakes h)"
  by (simp add: leaves_ledger_def on_fakes_def world_env_def store_env_refl split: prod.splits)

lemma leaves_fail: "leaves_ledger (world_env me gl) (io_fail x)"
  by (simp add: leaves_ledger_def world_env_def store_env_refl)

lemma fake_deletes_leave: "leaves_ledger (world_env me gl) (deleteUpstream (fake_env you gl') en)"
  by (auto simp: deleteUpstream_def Let_def fake_env_def fake_forge_def fake_index_def fake_weave_def
      intro: leaves_on_fakes leaves_fail split: option.splits)

text \<open>Runs a and b share a chain.\<close>

definition shared_world :: fake_world where
  "shared_world = \<lparr>fw_fakes = fake_seed ''chains'' ''c'' [] no_fakes,
     fw_store = \<lparr>st_objects = [entry0\<lparr>wr_refs := [ref_a, ref_b]\<rparr>], st_next = 1, st_foreign = []\<rparr>\<rparr>"

lemma key_of_refs [simp]: "key_of (e\<lparr>wr_refs := rs\<rparr>) = key_of e"
  by (simp add: key_of_def)

lemma shared_world_ok: "ledger_ok pad_lib world_view shared_world"
  by (auto simp: ledger_ok_def entry_ok_def world_view_def store_view_def shared_world_def)

definition shared_entry :: wizard_resource where
  "shared_entry = entry0\<lparr>wr_refs := [ref_a, ref_b]\<rparr>"

lemma shared_entry_simps [simp]:
  "wr_object shared_entry = object_name pad_lib sample_key" "wr_terminating shared_entry = False"
  "wr_refs shared_entry = [ref_a, ref_b]" "wr_version shared_entry = format_nat 0" "key_of shared_entry = sample_key"
  by (simp_all add: shared_entry_def) (simp add: entry0_def)

lemma shared_store_simps [simp]:
  "store_wf (fw_store shared_world)" "others_step me pad_lib (fw_store shared_world) = fw_store shared_world"
  "store_view (fw_store shared_world) n = (if n = object_name pad_lib sample_key then Some shared_entry else None)"
  by (auto simp: shared_world_def store_wf_def others_step_def store_view_def shared_entry_def) (simp_all add: entry0_def)

lemma fake_env_ledger [simp]: "env_ledger (fake_env me gl) = world_ledger me gl"
  by (simp add: fake_env_def)

lemma world_ledger_sel [simp]: "lg_kube (world_ledger me gl) = world_kube me gl" "lg_lib (world_ledger me gl) = gl"
  by (simp_all add: world_ledger_def)

lemma pair_list: "ledger_list (world_ledger me pad_lib) shared_world = (Inr [shared_entry], shared_world)"
  by (simp add: ledger_list_def world_kube_sel on_kube_def store_kube_def on_store_def)
    (simp add: shared_world_def shared_entry_def)

lemma pair_get: "ledger_get (world_ledger me pad_lib) sample_key shared_world = (Inr (Some shared_entry), shared_world)"
  by (simp add: ledger_get_def io_try_def world_kube_sel on_kube_def store_kube_def on_store_def)

lemma pair_release:
  "\<exists>en w. ledger_release (world_ledger me pad_lib) sample_key ref_b shared_world = (Inr (OutcomeShared, Some en), w)"
proof -
  have new: "release_entry ref_b shared_entry \<noteq> shared_entry" "wr_refs (release_entry ref_b shared_entry) = [ref_a]"
    by (auto simp: release_entry_def Let_def dest: arg_cong[of _ _ wr_refs])
  have "kb_update (world_kube me pad_lib) (release_entry ref_b shared_entry) shared_world =
      (Inr (stamped (release_entry ref_b shared_entry) (fw_store shared_world)),
       shared_world\<lparr>fw_store := store_put (release_entry ref_b shared_entry) (fw_store shared_world)\<rparr>)"
    by (simp add: world_kube_sel on_kube_def store_kube_def on_store_def)
  then have "release_once (world_ledger me pad_lib) sample_key ref_b shared_world =
      (Inr (OutcomeShared, Some (stamped (release_entry ref_b shared_entry) (fw_store shared_world))),
       shared_world\<lparr>fw_store := store_put (release_entry ref_b shared_entry) (fw_store shared_world)\<rparr>)"
    using new by (simp add: release_once_def io_bind_def pair_get Let_def stamped_def)
  then show ?thesis by (simp add: ledger_release_def retry_on_conflict_def retry_loop.simps[of _ conflictBackoff])
qed

lemma pair_rollback: "\<exists>w. rollback_run (fake_env me pad_lib) ''b'' shared_world = (Inr (), w)"
proof -
  have sweep: "SweepTerminating (fake_env me pad_lib) shared_world = (Inr (), shared_world)"
    by (simp add: SweepTerminating_def io_bind_def io_wrap_def pair_list sweep_entry_def joined_ok)
  obtain en w where r: "ledger_release (world_ledger me pad_lib) sample_key ref_b shared_world = (Inr (OutcomeShared, Some en), w)"
    using pair_release by blast
  have one: "releaseAndDelete (fake_env me pad_lib) sample_key ref_b shared_world = (Inr (), w)"
    using releaseAndDelete_run[of "fake_env me pad_lib" sample_key ref_b shared_world] r by simp
  let ?e = "fake_env me pad_lib :: fake_world env"
  have "releases_of ?e ''b'' [shared_entry] = [releaseAndDelete ?e sample_key ref_b]"
    by (simp add: releases_of_def undo_sort_def refsOf_def entry_key_key_of) (simp add: ref_a_def ref_b_def)
  then show ?thesis by (simp add: rollback_run_def io_try_def sweep pair_list one joined_ok)
qed

section \<open>Properties\<close>

text \<open>C8: after a rollback that reports no error no entry of the ledger carries a reference of the run,
  whatever the ledger operations of other runs did meanwhile: nothing of the run is forgotten, so
  the run object may go.\<close>

theorem rollback_releases_all:
  assumes "ledger_store kube view known env (env_ledger e)" and "others_ok (env_lib e) view env"
    and "others_add_none view env run" and "\<And>en. leaves_ledger env (deleteUpstream e en)"
    and "ledger_ok (env_lib e) view w" and "rollback_run e run w = (Inr (), w')"
  shows "\<forall>n en. view w' n = Some en \<longrightarrow> refsOf en run = []"
proof (intro allI impI)
  fix n en assume en: "view w' n = Some en"
  have "ref \<notin> set (wr_refs en)" if "rr_run ref = run" for ref
    using ledger_store.rollback_frees[OF assms(1) refl assms(2) _ assms(4,5), of ref w' n] assms(3,6) that en
    by (simp add: holds_Some)
  then show "refsOf en run = []" by (auto simp: refsOf_def filter_empty_conv)
qed

theorem rollback_releases_witness:
  "\<exists>w'. rollback_run (fake_env ''b'' pad_lib) ''b'' shared_world = (Inr (), w') \<and>
     (\<forall>n en. world_view w' n = Some en \<longrightarrow> refsOf en ''b'' = [])"
proof -
  obtain w' where run: "rollback_run (fake_env ''b'' pad_lib) ''b'' shared_world = (Inr (), w')" using pair_rollback by blast
  have "ledger_store (world_kube ''b'' pad_lib) world_view world_known (world_env ''b'' pad_lib)
      (env_ledger (fake_env ''b'' pad_lib :: fake_world env))" by (simp add: fake.ledger_store_axioms)
  from rollback_releases_all[OF this _ world_adds_none fake_deletes_leave _ run] run
  show ?thesis by (simp add: world_others_ok shared_world_ok)
qed

text \<open>C9: a resource that another run references is never deleted: whatever the deletion of that resource
  would do, a rollback, failing or not, goes the same way, and the other run's reference stays.
  The other run is assumed not to let go of it meanwhile.\<close>

theorem rollback_spares_shared:
  assumes "ledger_store kube view known env (env_ledger e)" and "env_ledger e2 = env_ledger e"
    and "others_ok (env_lib e) view env" and "others_keep_ref view env n own" and "rr_run own \<noteq> run"
    and "\<And>en. leaves_ledger env (deleteUpstream e en)"
    and "\<And>en. object_name (env_lib e) (key_of en) \<noteq> n \<Longrightarrow> deleteUpstream e2 en = deleteUpstream e en"
    and "ledger_ok (env_lib e) view w" and "holds view n own w"
  shows "rollback_run e2 run w = rollback_run e run w \<and> holds view n own (snd (rollback_run e run w))"
  using ledger_store.rollback_shared[OF assms(1) refl assms(2-7)] assms(8,9) by blast

text \<open>The chain's deletion panics in this environment.\<close>

definition explosive :: "fake_world env \<Rightarrow> fake_world env" where
  "explosive e = e\<lparr>env_weave := (env_weave e)\<lparr>wa_delete := (\<lambda>c n.
     if c = weaveCollection KindChain \<and> n = ''c'' then io_fail (Panic ''deleted'') else wa_delete (env_weave e) c n)\<rparr>\<rparr>"

lemma weaveCollection_chain: "kind \<in> set [KindJobTemplate, KindServiceTemplate, KindChain, KindTrigger, KindApp] \<Longrightarrow>
    weaveCollection kind = weaveCollection KindChain \<Longrightarrow> kind = KindChain"
proof -
  have "list_all (\<lambda>k. weaveCollection k = weaveCollection KindChain \<longrightarrow> k = KindChain)
      [KindJobTemplate, KindServiceTemplate, KindChain, KindTrigger, KindApp]" by code_simp
  then show "kind \<in> set [KindJobTemplate, KindServiceTemplate, KindChain, KindTrigger, KindApp] \<Longrightarrow>
    weaveCollection kind = weaveCollection KindChain \<Longrightarrow> kind = KindChain"
    unfolding list_all_iff by blast
qed

lemma explosive_same:
  assumes "key_of en \<noteq> sample_key"
  shows "deleteUpstream (explosive e) en = deleteUpstream e en"
proof -
  have "wr_name en \<noteq> ''c''" if "wr_service en = ServiceWeave" "wr_kind en = KindChain"
    using assms that by (auto simp: key_of_def sample_key_def KindChain_def)
  then have "wa_delete (env_weave (explosive e)) (weaveCollection (wr_kind en)) (wr_name en) =
      wa_delete (env_weave e) (weaveCollection (wr_kind en)) (wr_name en)"
    if "wr_service en = ServiceWeave" "wr_kind en \<in> set [KindJobTemplate, KindServiceTemplate, KindChain, KindTrigger, KindApp]"
    using that weaveCollection_chain by (auto simp: explosive_def)
  moreover have "env_forge (explosive e) = env_forge e" "env_index (explosive e) = env_index e"
    "wa_delete_batch (env_weave (explosive e)) = wa_delete_batch (env_weave e)"
    by (simp_all add: explosive_def)
  ultimately show ?thesis by (simp only: deleteUpstream_def Let_def if_cancel cong: if_cong conj_cong)
qed

theorem rollback_spares_witness:
  "rollback_run (explosive (fake_env ''a'' pad_lib)) ''b'' shared_world = rollback_run (fake_env ''a'' pad_lib) ''b'' shared_world \<and>
   holds world_view (object_name pad_lib sample_key) ref_a (snd (rollback_run (fake_env ''a'' pad_lib) ''b'' shared_world))"
proof (rule rollback_spares_shared[of "world_kube ''a'' pad_lib" world_view world_known "world_env ''a'' pad_lib"])
  show "others_keep_ref world_view (world_env ''a'' pad_lib) (object_name pad_lib sample_key) ref_a"
    using world_keeps_ref[of ref_a pad_lib] by (simp add: ref_a_def)
  show "deleteUpstream (explosive (fake_env ''a'' pad_lib)) en = deleteUpstream (fake_env ''a'' pad_lib) en"
    if "object_name (env_lib (fake_env ''a'' pad_lib :: fake_world env)) (key_of en) \<noteq> object_name pad_lib sample_key" for en
    using that by (intro explosive_same) auto
qed (simp_all add: fake.ledger_store_axioms explosive_def world_others_ok fake_deletes_leave shared_world_ok world_view_def holds_def
    ref_a_def sample_key_def)

end
