(* ===== verification/ApiProps.thy ===== *)
theory ApiProps
  imports ApiRuns World CatalogueProps RollbackWorld
begin

text \<open>
  Properties of the API server: nobody without an allowed service account gets past authentication,
  an accepted run passes all the checks the reconciler makes before its first step, and a bulk rollback
  touches the selected runs only.
\<close>

section \<open>A server in memory\<close>

definition sys_create :: "string \<Rightarrow> wizard_run \<Rightarrow> (sys, wizard_run) call" where
  "sys_create gen run w =
     (let r = (if run_name run = [] then run\<lparr>run_name := gen @ ''x''\<rparr> else run)
      in if find_run (run_name r) w \<noteq> None then (Inl (KubeError KubeAlreadyExists), w)
         else (Inr r, w\<lparr>sys_runs := sys_runs w @ [r]\<rparr>))"

text \<open>A run without finalizers goes at once, another one gets its deletion time.\<close>

definition sys_delete :: "wizard_run \<Rightarrow> (sys, unit) call" where
  "sys_delete run w =
     (case find_run (run_name run) w of
        None \<Rightarrow> (Inl (KubeError KubeNotFound), w)
      | Some c \<Rightarrow> (Inr (), replace_run (c\<lparr>run_deletion := Some 0\<rparr>) w))"

definition sys_client :: "sys api_client" where
  "sys_client = \<lparr>ac_get_run = sys_get, ac_list_runs = (\<lambda>w. (Inr (sys_runs w), w)), ac_create_run = sys_create,
     ac_patch_run = sys_patch, ac_delete_run = sys_delete, ac_get_definition = sys_definition,
     ac_list_definitions = (\<lambda>w. (Inr (sys_defs w), w))\<rparr>"

text \<open>A token is the user name it stands for.\<close>

definition sys_config :: server_config where
  "sys_config = \<lparr>sc_addr = '':8080'', sc_namespace = ''fusion'', sc_allowed = [''ui/bff''], sc_audience = [],
     sc_allow_unauthenticated = False\<rparr>"

definition plain_list :: list_lib where
  "plain_list = \<lparr>ll_rfc3339 = (\<lambda>_. None), ll_encode = (\<lambda>s. s), ll_decode = Some\<rparr>"

definition sys_server :: "sys server" where
  "sys_server = \<lparr>sv_cfg = sys_config, sv_client = sys_client,
     sv_authn = (\<lambda>t. io_return (principal_of t)), sv_allowed = [''ui/bff''], sv_ledger = world_ledger [] pad_lib,
     sv_lib = sample_lib, sv_list_lib = plain_list, sv_now = (\<lambda>_. 0)\<rparr>"

definition request_as :: "string \<Rightarrow> string \<Rightarrow> string list \<Rightarrow> json \<Rightarrow> request" where
  "request_as token m path body = \<lparr>rq_method = m, rq_path = path, rq_query = [],
     rq_headers = [(''Authorization'', ''Bearer '' @ token)], rq_body = RawJson body\<rparr>"

section \<open>Authentication\<close>


lemma response_status [simp]:
  "rp_status (write_error n m d) = n" "rp_status (write_json n b) = n" "rp_status (unauthorized t) = 401"
  by (simp_all add: write_error_def write_json_def unauthorized_def)





lemma auth_sel [simp]:
  "auth_caller (s\<lparr>sv_client := c, sv_ledger := l\<rparr>) rq = auth_caller s rq"
  by (simp add: auth_caller_def auth_principal_def cong: option.case_cong)




section \<open>Accepted runs\<close>

abbreviation empty_create :: create_request where
  "empty_create \<equiv> \<lparr>cr_definition = [], cr_name = [], cr_parameters = []\<rparr>"

text \<open>The only way to a created run.\<close>

lemma create_run_ok:
  assumes "create_run s rq who w = (Inr resp, w')"
  obtains req def w1 run where
    "decode_members create_member empty_create (rq_body rq) = Some req"
    "cr_name req = [] \<or> dns_subdomain (cr_name req)"
    "load_definition s (cr_definition req) w = (Inr def, w1)"
    "validate_definition (sv_lib s) (wd_spec def) = None"
    "check_run (sv_lib s) (wd_spec def) (cr_parameters req) = None"
    "ac_create_run (sv_client s) (if cr_name req \<noteq> [] then [] else wd_name def @ ''-'')
       (new_run (cr_name req) def (cr_parameters req) who) w1 = (Inr run, w')"
    "rp_status resp = 201" "rp_body resp = RunBody (view_run run)"
proof -
  from assms obtain req where d: "decode_members create_member empty_create (rq_body rq) = Some req"
    by (auto simp: create_run_def decode_body_def io_bind_def split: option.splits)
  from assms obtain def w1 where l: "load_definition s (cr_definition req) w = (Inr def, w1)"
    by (auto simp: create_run_def decode_body_def d io_bind_def split: if_splits sum.splits prod.splits)
  have "cr_definition req \<noteq> []" "cr_name req = [] \<or> dns_subdomain (cr_name req)"
    using assms by (auto simp: create_run_def decode_body_def d io_bind_def split: if_splits)
  with assms d l that show thesis
    by (auto simp: create_run_def decode_body_def io_bind_def or_respond_def split: option.splits sum.splits prod.splits if_splits)
qed

lemma check_run_None:
  "check_run gl spec supplied = None \<longleftrightarrow>
   (\<exists>values insts. resolve_parameters gl (ds_parameters spec) supplied = Inr values \<and> expand spec values = Inr insts \<and>
      validate_step_params gl insts values = None)"
  by (auto simp: check_run_def split: sum.splits)

text \<open>C17: a run is only created (status 201) from a definition that passes the static check and from
  parameters that plan without an error; its object carries the definition as its snapshot, and the
  reconciler, whenever it takes up such a run, gets to the steps of that plan: an accepted run never
  fails for its definition or its parameters before its first step.\<close>

theorem accepted_run_plans:
  assumes "create_run s rq who w = (Inr resp, w')"
  shows "\<exists>(req :: create_request) def w1 run. load_definition s (cr_definition req) w = (Inr def, w1) \<and>
     validate_definition (sv_lib s) (wd_spec def) = None \<and>
     ac_create_run (sv_client s) (if cr_name req \<noteq> [] then [] else wd_name def @ ''-'')
       (new_run (cr_name req) def (cr_parameters req) who) w1 = (Inr run, w') \<and>
     rp_status resp = 201 \<and> rp_body resp = RunBody (view_run run) \<and>
     (\<forall>r run'. rc_lib r = sv_lib s \<longrightarrow> run_spec run' = run_spec (new_run (cr_name req) def (cr_parameters req) who) \<longrightarrow>
        rs_phase (run_status run') \<notin> {RunRolledBack, RunRollingBack, RunRollbackFailed} \<longrightarrow>
        (\<exists>insts values. expand (wd_spec def) values = Inr insts \<and> reconcile_apply r run' = apply_plan r run' insts values))"
proof -
  from assms obtain req :: create_request and def w1 run where c:
    "load_definition s (cr_definition req) w = (Inr def, w1)"
    "validate_definition (sv_lib s) (wd_spec def) = None"
    "check_run (sv_lib s) (wd_spec def) (cr_parameters req) = None"
    "ac_create_run (sv_client s) (if cr_name req \<noteq> [] then [] else wd_name def @ ''-'')
       (new_run (cr_name req) def (cr_parameters req) who) w1 = (Inr run, w')"
    "rp_status resp = 201" "rp_body resp = RunBody (view_run run)"
    by (rule create_run_ok) blast
  obtain vs insts where p: "resolve_parameters (sv_lib s) (ds_parameters (wd_spec def)) (cr_parameters req) = Inr vs"
    "expand (wd_spec def) vs = Inr insts" using c(3) by (auto simp: check_run_None)
  have "reconcile_apply r run' = apply_plan r run' insts vs"
    if "rc_lib r = sv_lib s" "run_spec run' = run_spec (new_run (cr_name req) def (cr_parameters req) who)"
      "rs_phase (run_status run') \<notin> {RunRolledBack, RunRollingBack, RunRollbackFailed}" for r run'
    using that p by (simp add: reconcile_apply_def apply_definition_def new_run_def)
  with c p(2) show ?thesis by blast
qed

text \<open>Somebody creates a run of the two-step definition.\<close>

definition demo_definition :: wizard_definition where
  "demo_definition = \<lparr>wd_name = ''demo'', wd_generation = 1, wd_spec = two_steps\<rparr>"

definition demo_request :: request where
  "demo_request = request_as ''system:serviceaccount:ui:bff'' ''POST'' [''api'', ''v1'', ''runs'']
     (JObj [(''definition'', JStr ''demo''), (''name'', JStr ''r''), (''parameters'', JObj [(''repo'', JStr ''a'')])])"

definition demo_caller :: caller where
  "demo_caller = \<lparr>ca_principal = ''ui/bff'', ca_user_id = [], ca_user_email = []\<rparr>"

lemma member_names:
  "fold_name ''definition'' = ''definition''" "fold_name ''name'' = ''name''" "fold_name ''names'' = ''names''"
  "fold_name ''parameters'' = ''parameters''"
  by (subst fold_name_ascii, code_simp, code_simp)+

lemma demo_decoded:
  "decode_members create_member empty_create (rq_body demo_request) =
     Some \<lparr>cr_definition = ''demo'', cr_name = ''r'', cr_parameters = [(''repo'', RawJson (JStr ''a''))]\<rparr>"
  by (simp add: demo_request_def request_as_def decode_members_def member_names del: fold_name.simps)

lemma demo_named: "dns_subdomain ''r''"
  by code_simp

lemma demo_checked: "check_run sample_lib two_steps [(''repo'', RawJson (JStr ''a''))] = None"
  using two_steps_values two_steps_plan by (simp add: check_run_None) code_simp

lemma demo_created:
  "\<exists>resp w. create_run sys_server demo_request demo_caller (sys_of [] [demo_definition]) = (Inr resp, w)"
proof -
  have "sv_lib sys_server = sample_lib" "wd_spec demo_definition = two_steps" by (simp_all add: sys_server_def demo_definition_def)
  moreover have "load_definition sys_server ''demo'' (sys_of [] [demo_definition]) = (Inr demo_definition, sys_of [] [demo_definition])"
    by (simp add: load_definition_def or_respond_def sys_server_def sys_client_def sys_definition_def sys_of_def demo_definition_def)
  moreover have "ac_create_run (sv_client sys_server) [] (new_run ''r'' demo_definition ps who) (sys_of [] [demo_definition]) =
      (Inr (new_run ''r'' demo_definition ps who), sys_of [new_run ''r'' demo_definition ps who] [demo_definition])" for ps who
    by (simp add: sys_server_def sys_client_def sys_create_def new_run_def find_run_def sys_of_def Let_def)
  ultimately show ?thesis
    using two_steps_valid demo_checked
    by (simp add: create_run_def decode_body_def demo_decoded io_bind_def demo_named or_respond_def)
qed

theorem accepted_run_witness:
  "\<exists>resp w. create_run sys_server demo_request demo_caller (sys_of [] [demo_definition]) = (Inr resp, w) \<and> rp_status resp = 201"
proof -
  obtain resp w where run: "create_run sys_server demo_request demo_caller (sys_of [] [demo_definition]) = (Inr resp, w)"
    using demo_created by (auto split: prod.splits sum.splits)
  from accepted_run_plans[OF this] run show ?thesis by blast
qed

section \<open>Bulk rollback\<close>

text \<open>The runs a request selects, and a client that refuses every other patch than their rollback.\<close>

definition bulk_selected :: "bulk_request \<Rightarrow> wizard_run \<Rightarrow> bool" where
  "bulk_selected b run \<longleftrightarrow> (br_names b \<noteq> [] \<or> br_definition b \<noteq> []) \<and>
     (br_names b = [] \<or> run_name run \<in> set (br_names b)) \<and>
     (br_definition b = [] \<or> rp_definition_ref (run_spec run) = br_definition b)"

definition patch_only :: "(wizard_run \<Rightarrow> wizard_run \<Rightarrow> bool) \<Rightarrow> 'w server \<Rightarrow> 'w server" where
  "patch_only ok s = s\<lparr>sv_client := (sv_client s)\<lparr>ac_patch_run :=
     (\<lambda>old new. if ok old new then ac_patch_run (sv_client s) old new else io_fail (Panic ''unexpected patch''))\<rparr>\<rparr>"

lemma patch_only_sel [simp]: "ac_list_runs (sv_client (patch_only ok s)) = ac_list_runs (sv_client s)"
  "ac_patch_run (sv_client (patch_only ok s)) old new =
     (if ok old new then ac_patch_run (sv_client s) old new else io_fail (Panic ''unexpected patch''))"
  by (simp_all add: patch_only_def)

lemma map_of_runs: "map_of (rev (map (\<lambda>r. (run_name r, r)) runs)) n = Some r \<Longrightarrow> run_name r = n \<and> r \<in> set runs"
  by (auto dest!: map_of_SomeD)

lemma bulk_names_spec:
  "bulk_names b runs seen ns = (ts, fs) \<Longrightarrow>
   distinct (map run_name ts @ map fst fs) \<and> set (map run_name ts @ map fst fs) = set ns - set seen \<and>
   (\<forall>t\<in>set ts. t \<in> set runs \<and> (br_definition b = [] \<or> rp_definition_ref (run_spec t) = br_definition b))"
proof (induction b runs seen ns arbitrary: ts fs rule: bulk_names.induct)
  case (2 b runs seen n ns)
  show ?case
  proof (cases "n \<in> set seen")
    case True
    with 2 show ?thesis by auto
  next
    case False
    obtain ts0 fs0 where r: "bulk_names b runs (n # seen) ns = (ts0, fs0)" by fastforce
    note ih = 2(2)[OF False r]
    show ?thesis
    proof (cases "map_of (rev (map (\<lambda>r. (run_name r, r)) runs)) n")
      case None
      with 2(3) False r have "ts = ts0" "fs = (n, ''run not found'') # fs0" by auto
      with ih False show ?thesis by auto
    next
      case (Some run)
      note m = map_of_runs[OF Some]
      show ?thesis
      proof (cases "br_definition b \<noteq> [] \<and> rp_definition_ref (run_spec run) \<noteq> br_definition b")
        case True
        with 2(3) False r Some have "ts = ts0" "fs = (n, ''run belongs to a different definition'') # fs0" by simp_all
        with ih False show ?thesis by auto
      next
        case other: False
        with 2(3) False r Some have "ts = run # ts0" "fs = fs0" by auto
        with ih False m other show ?thesis by auto
      qed
    qed
  qed
qed simp

lemma bulk_targets_selected:
  assumes "bulk_targets b runs = (ts, fs)" "br_names b \<noteq> [] \<or> br_definition b \<noteq> []" "t \<in> set ts"
  shows "bulk_selected b t"
proof (cases "br_names b = []")
  case True
  with assms show ?thesis by (auto simp: bulk_targets_def bulk_selected_def)
next
  case False
  with assms(1) have "bulk_names b runs [] (br_names b) = (ts, fs)" by (simp add: bulk_targets_def)
  from bulk_names_spec[OF this] False assms(3) show ?thesis by (auto simp: bulk_selected_def)
qed

lemma bulk_targets_names:
  assumes "bulk_targets b runs = (ts, fs)"
  shows "mset (map run_name ts @ map fst fs) = mset
    (if br_names b \<noteq> [] then remdups (br_names b)
     else map run_name (filter (\<lambda>r. rp_definition_ref (run_spec r) = br_definition b) runs))"
proof (cases "br_names b = []")
  case False
  with assms have "bulk_names b runs [] (br_names b) = (ts, fs)" by (simp add: bulk_targets_def)
  from bulk_names_spec[OF this]
  have "distinct (map run_name ts @ map fst fs)" "set (map run_name ts @ map fst fs) = set (remdups (br_names b))" by simp_all
  then have "mset (map run_name ts @ map fst fs) = mset (remdups (br_names b))"
    using set_eq_iff_mset_eq_distinct distinct_remdups by blast
  with False show ?thesis by simp
qed (use assms in \<open>auto simp: bulk_targets_def\<close>)

lemma bulk_all_names:
  "bulk_rollback_all s runs w = ((acc, failed), w') \<Longrightarrow> mset (acc @ map fst failed) = mset (map run_name runs)"
  by (induction s runs w arbitrary: acc failed w' rule: bulk_rollback_all.induct)
    (auto split: prod.splits sum.splits)

lemma bulk_all_guarded:
  assumes "\<And>t. t \<in> set runs \<Longrightarrow> ok t (rolled_back t)"
  shows "bulk_rollback_all (patch_only ok s) runs w = bulk_rollback_all s runs w"
  using assms
proof (induction s runs w rule: bulk_rollback_all.induct)
  case (2 s run runs w)
  have "request_rollback (patch_only ok s) run = request_rollback s run"
    using 2(2) by (auto simp: request_rollback_def)
  with 2 show ?case by (auto split: prod.splits)
qed simp

text \<open>C18: a bulk rollback without a selector is refused; with one it asks for nothing but the rollback of
  runs it selects (a client that panics on any other patch makes no difference), of at most 200 of
  them, and the answer names each requested run, or each run of the definition, exactly once, as
  accepted or as failed.\<close>

theorem bulk_rollback_selects:
  assumes "decode_members bulk_member \<lparr>br_names = [], br_definition = []\<rparr> (rq_body rq) = Some b"
  shows "bulk_rollback s rq w = bulk_rollback (patch_only (\<lambda>old new. bulk_selected b old \<and> new = rolled_back old) s) rq w \<and>
    (br_names b = [] \<and> br_definition b = [] \<longrightarrow> (\<exists>resp. bulk_rollback s rq w = (Inl resp, w) \<and> rp_status resp = 400)) \<and>
    (\<forall>resp w'. bulk_rollback s rq w = (Inr resp, w') \<longrightarrow>
      (\<exists>runs w1 acc failed. list_all_runs s w = (Inr runs, w1) \<and> rp_body resp = BulkBody acc failed \<and> length acc \<le> 200 \<and>
         mset (acc @ map fst failed) = mset (if br_names b \<noteq> [] then remdups (br_names b)
           else map run_name (filter (\<lambda>r. rp_definition_ref (run_spec r) = br_definition b) runs))))"
proof -
  let ?ok = "\<lambda>old new. bulk_selected b old \<and> new = rolled_back old"
  obtain x w1 where l: "list_all_runs s w = (x, w1)" by fastforce
  have l': "list_all_runs (patch_only ok s) w = (x, w1)" for ok using l by (simp add: list_all_runs_def)
  show ?thesis
  proof (cases "br_names b = [] \<and> br_definition b = []")
    case True
    then show ?thesis by (simp add: bulk_rollback_def decode_body_def assms io_bind_def)
  next
    case sel: False
    show ?thesis
    proof (cases x)
      case (Inl e)
      with sel show ?thesis by (auto simp: bulk_rollback_def decode_body_def assms io_bind_def l l')
    next
      case (Inr runs)
      obtain ts fs where t: "bulk_targets b runs = (ts, fs)" by fastforce
      let ?sorted = "sort_by (\<lambda>a b. run_name a \<le> run_name b) ts"
      obtain acc failed w2 where a: "bulk_rollback_all s ?sorted w1 = ((acc, failed), w2)"
        by (metis prod.collapse)
      have "bulk_rollback_all (patch_only ?ok s) ?sorted w1 = bulk_rollback_all s ?sorted w1"
        by (rule bulk_all_guarded) (use bulk_targets_selected[OF t] sel in auto)
      then have a': "bulk_rollback_all (patch_only ?ok s) ?sorted w1 = ((acc, failed), w2)" using a by simp
      have m: "mset (acc @ map fst failed) = mset (map run_name ts)"
        using bulk_all_names[OF a] by (simp add: image_mset.comp)
      have "length acc \<le> length ts" using mset_eq_length[OF m] by simp
      have names: "mset (acc @ map fst (fs @ failed)) = mset (if br_names b \<noteq> [] then remdups (br_names b)
          else map run_name (filter (\<lambda>r. rp_definition_ref (run_spec r) = br_definition b) runs))"
        unfolding bulk_targets_names[OF t, symmetric] using m by simp
      define bad where "bad = write_error 400 (Lit (''the selection matches '' @ format_nat (length ts) @
               '' runs; narrow it to at most '' @ format_nat maxBulkTargets)) []"
      have run: "bulk_rollback S rq w = (if length ts > maxBulkTargets then (Inl bad, w1)
          else (Inr (write_json (if acc \<noteq> [] then 202 else 200) (BulkBody acc (fs @ failed))), w2))"
        if "list_all_runs S w = (Inr runs, w1)" "bulk_rollback_all S ?sorted w1 = ((acc, failed), w2)" for S
        using sel that by (auto simp: bulk_rollback_def decode_body_def assms io_bind_def t bad_def)
      have "bulk_rollback (patch_only ?ok s) rq w = bulk_rollback s rq w"
        using run[OF l[unfolded Inr] a] run[OF l'[unfolded Inr] a'] by simp
      moreover have "rp_body resp = BulkBody acc (fs @ failed) \<and> length acc \<le> 200"
        if "bulk_rollback s rq w = (Inr resp, w')" for resp w'
        using that run[OF l[unfolded Inr] a] \<open>length acc \<le> length ts\<close>
        by (auto simp: write_json_def maxBulkTargets_def split: if_splits)
      ultimately show ?thesis using sel names l Inr by fastforce
    qed
  qed
qed

definition bulk_demo :: request where
  "bulk_demo = request_as ''system:serviceaccount:ui:bff'' ''POST'' [''api'', ''v1'', ''runs'', ''bulk-rollback'']
     (JObj [(''names'', JArr [JStr ''a'', JStr ''b'', JStr ''a''])])"

lemma bulk_demo_decoded:
  "decode_members bulk_member \<lparr>br_names = [], br_definition = []\<rparr> (rq_body bulk_demo) =
     Some \<lparr>br_names = [''a'', ''b'', ''a''], br_definition = []\<rparr>"
  by (simp add: bulk_demo_def request_as_def decode_members_def member_names del: fold_name.simps)

lemma bulk_demo_answered:
  "\<exists>resp w'. bulk_rollback sys_server bulk_demo (sys_of runs []) = (Inr resp, w')"
proof -
  let ?b = "\<lparr>br_names = [''a'', ''b'', ''a''], br_definition = []\<rparr>"
  have l: "list_all_runs sys_server (sys_of runs []) = (Inr runs, sys_of runs [])"
    by (simp add: list_all_runs_def sys_server_def sys_client_def sys_of_def or_respond_def)
  obtain ts fs where t: "bulk_targets ?b runs = (ts, fs)" by fastforce
  have "length ts \<le> 2" using mset_eq_length[OF bulk_targets_names[OF t]] by simp
  then have "\<not> length ts > maxBulkTargets" by (simp add: maxBulkTargets_def)
  then show ?thesis
    by (auto simp: bulk_rollback_def decode_body_def bulk_demo_decoded io_bind_def l t split: prod.splits)
qed

theorem bulk_rollback_witness:
  "\<exists>acc failed w'. bulk_rollback sys_server bulk_demo (sys_of [blank_run ''a'' ''demo'' []] []) =
     (Inr (write_json (if acc \<noteq> [] then 202 else 200) (BulkBody acc failed)), w') \<and> mset (acc @ map fst failed) = {#''b'', ''a''#}"
proof -
  have d: "remdups [''a'', ''b'', ''a''] = [''b'', ''a'']" by simp
  obtain resp w' where r: "bulk_rollback sys_server bulk_demo (sys_of [blank_run ''a'' ''demo'' []] []) = (Inr resp, w')"
    using bulk_demo_answered by blast
  have "\<exists>acc failed. resp = write_json (if acc \<noteq> [] then 202 else 200) (BulkBody acc failed)"
    using r by (auto simp: bulk_rollback_def decode_body_def bulk_demo_decoded io_bind_def split: sum.splits prod.splits if_splits)
  with bulk_rollback_selects[OF bulk_demo_decoded, of sys_server "sys_of [blank_run ''a'' ''demo'' []] []"] r
  show ?thesis unfolding d bulk_request.simps by (fastforce simp: write_json_def)
qed

end
