(* ===== verification/ListProps.thy ===== *)
theory ListProps
  imports ApiProps TemplateProps
begin

text \<open>
  The pages of a run list: following the continue tokens gives every matching run exactly once, in
  the requested order. Base64 is a parameter; what is used of it is that it decodes what it encoded
  and that a token is a plain, non-empty word.
\<close>

section \<open>Order\<close>

text \<open>The list orders phases by their names.\<close>

lemma run_phase_str_inj: "run_phase_str p = run_phase_str q \<Longrightarrow> p = q"
  by (cases p; cases q) simp_all

instantiation run_phase :: linorder
begin

definition less_eq_run_phase :: "run_phase \<Rightarrow> run_phase \<Rightarrow> bool" where
  "less_eq_run_phase p q \<longleftrightarrow> run_phase_str p \<le> run_phase_str q"

definition less_run_phase :: "run_phase \<Rightarrow> run_phase \<Rightarrow> bool" where
  "less_run_phase p q \<longleftrightarrow> run_phase_str p < run_phase_str q"

instance
  by standard (auto simp: less_eq_run_phase_def less_run_phase_def intro: run_phase_str_inj)

end

lemma list_order_le:
  fixes g :: "'a \<Rightarrow> 'b::linorder"
  assumes "\<And>a b. c a b = (if g a < g b then -1 else if g a = g b then 0 else (1 :: int))"
  shows "list_order p f c a b \<le> 0 \<longleftrightarrow>
    (if lp_sort_desc p then g b < g a else g a < g b) \<or> (g a = g b \<and> lf_name f a \<le> lf_name f b)"
  unfolding list_order_def cmp_str_def Let_def assms by (auto simp: not_less le_less)

lemma list_order_preorder:
  fixes g :: "'a \<Rightarrow> 'b::linorder"
  assumes "\<And>a b. c a b = (if g a < g b then -1 else if g a = g b then 0 else (1 :: int))"
  shows "total_preorder (\<lambda>a b. list_order p f c a b \<le> 0)"
  unfolding total_preorder_def list_order_le[OF assms] by (cases "lp_sort_desc p") auto

text \<open>Every sort key of the run list has a comparator, and each is a total order of runs.\<close>

lemma run_sort:
  assumes "lp_sort_key p \<in> set (lsp_sort_keys runListSpec)"
  obtains c where "map_of (lf_sort runFields) (lp_sort_key p) = Some c"
    "total_preorder (\<lambda>a b. list_order p runFields c a b \<le> 0)"
proof -
  consider "lp_sort_key p = ''created''" | "lp_sort_key p = ''name''" | "lp_sort_key p = ''phase''" | "lp_sort_key p = ''definition''"
    using assms by (auto simp: runListSpec_def)
  then show thesis
  proof cases
    case 1
    show thesis by (rule that[of "\<lambda>a b. cmp_time (run_created a) (run_created b)"])
        (simp_all add: 1 runFields_def list_order_preorder[where g = run_created] cmp_time_def)
  next
    case 2
    show thesis by (rule that[of "\<lambda>a b. cmp_str (run_name a) (run_name b)"])
        (simp_all add: 2 runFields_def list_order_preorder[where g = run_name] cmp_str_def)
  next
    case 3
    show thesis by (rule that[of "\<lambda>a b. cmp_str (run_phase_str (run_phase_of a)) (run_phase_str (run_phase_of b))"])
        (auto simp: 3 runFields_def cmp_str_def less_run_phase_def dest: run_phase_str_inj
          intro!: list_order_preorder[where g = run_phase_of])
  next
    case 4
    show thesis by (rule that[of "\<lambda>a b. cmp_str (rp_definition_ref (run_spec a)) (rp_definition_ref (run_spec b))"])
        (simp_all add: 4 runFields_def list_order_preorder[where g = "\<lambda>r. rp_definition_ref (run_spec r)"] cmp_str_def)
  qed
qed

section \<open>Pages\<close>

text \<open>
  What a client gets that follows the continue tokens, at most \<open>n\<close> pages: the views and the total of
  each. A response that is no page ends it.
\<close>

definition with_token :: "string \<Rightarrow> request \<Rightarrow> request" where
  "with_token tok rq = rq\<lparr>rq_query := (''continue'', [tok]) # rq_query rq\<rparr>"

fun follow_pages :: "'w server \<Rightarrow> nat \<Rightarrow> request \<Rightarrow> 'w \<Rightarrow> (run_view list \<times> nat) list" where
  "follow_pages s 0 rq w = []"
| "follow_pages s (Suc n) rq w =
     (case list_runs s rq w of
        (Inr r, w1) \<Rightarrow>
          (case rp_body r of
             RunPageBody vs cnt tok \<Rightarrow>
               (vs, cnt) # (if tok = [] then [] else follow_pages s n (with_token tok rq) w1)
           | _ \<Rightarrow> [])
      | _ \<Rightarrow> [])"

text \<open>What is used of base64: a token decodes to its text, is not empty, and has no space around it.\<close>

definition plain_tokens :: "list_lib \<Rightarrow> bool" where
  "plain_tokens ll \<longleftrightarrow> (\<forall>n. let s = continuePrefix @ format_nat n in
     ll_decode ll (ll_encode ll s) = Some s \<and> ll_encode ll s \<noteq> [] \<and> trim_space (ll_encode ll s) = ll_encode ll s)"

lemma parse_token:
  assumes "plain_tokens ll" "n < 2 ^ 63"
  shows "encode_continue ll n \<noteq> [] \<and> parse_offset ll ((''continue'', [encode_continue ll n]) # q) = Inr n"
proof -
  have "int64_ok (int n)" using assms(2) by (simp add: int64_ok_def)
  then have "parse_int (format_nat n) = Some (int n)" using parse_format_int[of "int n"] by (simp add: format_int_def)
  then show ?thesis
    using assms(1)
    by (simp add: plain_tokens_def encode_continue_def parse_offset_def query_first_def values_at_def decode_continue_def
        continuePrefix_def Let_def)
qed

lemma parse_list_token:
  assumes "parse_list gl ll q spec now = Inr p" "parse_offset ll ((''continue'', [tok]) # q) = Inr k"
  shows "parse_list gl ll ((''continue'', [tok]) # q) spec now = Inr (p\<lparr>lp_offset := k\<rparr>)"
proof -
  have same: "query_first ((''continue'', [tok]) # q) x = query_first q x"
    "query_values ((''continue'', [tok]) # q) x = query_values q x" if "x \<noteq> ''continue''" for x
    using that by (simp_all add: query_first_def query_values_def values_at_def)
  have "parse_window gl ll ((''continue'', [tok]) # q) now = parse_window gl ll q now"
    "parse_sort spec ((''continue'', [tok]) # q) = parse_sort spec q"
    "parse_limit spec ((''continue'', [tok]) # q) = parse_limit spec q"
    by (simp_all add: parse_window_def parse_sort_def parse_limit_def same cong: sum.case_cong)
  then show ?thesis
    using assms by (auto simp: parse_list_def same Let_def split: if_splits sum.splits)
qed

lemma run_selected_token: "run_selected ((''continue'', [tok]) # q) = run_selected q"
  by (simp add: fun_eq_iff run_selected_def query_values_def values_at_def query_get_def)

lemma list_offset:
  "list_keep (p\<lparr>lp_offset := k\<rparr>) f x = list_keep p f x" "list_sort (p\<lparr>lp_offset := k\<rparr>) f = list_sort p f"
proof -
  have "in_window (p\<lparr>lp_offset := k\<rparr>) = in_window p" by (simp add: fun_eq_iff in_window_def cong: option.case_cong)
  then show "list_keep (p\<lparr>lp_offset := k\<rparr>) f x = list_keep p f x" by (simp add: fun_eq_iff list_keep_def)
  have order: "list_order (p\<lparr>lp_offset := k\<rparr>) f c a b = list_order p f c a b" for c a b by (simp add: list_order_def)
  show "list_sort (p\<lparr>lp_offset := k\<rparr>) f = list_sort p f" by (simp add: fun_eq_iff list_sort_def order cong: option.case_cong)
qed

lemma parse_list_bounds:
  assumes "parse_list gl ll q runListSpec now = Inr p"
  shows "lp_sort_key p \<in> set (lsp_sort_keys runListSpec)" "1 \<le> lp_limit p" "lp_limit p \<le> 500"
proof -
  obtain d where key: "parse_sort runListSpec q = Inr (lp_sort_key p, d)" and limit: "parse_limit runListSpec q = Inr (lp_limit p)"
    using assms by (auto simp: parse_list_def Let_def split: if_splits sum.splits)
  show "lp_sort_key p \<in> set (lsp_sort_keys runListSpec)"
    using key by (auto simp: parse_sort_def Let_def runListSpec_def split: if_splits)
  show "1 \<le> lp_limit p" "lp_limit p \<le> 500"
    using limit by (auto simp: parse_limit_def Let_def runListSpec_def defaultListLimit_def maxListLimit_def
        split: if_splits option.splits)
qed

lemma follow_pages_complete:
  assumes ll: "plain_tokens (sv_list_lib s)" and runs: "list_all_runs s w = (Inr runs, w)"
    and small: "length ys < 2 ^ 63" and limit: "0 < l"
  shows "parse_list (sv_lib s) (sv_list_lib s) (rq_query rq) runListSpec (sv_now s w) = Inr p \<Longrightarrow> lp_limit p = l \<Longrightarrow>
    list_sort p runFields (filter (list_keep p runFields (run_selected (rq_query rq))) runs) = Inr ys \<Longrightarrow>
    length ys - lp_offset p < n * l \<Longrightarrow>
    concat (map fst (follow_pages s n rq w)) = map view_run (drop (lp_offset p) ys) \<and>
    (\<forall>(vs, cnt)\<in>set (follow_pages s n rq w). length vs \<le> l \<and> cnt = length ys)"
proof (induction n arbitrary: p rq)
  case (Suc n)
  let ?stop = "lp_offset p + l"
  show ?case
  proof (cases "?stop < length ys")
    case True
    let ?tok = "encode_continue (sv_list_lib s) ?stop"
    have page: "list_runs s rq w = (Inr (write_json 200
        (RunPageBody (map view_run (take l (drop (lp_offset p) ys))) (length ys) ?tok)), w)"
      using Suc.prems True limit
      by (simp add: list_runs_def io_bind_def io_return_def runs list_apply_def paginate_def Let_def)
    have "?stop < 2 ^ 63" using True small by simp
    note tok = parse_token[OF ll this, of "rq_query rq"]
    note next_query = parse_list_token[OF Suc.prems(1) conjunct2[OF tok]]
    have ih: "concat (map fst (follow_pages s n (with_token ?tok rq) w)) = map view_run (drop ?stop ys) \<and>
        (\<forall>(vs, cnt)\<in>set (follow_pages s n (with_token ?tok rq) w). length vs \<le> l \<and> cnt = length ys)"
      using Suc.IH[of "with_token ?tok rq" "p\<lparr>lp_offset := ?stop\<rparr>"] Suc.prems True
      by (simp add: with_token_def next_query list_offset run_selected_token less_diff_conv)
    have "take l (drop (lp_offset p) ys) @ drop ?stop ys = drop (lp_offset p) ys"
      by (metis add.commute append_take_drop_id drop_drop)
    then have "map view_run (take l (drop (lp_offset p) ys)) @ map view_run (drop ?stop ys) = map view_run (drop (lp_offset p) ys)"
      by (metis map_append)
    then show ?thesis using ih conjunct1[OF tok] by (simp add: page write_json_def)
  next
    case False
    then have "list_runs s rq w = (Inr (write_json 200
        (RunPageBody (map view_run (drop (lp_offset p) ys)) (length ys) [])), w)"
      using Suc.prems limit
      by (auto simp: list_runs_def io_bind_def io_return_def runs list_apply_def paginate_def Let_def min_def)
    with False show ?thesis by (auto simp: write_json_def)
  qed
qed simp

text \<open>C19: The run list: for a request without a continue token, following the tokens of the pages gives every run
  that matches the filters exactly once, in the requested order (by the sort key, then by name), as long as the
  runs do not change; no page has more than the requested limit, between 1 and 500, and each tells the total.\<close>

theorem run_pages_complete:
  assumes "plain_tokens (sv_list_lib s)" "list_all_runs s w = (Inr runs, w)" "length runs < 2 ^ 63"
    "parse_list (sv_lib s) (sv_list_lib s) (rq_query rq) runListSpec (sv_now s w) = Inr p" "lp_offset p = 0"
  shows "\<exists>ys c. map_of (lf_sort runFields) (lp_sort_key p) = Some c \<and>
    mset ys = mset (filter (list_keep p runFields (run_selected (rq_query rq))) runs) \<and>
    sorted_wrt (\<lambda>a b. list_order p runFields c a b \<le> 0) ys \<and>
    concat (map fst (follow_pages s (Suc (length runs)) rq w)) = map view_run ys \<and>
    (\<forall>(vs, cnt)\<in>set (follow_pages s (Suc (length runs)) rq w). length vs \<le> lp_limit p \<and> cnt = length ys) \<and>
    1 \<le> lp_limit p \<and> lp_limit p \<le> 500"
proof -
  note b = parse_list_bounds[OF assms(4)]
  obtain c where c: "map_of (lf_sort runFields) (lp_sort_key p) = Some c"
    "total_preorder (\<lambda>a b. list_order p runFields c a b \<le> 0)" using run_sort[OF b(1)] .
  let ?xs = "filter (list_keep p runFields (run_selected (rq_query rq))) runs"
  let ?ys = "sort_by (\<lambda>a b. list_order p runFields c a b \<le> 0) ?xs"
  have "lp_sort_key p \<noteq> []" using b(1) by (auto simp: runListSpec_def)
  then have sort: "list_sort p runFields ?xs = Inr ?ys" using c(1) by (simp add: list_sort_def)
  have len: "length ?ys \<le> length runs" by (simp add: length_sort_by)
  have "length runs * 1 \<le> length runs * lp_limit p" by (rule mult_le_mono2) (rule b(2))
  then have "length ?ys - lp_offset p < Suc (length runs) * lp_limit p"
    using len b(2) unfolding mult_Suc by linarith
  note pages = follow_pages_complete[OF assms(1,2) _ _ assms(4) refl sort this]
  have "length ?ys < 2 ^ 63" "0 < lp_limit p" using len assms(3) b(2) by linarith+
  from pages[OF this] show ?thesis
    using c(1) sorted_sort_by[OF c(2), of ?xs] b(2,3) assms(5)
    by (intro exI[of _ ?ys] exI[of _ c]) (simp del: follow_pages.simps)
qed

text \<open>Tokens are written as they are.\<close>

lemma strip_words_id:
  "s = [] \<or> list_all (\<lambda>p. p = [] \<or> hd p \<noteq> hd s) ps \<Longrightarrow> strip_words ps s = s"
proof -
  assume "s = [] \<or> list_all (\<lambda>p. p = [] \<or> hd p \<noteq> hd s) ps"
  then have "find (\<lambda>p. p \<noteq> [] \<and> prefix p s) ps = None"
    by (induction ps) (auto simp: prefix_def)
  then show ?thesis by (simp add: strip_words.simps)
qed

lemma plain_list_tokens: "plain_tokens plain_list"
proof -
  have "trim_space (continuePrefix @ format_nat n) = continuePrefix @ format_nat n" for n
  proof -
    let ?s = "continuePrefix @ format_nat n"
    have l: "strip_words space_runes ?s = ?s"
      by (rule strip_words_id) (simp add: continuePrefix_def, code_simp)
    obtain ds d where d: "format_nat n = ds @ [d]" "is_digit d"
      using format_nat_digits[of n] by (cases "format_nat n" rule: rev_cases) auto
    have "strip_words (map rev space_runes) (rev ?s) = rev ?s"
      by (rule strip_words_id) (use d(2) in \<open>auto simp: d(1) space_runes_def bytes_def is_digit_def\<close>)
    with l show ?thesis by (simp add: trim_space_def)
  qed
  then show ?thesis by (simp add: plain_tokens_def plain_list_def continuePrefix_def)
qed

definition list_demo :: request where
  "list_demo = request_as ''system:serviceaccount:ui:bff'' ''GET'' [''api'', ''v1'', ''runs''] JNull"

theorem run_pages_witness:
  "\<exists>ys. mset ys = {#blank_run ''a'' ''demo'' [], blank_run ''b'' ''demo'' []#} \<and>
    concat (map fst (follow_pages sys_server 3 list_demo
      (sys_of [blank_run ''b'' ''demo'' [], blank_run ''a'' ''demo'' []] []))) = map view_run ys"
proof -
  let ?runs = "[blank_run ''b'' ''demo'' [], blank_run ''a'' ''demo'' []]"
  let ?p = "\<lparr>lp_query = [], lp_since = None, lp_until = None, lp_sources = [], lp_sort_key = ''created'',
    lp_sort_desc = True, lp_limit = 100, lp_offset = 0\<rparr>"
  have q: "rq_query list_demo = []" by (simp add: list_demo_def request_as_def)
  have p: "parse_list (sv_lib sys_server) (sv_list_lib sys_server) (rq_query list_demo) runListSpec
      (sv_now sys_server (sys_of ?runs [])) = Inr ?p"
    unfolding q by (simp add: parse_list_def parse_window_def list_time_def query_first_def query_values_def values_at_def
        parse_sort_def parse_limit_def parse_offset_def runListSpec_def defaultListLimit_def Let_def)
  have runs: "list_all_runs sys_server (sys_of ?runs []) = (Inr ?runs, sys_of ?runs [])"
    by (simp add: list_all_runs_def sys_server_def sys_client_def sys_of_def or_respond_def)
  have keep: "filter (list_keep ?p runFields (run_selected (rq_query list_demo))) ?runs = ?runs"
    unfolding q by (simp add: list_keep_def in_window_def run_selected_def query_values_def values_at_def query_get_def
        set_match_def)
  have tokens: "plain_tokens (sv_list_lib sys_server)" by (simp add: sys_server_def plain_list_tokens)
  have small: "length ?runs < 2 ^ 63" by simp
  have zero: "lp_offset ?p = 0" by simp
  have n: "Suc (length ?runs) = 3" by simp
  from run_pages_complete[OF tokens runs small p zero, unfolded keep n]
  show ?thesis by (auto simp: add_mset_commute)
qed

end
