(* ===== verification/WeaveProps.thy ===== *)
theory WeaveProps
  imports CatalogueProps
begin

text \<open>
  The comparison of a weave step with a resource that exists already. Each recipe of \<open>weavesteps.go\<close>
  and \<open>appstep.go\<close> writes a spec, compares a found spec with its own params, and hashes its params
  for the ledger; the locale states how the three fit together, and is interpreted for each recipe.
\<close>

section \<open>The contract of a recipe\<close>


section \<open>Reading a spec\<close>

lemma obj_get_simps [simp]:
  "obj_get [] k = JNull" "obj_get ((a, j) # m) k = (if k \<in> fst ` set m then obj_get m k else if k = a then j else JNull)"
proof -
  show "obj_get [] k = JNull" by (simp add: obj_get_def)
  have "map_of (rev m) k = None \<longleftrightarrow> k \<notin> fst ` set m" by (simp add: map_of_eq_None_iff)
  then show "obj_get ((a, j) # m) k = (if k \<in> fst ` set m then obj_get m k else if k = a then j else JNull)"
    by (auto simp: obj_get_def map_of_append map_add_def split: option.splits)
qed

lemma obj_get_append [simp]: "obj_get (m @ m') k = (if k \<in> fst ` set m' then obj_get m' k else obj_get m k)"
proof -
  have "map_of (rev m') k = None \<longleftrightarrow> k \<notin> fst ` set m'" by (simp add: map_of_eq_None_iff)
  then show ?thesis by (auto simp: obj_get_def map_add_def split: option.splits)
qed

lemma code_source_keys [simp]: "fst ` set (code_source a t) = (if a \<noteq> [] then {''codeSource''} else {})"
  by (simp add: code_source_def)

lemma code_source_none [simp]: "code_source [] t = []"
  by (simp add: code_source_def)

lemma auth_field_keys [simp]: "fst ` set (auth_field f r) = (if r \<noteq> None then {f} else {})"
  by (auto simp: auth_field_def split: option.splits)

lemma resources_keys [simp]: "k \<noteq> ''resources'' \<Longrightarrow> k \<notin> fst ` set (resources_field e)"
  by (auto simp: resources_field_def split: option.splits)

lemma code_source_get: "a \<noteq> [] \<Longrightarrow> obj_get (code_source a t) ''codeSource'' = JObj [(''artifactName'', JStr a), (''tag'', JStr t)]"
  by (simp add: code_source_def)

lemma auth_field_get: "obj_get (auth_field f (Some (m, n))) f = JObj [(''mode'', JStr m), (''name'', JStr n)]"
  by (simp add: auth_field_def)

lemmas spec_read = image_Un code_source_get auth_field_get

text \<open>Code comes as an artifact with its tag, or not at all.\<close>

definition paired :: "smap \<Rightarrow> bool" where
  "paired p \<longleftrightarrow> (get0 p ''artifactName'' = []) = (get0 p ''tag'' = [])"




lemma same_artifact_found:
  assumes "paired q" "obj_get spec ''codeSource'' = (if get0 q ''artifactName'' \<noteq> []
      then JObj [(''artifactName'', JStr (get0 q ''artifactName'')), (''tag'', JStr (get0 q ''tag''))] else JNull)"
  shows "same_artifact spec a t \<longleftrightarrow> get0 q ''artifactName'' = a \<and> get0 q ''tag'' = t"
  using assms by (auto simp: same_artifact_def nested_string_def paired_def)

section \<open>Hashes with external authentication\<close>



section \<open>Templates\<close>





lemma existing_port_json [simp]: "existing_port gl (port_json n) = format_int n"
  by (simp add: existing_port_def port_json_def)

lemma serviceTemplate_read:
  "obj_get (serviceTemplate_spec e q n) ''codeSource'' = (if get0 q ''artifactName'' \<noteq> []
      then JObj [(''artifactName'', JStr (get0 q ''artifactName'')), (''tag'', JStr (get0 q ''tag''))] else JNull)"
  "obj_get (serviceTemplate_spec e q n) ''ports'' = port_json n"
  "existing_ingress_name (serviceTemplate_spec e q n) = get0 q ''ingressName''"
  by (simp_all add: serviceTemplate_spec_def spec_read existing_ingress_name_def nested_string_def)



text \<open>A port that is spelled otherwise is written as its number, and not recognised afterwards.\<close>

lemma respelled_port_refused:
  "parse_int (get0 p ''port'') = Some n \<Longrightarrow> paired p \<Longrightarrow> get0 p ''port'' \<noteq> format_int n \<Longrightarrow>
   serviceTemplate_matches gl p (serviceTemplate_spec e p n) = ''it exposes a different port''"
  by (auto simp: serviceTemplate_matches_def serviceTemplate_read same_artifact_found[OF _ serviceTemplate_read(1)])

section \<open>Chains and triggers\<close>











subsection \<open>Triggers\<close>

















section \<open>Apps\<close>










lemma object_members_JObj [simp]: "object_members (map JObj eps) = eps"
  by (induction eps) auto








section \<open>A step and its recipe\<close>

text \<open>
  The step refuses its params, or it ensures the resource of a choice \<open>c\<close> that its params make (\<open>P\<close>), in the terms of a recipe: the
  spec it sends, the comparison and the parts that are hashed for the ledger.
\<close>

definition ensures ::
  "'w env \<Rightarrow> input \<Rightarrow> string \<Rightarrow> ('p \<Rightarrow> (string \<times> json) list) \<Rightarrow> ('p \<Rightarrow> (string \<times> json) list \<Rightarrow> string) \<Rightarrow>
   ('p \<Rightarrow> string list) \<Rightarrow> ('p \<Rightarrow> bool) \<Rightarrow> ('w, step_result) call \<Rightarrow> bool" where
  "ensures e i kind spec matches hash P f \<longleftrightarrow> (\<exists>x. f = io_fail x) \<or>
     (\<exists>c name obj after. P c \<and> obj_get obj ''spec'' = JObj (spec c) \<and>
        f = weaveResource e i kind name (hash c) obj (matches c) after)"


lemma ensures_fail [simp]: "ensures e i kind spec matches hash P (io_fail x)"
  by (auto simp: ensures_def)


text \<open>
  The step refuses its params, or it ensures a resource it takes for its own when the server returns the
  spec it has sent, whatever else the server has added to the object.
\<close>

definition recognises :: "'w env \<Rightarrow> input \<Rightarrow> ('w, step_result) call \<Rightarrow> bool" where
  "recognises e i f \<longleftrightarrow> (\<exists>x. f = io_fail x) \<or>
     (\<exists>kind name parts obj matches after. f = weaveResource e i kind name parts obj matches after \<and>
        (\<forall>found. obj_get found ''spec'' = obj_get obj ''spec'' \<longrightarrow> ex_matches (weave_existing matches found)))"

text \<open>
  Two calls of a step, \<open>f\<close> for \<open>i\<close> and \<open>g\<close> for \<open>j\<close>. One of them refuses its params, or both ensure a resource of one kind, and the
  first call compares the resource that the second creates with its own params: it accepts it when the
  hashed parts are the same and, if \<open>exact\<close>, only then.
\<close>

definition compares :: "'w env \<Rightarrow> input \<Rightarrow> input \<Rightarrow> bool \<Rightarrow> ('w, step_result) call \<Rightarrow> ('w, step_result) call \<Rightarrow> bool" where
  "compares e i j exact f g \<longleftrightarrow> (\<exists>x. f = io_fail x) \<or> (\<exists>x. g = io_fail x) \<or>
     (\<exists>kind name parts obj matches after name' parts' obj' matches' after'.
        f = weaveResource e i kind name parts obj matches after \<and>
        g = weaveResource e j kind name' parts' obj' matches' after' \<and>
        (\<forall>found. obj_get found ''spec'' = obj_get obj' ''spec'' \<longrightarrow>
           (parts = parts' \<longrightarrow> ex_matches (weave_existing matches found)) \<and>
           (exact \<and> ex_matches (weave_existing matches found) \<longrightarrow> parts = parts')))"


lemma refused [simp]:
  "recognises e i (io_fail x)" "compares e i j exact (io_fail x) g" "compares e i j exact f (io_fail x)"
  unfolding recognises_def compares_def by blast+


section \<open>The steps follow their recipes\<close>




lemma new_object_spec [simp]: "obj_get (new_weave_object kind name sp) ''spec'' = JObj sp"
  by (simp add: new_weave_object_def)

lemma fired_object_spec [simp]: "obj_get (annotate_fire ep obj) ''spec'' = obj_get obj ''spec''"
proof -
  have "obj_get (assoc_set k j m) k' = obj_get m k'" if "k \<noteq> k'" for k j k' and m :: "(string \<times> json) list"
    using that by (induction m) auto
  then show ?thesis by (simp add: annotate_fire_def)
qed











section \<open>The comparison and the hash\<close>











section \<open>A step recognises what it created\<close>












section \<open>What a repeated pass leaves out\<close>

text \<open>
  A resource that is found is not created again, so whatever \<open>Create\<close> does after the POST is not
  caught up on: when the POST succeeded and the call after it failed (\<open>Fire\<close> for \<open>fireOnCreate\<close>, the labels of
  a batch trigger), the retry finds the resource and is done.
\<close>

lemma found_not_created:
  assumes "ledger_get (env_ledger e) (mg_key m) w = (Inr (Some en), w1)" "\<not> wr_terminating en"
    and "mg_get m w1 = (Inr (Some ex), w2)" "ex_matches ex" "wr_spec_hash en = mg_hash m" "mg_update m = None"
    and "ledger_add_ref (env_ledger e) (mg_key m) (in_ref i) no_options w2 = (Inr upd, w3)"
  shows "\<exists>ref. ensureStep e i (m\<lparr>mg_create := create\<rparr>) outs w =
    (Inr \<lparr>res_done = True, res_requeue = 0, res_message = Lit [], res_outputs = outs, res_resources = [ref]\<rparr>, w3)"
  using assms
  by (simp add: ensureStep_def ensure_def maxEnsureAttempts_def numeral_nat ensure_existing_def ensure_update_def Let_def
      io_try_def io_bind_def)

end
