(* ===== verification/ResumeProps.thy ===== *)
theory ResumeProps
  imports ControllerProps
begin

text \<open>
  A pass resumes a run where the recorded status says it is: it equals the loop over the remaining
  instances with the recorded outputs, so finished steps cost no call and are never run again.
\<close>

definition done_count :: "step_status list \<Rightarrow> nat" where
  "done_count ss = length (takeWhile (\<lambda>s. ss_phase s = StepSucceeded) ss)"

lemma skip_loop:
  assumes "map ss_key ss = map pi_key insts" "distinct (map ss_key (pre @ ss))" "rs_steps st = pre @ ss"
  shows "advance_loop r run vals e outputs insts st =
    advance_loop r run vals e
      (foldl (\<lambda>acc (i, s). add_outputs i s acc) outputs (zip (take (done_count ss) insts) (take (done_count ss) ss)))
      (drop (done_count ss) insts) st"
  using assms
proof (induction insts arbitrary: ss pre outputs)
  case (Cons i insts)
  then obtain s ss1 where ss: "ss = s # ss1" "ss_key s = pi_key i" "map ss_key ss1 = map pi_key insts" by (cases ss) auto
  show ?case
  proof (cases "ss_phase s = StepSucceeded")
    case True
    have "ss_key s \<notin> ss_key ` set pre" using Cons.prems(2) ss(1) by auto
    then have "find_step st (pi_key i) = Some s" using find_step_at[of st pre s ss1] Cons.prems(3) ss by simp
    moreover have "distinct (map ss_key ((pre @ [s]) @ ss1))" "rs_steps st = (pre @ [s]) @ ss1"
      using Cons.prems(2,3) ss(1) by auto
    note Cons.IH[OF ss(3) this]
    ultimately show ?thesis using True by (simp add: ss(1) done_count_def)
  qed (simp add: ss(1) done_count_def)
qed (simp add: done_count_def)

lemma loop_at_failed:
  "find_step st (pi_key i) = Some s \<Longrightarrow> ss_phase s = StepFailed \<Longrightarrow>
   advance_loop r run vals e outputs (i # is) st w =
     (Inr (0, set_run (rc_now r w) RunFailed (step_failed_msg i s) (run_generation run) st), w)"
  by (simp add: Let_def)

text \<open>C21: resuming is equivalent to carrying on. A pass over a plan whose recorded steps fit it, without a requested retry,
  equals the loop over the instances after the succeeded ones with the outputs recorded for these: finished
  steps are not run again and the later ones see the same outputs as in the pass that finished them. Hence a
  pass over a run whose steps all succeeded, or whose first unfinished step failed, makes no call at all.\<close>

theorem pass_resumes:
  assumes "distinct (map pi_key insts)" "fits_plan insts ss" "rs_steps (run_status run) = ss"
  shows "\<exists>st. rs_steps st = ss \<and>
    advance r run insts vals False w =
      advance_loop r run vals None (collected (take (done_count ss) insts) (take (done_count ss) ss))
        (drop (done_count ss) insts) st w \<and>
    (done_count ss = length ss \<longrightarrow> advance r run insts vals False w =
       (Inr (0, set_run (rc_now r w) RunReady (Lit []) (run_generation run) st), w)) \<and>
    (done_count ss < length ss \<and> ss_phase (ss ! done_count ss) = StepFailed \<longrightarrow> advance r run insts vals False w =
       (Inr (0, set_run (rc_now r w) RunFailed (step_failed_msg (insts ! done_count ss) (ss ! done_count ss))
          (run_generation run) st), w))"
proof -
  let ?n = "done_count ss"
  define st where "st = begin_status (rc_now r w) (run_generation run) insts False (run_status run)"
  have keys: "map ss_key ss = map pi_key insts" using assms(2) by (simp add: fits_plan_def)
  then have len: "length ss = length insts" by (metis length_map)
  have steps: "rs_steps st = ss"
    using sync_same[of "run_status run\<lparr>rs_generation := run_generation run\<rparr>" insts] assms keys
    by (simp add: st_def begin_status_def Let_def)
  have "distinct (map ss_key ([] @ ss))" using assms(1) keys by simp
  from skip_loop[OF keys this, of st r run vals None "[]"]
  have eq: "advance r run insts vals False w = advance_loop r run vals None (collected (take ?n insts) (take ?n ss)) (drop ?n insts) st w"
    by (simp add: advance_def steps collected_def flip: st_def)
  have ready: "advance r run insts vals False w =
      (Inr (0, set_run (rc_now r w) RunReady (Lit []) (run_generation run) st), w)" if "?n = length ss"
    using that eq len by simp
  have failed: "advance r run insts vals False w =
      (Inr (0, set_run (rc_now r w) RunFailed (step_failed_msg (insts ! ?n) (ss ! ?n)) (run_generation run) st), w)"
    if "?n < length ss" "ss_phase (ss ! ?n) = StepFailed"
  proof -
    have key: "ss_key (ss ! ?n) = pi_key (insts ! ?n)" using keys len that(1) by (metis nth_map)
    have "ss = take ?n ss @ ss ! ?n # drop (Suc ?n) ss" by (rule id_take_nth_drop[OF that(1)])
    moreover have "ss_key (ss ! ?n) \<notin> ss_key ` set (take ?n ss)"
      using assms(1) keys that(1) \<open>ss = take ?n ss @ ss ! ?n # drop (Suc ?n) ss\<close>
      by (metis (no_types, lifting) distinct.simps(2) distinct_append list.set_map list.simps(9) map_append not_distinct_conv_prefix)
    ultimately have "find_step st (pi_key (insts ! ?n)) = Some (ss ! ?n)"
      using find_step_at[of st "take ?n ss" "ss ! ?n" "drop (Suc ?n) ss"] key steps by simp
    moreover have "drop ?n insts = insts ! ?n # drop (Suc ?n) insts" using that(1) len by (simp add: Cons_nth_drop_Suc)
    ultimately show ?thesis using eq loop_at_failed[OF _ that(2)] by metis
  qed
  from steps eq ready failed show ?thesis by blast
qed

text \<open>The watcher is there and waiting for the build failed: the pass reports it and calls nothing.\<close>

definition failed_wait :: step_status where
  "failed_wait = (new_step_status (two_plan ! 1))\<lparr>ss_phase := StepFailed, ss_message := Lit ''no build''\<rparr>"

definition stopped_run :: wizard_run where
  "stopped_run = run_b\<lparr>run_status := blank_status\<lparr>rs_steps := [watch_status, failed_wait]\<rparr>\<rparr>"

lemma stopped_fits: "fits_plan two_plan [watch_status, failed_wait]"
  by (simp add: fits_plan_def two_plan_def watch_status_def failed_wait_def new_step_status_def outputs_ok_def failures_ok_def
      maxStepFailures_def two_steps_def lookup_step_def registry_def gitWatcherStep_def)

theorem pass_resumes_witness:
  "\<exists>st. advance (sys_reconciler ''b'' pad_lib) stopped_run two_plan repo_values False (sys_of [stopped_run] []) =
     (Inr (0, st), sys_of [stopped_run] []) \<and> rs_phase st = RunFailed \<and> rs_steps st = [watch_status, failed_wait]"
proof -
  have steps: "rs_steps (run_status stopped_run) = [watch_status, failed_wait]" by (simp add: stopped_run_def)
  have one: "done_count [watch_status, failed_wait] = 1" by (simp add: done_count_def watch_status_def failed_wait_def)
  have "ss_phase failed_wait = StepFailed" by (simp add: failed_wait_def)
  with pass_resumes[OF two_plan_keys stopped_fits steps, of "sys_reconciler ''b'' pad_lib" repo_values "sys_of [stopped_run] []"] one
  show ?thesis by fastforce
qed

end
