(* ===== verification/HealthProps.thy ===== *)
theory HealthProps
  imports ReconcileProps ResumeProps
begin

text \<open>
  Progress: a run of a checked definition, on services whose steps finish, becomes ready in one pass. The
  soundness of the static check carries it; nothing of the program itself can stop the run.
\<close>

text \<open>
  In every world of \<open>I\<close> the steps of the plan finish, with the params they are called with, and lead to a
  world of \<open>I\<close> again.
\<close>

definition healthy :: "('w \<Rightarrow> bool) \<Rightarrow> 'w env \<Rightarrow> string \<Rightarrow> (string \<times> val) list \<Rightarrow> step_instance list \<Rightarrow> bool" where
  "healthy I e n vals insts \<longleftrightarrow>
     (\<forall>i\<in>set insts. \<forall>step outs params s w. lookup_step (ws_type (pi_step i)) = Some step \<longrightarrow> I w \<longrightarrow>
        resolve_map (ws_params (pi_step i)) (step_context e vals outs i) = Inr params \<longrightarrow>
        (\<exists>res w'. sp_ensure step e (step_input n i params s) w = (Inr res, w') \<and> res_done res \<and> I w'))"

text \<open>The plan needs no parameter without a value and no field its item lacks.\<close>

definition provided_for :: "'w env \<Rightarrow> (string \<times> val) list \<Rightarrow> step_instance list \<Rightarrow> bool" where
  "provided_for e vals insts \<longleftrightarrow>
     (\<forall>i\<in>set insts. \<forall>outs. params_available (step_context e vals outs i) (ws_params (pi_step i)))"

lemma lookup_any: "(lookup_step t :: 'a step option) = None \<longleftrightarrow> (lookup_step t :: 'b step option) = None"
  by (cases t) (auto simp: lookup_step_def registry_def step_defs waitBuildStep_def)

lemma plan_step_known:
  assumes "validate_definition gl spec = None" "expand spec vals = Inr insts" "i \<in> set insts"
  shows "\<exists>step :: 'w step. lookup_step (ws_type (pi_step i)) = Some step"
proof -
  from assms(1) obtain decl where steps: "check_steps decl [] (-1) (ds_steps spec) = []"
    by (auto simp: validate_definition_def errors_join_def split: prod.splits if_splits)
  from assms(2,3) obtain st where st: "st \<in> set (ds_steps spec)" "i \<in> set (instances_of vals st)"
    by (auto simp: expand_iff)
  from st(2) obtain b a where "instances_of vals st = b @ i # a" by (meson split_list)
  then have "pi_step i = st" by (rule plan_instance[THEN conjunct1])
  moreover from st(1) obtain pre post where "ds_steps spec = pre @ st # post" by (meson split_list)
  with check_steps_ok[of decl "[]" "-1" pre st post] steps
  obtain step :: "unit step" where "lookup_step (ws_type st) = Some step" by auto
  ultimately show ?thesis using lookup_any[of "ws_type st", where 'a = 'w and 'b = unit] by auto
qed

lemma run_instance_done:
  assumes "lookup_step (ws_type (pi_step i)) = Some step"
    and "resolve_map (ws_params (pi_step i)) (step_context e vals outs i) = Inr params"
    and "sp_ensure step e (step_input n i params (started (rc_now r w) i s)) w = (Inr res, w')" "res_done res"
  shows "\<exists>s'. run_instance r e n i s vals outs w = ((OutcomeDone, 0, s'), w') \<and> ss_phase s' = StepSucceeded"
  using assms by (simp add: run_instance_def record_result_def Let_def)

lemma instance_finishes:
  assumes valid: "validate_definition gl spec = None"
    and resolved: "resolve_parameters gl (ds_parameters spec) given = Inr vals"
    and planned: "expand spec vals = Inr (before @ i # rest)"
    and provided: "provided_for e vals (before @ i # rest)"
    and steps: "healthy I e n vals (before @ i # rest)"
    and ran: "list_all2 outputs_ok before pre" "\<forall>s\<in>set pre. ss_phase s = StepSucceeded" and w: "I w"
  shows "\<exists>s' w'. run_instance r e n i s vals (collected before pre) w = ((OutcomeDone, 0, s'), w') \<and>
    ss_phase s' = StepSucceeded \<and> I w'"
proof -
  let ?c = "step_context e vals (collected before pre) i"
  have i: "i \<in> set (before @ i # rest)" by simp
  obtain step :: "'a step" where step: "lookup_step (ws_type (pi_step i)) = Some step"
    using plan_step_known[OF valid planned i] by blast
  have "outputs_complete (collected before pre) before"
    using collected_complete[OF ran] named_append expand_named[OF planned] by blast
  from checked_instance_resolves[OF valid resolved planned this]
  obtain params where params: "resolve_map (ws_params (pi_step i)) ?c = Inr params"
    using provided i unfolding provided_for_def by blast
  from steps[unfolded healthy_def, rule_format, OF i step w params]
  obtain res w' where "sp_ensure step e (step_input n i params (started (rc_now r w) i s)) w = (Inr res, w')"
    "res_done res" "I w'" by blast
  with run_instance_done[OF step params] show ?thesis by blast
qed

lemma healthy_loop:
  assumes valid: "validate_definition gl spec = None"
    and resolved: "resolve_parameters gl (ds_parameters spec) given = Inr vals"
    and planned: "expand spec vals = Inr insts" and provided: "provided_for e vals insts"
    and steps: "healthy I e (run_name run) vals insts"
    and env: "\<And>w. I w \<Longrightarrow> \<exists>w'. rc_envs r w = (Inr e, w') \<and> I w'"
  shows "insts = before @ rest \<Longrightarrow> rs_steps st = pre @ ss \<Longrightarrow> distinct (map ss_key (pre @ ss)) \<Longrightarrow>
    map ss_key ss = map pi_key rest \<Longrightarrow> list_all2 outputs_ok before pre \<Longrightarrow> list_all2 outputs_ok rest ss \<Longrightarrow>
    \<forall>s\<in>set pre. ss_phase s = StepSucceeded \<Longrightarrow> \<forall>s\<in>set ss. ss_phase s \<noteq> StepFailed \<Longrightarrow> eo = None \<or> eo = Some e \<Longrightarrow> I w \<Longrightarrow>
    \<exists>st' w'. advance_loop r run vals eo (collected before pre) rest st w = (Inr (0, st'), w') \<and> rs_phase st' = RunReady \<and>
      (\<forall>s\<in>set (rs_steps st'). ss_phase s = StepSucceeded) \<and> I w'"
proof (induction rest arbitrary: before pre ss st eo w)
  case Nil
  then show ?case by simp
next
  case (Cons i rest)
  then obtain s ss1 where ss: "ss = s # ss1" "ss_key s = pi_key i" "map ss_key ss1 = map pi_key rest" "outputs_ok i s"
    "list_all2 outputs_ok rest ss1" by (cases ss) auto
  have key: "ss_key s \<notin> ss_key ` set pre" using Cons.prems(3) ss(1) by auto
  have fs: "find_step st (pi_key i) = Some s" using find_step_at[OF _ key] Cons.prems(2) ss by simp
  have len: "length before = length pre" using Cons.prems(5) by (rule list_all2_lengthD)
  have later: "\<exists>st' w'. advance_loop r run vals eo' (add_outputs i s' (collected before pre)) rest st1 w1 = (Inr (0, st'), w') \<and>
      rs_phase st' = RunReady \<and> (\<forall>s\<in>set (rs_steps st'). ss_phase s = StepSucceeded) \<and> I w'"
    if "rs_steps st1 = pre @ s' # ss1" "ss_phase s' = StepSucceeded" "ss_key s' = ss_key s" "outputs_ok i s'"
      "eo' = None \<or> eo' = Some e" "I w1" for s' st1 eo' w1
    unfolding collected_snoc[OF len, symmetric]
    by (rule Cons.IH[of "before @ [i]" st1 "pre @ [s']" ss1])
      (use that Cons.prems ss in \<open>auto simp: list_all2_appendI\<close>)
  show ?case
  proof (cases "ss_phase s = StepSucceeded")
    case True
    then show ?thesis using later[of st s eo w] fs Cons.prems ss by (simp add: Let_def)
  next
    case False
    with Cons.prems(8) ss(1) have todo: "ss_phase s \<notin> {StepSucceeded, StepFailed}" by simp
    obtain w1 where get: "get_env r eo w = (Inr e, w1)" "I w1"
      using env[OF Cons.prems(10)] Cons.prems(9,10) by (auto simp: get_env_def)
    note plan = planned provided steps
    obtain s' w2 where ri: "run_instance r e (run_name run) i s vals (collected before pre) w1 = ((OutcomeDone, 0, s'), w2)"
      "ss_phase s' = StepSucceeded" "I w2"
      using instance_finishes[OF valid resolved plan[unfolded Cons.prems(1)] Cons.prems(5,7) get(2)] by blast
    from run_instance_moved[OF ri(1) todo] have m: "ss_key s' = ss_key s" "outputs_ok i s'" by (auto simp: moved_def)
    with key Cons.prems(2) ss(1) have put: "put_step s' (rs_steps st) = pre @ s' # ss1" by (simp add: put_step_at)
    show ?thesis
      using later[of "st\<lparr>rs_steps := pre @ s' # ss1\<rparr>" s' "Some e" w2] m ri get todo fs put by (simp add: Let_def)
  qed
qed

lemma begin_unfailed:
  assumes "rs_steps st = [] \<or> fits_plan insts (rs_steps st)" "distinct (map pi_key insts)"
    and "retry \<or> (\<forall>s\<in>set (rs_steps st). ss_phase s \<noteq> StepFailed)"
  shows "\<forall>s\<in>set (rs_steps (begin_status now gen insts retry st)). ss_phase s \<noteq> StepFailed"
proof (cases retry)
  case True
  then show ?thesis by (auto simp: begin_status_def Let_def reset_failed_def reset_step_def)
next
  case False
  show ?thesis
  proof (cases "rs_steps st = []")
    case True
    with False show ?thesis by (auto simp: begin_status_def Let_def sync_steps_def known_steps_def new_step_status_def)
  next
    case nonempty: False
    with assms have "rs_steps (sync_steps insts (st\<lparr>rs_generation := gen\<rparr>)) = rs_steps st"
      using sync_same[of "st\<lparr>rs_generation := gen\<rparr>" insts] by (simp add: fits_plan_def)
    with False assms(3) show ?thesis by (simp add: begin_status_def Let_def)
  qed
qed

text \<open>C4: a run of a checked definition becomes ready in one pass when the services let it: if the environment
  can be built, every step of the plan finishes when it is called with the params the definition gives it, and no
  optional value is missing, then a pass over a new run, over a run that was interrupted anywhere, or over a
  failed run with a requested retry, ends with every step succeeded and the run ready.\<close>

theorem healthy_run_ready:
  assumes "validate_definition gl spec = None" "resolve_parameters gl (ds_parameters spec) given = Inr vals"
    and "expand spec vals = Inr insts" "provided_for e vals insts" "healthy I e (run_name run) vals insts"
    and "\<And>w. I w \<Longrightarrow> \<exists>w'. rc_envs r w = (Inr e, w') \<and> I w'"
    and "rs_steps (run_status run) = [] \<or> fits_plan insts (rs_steps (run_status run))"
    and "retry \<or> (\<forall>s\<in>set (rs_steps (run_status run)). ss_phase s \<noteq> StepFailed)" and "I w"
  shows "\<exists>st w'. advance r run insts vals retry w = (Inr (0, st), w') \<and> rs_phase st = RunReady \<and>
    (\<forall>s\<in>set (rs_steps st). ss_phase s = StepSucceeded) \<and> I w'"
proof -
  let ?b = "begin_status (rc_now r w) (run_generation run) insts retry (run_status run)"
  have d: "distinct (map pi_key insts)" using expand_named[OF assms(3)] by (simp add: named_def)
  have fits: "fits_plan insts (rs_steps ?b)" by (rule begin_fits[OF assms(7) d])
  have "collected [] [] = []" by (simp add: collected_def)
  with healthy_loop[OF assms(1-6), where before = "[]" and pre = "[]" and st = ?b and eo = None and w = w]
    fits d begin_unfailed[OF assms(7) d assms(8)] assms(9)
  show ?thesis by (simp add: advance_def fits_plan_def)
qed


text \<open>A wizard of one step, in a world where nothing exists yet and in the one the step leaves behind.\<close>

definition one_step :: definition_spec where
  "one_step = two_steps\<lparr>ds_steps := [hd (ds_steps two_steps)]\<rparr>"

definition one_plan :: "step_instance list" where
  "one_plan = [hd two_plan]"

definition one_input :: "smap \<Rightarrow> time option \<Rightarrow> input" where
  "one_input prior since = \<lparr>in_run = ''b'', in_key = ''watch'', in_params = [(''name'', ''a''), (''repoUrl'', ''a'')],
     in_prior = prior, in_started = since\<rparr>"

abbreviation watch_a :: "smap \<Rightarrow> time option \<Rightarrow> (fake_world, step_result) call" where
  "watch_a prior since \<equiv> gitWatcher_ensure (fake_env ''b'' pad_lib) (one_input prior since)"

definition watched_world :: fake_world where
  "watched_world = snd (watch_a [] None empty_world)"

lemma one_step_valid: "validate_definition sample_lib one_step = None"
  by code_simp

lemma one_step_plan: "expand one_step repo_values = Inr one_plan"
  by (simp add: expand_def one_step_def one_plan_def two_plan_def two_steps_def add_instance_def)

lemma one_step_parsed:
  "parse ''${params.repo}'' = Inr [SegRef \<lparr>r_kind = RefParams, r_name = ''repo'', r_key = [],
     r_filters = [], r_raw = ''params.repo''\<rparr>]"
  "parse ''${params.repo|k8sName}'' = Inr [SegRef \<lparr>r_kind = RefParams, r_name = ''repo'', r_key = [],
     r_filters = [''k8sName''], r_raw = ''params.repo|k8sName''\<rparr>]"
  by code_simp+

lemma one_step_params:
  "resolve_map (ws_params (pi_step (hd one_plan))) (step_context e repo_values outs (hd one_plan)) =
     Inr [(''name'', ''a''), (''repoUrl'', ''a'')]"
proof -
  have "k8s_name ''a'' = ''a''" by code_simp
  moreover have "sorted_keys [(''name'', ''${params.repo|k8sName}''), (''repoUrl'', ''${params.repo}'')] = [''name'', ''repoUrl'']"
    by code_simp
  ultimately show ?thesis
    by (simp add: one_plan_def two_plan_def two_steps_def resolve_map_def resolve_def one_step_parsed get0_def render_ref_def
      step_context_def repo_values_def errors_join_def lookup_def filters_def)
qed

lemmas watch_defs = run_defs gitWatcher_ensure_def watcher_managed_def one_input_def get0_def watcher_existing_def
  watcher_auto_tag_def watcher_hash_parts_def

lemma watch_a_first:
  "done_with (watch_a prior since empty_world) = Some [(''name'', ''a'')] \<and> snd (watch_a prior since empty_world) = watched_world"
  unfolding watched_world_def by (simp add: done_with_def watch_defs cong: run_cong)

lemma watch_a_again:
  "done_with (watch_a prior since watched_world) = Some [(''name'', ''a'')] \<and> snd (watch_a prior since watched_world) = watched_world"
  unfolding watched_world_def by (simp add: done_with_def watch_defs cong: run_cong)

lemma watch_a_any:
  assumes "w = empty_world \<or> w = watched_world"
  shows "\<exists>res. watch_a prior since w = (Inr res, watched_world) \<and> res_done res"
  using assms done_with_Some[of "watch_a prior since w"] watch_a_first[of prior since] watch_a_again[of prior since] by fastforce

lemma watch_a_input: "step_input ''b'' (hd one_plan) [(''name'', ''a''), (''repoUrl'', ''a'')] s = one_input (ss_outputs s) (ss_started_at s)"
  by (simp add: step_input_def one_input_def one_plan_def two_plan_def)

theorem healthy_run_witness:
  "\<exists>st w'. advance (echo_reconciler run_b) run_b one_plan repo_values False empty_world = (Inr (0, st), w') \<and>
     rs_phase st = RunReady"
proof -
  let ?I = "\<lambda>w. w = empty_world \<or> w = watched_world"
  let ?e = "fake_env ''b'' pad_lib :: fake_world env"
  have plan: "one_plan = [hd one_plan]" by (simp add: one_plan_def)
  have type: "ws_type (pi_step (hd one_plan)) = StepGitWatcher" by (simp add: one_plan_def two_plan_def two_steps_def)
  have ps: "ds_parameters one_step = ds_parameters two_steps" by (simp add: one_step_def)
  have "healthy ?I ?e (run_name run_b) repo_values one_plan"
    unfolding healthy_def
    by (subst plan) (use watch_a_any in \<open>fastforce simp: type one_step_params run_b_def blank_run_def lookup_step_def
      registry_def gitWatcherStep_def watch_a_input\<close>)
  moreover have "provided_for ?e repo_values one_plan"
    by (auto simp: provided_for_def one_plan_def two_plan_def two_steps_def params_available_def get0_def available_def
        one_step_parsed step_context_def repo_values_def)
  ultimately show ?thesis
    using healthy_run_ready[OF one_step_valid two_steps_values[folded ps] one_step_plan, of ?e ?I run_b "echo_reconciler run_b" False empty_world]
    by (auto simp: echo_reconciler_def run_b_def blank_run_def blank_status_def)
qed

end
