(* ===== verification/RetryProps.thy ===== *)
theory RetryProps
  imports HealthProps
begin

text \<open>
  Giving up: how often a pass is repeated before failing upstream calls fail the run. A pass records its
  result in the status, and the next pass starts from there; a measure of the attempts that are left falls
  with every pass that neither finishes the run nor is told to wait.
\<close>

section \<open>Repeated passes\<close>

text \<open>\<open>n\<close> passes without a requested retry, each over the run with the status the last one wrote.\<close>

fun passes :: "'w reconciler \<Rightarrow> step_instance list \<Rightarrow> (string \<times> val) list \<Rightarrow> nat \<Rightarrow> wizard_run \<Rightarrow> ('w, wizard_run) call" where
  "passes r insts vals 0 run = io_return run"
| "passes r insts vals (Suc n) run =
     io_bind (advance r run insts vals False) (\<lambda>(wait, st). passes r insts vals n (run\<lparr>run_status := st\<rparr>))"

text \<open>The recorded steps a pass starts from.\<close>

definition recorded :: "step_instance list \<Rightarrow> run_status \<Rightarrow> step_status list" where
  "recorded insts st = (if rs_steps st = [] then map new_step_status insts else rs_steps st)"

definition recordable :: "step_instance list \<Rightarrow> run_status \<Rightarrow> bool" where
  "recordable insts st \<longleftrightarrow> rs_steps st = [] \<or> fits_plan insts (rs_steps st)"

lemma recordedI: "fits_plan insts (rs_steps st) \<Longrightarrow> recordable insts st \<and> recorded insts st = rs_steps st"
  by (auto simp: recordable_def recorded_def fits_plan_def)

lemma begin_recorded:
  assumes "distinct (map pi_key insts)" "recordable insts st"
  shows "rs_steps (begin_status now gen insts False st) = recorded insts st"
proof (cases "rs_steps st = []")
  case True
  then show ?thesis by (simp add: begin_status_def Let_def sync_steps_def known_steps_def recorded_def)
next
  case False
  with assms sync_same[of "st\<lparr>rs_generation := gen\<rparr>" insts]
  show ?thesis by (simp add: begin_status_def Let_def recorded_def recordable_def fits_plan_def)
qed

lemma recorded_fits:
  assumes "distinct (map pi_key insts)" "recordable insts st"
  shows "fits_plan insts (recorded insts st)"
  using begin_fits[of st insts 0 0 False] begin_recorded[OF assms, of 0 0] assms by (simp add: recordable_def)

text \<open>One pass, in terms of the recorded steps.\<close>

lemma advance_ran:
  assumes d: "distinct (map pi_key insts)" and st: "recordable insts (run_status run)"
    and adv: "advance r run insts vals False w = (Inr (wait, st'), w')"
  shows "ran insts (recorded insts (run_status run)) (rs_steps st')" "rs_phase st' = phase_of (rs_steps st')"
    "fits_plan insts (rs_steps st')"
proof -
  let ?b = "begin_status (rc_now r w) (run_generation run) insts False (run_status run)"
  have "pass_result insts [] (rs_steps ?b) (advance_loop r run vals None [] insts ?b w)"
    by (rule advance_loop_result) (use d begin_keys in \<open>simp_all only: append_Nil\<close>)
  then show ran: "ran insts (recorded insts (run_status run)) (rs_steps st')" and "rs_phase st' = phase_of (rs_steps st')"
    using adv by (auto simp: pass_result_def advance_def begin_recorded[OF d st])
  from ran_in_order[OF ran] ran_outputs[OF ran] ran_failures[OF ran] ran_keys[OF ran] recorded_fits[OF d st]
  show "fits_plan insts (rs_steps st')" by (simp add: fits_plan_def)
qed

text \<open>A finished or failed run stays as it is.\<close>

lemma final_ran: "ran insts ss ss' \<Longrightarrow> phase_of ss \<noteq> RunRunning \<Longrightarrow> ss' = ss"
proof (induction rule: ran.induct)
  case (pass i s s' insts ss ss')
  then have "ss_phase s \<notin> {StepSucceeded, StepFailed}" by (simp add: moved_def)
  with pass show ?case by simp
next
  case (stop i s s' insts ss)
  then have "ss_phase s \<notin> {StepSucceeded, StepFailed}" by (simp add: moved_def)
  with stop show ?case by simp
qed simp_all

section \<open>The attempts that are left\<close>

definition attempts_left :: "step_status \<Rightarrow> nat" where
  "attempts_left s = (if ss_phase s \<in> {StepSucceeded, StepFailed} then 0 else nat (maxStepFailures - ss_failures s))"

definition budget :: "step_status list \<Rightarrow> nat" where
  "budget ss = sum_list (map attempts_left ss)"

lemma budget_simps [simp]: "budget [] = 0" "budget (s # ss) = attempts_left s + budget ss" "budget (a @ b) = budget a + budget b"
  by (simp_all add: budget_def)

lemma attempts_left_max: "failures_ok s \<Longrightarrow> attempts_left s \<le> 10"
  by (auto simp: attempts_left_def failures_ok_def maxStepFailures_def)

lemma budget_max: "\<forall>s\<in>set ss. failures_ok s \<Longrightarrow> budget ss \<le> 10 * length ss"
  by (induction ss) (auto dest: attempts_left_max)

text \<open>
  In every world of \<open>I\<close> each call of a step fails or finishes it, and leads to a world of \<open>I\<close> again: none
  reports that it is waiting.
\<close>

definition settles :: "('w \<Rightarrow> bool) \<Rightarrow> 'w env \<Rightarrow> string \<Rightarrow> (string \<times> val) list \<Rightarrow> step_instance list \<Rightarrow> bool" where
  "settles I e n vals insts \<longleftrightarrow>
     (\<forall>i\<in>set insts. \<forall>step outs params s w. lookup_step (ws_type (pi_step i)) = Some step \<longrightarrow> I w \<longrightarrow>
        resolve_map (ws_params (pi_step i)) (step_context e vals outs i) = Inr params \<longrightarrow>
        (\<exists>res w'. sp_ensure step e (step_input n i params s) w = (res, w') \<and> I w' \<and> (\<forall>x. res = Inr x \<longrightarrow> res_done x)))"

text \<open>An attempt that does not end the step is one failure more.\<close>

lemma settled_wait:
  assumes "settles I e n vals insts" "i \<in> set insts" "I w"
    and "run_instance r e n i s vals outs w = ((out, wait, s'), w')"
  shows "I w' \<and> (out = OutcomeWait \<longrightarrow> ss_phase s' = StepRunning \<and> ss_failures s' = ss_failures s + 1 \<and> ss_failures s' < maxStepFailures)"
proof (cases "lookup_step (ws_type (pi_step i)) :: 'a step option")
  case (Some step)
  show ?thesis
  proof (cases "resolve_map (ws_params (pi_step i)) (step_context e vals outs i)")
    case (Inr params)
    note call = assms(1)[unfolded settles_def, rule_format, OF assms(2) Some assms(3) Inr, of "started (rc_now r w) i s"]
    then show ?thesis using assms(4) Some Inr
      by (auto simp: run_instance_def record_result_def fail_step_def Let_def split: sum.splits if_splits)
  qed (use assms Some in \<open>auto simp: run_instance_def fail_step_def Let_def\<close>)
qed (use assms in \<open>auto simp: run_instance_def fail_step_def Let_def\<close>)

text \<open>A pass that leaves the run running has used one of the attempts.\<close>

definition settled :: "('w \<Rightarrow> bool) \<Rightarrow> step_status list \<Rightarrow> (err + time \<times> run_status) \<times> 'w \<Rightarrow> bool" where
  "settled I ss x \<longleftrightarrow>
     (\<exists>wait st w. x = (Inr (wait, st), w) \<and> I w \<and> (rs_phase st = RunRunning \<longrightarrow> budget (rs_steps st) < budget ss))"

lemma settledI:
  "I w \<Longrightarrow> (phase = RunRunning \<Longrightarrow> budget (rs_steps st) < budget ss) \<Longrightarrow>
   settled I ss (Inr (wait, set_run now phase m gen st), w)"
  by (simp add: settled_def)

lemma settled_mono: "settled I ss x \<Longrightarrow> budget ss \<le> budget ss' \<Longrightarrow> settled I ss' x"
  unfolding settled_def by fastforce

lemma settling_loop:
  assumes steps: "settles I e (run_name run) vals plan"
    and env: "\<And>w. I w \<Longrightarrow> \<exists>w'. rc_envs r w = (Inr e, w') \<and> I w'"
  shows "set insts \<subseteq> set plan \<Longrightarrow> rs_steps st = pre @ ss \<Longrightarrow> distinct (map ss_key (pre @ ss)) \<Longrightarrow>
    map ss_key ss = map pi_key insts \<Longrightarrow> \<forall>s\<in>set ss. failures_ok s \<Longrightarrow> eo = None \<or> eo = Some e \<Longrightarrow> I w \<Longrightarrow>
    settled I (pre @ ss) (advance_loop r run vals eo outputs insts st w)"
proof (induction insts arbitrary: pre ss st eo outputs w)
  case Nil
  then show ?case by (auto intro!: settledI)
next
  case (Cons i insts)
  then obtain s ss1 where ss: "ss = s # ss1" "ss_key s = pi_key i" "map ss_key ss1 = map pi_key insts" by (cases ss) auto
  have key: "ss_key s \<notin> ss_key ` set pre" using Cons.prems(3) ss(1) by auto
  have fs: "find_step st (pi_key i) = Some s" using find_step_at[OF _ key] Cons.prems(2) ss by simp
  have later: "settled I (pre @ s' # ss1) (advance_loop r run vals eo' outputs' insts st1 w1)"
    if "rs_steps st1 = pre @ s' # ss1" "ss_key s' = ss_key s" "eo' = None \<or> eo' = Some e" "I w1" for s' st1 eo' outputs' w1
    using Cons.IH[of st1 "pre @ [s']" ss1 eo' w1 outputs'] that Cons.prems ss by auto
  consider "ss_phase s = StepSucceeded" | "ss_phase s = StepFailed" | (todo) "ss_phase s \<notin> {StepSucceeded, StepFailed}" by auto
  then show ?case
  proof cases
    case todo
    obtain w1 where get: "get_env r eo w = (Inr e, w1)" "I w1"
      using env[OF Cons.prems(7)] Cons.prems(6,7) by (auto simp: get_env_def)
    obtain out wait s' w2 where ri: "run_instance r e (run_name run) i s vals outputs w1 = ((out, wait, s'), w2)"
      by (metis prod.collapse)
    have m: "moved i s s'" using run_instance_moved[OF ri todo] ..
    have p: "ss_phase s' = (case out of OutcomeDone \<Rightarrow> StepSucceeded | OutcomeWait \<Rightarrow> StepRunning | OutcomeFailed \<Rightarrow> StepFailed)"
      using run_instance_moved[OF ri todo] ..
    have used: "I w2" "out = OutcomeWait \<Longrightarrow> attempts_left s' < attempts_left s"
      using settled_wait[OF steps _ get(2) ri] Cons.prems(1) todo by (auto simp: attempts_left_def)
    have put: "put_step s' (rs_steps st) = pre @ s' # ss1"
      using key Cons.prems(2) ss(1) m by (simp add: put_step_at moved_def)
    note step = ri get todo fs put ss(1)
    show ?thesis
    proof (cases out)
      case OutcomeDone
      with p have less: "budget (pre @ s' # ss1) \<le> budget (pre @ ss)" by (simp add: ss(1) attempts_left_def)
      have "settled I (pre @ s' # ss1) (advance_loop r run vals (Some e) (add_outputs i s' outputs) insts
          (st\<lparr>rs_steps := pre @ s' # ss1\<rparr>) w2)"
        by (rule later) (use m used in \<open>auto simp: moved_def\<close>)
      from settled_mono[OF this less] OutcomeDone step show ?thesis by (simp add: Let_def)
    next
      case OutcomeWait
      with step used show ?thesis by (auto simp: Let_def intro!: settledI)
    next
      case OutcomeFailed
      with step used show ?thesis by (auto simp: Let_def intro!: settledI)
    qed
  qed (use fs later[of st s] Cons.prems ss in \<open>auto simp: Let_def intro!: settledI\<close>)
qed

lemma running_budget:
  assumes "phase_of ss = RunRunning" "\<forall>s\<in>set ss. failures_ok s"
  shows "0 < budget ss"
  using assms by (induction ss) (auto simp: phase_of_def attempts_left_def failures_ok_def split: if_splits)

lemma settling_pass:
  assumes d: "distinct (map pi_key insts)" and st: "recordable insts (run_status run)"
    and steps: "settles I e (run_name run) vals insts"
    and env: "\<And>w. I w \<Longrightarrow> \<exists>w'. rc_envs r w = (Inr e, w') \<and> I w'" and w: "I w"
  shows "\<exists>wait st' w'. advance r run insts vals False w = (Inr (wait, st'), w') \<and> I w' \<and>
    (rs_phase st' = RunRunning \<longrightarrow> budget (rs_steps st') < budget (recorded insts (run_status run)))"
proof -
  let ?b = "begin_status (rc_now r w) (run_generation run) insts False (run_status run)"
  note fits = recorded_fits[OF d st]
  have "settled I ([] @ recorded insts (run_status run)) (advance_loop r run vals None [] insts ?b w)"
    by (rule settling_loop[OF steps env])
      (use fits d w begin_recorded[OF d st] in \<open>simp_all add: fits_plan_def\<close>)
  then show ?thesis by (auto simp: settled_def advance_def)
qed

text \<open>Repeated passes end: no more are needed than attempts were left.\<close>

lemma passes_settle:
  assumes d: "distinct (map pi_key insts)" and env: "\<And>w. I w \<Longrightarrow> \<exists>w'. rc_envs r w = (Inr e, w') \<and> I w'"
  shows "recordable insts (run_status run) \<Longrightarrow> settles I e (run_name run) vals insts \<Longrightarrow> I w \<Longrightarrow>
    \<exists>run' w'. passes r insts vals n run w = (Inr run', w') \<and>
      (0 < n \<and> budget (recorded insts (run_status run)) \<le> n \<longrightarrow> rs_phase (run_status run') \<in> {RunReady, RunFailed}) \<and>
      (0 < n \<and> phase_of (recorded insts (run_status run)) \<noteq> RunRunning \<longrightarrow>
         rs_phase (run_status run') = phase_of (recorded insts (run_status run)))"
proof (induction n arbitrary: run w)
  case (Suc n)
  let ?ss = "recorded insts (run_status run)"
  from settling_pass[where r = r, OF d Suc.prems(1,2) env Suc.prems(3)]
  obtain wait st w1 where adv: "advance r run insts vals False w = (Inr (wait, st), w1)" and w1: "I w1"
    and less: "rs_phase st = RunRunning \<longrightarrow> budget (rs_steps st) < budget ?ss" by blast
  note ran = advance_ran[OF d Suc.prems(1) adv]
  have st: "recordable insts st" "recorded insts st = rs_steps st" using recordedI[OF ran(3)] by simp_all
  have open_left: "0 < budget (rs_steps st)" if "rs_phase st = RunRunning"
    using running_budget[of "rs_steps st"] that ran(2,3) by (simp add: fits_plan_def)
  have "rs_steps st = ?ss" if "phase_of ?ss \<noteq> RunRunning" using final_ran[OF ran(1) that] .
  moreover have "rs_phase st \<in> {RunReady, RunFailed, RunRunning}"
    unfolding ran(2) by (simp add: phase_of_def split: option.splits)
  moreover obtain run' w' where "passes r insts vals n (run\<lparr>run_status := st\<rparr>) w1 = (Inr run', w')"
    "0 < n \<and> budget (rs_steps st) \<le> n \<longrightarrow> rs_phase (run_status run') \<in> {RunReady, RunFailed}"
    "0 < n \<and> phase_of (rs_steps st) \<noteq> RunRunning \<longrightarrow> rs_phase (run_status run') = phase_of (rs_steps st)"
    using Suc.IH[of "run\<lparr>run_status := st\<rparr>" w1] st w1 Suc.prems(2) by auto
  ultimately show ?case using adv less open_left ran(2)
    by (cases n) (auto simp: io_bind_def)
qed simp

section \<open>A step that keeps failing\<close>

text \<open>Each call of the instance \<open>i\<close>, with these outputs of the steps before it, fails with a transient error.\<close>

definition keeps_failing ::
  "('w \<Rightarrow> bool) \<Rightarrow> 'w env \<Rightarrow> string \<Rightarrow> (string \<times> val) list \<Rightarrow> (string \<times> smap) list \<Rightarrow> step_instance \<Rightarrow> bool" where
  "keeps_failing I e n vals outs i \<longleftrightarrow>
     (\<exists>step params. lookup_step (ws_type (pi_step i)) = Some step \<and>
        resolve_map (ws_params (pi_step i)) (step_context e vals outs i) = Inr params \<and>
        (\<forall>s w. I w \<longrightarrow> (\<exists>x w'. sp_ensure step e (step_input n i params s) w = (Inl x, w') \<and> \<not> is_permanent x \<and> I w')))"

text \<open>The first unfinished instance is the one at \<open>k\<close>, and it keeps failing.\<close>

definition stuck_at ::
  "('w \<Rightarrow> bool) \<Rightarrow> 'w env \<Rightarrow> string \<Rightarrow> (string \<times> val) list \<Rightarrow> step_instance list \<Rightarrow> step_status list \<Rightarrow> nat \<Rightarrow> bool" where
  "stuck_at I e n vals insts ss k \<longleftrightarrow>
     k < length ss \<and> done_count ss = k \<and> ss_phase (ss ! k) \<noteq> StepFailed \<and>
     keeps_failing I e n vals (collected (take k insts) (take k ss)) (insts ! k)"

lemma failing_instance:
  assumes "keeps_failing I e n vals outs i" "I w" "0 \<le> ss_failures s"
  shows "\<exists>out wait s' w'. run_instance r e n i s vals outs w = ((out, wait, s'), w') \<and> I w' \<and> ss_key s' = ss_key s \<and>
    (if ss_failures s + 1 < 10 then out = OutcomeWait \<and> ss_phase s' = StepRunning \<and> ss_failures s' = ss_failures s + 1
     else out = OutcomeFailed \<and> ss_phase s' = StepFailed)"
proof -
  obtain step params where step: "lookup_step (ws_type (pi_step i)) = Some step"
    "resolve_map (ws_params (pi_step i)) (step_context e vals outs i) = Inr params"
    "\<And>s w. I w \<Longrightarrow> \<exists>x w'. sp_ensure step e (step_input n i params s) w = (Inl x, w') \<and> \<not> is_permanent x \<and> I w'"
    using assms(1) unfolding keeps_failing_def by blast
  obtain x w' where "sp_ensure step e (step_input n i params (started (rc_now r w) i s)) w = (Inl x, w')"
    "\<not> is_permanent x" "I w'" using step(3)[OF assms(2)] by blast
  with step(1,2) show ?thesis
    by (simp add: run_instance_def record_result_def fail_step_def Let_def maxStepFailures_def)
qed

lemma done_count_update:
  assumes "done_count ss = k" "k < length ss" "ss_phase s' \<noteq> StepSucceeded"
  shows "done_count (ss[k := s']) = k"
  using assms unfolding done_count_def
proof (induction ss arbitrary: k)
  case (Cons x ss)
  then show ?case by (cases k) (auto split: if_splits)
qed simp

lemma done_count_open: "k < length ss \<Longrightarrow> done_count ss = k \<Longrightarrow> ss_phase (ss ! k) \<noteq> StepSucceeded"
  using nth_length_takeWhile[of "\<lambda>s. ss_phase s = StepSucceeded" ss] by (auto simp: done_count_def)

lemma failing_pass:
  assumes d: "distinct (map pi_key insts)" and st: "recordable insts (run_status run)"
    and env: "\<And>w. I w \<Longrightarrow> \<exists>w'. rc_envs r w = (Inr e, w') \<and> I w'" and w: "I w"
    and ss: "recorded insts (run_status run) = ss" and stuck: "stuck_at I e (run_name run) vals insts ss k"
  shows "\<exists>wait st' s' w'. advance r run insts vals False w = (Inr (wait, st'), w') \<and> I w' \<and> rs_steps st' = ss[k := s'] \<and>
    (if ss_failures (ss ! k) + 1 < 10
     then rs_phase st' = RunRunning \<and> ss_phase s' = StepRunning \<and> ss_failures s' = ss_failures (ss ! k) + 1
     else rs_phase st' = RunFailed \<and> ss_phase s' = StepFailed)"
proof -
  define b where "b = begin_status (rc_now r w) (run_generation run) insts False (run_status run)"
  let ?outs = "collected (take k insts) (take k ss)"
  have fits: "fits_plan insts ss" using recorded_fits[OF d st] ss by simp
  then have keys: "map ss_key ss = map pi_key insts" by (simp add: fits_plan_def)
  then have len: "length ss = length insts" by (metis length_map)
  have k: "k < length ss" "done_count ss = k" "ss_phase (ss ! k) \<noteq> StepFailed"
    "keeps_failing I e (run_name run) vals ?outs (insts ! k)" using stuck by (simp_all add: stuck_at_def)
  have steps: "rs_steps b = ss" using begin_recorded[OF d st] ss by (simp add: b_def)
  have dss: "distinct (map ss_key ss)" using d keys by simp
  have loop: "advance r run insts vals False w = advance_loop r run vals None ?outs (drop k insts) b w"
    using skip_loop[of ss insts "[]" b r run vals None "[]"] keys dss steps k(2)
    by (simp add: advance_def collected_def flip: b_def)
  have key: "ss_key (ss ! k) = pi_key (insts ! k)" using keys len k(1) by (metis nth_map)
  have split: "ss = take k ss @ ss ! k # drop (Suc k) ss" by (rule id_take_nth_drop[OF k(1)])
  have new: "ss_key (ss ! k) \<notin> ss_key ` set (take k ss)"
    using arg_cong[OF split, of "map ss_key"] dss by (metis distinct_append list.set_map list.simps(9) map_append not_distinct_conv_prefix)
  have found: "find_step b (pi_key (insts ! k)) = Some (ss ! k)"
    using find_step_at[OF trans[OF steps split] new] key by simp
  obtain w1 where get: "get_env r None w = (Inr e, w1)" "I w1" using env[OF w] by (auto simp: get_env_def)
  have f: "0 \<le> ss_failures (ss ! k)" using fits k(1) by (auto simp: fits_plan_def failures_ok_def)
  obtain out wait s' w2 where ri: "run_instance r e (run_name run) (insts ! k) (ss ! k) vals ?outs w1 = ((out, wait, s'), w2)"
    "I w2" "ss_key s' = ss_key (ss ! k)"
    "if ss_failures (ss ! k) + 1 < 10 then out = OutcomeWait \<and> ss_phase s' = StepRunning \<and> ss_failures s' = ss_failures (ss ! k) + 1
     else out = OutcomeFailed \<and> ss_phase s' = StepFailed"
    using failing_instance[OF k(4) get(2) f] by blast
  have "put_step s' (take k ss @ ss ! k # drop (Suc k) ss) = take k ss @ s' # drop (Suc k) ss"
    by (rule put_step_at) (use ri(3) new in simp_all)
  then have put: "put_step s' (rs_steps b) = ss[k := s']" using split steps k(1) by (simp add: upd_conv_take_nth_drop)
  have "drop k insts = insts ! k # drop (Suc k) insts" using k(1) len by (simp add: Cons_nth_drop_Suc)
  then show ?thesis
    using loop found done_count_open[OF k(1,2)] k(3) get ri put by (auto simp: Let_def split: if_splits)
qed

lemma passes_fail:
  assumes d: "distinct (map pi_key insts)" and env: "\<And>w. I w \<Longrightarrow> \<exists>w'. rc_envs r w = (Inr e, w') \<and> I w'"
  shows "recordable insts (run_status run) \<Longrightarrow> settles I e (run_name run) vals insts \<Longrightarrow> I w \<Longrightarrow>
    stuck_at I e (run_name run) vals insts (recorded insts (run_status run)) k \<Longrightarrow> 0 < n \<Longrightarrow>
    \<exists>run' w'. passes r insts vals n run w = (Inr run', w') \<and>
      rs_phase (run_status run') = (if ss_failures (recorded insts (run_status run) ! k) + int n < 10 then RunRunning else RunFailed)"
proof (induction n arbitrary: run w)
  case (Suc n)
  let ?ss = "recorded insts (run_status run)"
  from failing_pass[OF d Suc.prems(1) env Suc.prems(3) refl Suc.prems(4)]
  obtain wait st s' w1 where adv: "advance r run insts vals False w = (Inr (wait, st), w1)" "I w1" "rs_steps st = ?ss[k := s']"
    "if ss_failures (?ss ! k) + 1 < 10
     then rs_phase st = RunRunning \<and> ss_phase s' = StepRunning \<and> ss_failures s' = ss_failures (?ss ! k) + 1
     else rs_phase st = RunFailed \<and> ss_phase s' = StepFailed" by blast
  note ran = advance_ran[OF d Suc.prems(1) adv(1)]
  have st: "recordable insts st" "recorded insts st = ?ss[k := s']" using recordedI[OF ran(3)] adv(3) by simp_all
  have k: "k < length ?ss" "done_count ?ss = k" "keeps_failing I e (run_name run) vals (collected (take k insts) (take k ?ss)) (insts ! k)"
    using Suc.prems(4) by (simp_all add: stuck_at_def)
  show ?case
  proof (cases "n = 0")
    case True
    with adv show ?thesis by (auto simp: io_bind_def split: if_splits)
  next
    case False
    show ?thesis
    proof (cases "ss_failures (?ss ! k) + 1 < 10")
      case True
      have "stuck_at I e (run_name run) vals insts (?ss[k := s']) k"
        using True adv(4) k done_count_update[OF k(2,1)] by (simp add: stuck_at_def)
      with Suc.IH[of "run\<lparr>run_status := st\<rparr>" w1] st adv True False Suc.prems(2) k(1) show ?thesis
        by (auto simp: io_bind_def algebra_simps)
    next
      case failed: False
      have "phase_of (rs_steps st) = RunFailed" using ran(2) adv(4) failed by simp
      with passes_settle[where run = "run\<lparr>run_status := st\<rparr>" and n = n and r = r and w = w1 and vals = vals, OF d env] st adv False Suc.prems(2)
      obtain run' w' where "passes r insts vals n (run\<lparr>run_status := st\<rparr>) w1 = (Inr run', w')" "rs_phase (run_status run') = RunFailed"
        by auto
      with adv(1) failed show ?thesis by (auto simp: io_bind_def)
    qed
  qed
qed simp

text \<open>C7: giving up. Passes over a run, each starting from the status the last one wrote, without a requested retry: when
  the environment can be built and every call of a step either fails or finishes it (none reports that it is
  waiting), the run is ready or failed after ten passes for each instance of the plan at the latest. And it is the
  tenth failure in a row that ends it: if the first unfinished step keeps failing with transient errors,
  the run is running, to be tried again, until the failures it had recorded and those of the passes make ten,
  and failed from that pass on.\<close>

theorem tenth_failure_is_final:
  assumes "distinct (map pi_key insts)" "recordable insts (run_status run)"
    and "\<And>w. I w \<Longrightarrow> \<exists>w'. rc_envs r w = (Inr e, w') \<and> I w'"
    and "settles I e (run_name run) vals insts" "I w" "0 < n"
  shows "\<exists>run' w'. passes r insts vals n run w = (Inr run', w') \<and>
    (10 * length insts \<le> n \<longrightarrow> rs_phase (run_status run') \<in> {RunReady, RunFailed}) \<and>
    (\<forall>k. stuck_at I e (run_name run) vals insts (recorded insts (run_status run)) k \<longrightarrow>
       rs_phase (run_status run') =
         (if ss_failures (recorded insts (run_status run) ! k) + int n < 10 then RunRunning else RunFailed))"
proof -
  let ?ss = "recorded insts (run_status run)"
  have "\<forall>s\<in>set ?ss. failures_ok s" "length ?ss = length insts"
    using recorded_fits[OF assms(1,2)] by (auto simp: fits_plan_def dest: map_eq_imp_length_eq)
  with budget_max[of ?ss] have "budget ?ss \<le> 10 * length insts" by simp
  then show ?thesis
    using passes_settle[where r = r and n = n, OF assms(1,3,2,4,5)] passes_fail[where r = r and n = n, OF assms(1,3,2,4,5) _ assms(6)] assms(6)
    by fastforce
qed

text \<open>The wizard of one step while forge answers every request with 500: running after nine passes, failed after ten.\<close>

definition forge_down :: "fake_world env" where
  "forge_down = (fake_env ''b'' pad_lib)\<lparr>env_forge := fake_forge\<lparr>fa_get_watcher := \<lambda>_. io_fail (api_err 500)\<rparr>\<rparr>"

definition down_reconciler :: "fake_world reconciler" where
  "down_reconciler = (echo_reconciler run_b)\<lparr>rc_envs := io_return forge_down\<rparr>"

lemma down_params:
  "resolve_map (ws_params (pi_step (hd one_plan))) (step_context forge_down repo_values outs (hd one_plan)) =
     Inr [(''name'', ''a''), (''repoUrl'', ''a'')]"
  using one_step_params[of "fake_env ''b'' pad_lib :: fake_world env" outs] by (simp add: step_context_def forge_down_def fake_env_def)

lemma watch_down: "\<exists>x. gitWatcher_ensure forge_down (one_input prior since) empty_world = (Inl x, empty_world) \<and> \<not> is_permanent x"
  by (simp add: forge_down_def watch_defs is_terminating_def is_permanent_def as_api_def cong: run_cong)

theorem tenth_failure_witness:
  "(\<exists>run' w'. passes down_reconciler one_plan repo_values 9 run_b empty_world = (Inr run', w') \<and>
      rs_phase (run_status run') = RunRunning) \<and>
   (\<exists>run' w'. passes down_reconciler one_plan repo_values 10 run_b empty_world = (Inr run', w') \<and>
      rs_phase (run_status run') = RunFailed)"
proof -
  let ?I = "\<lambda>w. w = empty_world" and ?ss = "recorded one_plan (run_status run_b)"
  have plan: "one_plan = [hd one_plan]" by (simp add: one_plan_def)
  have type: "ws_type (pi_step (hd one_plan)) = StepGitWatcher" by (simp add: one_plan_def two_plan_def two_steps_def)
  have name: "run_name run_b = ''b''" by (simp add: run_b_def blank_run_def)
  have ss: "?ss = [new_step_status (hd one_plan)]"
    by (subst plan) (simp add: recorded_def run_b_def blank_run_def blank_status_def)
  have "settles ?I forge_down (run_name run_b) repo_values one_plan"
    unfolding settles_def name
    by (subst plan) (use watch_down in \<open>fastforce simp: type down_params lookup_step_def registry_def gitWatcherStep_def watch_a_input\<close>)
  moreover have "recordable one_plan (run_status run_b)"
    by (simp add: recordable_def run_b_def blank_run_def blank_status_def)
  moreover have "rc_envs down_reconciler w = (Inr forge_down, w)" for w
    by (simp add: down_reconciler_def io_return_def)
  moreover have "distinct (map pi_key one_plan)" by (subst plan) simp
  ultimately have "\<exists>run' w'. passes down_reconciler one_plan repo_values n run_b empty_world = (Inr run', w') \<and>
      (\<forall>k. stuck_at ?I forge_down (run_name run_b) repo_values one_plan ?ss k \<longrightarrow>
         rs_phase (run_status run') = (if ss_failures (?ss ! k) + int n < 10 then RunRunning else RunFailed))" if "0 < n" for n
    using tenth_failure_is_final[of one_plan run_b ?I down_reconciler forge_down repo_values empty_world n] that by blast
  moreover have "keeps_failing ?I forge_down (run_name run_b) repo_values outs (hd one_plan)" for outs
    unfolding keeps_failing_def name
    by (intro exI[of _ gitWatcherStep] exI[of _ "[(''name'', ''a''), (''repoUrl'', ''a'')]"])
      (use watch_down in \<open>auto simp: type down_params lookup_step_def registry_def gitWatcherStep_def watch_a_input\<close>)
  then have "stuck_at ?I forge_down (run_name run_b) repo_values one_plan ?ss 0"
    unfolding stuck_at_def ss by (subst plan) (simp add: done_count_def new_step_status_def one_plan_def)
  moreover have "ss_failures (?ss ! 0) = 0" by (simp add: ss new_step_status_def)
  ultimately have "\<exists>run' w'. passes down_reconciler one_plan repo_values n run_b empty_world = (Inr run', w') \<and>
      rs_phase (run_status run') = (if int n < 10 then RunRunning else RunFailed)" if "0 < n" for n
    using that by (metis add_0)
  from this[of 9] this[of 10] show ?thesis by simp
qed

end
