(* ===== verification/CauseProps.thy ===== *)
theory CauseProps
  imports ControllerProps
begin

text \<open>
  \<open>APIError\<close> keeps the error of the transport for the logs only: its text names hosts of the cluster,
  and the status of a run is readable by API clients. Here is the whole consequence: what the transport
  and the token files say when they fail changes neither a call, nor the ledger, nor a status.
\<close>

section \<open>Errors up to the text of their causes\<close>

fun hide :: "err \<Rightarrow> err" where
  "hide (Errorf t) = Errorf (Lit [])"
| "hide e = e"

fun scrub :: "err \<Rightarrow> err" where
  "scrub (Wrapf t e) = Wrapf t (scrub e)"
| "scrub (Joined es) = Joined (map scrub es)"
| "scrub (PermanentError e) = PermanentError (scrub e)"
| "scrub (APIError s m p st t (Some c)) = APIError s m p st t (Some (hide (scrub c)))"
| "scrub e = e"

definition alike :: "err \<Rightarrow> err \<Rightarrow> bool" where
  "alike x y \<longleftrightarrow> scrub x = scrub y"

lemma alike_refl [simp]: "alike x x"
  by (simp add: alike_def)

lemma err_text_scrub: "err_text (scrub e) = err_text e"
  by (induction e rule: scrub.induct) (simp_all cong: map_cong)

lemma map_tree:
  assumes "\<And>e. f (scrub e) = f e" "\<And>t. f (Errorf t) = f (Errorf (Lit []))"
  shows "map f (err_tree (scrub e)) = map f (err_tree e)"
proof (induction e rule: scrub.induct)
  case (1 t e)
  then show ?case using assms(1)[of "Wrapf t e"] by simp
next
  case (2 es)
  have joined: "f (Joined (map scrub es)) = f (Joined es)" using assms(1)[of "Joined es"] by simp
  have tree: "map f (err_tree (Joined xs)) = f (Joined xs) # concat (map (\<lambda>x. map f (err_tree x)) xs)" for xs
    by (simp add: map_concat comp_def)
  have "map (\<lambda>x. map f (err_tree (scrub x))) es = map (\<lambda>x. map f (err_tree x)) es"
    by (rule map_cong[OF refl]) (rule 2)
  then show ?case unfolding scrub.simps tree joined list.map_comp comp_def by (rule arg_cong)
next
  case (3 e)
  then show ?case using assms(1)[of "PermanentError e"] by simp
next
  case (4 s m p st t c)
  have "map f (err_tree (hide x)) = map f (err_tree x)" for x
    using assms(2)[symmetric] by (cases x rule: hide.cases) simp_all
  with 4 show ?case using assms(1)[of "APIError s m p st t (Some c)"] by simp
qed simp_all

lemma status_scrub: "status_of (scrub e) = status_of e"
  by (induction e rule: scrub.induct) (simp_all add: status_of_def)

lemma map_first_status: "map status_of es = map status_of es' \<Longrightarrow> first_status es = first_status es'"
proof -
  have "first_status es = (case find (\<lambda>s. s \<noteq> None) (map status_of es) of None \<Rightarrow> None | Some s \<Rightarrow> s)" for es
    by (induction es) (simp_all split: option.split)
  then show "map status_of es = map status_of es' \<Longrightarrow> first_status es = first_status es'" by simp
qed

lemma list_ex_map_cong:
  assumes "map f xs = map f ys"
  shows "list_ex f xs = list_ex f ys"
proof -
  have "list_ex f xs \<longleftrightarrow> True \<in> set (map f xs)" for xs by (induction xs) auto
  then show ?thesis by (simp only: assms)
qed

lemma sentinel_scrub [simp]:
  "scrub e = ErrTerminating \<longleftrightarrow> e = ErrTerminating" "scrub e = ErrNotFound \<longleftrightarrow> e = ErrNotFound" "scrub e = ErrExists \<longleftrightarrow> e = ErrExists"
  "is_permanent_error (scrub e) = is_permanent_error e"
  by (induction e rule: scrub.induct, simp_all)+

lemma member_tree:
  assumes "\<And>e. (scrub e = s) = (e = s)" "\<And>t. s \<noteq> Errorf t"
  shows "s \<in> set (err_tree (scrub e)) \<longleftrightarrow> s \<in> set (err_tree e)"
proof -
  have "map (\<lambda>e. e = s) (err_tree (scrub e)) = map (\<lambda>e. e = s) (err_tree e)"
    by (rule map_tree) (use assms in auto)
  from list_ex_map_cong[OF this] show ?thesis by (auto simp: list_ex_iff)
qed

text \<open>What the program asks of an error does not depend on the text of a cause.\<close>

lemma scrub_preds:
  "is_upstream_not_found (scrub e) = is_upstream_not_found e" "is_upstream_conflict (scrub e) = is_upstream_conflict e"
  "is_permanent (scrub e) = is_permanent e" "is_terminating (scrub e) = is_terminating e"
  "is_ledger_not_found (scrub e) = is_ledger_not_found e" "is_ledger_exists (scrub e) = is_ledger_exists e"
proof -
  have st: "map status_of (err_tree (scrub e)) = map status_of (err_tree e)"
    by (rule map_tree) (simp_all add: status_scrub, simp_all add: status_of_def)
  have "map (\<lambda>x. status_of x = Some n) (err_tree (scrub e)) = map (\<lambda>x. status_of x = Some n) (err_tree e)" for n
    using arg_cong[OF st, of "map (\<lambda>s. s = Some n)"] by (simp add: comp_def)
  then have "list_ex (\<lambda>x. status_of x = Some n) (err_tree (scrub e)) = list_ex (\<lambda>x. status_of x = Some n) (err_tree e)" for n
    by (rule list_ex_map_cong)
  then show "is_upstream_not_found (scrub e) = is_upstream_not_found e" "is_upstream_conflict (scrub e) = is_upstream_conflict e"
    unfolding is_upstream_not_found_def is_upstream_conflict_def by blast+
  have "as_api (scrub e) = as_api e" unfolding as_api_def by (rule map_first_status[OF st])
  moreover have "map is_permanent_error (err_tree (scrub e)) = map is_permanent_error (err_tree e)"
    by (rule map_tree) simp_all
  then have "list_ex is_permanent_error (err_tree (scrub e)) = list_ex is_permanent_error (err_tree e)" by (rule list_ex_map_cong)
  ultimately show "is_permanent (scrub e) = is_permanent e" by (simp add: is_permanent_def is_transient_def)
  show "is_terminating (scrub e) = is_terminating e" "is_ledger_not_found (scrub e) = is_ledger_not_found e"
    "is_ledger_exists (scrub e) = is_ledger_exists e"
    unfolding is_terminating_def is_ledger_not_found_def is_ledger_exists_def by (rule member_tree; simp)+
qed

lemma alikeD:
  assumes "alike x y"
  shows "err_text x = err_text y" "is_upstream_not_found x = is_upstream_not_found y" "is_upstream_conflict x = is_upstream_conflict y"
    "is_permanent x = is_permanent y" "is_terminating x = is_terminating y" "is_ledger_not_found x = is_ledger_not_found y"
    "is_ledger_exists x = is_ledger_exists y"
  using assms err_text_scrub[of x] err_text_scrub[of y] scrub_preds[of x] scrub_preds[of y] unfolding alike_def by simp_all

section \<open>Calls that differ in causes only\<close>

definition agrees :: "('w, 'a) call \<Rightarrow> ('w, 'a) call \<Rightarrow> bool" where
  "agrees f g \<longleftrightarrow> (\<forall>w. snd (f w) = snd (g w) \<and> rel_sum alike (=) (fst (f w)) (fst (g w)))"

named_theorems agrees_intros

lemma rel_sum_cases:
  assumes "rel_sum alike (=) r r'"
  obtains a where "r = Inr a" "r' = Inr a" | x y where "r = Inl x" "r' = Inl y" "alike x y"
  using assms by (cases r; cases r') auto

lemma agreesD:
  assumes "agrees f g"
  obtains (ok) a w' where "f w = (Inr a, w')" "g w = (Inr a, w')"
    | (err) x y w' where "f w = (Inl x, w')" "g w = (Inl y, w')" "alike x y"
proof -
  obtain r w1 r' w2 where fg: "f w = (r, w1)" "g w = (r', w2)" by fastforce
  with assms have "w2 = w1" "rel_sum alike (=) r r'" unfolding agrees_def by (metis fst_conv snd_conv)+
  with fg ok err show thesis by (auto elim: rel_sum_cases)
qed

lemma agreesI:
  "(\<And>w. (\<exists>a w'. f w = (Inr a, w') \<and> g w = (Inr a, w')) \<or> (\<exists>x y w'. f w = (Inl x, w') \<and> g w = (Inl y, w') \<and> alike x y)) \<Longrightarrow> agrees f g"
  unfolding agrees_def by (metis fst_conv rel_sum_simps(1,4) snd_conv)

lemma agrees_refl [simp, intro]: "agrees f f"
proof (rule agreesI)
  fix w show "(\<exists>a w'. f w = (Inr a, w') \<and> f w = (Inr a, w')) \<or> (\<exists>x y w'. f w = (Inl x, w') \<and> f w = (Inl y, w') \<and> alike x y)"
    by (cases "f w"; cases "fst (f w)") auto
qed

lemma agrees_fail [agrees_intros]: "alike x y \<Longrightarrow> agrees (io_fail x) (io_fail y)"
  by (auto intro: agreesI)

lemma agrees_bind [agrees_intros]:
  assumes "agrees f g" "\<And>a. agrees (h a) (k a)"
  shows "agrees (io_bind f h) (io_bind g k)"
  unfolding agrees_def
proof
  fix w show "snd (io_bind f h w) = snd (io_bind g k w) \<and> rel_sum alike (=) (fst (io_bind f h w)) (fst (io_bind g k w))"
    by (rule agreesD[OF assms(1), of w]) (use assms(2) in \<open>auto simp: agrees_def\<close>)
qed

lemma agrees_try [agrees_intros]:
  assumes "agrees f g" "\<And>a. agrees (h (Inr a)) (k (Inr a))" "\<And>x y. alike x y \<Longrightarrow> agrees (h (Inl x)) (k (Inl y))"
  shows "agrees (io_try f h) (io_try g k)"
  unfolding agrees_def
proof
  fix w show "snd (io_try f h w) = snd (io_try g k w) \<and> rel_sum alike (=) (fst (io_try f h w)) (fst (io_try g k w))"
    by (rule agreesD[OF assms(1), of w]) (use assms(2,3) in \<open>auto simp: agrees_def\<close>)
qed

lemma agrees_wrap [agrees_intros]:
  assumes "agrees f g"
  shows "agrees (io_wrap (Wrapf m) f) (io_wrap (Wrapf m) g)"
  unfolding agrees_def
proof
  fix w show "snd (io_wrap (Wrapf m) f w) = snd (io_wrap (Wrapf m) g w) \<and>
      rel_sum alike (=) (fst (io_wrap (Wrapf m) f w)) (fst (io_wrap (Wrapf m) g w))"
    by (rule agreesD[OF assms, of w]) (auto simp: io_wrap_def alike_def)
qed

lemma agrees_bind_same: "(\<And>a. agrees (h a) (k a)) \<Longrightarrow> agrees (io_bind f h) (io_bind f k)"
  by (rule agrees_bind) simp_all

lemma agrees_try_same: "(\<And>r. agrees (h r) (k r)) \<Longrightarrow> agrees (io_try f h) (io_try f k)"
  unfolding agrees_def io_try_def by (auto split: prod.splits)

lemma agrees_if [agrees_intros]: "(P \<Longrightarrow> agrees f g) \<Longrightarrow> (\<not> P \<Longrightarrow> agrees f' g') \<Longrightarrow> agrees (if P then f else f') (if P then g else g')"
  by simp

section \<open>Environments that differ in causes only\<close>

definition forge_agrees :: "'w forge_api \<Rightarrow> 'w forge_api \<Rightarrow> bool" where
  "forge_agrees a b \<longleftrightarrow>
     (\<forall>n. agrees (fa_get_watcher a n) (fa_get_watcher b n)) \<and> (\<forall>c. agrees (fa_create_watcher a c) (fa_create_watcher b c)) \<and>
     (\<forall>n. agrees (fa_delete_watcher a n) (fa_delete_watcher b n)) \<and>
     (\<forall>n k. agrees (fa_list_builds a n k) (fa_list_builds b n k)) \<and> (\<forall>i. agrees (fa_get_build a i) (fa_get_build b i))"

definition index_agrees :: "'w index_api \<Rightarrow> 'w index_api \<Rightarrow> bool" where
  "index_agrees a b \<longleftrightarrow>
     (\<forall>n. agrees (ia_find_artifact a n) (ia_find_artifact b n)) \<and> (\<forall>i. agrees (ia_list_versions a i) (ia_list_versions b i)) \<and>
     (\<forall>i t v. agrees (ia_set_tag a i t v) (ia_set_tag b i t v)) \<and> (\<forall>i t. agrees (ia_delete_tag a i t) (ia_delete_tag b i t)) \<and>
     (\<forall>i. agrees (ia_delete_artifact a i) (ia_delete_artifact b i))"

definition weave_agrees :: "'w weave_api \<Rightarrow> 'w weave_api \<Rightarrow> bool" where
  "weave_agrees a b \<longleftrightarrow>
     (\<forall>c n. agrees (wa_get a c n) (wa_get b c n)) \<and> (\<forall>c obj. agrees (wa_create a c obj) (wa_create b c obj)) \<and>
     (\<forall>c n. agrees (wa_delete a c n) (wa_delete b c n)) \<and> (\<forall>n. agrees (wa_fire a n) (wa_fire b n)) \<and>
     (\<forall>n l. agrees (wa_patch_labels a n l) (wa_patch_labels b n l)) \<and>
     (\<forall>n c j. agrees (wa_create_batch a n c j) (wa_create_batch b n c j)) \<and>
     (\<forall>n. agrees (wa_delete_batch a n) (wa_delete_batch b n))"

definition env_agrees :: "'w env \<Rightarrow> 'w env \<Rightarrow> bool" where
  "env_agrees a b \<longleftrightarrow> env_cfg a = env_cfg b \<and> env_ledger a = env_ledger b \<and> env_now a = env_now b \<and>
     forge_agrees (env_forge a) (env_forge b) \<and> index_agrees (env_index a) (env_index b) \<and> weave_agrees (env_weave a) (env_weave b)"

lemma env_agreesD:
  assumes "env_agrees a b"
  shows "env_cfg a = env_cfg b" "env_ledger a = env_ledger b" "env_now a = env_now b"
  using assms by (simp_all add: env_agrees_def)

lemma env_calls:
  assumes "env_agrees a b"
  shows "agrees (fa_get_watcher (env_forge a) n) (fa_get_watcher (env_forge b) n)"
    "agrees (fa_create_watcher (env_forge a) cw) (fa_create_watcher (env_forge b) cw)"
    "agrees (fa_delete_watcher (env_forge a) n) (fa_delete_watcher (env_forge b) n)"
    "agrees (fa_list_builds (env_forge a) n k) (fa_list_builds (env_forge b) n k)"
    "agrees (fa_get_build (env_forge a) i) (fa_get_build (env_forge b) i)"
    "agrees (ia_find_artifact (env_index a) n) (ia_find_artifact (env_index b) n)"
    "agrees (ia_list_versions (env_index a) i) (ia_list_versions (env_index b) i)"
    "agrees (ia_set_tag (env_index a) i t v) (ia_set_tag (env_index b) i t v)"
    "agrees (ia_delete_tag (env_index a) i t) (ia_delete_tag (env_index b) i t)"
    "agrees (ia_delete_artifact (env_index a) i) (ia_delete_artifact (env_index b) i)"
    "agrees (wa_get (env_weave a) n m) (wa_get (env_weave b) n m)"
    "agrees (wa_create (env_weave a) n obj) (wa_create (env_weave b) n obj)"
    "agrees (wa_delete (env_weave a) n m) (wa_delete (env_weave b) n m)"
    "agrees (wa_fire (env_weave a) n) (wa_fire (env_weave b) n)"
    "agrees (wa_patch_labels (env_weave a) n ls) (wa_patch_labels (env_weave b) n ls)"
    "agrees (wa_create_batch (env_weave a) n m j) (wa_create_batch (env_weave b) n m j)"
    "agrees (wa_delete_batch (env_weave a) n) (wa_delete_batch (env_weave b) n)"
  using assms by (auto simp: env_agrees_def forge_agrees_def index_agrees_def weave_agrees_def)

section \<open>Ensuring and deleting\<close>

text \<open>Handlers look at an error through its predicates only.\<close>

lemma agrees_try_sum:
  assumes "agrees f g" "\<And>a. agrees (h a) (k a)" "\<And>x y. alike x y \<Longrightarrow> agrees (h' x) (k' y)"
  shows "agrees (io_try f (\<lambda>r. case r of Inl x \<Rightarrow> h' x | Inr a \<Rightarrow> h a)) (io_try g (\<lambda>r. case r of Inl x \<Rightarrow> k' x | Inr a \<Rightarrow> k a))"
  using assms by (intro agrees_try) simp_all

lemma not_found_agrees: "agrees f g \<Longrightarrow> agrees (not_found_as_nil f) (not_found_as_nil g)"
  unfolding not_found_as_nil_def by (rule agrees_try_sum) (auto simp: alikeD(2) intro: agrees_fail)

lemma ignore_agrees: "agrees f g \<Longrightarrow> agrees (ignore_not_found f) (ignore_not_found g)"
  unfolding ignore_not_found_def by (rule agrees_try_sum) (auto simp: alikeD(2) intro: agrees_fail)

definition managed_agrees :: "'w managed \<Rightarrow> 'w managed \<Rightarrow> bool" where
  "managed_agrees m n \<longleftrightarrow> mg_key m = mg_key n \<and> mg_hash m = mg_hash n \<and> mg_claim m = mg_claim n \<and>
     agrees (mg_get m) (mg_get n) \<and> agrees (mg_create m) (mg_create n) \<and>
     rel_option (\<lambda>f g. \<forall>ex. agrees (f ex) (g ex)) (mg_update m) (mg_update n)"

lemma update_agrees:
  assumes "managed_agrees m n" shows "agrees (ensure_update m ex out) (ensure_update n ex out)"
  using assms by (cases "mg_update m"; cases "mg_update n") (auto simp: managed_agrees_def ensure_update_def intro: agrees_bind)

lemma existing_agrees:
  assumes m: "managed_agrees m n" and e: "env_ledger a = env_ledger b" and retry: "\<And>out. agrees (f out) (g out)"
  shows "agrees (ensure_existing a i m entry ex f out) (ensure_existing b i n entry ex g out)"
proof -
  have "mg_key m = mg_key n" "mg_hash m = mg_hash n" "mg_claim m = mg_claim n" using m by (simp_all add: managed_agrees_def)
  then show ?thesis
    unfolding ensure_existing_def Let_def e
    by (auto intro!: agrees_try_same retry update_agrees[OF m] split: option.splits sum.splits)
qed

lemma missing_agrees:
  assumes m: "managed_agrees m n" and e: "env_ledger a = env_ledger b" and retry: "\<And>out. agrees (f out) (g out)"
  shows "agrees (ensure_missing a i m entry f out) (ensure_missing b i n entry g out)"
proof -
  have k: "mg_key m = mg_key n" "mg_hash m = mg_hash n" "mg_claim m = mg_claim n" and c: "agrees (mg_create m) (mg_create n)"
    using m by (simp_all add: managed_agrees_def)
  show ?thesis
    unfolding ensure_missing_def ensure_register_def Let_def e k
    by (intro agrees_try_same) (auto intro!: agrees_try_sum[OF c] agrees_bind_same retry agrees_fail simp: alikeD(3) split: sum.split option.split)
qed

lemma loop_agrees:
  assumes m: "managed_agrees m n" and e: "env_ledger a = env_ledger b"
  shows "agrees (ensure_loop a i m k out) (ensure_loop b i n k out)"
proof (induction k arbitrary: out)
  case 0
  then show ?case using m by (simp add: managed_agrees_def)
next
  case (Suc k)
  have "mg_key m = mg_key n" "agrees (mg_get m) (mg_get n)" using m by (simp_all add: managed_agrees_def)
  then show ?case
    unfolding ensure_loop.simps e
    by (auto intro!: agrees_bind_same agrees_bind existing_agrees[OF m e Suc] missing_agrees[OF m e Suc] split: option.split)
qed

lemma ensureStep_agrees:
  assumes m: "managed_agrees m n" and e: "env_ledger a = env_ledger b"
  shows "agrees (ensureStep a i m outs) (ensureStep b i n outs)"
proof -
  have "mg_key m = mg_key n" using m by (simp add: managed_agrees_def)
  then show ?thesis
    unfolding ensureStep_def ensure_def
    using loop_agrees[OF m e] by (intro agrees_try_sum) (auto simp: alikeD(5) intro: agrees_fail)
qed

section \<open>The steps\<close>

lemma agrees_option:
  "(\<And>v. x = Some v \<Longrightarrow> agrees (f v) (g v)) \<Longrightarrow> (x = None \<Longrightarrow> agrees f' g') \<Longrightarrow>
   agrees (case x of None \<Rightarrow> f' | Some v \<Rightarrow> f v) (case x of None \<Rightarrow> g' | Some v \<Rightarrow> g v)"
  by (cases x) simp_all

lemma weaveResource_agrees:
  assumes e: "env_agrees a b" and after: "rel_option agrees f g"
  shows "agrees (weaveResource a i kind name parts obj matches f) (weaveResource b i kind name parts obj matches g)"
proof -
  note eq = env_agreesD[OF e]
  have f: "agrees (case f of None \<Rightarrow> io_return () | Some f \<Rightarrow> f) (case g of None \<Rightarrow> io_return () | Some g \<Rightarrow> g)"
    using after by (cases rule: option.rel_cases) auto
  have "managed_agrees (weave_managed a i kind name h obj matches f) (weave_managed b i kind name h obj matches g)" for h
    unfolding managed_agrees_def weave_managed_def
    by (auto intro!: agrees_bind not_found_agrees f env_calls[OF e])
  then show ?thesis unfolding weaveResource_def eq(2) by (rule ensureStep_agrees) (rule eq(2))
qed

lemma spec_env:
  assumes "env_cfg a = env_cfg b"
  shows "jobTemplate_spec a p = jobTemplate_spec b p" "serviceTemplate_spec a p n = serviceTemplate_spec b p n"
    "app_spec a p au eps = app_spec b p au eps" "app_hash a p au eps = app_hash b p au eps"
    "chain_step_name a p = chain_step_name b p"
  using assms
  by (simp_all add: jobTemplate_spec_def serviceTemplate_spec_def template_image_def resources_field_def app_spec_def
      app_image_def app_hash_def app_hash_parts_def chain_step_name_def)

lemma app_matches_env:
  "env_cfg a = env_cfg b \<Longrightarrow> env_ledger a = env_ledger b \<Longrightarrow> app_matches a p au eps = app_matches b p au eps"
  by (simp add: fun_eq_iff app_matches_def app_image_def Let_def)

lemma weave_steps_agree:
  assumes e: "env_agrees a b"
  shows "agrees (jobTemplate_ensure a i) (jobTemplate_ensure b i)" "agrees (serviceTemplate_ensure a i) (serviceTemplate_ensure b i)"
    "agrees (chain_ensure a i) (chain_ensure b i)" "agrees (trigger_ensure a i) (trigger_ensure b i)"
    "agrees (app_ensure a i) (app_ensure b i)"
proof -
  note eq = env_agreesD[OF e] and spec = spec_env[OF env_agreesD(1)[OF e]]
  note weave = weaveResource_agrees[OF e]
  show "agrees (jobTemplate_ensure a i) (jobTemplate_ensure b i)"
    unfolding jobTemplate_ensure_def Let_def spec by (auto intro: weave)
  show "agrees (serviceTemplate_ensure a i) (serviceTemplate_ensure b i)"
    unfolding serviceTemplate_ensure_def Let_def spec eq by (auto intro: weave split: option.split)
  show "agrees (chain_ensure a i) (chain_ensure b i)"
    unfolding chain_ensure_def Let_def spec by (auto intro: weave split: sum.split)
  show "agrees (trigger_ensure a i) (trigger_ensure b i)"
    unfolding trigger_ensure_def Let_def by (auto intro!: weave env_calls[OF e] split: option.split sum.split)
  have "agrees (app_create a i au eps) (app_create b i au eps)" for au eps
    unfolding app_create_def Let_def spec app_matches_env[OF eq(1,2)] by (auto intro: weave split: list.split)
  then show "agrees (app_ensure a i) (app_ensure b i)"
    unfolding app_ensure_def Let_def eq by (auto split: option.split sum.split)
qed

lemma batchTrigger_agrees: assumes e: "env_agrees a b" shows "agrees (batchTrigger_ensure a i) (batchTrigger_ensure b i)"
proof -
  note eq = env_agreesD[OF e]
  have "managed_agrees (batchTrigger_managed a i) (batchTrigger_managed b i)"
    unfolding managed_agrees_def batchTrigger_managed_def Let_def eq
    by (auto intro!: agrees_bind not_found_agrees env_calls[OF e])
  then show ?thesis unfolding batchTrigger_ensure_def by (rule ensureStep_agrees) (rule eq(2))
qed

lemma gitWatcher_agrees: assumes e: "env_agrees a b" shows "agrees (gitWatcher_ensure a i) (gitWatcher_ensure b i)"
proof -
  note eq = env_agreesD[OF e]
  have "watcher_auto_tag a p = watcher_auto_tag b p" for p by (simp add: watcher_auto_tag_def eq)
  then have "managed_agrees (watcher_managed a i) (watcher_managed b i)"
    unfolding managed_agrees_def watcher_managed_def Let_def
    by (auto simp: eq intro!: agrees_bind not_found_agrees env_calls[OF e])
  then show ?thesis unfolding gitWatcher_ensure_def by (rule ensureStep_agrees) (rule eq(2))
qed

lemma tag_agrees: assumes e: "env_agrees a b" shows "agrees (tag_ensure a i) (tag_ensure b i)"
proof -
  note eq = env_agreesD[OF e]
  have "managed_agrees (tag_managed a n t v k) (tag_managed b n t v k)" for n t v k
    unfolding managed_agrees_def tag_managed_def by (auto intro!: agrees_bind env_calls[OF e])
  then show ?thesis
    unfolding tag_ensure_def Let_def eq(1) by (auto intro: ensureStep_agrees[OF _ eq(2)] split: option.split)
qed

lemma waitBuild_agrees: assumes e: "env_agrees a b" shows "agrees (waitBuild_ensure a i) (waitBuild_ensure b i)"
proof -
  note eq = env_agreesD[OF e] and calls = env_calls[OF e]
  have newest: "agrees (newest_build a gw) (newest_build b gw)" for gw
    unfolding newest_build_def by (auto intro!: agrees_bind calls not_found_agrees split: option.split)
  have find: "agrees (find_build a gw r) (find_build b gw r)" for gw r
    unfolding find_build_def by (auto intro!: agrees_bind newest calls not_found_agrees split: option.split)
  have "managed_agrees (artifact_managed n k) (artifact_managed n k)" for n k
    by (simp add: managed_agrees_def artifact_managed_def)
  then have claim: "agrees (claim_build a i bd) (claim_build b i bd)" for bd
    unfolding claim_build_def Let_def eq(1)
    by (auto intro!: agrees_try_sum calls ensureStep_agrees[OF _ eq(2)] agrees_fail simp: alikeD(2))
  have "agrees (poll_build a i n bd) (poll_build b i n bd)" for n bd
    unfolding poll_build_def eq(1) by (auto intro: claim split: option.split)
  moreover have "clock a = clock b" by (simp add: clock_def eq fun_eq_iff)
  ultimately show ?thesis
    unfolding waitBuild_ensure_def Let_def timed_out_def eq(1)
    by (auto intro!: agrees_bind agrees_bind_same calls find)
qed

lemma step_agrees:
  assumes "s \<in> set registry" "env_agrees a b"
  shows "agrees (sp_ensure s a i) (sp_ensure s b i)"
  using assms(1) gitWatcher_agrees[OF assms(2)] waitBuild_agrees[OF assms(2)] tag_agrees[OF assms(2)]
    weave_steps_agree[OF assms(2)] batchTrigger_agrees[OF assms(2)]
  by (auto simp: registry_def step_defs waitBuildStep_def appStep_def)

lemma delete_agrees: assumes e: "env_agrees a b" shows "agrees (deleteUpstream a s) (deleteUpstream b s)"
  unfolding deleteUpstream_def Let_def by (auto intro!: env_calls[OF e] split: option.split)

section \<open>Passes and rollbacks\<close>

text \<open>The status of a step keeps the text of an error only, so it is the same.\<close>

lemma record_same:
  assumes "rel_sum alike (=) r r'"
  shows "record_result now r s = record_result now r' s"
  using assms by (cases rule: rel_sum_cases) (simp_all add: record_result_def alikeD(1,4) Let_def)

lemma run_instance_same:
  assumes e: "env_agrees a b" and now: "rc_now r = rc_now r'"
  shows "run_instance r a n i s vals outs = run_instance r' b n i s vals outs"
proof
  fix w
  have ctx: "step_context a vals outs i = step_context b vals outs i" by (simp add: step_context_def env_agreesD[OF e])
  have "record_result now (fst (sp_ensure step a inp w)) s1 = record_result now (fst (sp_ensure step b inp w)) s1 \<and>
      snd (sp_ensure step a inp w) = snd (sp_ensure step b inp w)"
    if "lookup_step (ws_type (pi_step i)) = Some step" for step inp s1 now
    using step_agrees[OF _ e, of step inp] lookup_in_registry[OF that] record_same unfolding agrees_def by blast
  then show "run_instance r a n i s vals outs w = run_instance r' b n i s vals outs w"
    unfolding run_instance_def Let_def ctx now by (auto split: option.split sum.split prod.split) (metis fst_conv snd_conv)+
qed

text \<open>Reconcilers that differ in their environments only, and these in causes.\<close>

definition reconciler_agrees :: "'w reconciler \<Rightarrow> 'w reconciler \<Rightarrow> bool" where
  "reconciler_agrees r r' \<longleftrightarrow> rc_api r = rc_api r' \<and> rc_now r = rc_now r' \<and> rc_lib r = rc_lib r' \<and>
     (\<forall>w. snd (rc_envs r w) = snd (rc_envs r' w) \<and> rel_sum (=) env_agrees (fst (rc_envs r w)) (fst (rc_envs r' w)))"

lemma get_env_cases:
  assumes "reconciler_agrees r r'" "rel_option env_agrees e e'"
  obtains (ok) a b w' where "get_env r e w = (Inr a, w')" "get_env r' e' w = (Inr b, w')" "env_agrees a b"
    | (err) x w' where "get_env r e w = (Inl x, w')" "get_env r' e' w = (Inl x, w')"
proof -
  have "snd (get_env r e w) = snd (get_env r' e' w) \<and> rel_sum (=) env_agrees (fst (get_env r e w)) (fst (get_env r' e' w))"
    using assms by (auto simp: get_env_def reconciler_agrees_def split: option.split elim: option.rel_cases)
  then show thesis using ok err
    by (cases "get_env r e w"; cases "get_env r' e' w"; cases "fst (get_env r e w)"; cases "fst (get_env r' e' w)") auto
qed

lemma loop_same:
  assumes r: "reconciler_agrees r r'"
  shows "rel_option env_agrees e e' \<Longrightarrow> advance_loop r run vals e outs is st w = advance_loop r' run vals e' outs is st w"
proof (induction "is" arbitrary: e e' outs st w)
  case Nil
  then show ?case using r by (simp add: reconciler_agrees_def)
next
  case (Cons i "is")
  have now: "rc_now r = rc_now r'" using r by (simp add: reconciler_agrees_def)
  show ?case
  proof (cases "find_step st (pi_key i)")
    case (Some s)
    show ?thesis
    proof (rule get_env_cases[OF r Cons.prems, of w])
      fix x w' assume "get_env r e w = (Inl x, w')" "get_env r' e' w = (Inl x, w')"
      then show ?thesis using Some Cons by (simp add: Let_def now)
    next
      fix a b w' assume env: "get_env r e w = (Inr a, w')" "get_env r' e' w = (Inr b, w')" "env_agrees a b"
      note same = run_instance_same[OF env(3) now]
      have later: "advance_loop r run vals (Some a) outs' is st' w1 = advance_loop r' run vals (Some b) outs' is st' w1" for outs' st' w1
        by (rule Cons.IH) (simp add: env(3))
      show ?thesis using Some Cons.IH[OF Cons.prems] env same later
        by (auto simp: Let_def now split: prod.split run_outcome.split)
    qed
  qed simp
qed

lemma advance_same: "reconciler_agrees r r' \<Longrightarrow> advance r run insts vals retry = advance r' run insts vals retry"
  using loop_same[of r r' None None] by (simp add: advance_def fun_eq_iff reconciler_agrees_def)

lemma collect_agrees:
  "list_all2 agrees fs gs \<Longrightarrow> snd (io_collect fs w) = snd (io_collect gs w) \<and> list_all2 alike (fst (io_collect fs w)) (fst (io_collect gs w))"
proof (induction arbitrary: w rule: list_all2_induct)
  case (Cons f fs g gs)
  show ?case
    by (rule agreesD[OF Cons(1), of w]) (use Cons(3) in \<open>auto simp: case_prod_beta\<close>)
qed simp

lemma joined_alike: "list_all2 alike xs ys \<Longrightarrow> rel_sum alike (=) (joined xs) (joined ys)"
proof (cases "xs = []")
  case False
  assume l: "list_all2 alike xs ys"
  then have "map scrub xs = map scrub ys" by (induction rule: list_all2_induct) (simp_all add: alike_def)
  with False l show ?thesis by (auto simp: joined_def errors_join_def alike_def)
qed (simp add: joined_def errors_join_def)

lemma sweep_agrees: assumes e: "env_agrees a b" shows "agrees (SweepTerminating a) (SweepTerminating b)"
proof -
  have "agrees (sweep_entry a en) (sweep_entry b en)" for en
    unfolding sweep_entry_def env_agreesD[OF e] by (auto intro!: agrees_bind agrees_wrap delete_agrees[OF e])
  then have "list_all2 agrees (map (sweep_entry a) es) (map (sweep_entry b) es)" for es
    by (simp add: list.rel_map list.rel_refl)
  from collect_agrees[OF this] have "agrees (\<lambda>w. case io_collect (map (sweep_entry a) es) w of (errs, w') \<Rightarrow> (joined errs, w'))
      (\<lambda>w. case io_collect (map (sweep_entry b) es) w of (errs, w') \<Rightarrow> (joined errs, w'))" for es
    unfolding agrees_def using joined_alike by (simp add: case_prod_beta)
  then show ?thesis unfolding SweepTerminating_def env_agreesD[OF e] by (rule agrees_bind_same)
qed

lemma release_agrees: assumes e: "env_agrees a b" shows "agrees (releaseAndDelete a k ref) (releaseAndDelete b k ref)"
  unfolding releaseAndDelete_def env_agreesD[OF e]
  by (auto intro!: agrees_bind_same agrees_bind agrees_wrap delete_agrees[OF e] split: prod.split option.split)

lemma concat_agrees:
  "(\<And>x. list_all2 P (f x) (g x)) \<Longrightarrow> list_all2 P (concat (map f xs)) (concat (map g xs))"
  by (induction xs) (simp_all add: list_all2_appendI)

lemma collected_agrees:
  assumes "list_all2 agrees fs gs" "list_all2 alike xs ys"
  shows "agrees (\<lambda>w. case io_collect fs w of (errs, w') \<Rightarrow> (joined (xs @ errs), w'))
    (\<lambda>w. case io_collect gs w of (errs, w') \<Rightarrow> (joined (ys @ errs), w'))"
  unfolding agrees_def using collect_agrees[OF assms(1)] assms(2) joined_alike
  by (simp add: case_prod_beta list_all2_appendI)

lemma rollback_agrees: assumes e: "env_agrees a b" shows "agrees (rollback_run a n) (rollback_run b n)"
proof -
  have releases: "list_all2 agrees (releases_of a n es) (releases_of b n es)" for es
    unfolding releases_of_def
    by (intro concat_agrees) (auto simp: list.rel_map intro!: list.rel_refl_strong release_agrees[OF e])
  have listed: "agrees
      (io_try (ledger_list (env_ledger b)) (\<lambda>r. case r of
            Inl x \<Rightarrow> (\<lambda>w. (joined (xs @ [Wrapf (Lit ''list ledger'') x]), w))
          | Inr entries \<Rightarrow> (\<lambda>w. case io_collect (releases_of a n entries) w of (errs, w') \<Rightarrow> (joined (xs @ errs), w'))))
      (io_try (ledger_list (env_ledger b)) (\<lambda>r. case r of
            Inl x \<Rightarrow> (\<lambda>w. (joined (ys @ [Wrapf (Lit ''list ledger'') x]), w))
          | Inr entries \<Rightarrow> (\<lambda>w. case io_collect (releases_of b n entries) w of (errs, w') \<Rightarrow> (joined (ys @ errs), w'))))"
    if "list_all2 alike xs ys" for xs ys
  proof (rule agrees_try_same)
    fix r
    have "agrees (\<lambda>w. (joined (xs @ [Wrapf (Lit ''list ledger'') x]), w)) (\<lambda>w. (joined (ys @ [Wrapf (Lit ''list ledger'') x]), w))" for x
      unfolding agrees_def using that joined_alike by (simp add: list_all2_appendI)
    then show "agrees (case r of
            Inl x \<Rightarrow> (\<lambda>w. (joined (xs @ [Wrapf (Lit ''list ledger'') x]), w))
          | Inr entries \<Rightarrow> (\<lambda>w. case io_collect (releases_of a n entries) w of (errs, w') \<Rightarrow> (joined (xs @ errs), w')))
        (case r of
            Inl x \<Rightarrow> (\<lambda>w. (joined (ys @ [Wrapf (Lit ''list ledger'') x]), w))
          | Inr entries \<Rightarrow> (\<lambda>w. case io_collect (releases_of b n entries) w of (errs, w') \<Rightarrow> (joined (ys @ errs), w')))"
      using collected_agrees[OF releases that] by (auto split: sum.split)
  qed
  show ?thesis
    unfolding rollback_run_def Let_def env_agreesD(2)[OF e]
    by (rule agrees_try[OF sweep_agrees[OF e]]; simp only: sum.case) (rule listed, simp)+
qed

lemma update_same: "rc_api r = rc_api r' \<Longrightarrow> rc_now r = rc_now r' \<Longrightarrow> update_status r = update_status r'"
  by (intro ext) (simp add: update_status_def Let_def)

lemma undo_same:
  assumes r: "reconciler_agrees r r'"
  shows "undo_and_report r run = undo_and_report r' run"
proof
  fix w
  have upd: "update_status r = update_status r'" using r by (intro update_same) (simp_all add: reconciler_agrees_def)
  let ?f = "\<lambda>r. io_bind (rc_envs r) (\<lambda>e. rollback_run e (run_name run))"
  have "snd (?f r w) = snd (?f r' w) \<and> rel_sum alike (=) (fst (?f r w)) (fst (?f r' w))"
  proof (rule get_env_cases[OF r, of None None w])
    fix x w' assume "get_env r None w = (Inl x, w')" "get_env r' None w = (Inl x, w')"
    then show ?thesis by (simp add: get_env_def)
  next
    fix a b w' assume "get_env r None w = (Inr a, w')" "get_env r' None w = (Inr b, w')" "env_agrees a b"
    then show ?thesis using rollback_agrees[of a b] by (simp add: get_env_def agrees_def)
  qed simp
  then show "undo_and_report r run w = undo_and_report r' run w"
    unfolding undo_and_report_def upd io_try_def
    by (cases "?f r w"; cases "?f r' w") (auto elim!: rel_sum_cases simp: alikeD(1))
qed

text \<open>Nothing else of \<open>Reconcile\<close> uses the environment.\<close>

lemma reconcile_same:
  assumes r: "reconciler_agrees r r'"
  shows "reconcile r name = reconcile r' name"
proof -
  have api: "rc_api r = rc_api r'" "rc_now r = rc_now r'" "rc_lib r = rc_lib r'" using r by (simp_all add: reconciler_agrees_def)
  note upd = update_same[OF api(1,2)]
  have fail: "fail_run r = fail_run r'" by (intro ext) (unfold fail_run_def upd, rule refl)
  have "apply_plan r = apply_plan r'" by (intro ext) (unfold apply_plan_def Let_def advance_same[OF r] api, rule refl)
  then have defn: "apply_definition r = apply_definition r'"
    by (intro ext) (unfold apply_definition_def api fail, simp only:)
  have "take_snapshot r = take_snapshot r'" by (intro ext) (unfold take_snapshot_def api, rule refl)
  with defn have app: "reconcile_apply r = reconcile_apply r'"
    by (intro ext) (unfold reconcile_apply_def upd fail, simp only:)
  have rollback: "rollback_of r = rollback_of r'"
    by (intro ext) (unfold rollback_of_def upd undo_same[OF r], rule refl)
  have live: "reconcile_live r = reconcile_live r'" by (intro ext) (unfold reconcile_live_def rollback app, rule refl)
  have del: "reconcile_delete r = reconcile_delete r'" by (intro ext) (unfold reconcile_delete_def rollback api, rule refl)
  show ?thesis by (unfold reconcile_def api live del, rule refl)
qed

section \<open>The transport\<close>

text \<open>Two transports that answer alike and fail at the same requests, whatever the texts of the failures.\<close>

definition opaque :: "(('w, 'a) call) \<Rightarrow> ('w, 'a) call \<Rightarrow> bool" where
  "opaque f g \<longleftrightarrow> (\<forall>w. snd (f w) = snd (g w) \<and> rel_sum (\<lambda>x y. hide x = Errorf (Lit []) \<and> hide y = Errorf (Lit [])) (=) (fst (f w)) (fst (g w)))"

definition client_alike :: "'w client \<Rightarrow> 'w client \<Rightarrow> bool" where
  "client_alike c d \<longleftrightarrow> cl_service c = cl_service d \<and> cl_base c = cl_base d \<and> (\<forall>q. opaque (cl_http c q) (cl_http d q)) \<and>
     rel_option opaque (cl_tokens c) (cl_tokens d)"

fun_cases hide_Errorf: "hide x = Errorf t"

lemma opaque_cause:
  "hide x = Errorf (Lit []) \<Longrightarrow> hide y = Errorf (Lit []) \<Longrightarrow> alike (APIError s m p st t (Some x)) (APIError s m p st t (Some y))"
  by (auto simp: alike_def elim!: hide_Errorf)

lemma opaque_try:
  assumes "opaque f g" "\<And>a. agrees (h (Inr a)) (k (Inr a))"
    "\<And>x y. hide x = Errorf (Lit []) \<Longrightarrow> hide y = Errorf (Lit []) \<Longrightarrow> agrees (h (Inl x)) (k (Inl y))"
  shows "agrees (io_try f h) (io_try g k)"
  unfolding agrees_def
proof
  fix w
  obtain r w1 r' w2 where fg: "f w = (r, w1)" "g w = (r', w2)" by fastforce
  have "snd (f w) = snd (g w) \<and> rel_sum (\<lambda>x y. hide x = Errorf (Lit []) \<and> hide y = Errorf (Lit [])) (=) (fst (f w)) (fst (g w))"
    using assms(1) unfolding opaque_def by blast
  then have w: "w2 = w1" and rel: "rel_sum (\<lambda>x y. hide x = Errorf (Lit []) \<and> hide y = Errorf (Lit [])) (=) r r'"
    unfolding fg by simp_all
  have "agrees (h r) (k r')" using rel
  proof (cases r)
    case (Inl x)
    with rel obtain y where "r' = Inl y" "hide x = Errorf (Lit [])" "hide y = Errorf (Lit [])" by (cases r') auto
    with Inl show ?thesis using assms(3) by simp
  next
    case (Inr a)
    with rel have "r' = Inr a" by (cases r') auto
    with Inr show ?thesis using assms(2) by simp
  qed
  with fg w show "snd (io_try f h w) = snd (io_try g k w) \<and> rel_sum alike (=) (fst (io_try f h w)) (fst (io_try g k w))"
    by (simp add: agrees_def)
qed

lemma opaque_return: "opaque (io_return a) (io_return a)"
  by (simp add: opaque_def)

lemma client_do_agrees:
  assumes "client_alike c d"
  shows "agrees (client_do gl c m p q body dec) (client_do gl d m p q body dec)"
proof -
  have c: "cl_service c = cl_service d" "cl_base c = cl_base d" and http: "opaque (cl_http c rq) (cl_http d rq)" for rq
    using assms by (simp_all add: client_alike_def)
  have tokens: "opaque (case cl_tokens c of None \<Rightarrow> io_return [] | Some t \<Rightarrow> t) (case cl_tokens d of None \<Rightarrow> io_return [] | Some t \<Rightarrow> t)"
    using assms opaque_return unfolding client_alike_def by (cases "cl_tokens c"; cases "cl_tokens d") simp_all
  show ?thesis
    unfolding client_do_def Let_def c
  proof (rule agrees_if[OF agrees_refl], rule opaque_try[OF tokens], goal_cases)
    case (1 token)
    show ?case unfolding sum.case
      by (rule opaque_try[OF http]) (simp_all add: agrees_fail opaque_cause)
  qed (simp add: agrees_fail opaque_cause)
qed

lemma do_agrees:
  assumes "client_alike c d"
  shows "agrees (do_unit gl c m p body) (do_unit gl d m p body)" "agrees (do_get gl c m p q body z dec) (do_get gl d m p q body z dec)"
  unfolding do_unit_def do_get_def by (rule agrees_bind[OF client_do_agrees[OF assms] agrees_refl])+

lemma find_pages_agrees:
  "(\<And>n. agrees (f n) (g n)) \<Longrightarrow> agrees (find_pages f name page fuel) (find_pages g name page fuel)"
  by (induction fuel arbitrary: page) (auto intro!: agrees_bind split: option.split prod.split)

lemma clients_agree:
  assumes "client_alike c d"
  shows "forge_agrees (forge_client gl c) (forge_client gl d)" "index_agrees (index_client_api gl n c) (index_client_api gl n d)"
    "weave_agrees (weave_client_api gl c) (weave_client_api gl d)"
  by (auto simp: forge_agrees_def forge_client_def get_git_watcher_def create_git_watcher_do_def delete_git_watcher_def
      list_app_builds_def get_app_build_def index_agrees_def index_client_api_def find_artifact_def artifact_page_def
      list_versions_def set_tag_def delete_tag_def delete_artifact_def weave_agrees_def weave_client_api_def weave_get_def
      weave_create_def weave_delete_def weave_fire_def weave_patch_labels_def create_batch_trigger_def delete_batch_trigger_def
      intro!: ignore_agrees find_pages_agrees do_agrees[OF assms])

definition factory_alike :: "'w env_factory \<Rightarrow> 'w env_factory \<Rightarrow> bool" where
  "factory_alike f g \<longleftrightarrow> ef_lib f = ef_lib g \<and> ef_read f = ef_read g \<and> ef_namespace f = ef_namespace g \<and>
     ef_config_map f = ef_config_map g \<and> ef_ledger f = ef_ledger g \<and> ef_pages f = ef_pages g \<and> ef_now f = ef_now g \<and>
     (\<forall>q. opaque (ef_http f q) (ef_http g q)) \<and> rel_option opaque (ef_forge_tokens f) (ef_forge_tokens g) \<and>
     rel_option opaque (ef_index_tokens f) (ef_index_tokens g) \<and> rel_option opaque (ef_weave_tokens f) (ef_weave_tokens g)"

lemma factory_agrees:
  assumes "factory_alike f g"
  shows "snd (factory_env f w) = snd (factory_env g w) \<and> rel_sum (=) env_agrees (fst (factory_env f w)) (fst (factory_env g w))"
proof -
  let ?load = "load_config (ef_lib g) (ef_read g) (ef_namespace g) (ef_config_map g)"
  have client: "client_alike (new_client n u (ef_http f) t) (new_client n u (ef_http g) t')" if "rel_option opaque t t'" for n u t t'
    using assms that by (simp add: client_alike_def new_client_def factory_alike_def)
  show ?thesis
    using assms
    by (cases "?load w"; cases "fst (?load w)")
      (auto simp: factory_env_def factory_alike_def env_agrees_def io_bind_def intro!: clients_agree client)
qed

text \<open>C20: what the transport and the token files say when they fail stays in the logs. Two environment
  factories whose transports and token sources answer alike and fail at the same requests, with whatever error texts,
  give the same \<open>Reconcile\<close>: the same calls, the same ledger, the same run status and message, the same result and
  delay. So no host name, address or path of a failed connection reaches a run.\<close>

theorem causes_stay_hidden:
  assumes "factory_alike f g"
  shows "reconcile (r\<lparr>rc_envs := factory_env f\<rparr>) name = reconcile (r\<lparr>rc_envs := factory_env g\<rparr>) name"
  using factory_agrees[OF assms] by (intro reconcile_same) (simp add: reconciler_agrees_def)

text \<open>Services that cannot be reached, with the text of the failure.\<close>

definition unreachable :: "string \<Rightarrow> sys env_factory" where
  "unreachable t = \<lparr>ef_lib = sample_lib, ef_read = (\<lambda>ns n. io_return sample_data), ef_namespace = ''fusion'',
     ef_config_map = ''config'', ef_ledger = world_ledger ''b'' sample_lib, ef_http = (\<lambda>q. io_fail (Errorf (Lit t))),
     ef_forge_tokens = None, ef_index_tokens = Some (io_fail (Errorf (Lit t))), ef_weave_tokens = None, ef_pages = 1,
     ef_now = (\<lambda>w. 0)\<rparr>"

theorem causes_stay_hidden_witness:
  "reconcile ((sys_reconciler ''b'' sample_lib)\<lparr>rc_envs := factory_env (unreachable ''dial tcp 10.0.0.7:8080'')\<rparr>) ''b'' (sys_of [run_b] []) =
   reconcile ((sys_reconciler ''b'' sample_lib)\<lparr>rc_envs := factory_env (unreachable ''no such host'')\<rparr>) ''b'' (sys_of [run_b] [])"
  using causes_stay_hidden[of "unreachable ''dial tcp 10.0.0.7:8080''" "unreachable ''no such host''" "sys_reconciler ''b'' sample_lib" "''b''"]
  by (simp add: factory_alike_def unreachable_def opaque_def)

end
