(* ===== verification/ForgeProps.thy ===== *)
theory ForgeProps
  imports CatalogueProps
begin

text \<open>
  When \<open>waitBuild\<close> says it is done: forge has just reported a successful build, by its ID, and the index
  has the artifact of it; the outputs are those of this build.
\<close>

lemma not_found_Some: "not_found_as_nil f w = (Inr (Some v), w') \<Longrightarrow> f w = (Inr v, w')"
  by (auto simp: not_found_as_nil_def io_try_def split: prod.splits sum.splits if_splits)

text \<open>The build is the remembered one, or the first of the watcher's builds in forge's list.\<close>

definition asked_for :: "'w env \<Rightarrow> git_watcher \<Rightarrow> string \<Rightarrow> int \<Rightarrow> 'w \<Rightarrow> bool" where
  "asked_for e gw remembered n w \<longleftrightarrow> parse_int remembered = Some n \<or>
     (\<exists>v builds b. fa_list_builds (env_forge e) [] buildListSize v = (Inr builds, w) \<and>
        find (build_of_watcher gw) builds = Some b \<and> n = b_id b)"

lemma newest_asked:
  assumes "newest_build e gw w = (Inr (Some b), w')"
  shows "\<exists>n v. asked_for e gw r n v \<and> fa_get_build (env_forge e) n v = (Inr b, w')"
proof -
  obtain builds v where l: "fa_list_builds (env_forge e) [] buildListSize w = (Inr builds, v)"
    and s: "(case find (build_of_watcher gw) builds of Some b \<Rightarrow> not_found_as_nil (fa_get_build (env_forge e) (b_id b))
       | None \<Rightarrow> io_return None) v = (Inr (Some b), w')"
    using assms unfolding newest_build_def by (auto elim: io_bind_cases)
  then obtain b0 where "find (build_of_watcher gw) builds = Some b0" "fa_get_build (env_forge e) (b_id b0) v = (Inr b, w')"
    by (auto split: option.splits dest: not_found_Some)
  with l have "asked_for e gw r (b_id b0) v" unfolding asked_for_def by blast
  with \<open>fa_get_build (env_forge e) (b_id b0) v = (Inr b, w')\<close> show ?thesis by blast
qed

lemma find_build_asked:
  assumes "find_build e gw r w = (Inr (Some b), w')"
  shows "\<exists>n v. asked_for e gw r n v \<and> fa_get_build (env_forge e) n v = (Inr b, w')"
proof (cases "parse_int r")
  case None
  with assms newest_asked show ?thesis by (simp add: find_build_def)
next
  case (Some n)
  with assms obtain x v where g: "not_found_as_nil (fa_get_build (env_forge e) n) w = (Inr x, v)"
    "(case x of Some b \<Rightarrow> io_return (Some b) | None \<Rightarrow> newest_build e gw) v = (Inr (Some b), w')"
    by (auto simp: find_build_def elim: io_bind_cases)
  show ?thesis
  proof (cases x)
    case None
    with g(2) newest_asked show ?thesis by simp
  next
    case (Some b')
    with g have "fa_get_build (env_forge e) n w = (Inr b, w')" by (auto dest: not_found_Some)
    moreover have "asked_for e gw r n w" using \<open>parse_int r = Some n\<close> by (simp add: asked_for_def)
    ultimately show ?thesis by blast
  qed
qed

definition build_outputs :: "config \<Rightarrow> build \<Rightarrow> artifact \<Rightarrow> smap" where
  "build_outputs cfg b art =
     [(''buildId'', format_int (b_id b)), (''name'', b_name b), (''artifactName'', cfg_artifact_prefix cfg @ b_name b),
      (''artifactId'', format_int (a_id art)),
      (''version'', case b_index_artifact_version b of Some v \<Rightarrow> v | None \<Rightarrow> b_version b)]"

lemma ensureStep_outputs:
  "ensureStep e i m outs w = (Inr res, w') \<Longrightarrow> res_done res \<Longrightarrow> res_outputs res = outs"
  unfolding ensureStep_def by (auto elim!: io_try_cases split: sum.splits if_splits)

lemma claim_done:
  assumes "claim_build e i b w = (Inr res, w')" "res_done res"
  shows "b_index_artifact_id b \<noteq> None \<and> (\<exists>art v. ia_find_artifact (env_index e) (cfg_artifact_prefix (env_cfg e) @ b_name b) w = (Inr art, v) \<and>
    res_outputs res = build_outputs (env_cfg e) b art)"
proof -
  obtain r v where find: "ia_find_artifact (env_index e) (cfg_artifact_prefix (env_cfg e) @ b_name b) w = (r, v)" by fastforce
  have id: "b_index_artifact_id b \<noteq> None" using assms(1) by (cases "b_index_artifact_id b") (auto simp: claim_build_def Let_def)
  then obtain art where "r = Inr art"
    using assms find by (cases r) (auto simp: claim_build_def Let_def io_try_def split: if_splits)
  with id find show ?thesis
    using assms by (auto simp: claim_build_def Let_def io_try_def build_outputs_def dest!: ensureStep_outputs)
qed

text \<open>C27: when \<open>waitBuild\<close> is done, the watcher is not disabled and the step not timed out, forge has just reported
  the build by its ID as \<open>SUCCESS\<close> with an index artifact, that build is the remembered one or the newest app build of the
  watcher's repository and folder, the index has the artifact, and the outputs are those of this build and
  this artifact.\<close>

theorem wait_build_honest:
  assumes "waitBuild_ensure e i w = (Inr res, w')" "res_done res"
  shows "\<exists>gw b art n w1 w2 w3 w4. fa_get_watcher (env_forge e) (get0 (in_params i) ''watcher'') w = (Inr gw, w1) \<and>
    gst_phase (gw_status gw) \<noteq> ''Disabled'' \<and> \<not> timed_out e i (env_now e w1) \<and>
    asked_for e gw (get0 (in_prior i) ''buildId'') n w2 \<and> fa_get_build (env_forge e) n w2 = (Inr b, w3) \<and>
    b_status b = ''SUCCESS'' \<and> b_index_artifact_id b \<noteq> None \<and>
    ia_find_artifact (env_index e) (cfg_artifact_prefix (env_cfg e) @ b_name b) w3 = (Inr art, w4) \<and>
    res_outputs res = build_outputs (env_cfg e) b art"
proof -
  let ?r = "get0 (in_prior i) ''buildId''"
  obtain gw w1 where gw: "fa_get_watcher (env_forge e) (get0 (in_params i) ''watcher'') w = (Inr gw, w1)"
    using assms(1) by (auto simp: waitBuild_ensure_def Let_def elim: io_bind_cases)
  with assms(1) have ok: "gst_phase (gw_status gw) \<noteq> ''Disabled''" "\<not> timed_out e i (env_now e w1)"
    and rest: "io_bind (find_build e gw ?r) (poll_build e i (get0 (in_params i) ''watcher'')) w1 = (Inr res, w')"
    by (auto simp: waitBuild_ensure_def Let_def clock_def io_bind_def split: if_splits)
  from rest obtain x w3 where x: "find_build e gw ?r w1 = (Inr x, w3)"
    "poll_build e i (get0 (in_params i) ''watcher'') x w3 = (Inr res, w')" by (auto elim: io_bind_cases)
  with assms(2) obtain b where b: "x = Some b" "b_status b = ''SUCCESS''" "claim_build e i b w3 = (Inr res, w')"
    by (cases x) (auto simp: poll_build_def split: if_splits)
  obtain n w2 where "asked_for e gw ?r n w2" "fa_get_build (env_forge e) n w2 = (Inr b, w3)"
    using find_build_asked[OF x(1)[unfolded b(1)]] by blast
  moreover obtain art w4 where "ia_find_artifact (env_index e) (cfg_artifact_prefix (env_cfg e) @ b_name b) w3 = (Inr art, w4)"
    "res_outputs res = build_outputs (env_cfg e) b art" "b_index_artifact_id b \<noteq> None"
    using claim_done[OF b(3) assms(2)] by blast
  ultimately show ?thesis using gw ok b(2) by blast
qed

text \<open>Forge has built the watched repository.\<close>

definition done_build :: build where
  "done_build = \<lparr>b_id = 7, b_name = ''calc'', b_version = ''1.0.0'', b_status = ''SUCCESS'', b_build_type = ''app'',
     b_index_artifact_id = Some 3, b_index_artifact_version = None, b_ci_build_name = None, b_repo_url = Some ''u'',
     b_project_dir = None\<rparr>"

definition build_input :: input where
  "build_input = \<lparr>in_run = ''b'', in_key = ''wait'', in_params = [(''watcher'', ''w'')], in_prior = [(''buildId'', ''7'')],
     in_started = Some 0\<rparr>"

definition built_world :: fake_world where
  "built_world = \<lparr>fw_fakes = no_fakes\<lparr>fk_builds := [(7, done_build)],
       fk_artifacts := [(''app.calc'', \<lparr>a_id = 3, a_full_name = ''app.calc'', a_description = None\<rparr>)],
       fk_watchers := [(''w'', \<lparr>gw_name = ''w'', gw_namespace = [],
         gw_spec = \<lparr>gs_repo_url = ''u'', gs_repo_ref = [], gs_build_type = ''app'', gs_project_dir = [], gs_auto_tag = []\<rparr>,
         gw_status = active_status\<rparr>)]\<rparr>,
     fw_store = fw_store empty_world\<rparr>"

lemma build_numbers: "parse_int ''7'' = Some 7" "format_int 7 = ''7''" "format_int 3 = ''3''"
  by code_simp+

lemma build_run:
  "done_with (waitBuild_ensure (fake_env ''b'' pad_lib) build_input built_world) = Some
     [(''buildId'', ''7''), (''name'', ''calc''), (''artifactName'', ''app.calc''), (''artifactId'', ''3''), (''version'', ''1.0.0'')]"
  by (simp add: done_with_def waitBuild_ensure_def built_world_def build_input_def get0_def run_defs clock_def timed_out_def
      sample_config_def active_status_def find_build_def build_numbers poll_build_def done_build_def claim_build_def
      artifact_managed_def cong: run_cong)

theorem wait_build_witness:
  "\<exists>res w' b art. waitBuild_ensure (fake_env ''b'' pad_lib) build_input built_world = (Inr res, w') \<and>
     b_status b = ''SUCCESS'' \<and> res_outputs res = build_outputs sample_config b art"
proof -
  let ?e = "fake_env ''b'' pad_lib :: fake_world env"
  obtain res w' where r: "waitBuild_ensure ?e build_input built_world = (Inr res, w')" "res_done res"
    using done_with_Some[OF build_run] by blast
  have "env_cfg ?e = sample_config" by (simp add: fake_env_def)
  with wait_build_honest[OF r] r(1) show ?thesis by metis
qed

end
