(* ===== verification/GoHeap.thy ===== *)
theory GoHeap
  imports ApiTypes
begin

text \<open>
  Memory of a Go process, as far as aliasing matters: a heap of cells that pointers, slices and maps refer to. A
  cell is one allocation; nothing is ever freed. Everywhere else the development treats Go's structs as
  values; this theory and \<open>DeepCopy\<close> justify that where the code shares or copies them.
\<close>

section \<open>Cells and addresses\<close>

type_synonym addr = nat

type_synonym 'c heap = "'c list" \<comment> \<open>the cell of address \<open>a\<close> is \<open>h ! a\<close>\<close>

definition peek :: "('c \<Rightarrow> 'a option) \<Rightarrow> 'c heap \<Rightarrow> addr \<Rightarrow> 'a option" where
  "peek get h a = (if a < length h then get (h ! a) else None)"

text \<open>Reading through a pointer; a pointer to nothing, which a Go program cannot have, panics.\<close>

definition heap_load :: "('c \<Rightarrow> 'a option) \<Rightarrow> addr \<Rightarrow> ('c heap, 'a) call" where
  "heap_load get a = (\<lambda>h. case peek get h a of
     Some x \<Rightarrow> (Inr x, h) | None \<Rightarrow> (Inl (Panic ''invalid memory address''), h))"

text \<open>\<open>new\<close> and \<open>make\<close>, with the content the allocation has once it is filled.\<close>

definition heap_new :: "'c \<Rightarrow> ('c heap, addr) call" where
  "heap_new c = (\<lambda>h. (Inr (length h), h @ [c]))"

definition heap_writes :: "(addr \<times> 'c) list \<Rightarrow> 'c heap \<Rightarrow> 'c heap" where
  "heap_writes ws h = foldl (\<lambda>h (a, c). h[a := c]) h ws"

text \<open>An allocation that holds one value, as \<open>new\<close> makes it.\<close>

definition only :: "('c \<Rightarrow> 'a list option) \<Rightarrow> 'c \<Rightarrow> 'a option" where
  "only get c = (case get c of Some [x] \<Rightarrow> Some x | _ \<Rightarrow> None)"

lemma only_one: "get c = Some [x] \<Longrightarrow> only get c = Some x"
  by (simp add: only_def)

lemma heap_writes_other:
  "a \<notin> fst ` set ws \<Longrightarrow> heap_writes ws h ! a = h ! a" "length (heap_writes ws h) = length h"
proof -
  have "length (foldl (\<lambda>h (a, c). h[a := c]) h ws) = length h \<and>
    (a \<notin> fst ` set ws \<longrightarrow> foldl (\<lambda>h (a, c). h[a := c]) h ws ! a = h ! a)"
    by (induction ws arbitrary: h) auto
  then show "a \<notin> fst ` set ws \<Longrightarrow> heap_writes ws h ! a = h ! a" "length (heap_writes ws h) = length h"
    by (simp_all add: heap_writes_def)
qed

section \<open>Copying what is behind a reference\<close>

text \<open>A nil pointer, slice or map stays nil; anything else is copied into a new allocation.\<close>

definition copy_ref ::
  "('c \<Rightarrow> 'a option) \<Rightarrow> ('a \<Rightarrow> 'c) \<Rightarrow> ('a \<Rightarrow> ('c heap, 'a) call) \<Rightarrow> addr option \<Rightarrow> ('c heap, addr option) call" where
  "copy_ref get put cp r =
     (case r of
        None \<Rightarrow> io_return None
      | Some a \<Rightarrow> io_bind (heap_load get a) (\<lambda>x. io_bind (cp x) (\<lambda>y.
          io_bind (heap_new (put y)) (\<lambda>b. io_return (Some b)))))"

text \<open>\<open>for i := range *in\<close> over a slice.\<close>

fun copy_elems :: "('a \<Rightarrow> ('c heap, 'a) call) \<Rightarrow> 'a list \<Rightarrow> ('c heap, 'a list) call" where
  "copy_elems cp [] = io_return []"
| "copy_elems cp (x # xs) = io_bind (cp x) (\<lambda>y. io_bind (copy_elems cp xs) (\<lambda>ys. io_return (y # ys)))"

text \<open>\<open>for key, val := range *in { (*out)[key] = ... }\<close> over a map.\<close>

fun copy_entries ::
  "('a \<Rightarrow> ('c heap, 'a) call) \<Rightarrow> (string \<times> 'a) list \<Rightarrow> (string \<times> 'a) list \<Rightarrow> ('c heap, (string \<times> 'a) list) call" where
  "copy_entries cp out [] = io_return out"
| "copy_entries cp out ((k, v) # m) = io_bind (cp v) (\<lambda>w. copy_entries cp (assoc_set k w out) m)"

definition copy_pair ::
  "('a \<Rightarrow> ('c heap, 'a) call) \<Rightarrow> ('b \<Rightarrow> ('c heap, 'b) call) \<Rightarrow> 'a \<times> 'b \<Rightarrow> ('c heap, 'a \<times> 'b) call" where
  "copy_pair f g = (\<lambda>(x, y). io_bind (f x) (\<lambda>a. io_bind (g y) (\<lambda>b. io_return (a, b))))"

lemma bind_return: "io_bind (io_return x) k = k x"
  by (simp add: io_bind_def io_return_def)

lemma bind_assoc: "io_bind (io_bind f g) k = io_bind f (\<lambda>x. io_bind (g x) k)"
  by (auto simp: io_bind_def fun_eq_iff split: prod.splits sum.splits)

lemma bind_pair: "io_bind (copy_pair f g (x, y)) k = io_bind (f x) (\<lambda>a. io_bind (g y) (\<lambda>b. k (a, b)))"
  by (simp add: copy_pair_def bind_assoc bind_return)

section \<open>What memory shows\<close>

text \<open>
  \<open>look h m\<close> is the value a struct \<open>m\<close> stands for when its references are followed in \<open>h\<close>, and the addresses that were
  followed; \<open>None\<close> if one of them is dangling.
\<close>

type_synonym ('c, 'm, 'v) look = "'c heap \<Rightarrow> 'm \<Rightarrow> ('v \<times> addr list) option"

definition look_flat :: "('c, 'm, 'm) look" where
  "look_flat h m = Some (m, [])"

definition look_ref :: "('c \<Rightarrow> 'a option) \<Rightarrow> ('c, 'a, 'v) look \<Rightarrow> ('c, addr option, 'v option) look" where
  "look_ref get lk h r =
     (case r of
        None \<Rightarrow> Some (None, [])
      | Some a \<Rightarrow> (case peek get h a of
          None \<Rightarrow> None
        | Some x \<Rightarrow> map_option (\<lambda>(v, as). (Some v, a # as)) (lk h x)))"

definition look_pair :: "('c, 'a, 'v) look \<Rightarrow> ('c, 'b, 'u) look \<Rightarrow> ('c, 'a \<times> 'b, 'v \<times> 'u) look" where
  "look_pair f g h = (\<lambda>(x, y). case f h x of
      None \<Rightarrow> None
    | Some (v, as) \<Rightarrow> map_option (\<lambda>(u, bs). ((v, u), as @ bs)) (g h y))"

fun look_elems :: "('c, 'a, 'v) look \<Rightarrow> ('c, 'a list, 'v list) look" where
  "look_elems lk h [] = Some ([], [])"
| "look_elems lk h (x # xs) = (case lk h x of
     None \<Rightarrow> None
   | Some (v, as) \<Rightarrow> map_option (\<lambda>(vs, bs). (v # vs, as @ bs)) (look_elems lk h xs))"

text \<open>The keys of a Go map are distinct.\<close>

definition look_entries :: "('c, 'a, 'v) look \<Rightarrow> ('c, (string \<times> 'a) list, (string \<times> 'v) list) look" where
  "look_entries lk h m =
     (if distinct (map fst m) then map_option (\<lambda>(vs, as). (zip (map fst m) vs, as)) (look_elems lk h (map snd m)) else None)"

definition look_struct :: "('c, 'f, 'u) look \<Rightarrow> ('m \<Rightarrow> 'f) \<Rightarrow> ('m \<Rightarrow> 'u \<Rightarrow> 'v) \<Rightarrow> ('c, 'm, 'v) look" where
  "look_struct lk parts build h m = map_option (\<lambda>(u, as). (build m u, as)) (lk h (parts m))"

section \<open>Contracts\<close>

text \<open>Two heaps with the same content in the given cells.\<close>

definition agree :: "addr list \<Rightarrow> 'c heap \<Rightarrow> 'c heap \<Rightarrow> bool" where
  "agree as h h' \<longleftrightarrow> (\<forall>a\<in>set as. a < length h \<longrightarrow> a < length h' \<and> h' ! a = h ! a)"

lemma agree_simps [simp]:
  "agree [] h h'" "agree (as @ bs) h h' \<longleftrightarrow> agree as h h' \<and> agree bs h h'"
  by (auto simp: agree_def)

lemma agree_tail: "agree (a # as) h h' \<Longrightarrow> agree as h h'"
  by (simp add: agree_def)

lemma agree_peek: "agree (a # as) h h' \<Longrightarrow> peek get h a = Some x \<Longrightarrow> peek get h' a = Some x"
  by (simp add: agree_def peek_def split: if_splits)

lemma peek_bound: "peek get h a = Some x \<Longrightarrow> a < length h"
  by (simp add: peek_def split: if_splits)

lemma agree_append: "agree as h (h @ ext)"
  by (simp add: agree_def nth_append)

lemma agree_writes: "fst ` set ws \<inter> set as = {} \<Longrightarrow> agree as h (heap_writes ws h)"
  unfolding agree_def by (metis disjoint_iff heap_writes_other)

text \<open>What a struct stands for depends on the cells it refers to and on nothing else.\<close>

locale viewer =
  fixes look :: "'c heap \<Rightarrow> 'm \<Rightarrow> ('v \<times> addr list) option"
  assumes look_bound: "look h m = Some (v, as) \<Longrightarrow> set as \<subseteq> {..<length h}"
    and look_frame: "look h m = Some (v, as) \<Longrightarrow> agree as h h' \<Longrightarrow> look h' m = Some (v, as)"
begin

lemma look_append: "look h m = Some (v, as) \<Longrightarrow> look (h @ ext) m = Some (v, as)"
  by (erule look_frame) (rule agree_append)

lemma look_writes: "look h m = Some (v, as) \<Longrightarrow> fst ` set ws \<inter> set as = {} \<Longrightarrow> look (heap_writes ws h) m = Some (v, as)"
  by (erule look_frame) (rule agree_writes)

end

text \<open>A deep copy only allocates; the copy has the value of the original, in new cells, none of them shared.\<close>

locale copier = viewer look for look :: "'c heap \<Rightarrow> 'm \<Rightarrow> ('v \<times> addr list) option" +
  fixes copy :: "'m \<Rightarrow> 'c heap \<Rightarrow> (err + 'm) \<times> 'c heap"
  assumes copy_looks: "look h m = Some (v, as) \<Longrightarrow>
    \<exists>m' ext bs. copy m h = (Inr m', h @ ext) \<and> look (h @ ext) m' = Some (v, bs) \<and> distinct bs \<and>
      set bs \<subseteq> {length h..<length (h @ ext)}"
begin

text \<open>Writes through the original do not change the copy, writes through the copy not the original.\<close>

lemma copy_independent:
  assumes "look h m = Some (v, as)"
  shows "\<exists>m' h' bs. copy m h = (Inr m', h') \<and> look h' m = Some (v, as) \<and> look h' m' = Some (v, bs) \<and>
    set as \<inter> set bs = {} \<and> distinct bs \<and>
    (\<forall>ws. fst ` set ws \<inter> set bs = {} \<longrightarrow> look (heap_writes ws h') m' = Some (v, bs)) \<and>
    (\<forall>ws. fst ` set ws \<inter> set as = {} \<longrightarrow> look (heap_writes ws h') m = Some (v, as))"
proof -
  obtain m' ext bs where c: "copy m h = (Inr m', h @ ext)" "look (h @ ext) m' = Some (v, bs)" "distinct bs"
    "set bs \<subseteq> {length h..<length (h @ ext)}" using copy_looks[OF assms] by blast
  moreover have "set as \<inter> set bs = {}"
  proof -
    have "{..<length h} \<inter> {length h..<length (h @ ext)} = {}" by auto
    with look_bound[OF assms] c(4) show ?thesis by blast
  qed
  moreover have "look (h @ ext) m = Some (v, as)" using assms by (rule look_append)
  moreover note look_writes[OF c(2)] look_writes[OF look_append[OF assms, of ext]]
  ultimately show ?thesis by (intro exI[of _ m'] exI[of _ "h @ ext"] exI[of _ bs] conjI allI impI) simp_all
qed

end

section \<open>Composition\<close>

lemma look_ref_Some:
  "look_ref get lk h r = Some (v, as) \<longleftrightarrow> (r = None \<and> v = None \<and> as = []) \<or>
     (\<exists>a x u bs. r = Some a \<and> peek get h a = Some x \<and> lk h x = Some (u, bs) \<and> v = Some u \<and> as = a # bs)"
  by (auto simp: look_ref_def split: option.splits)

lemma look_pair_Some:
  "look_pair f g h (x, y) = Some (v, as) \<longleftrightarrow>
     (\<exists>p ps q qs. f h x = Some (p, ps) \<and> g h y = Some (q, qs) \<and> v = (p, q) \<and> as = ps @ qs)"
  by (auto simp: look_pair_def split: option.splits)

lemma look_elems_Some:
  "look_elems lk h (x # xs) = Some (v, as) \<longleftrightarrow>
     (\<exists>p ps q qs. lk h x = Some (p, ps) \<and> look_elems lk h xs = Some (q, qs) \<and> v = p # q \<and> as = ps @ qs)"
  by (auto split: option.splits)

lemma look_struct_Some:
  "look_struct lk parts build h m = Some (v, as) \<longleftrightarrow> (\<exists>u. lk h (parts m) = Some (u, as) \<and> v = build m u)"
  by (auto simp: look_struct_def)

lemma look_entries_Some:
  "look_entries lk h m = Some (v, as) \<longleftrightarrow>
     distinct (map fst m) \<and> (\<exists>u. look_elems lk h (map snd m) = Some (u, as) \<and> v = zip (map fst m) u)"
  by (auto simp: look_entries_def)

lemma viewer_flat: "viewer look_flat"
  by unfold_locales (auto simp: look_flat_def)

lemma viewer_ref:
  assumes "viewer lk" shows "viewer (look_ref get lk)"
proof unfold_locales
  fix h h' r v as assume l: "look_ref get lk h r = Some (v, as)"
  show "set as \<subseteq> {..<length h}"
    using l by (auto simp: look_ref_Some peek_bound dest!: viewer.look_bound[OF assms])
  show "look_ref get lk h' r = Some (v, as)" if a: "agree as h h'"
    using l a unfolding look_ref_Some by (metis agree_peek agree_tail viewer.look_frame[OF assms])
qed

lemma viewer_pair:
  assumes "viewer f" "viewer g" shows "viewer (look_pair f g)"
proof unfold_locales
  fix h h' m v as assume l: "look_pair f g h m = Some (v, as)"
  show "set as \<subseteq> {..<length h}"
    using l by (cases m) (auto simp: look_pair_Some dest!: assms[THEN viewer.look_bound])
  show "look_pair f g h' m = Some (v, as)" if "agree as h h'"
    using l that by (cases m) (simp add: look_pair_Some, metis agree_simps(2) viewer.look_frame assms)
qed

lemma viewer_elems:
  assumes "viewer lk" shows "viewer (look_elems lk)"
proof unfold_locales
  fix h h' xs v as assume l: "look_elems lk h xs = Some (v, as)"
  show "set as \<subseteq> {..<length h}" using l
    by (induction xs arbitrary: v as) (auto simp: look_elems_Some simp del: look_elems.simps(2) dest!: viewer.look_bound[OF assms])
  show "look_elems lk h' xs = Some (v, as)" if "agree as h h'" using l that
    by (induction xs arbitrary: v as) (auto simp: look_elems_Some simp del: look_elems.simps(2) dest: viewer.look_frame[OF assms])
qed

lemma viewer_entries:
  assumes "viewer lk" shows "viewer (look_entries lk)"
  by unfold_locales (auto simp: look_entries_Some dest: viewer.look_bound[OF viewer_elems[OF assms]]
    viewer.look_frame[OF viewer_elems[OF assms]])

lemma viewer_struct:
  assumes "viewer lk" shows "viewer (look_struct lk parts build)"
  by unfold_locales (auto simp: look_struct_Some dest: viewer.look_bound[OF assms] viewer.look_frame[OF assms])

text \<open>How a copier is built: the copy of a call that already is one.\<close>

lemma copier_flat: "copier look_flat io_return"
  unfolding copier_def copier_axioms_def by (simp add: viewer_flat) (simp add: look_flat_def)

lemma copier_new:
  assumes c: "copier lk cp" and l: "lk h x = Some (v, as)" and put: "\<And>y. get (put y) = Some y"
  shows "\<exists>b ext bs. io_bind (cp x) (\<lambda>y. heap_new (put y)) h = (Inr b, h @ ext) \<and>
    look_ref get lk (h @ ext) (Some b) = Some (Some v, bs) \<and> distinct bs \<and> set bs \<subseteq> {length h..<length (h @ ext)}"
proof -
  obtain y ext bs where cp: "cp x h = (Inr y, h @ ext)" "lk (h @ ext) y = Some (v, bs)" "distinct bs"
    "set bs \<subseteq> {length h..<length (h @ ext)}" using copier.copy_looks[OF c l] by blast
  let ?h = "h @ ext @ [put y]"
  have "lk ?h y = Some (v, bs)" using viewer.look_append[OF copier.axioms(1)[OF c] cp(2), of "[put y]"] by simp
  moreover have "peek get ?h (length (h @ ext)) = Some y" by (simp add: peek_def nth_append put)
  ultimately have "look_ref get lk ?h (Some (length (h @ ext))) = Some (Some v, length (h @ ext) # bs)"
    by (simp add: look_ref_def)
  moreover have "distinct (length (h @ ext) # bs)" "set (length (h @ ext) # bs) \<subseteq> {length h..<length ?h}"
    using cp(3,4) by auto
  moreover have "io_bind (cp x) (\<lambda>y. heap_new (put y)) h = (Inr (length (h @ ext)), ?h)"
    using cp(1) by (simp add: heap_new_def)
  ultimately show ?thesis by blast
qed

lemma copier_ref:
  assumes c: "copier lk cp" and put: "\<And>y. get (put y) = Some y"
  shows "copier (look_ref get lk) (copy_ref get put cp)"
proof -
  have "\<exists>r' ext bs. copy_ref get put cp r h = (Inr r', h @ ext) \<and> look_ref get lk (h @ ext) r' = Some (v, bs) \<and> distinct bs \<and>
      set bs \<subseteq> {length h..<length (h @ ext)}" if l: "look_ref get lk h r = Some (v, as)" for h r v as
  proof (cases r)
    case None
    with l show ?thesis by (intro exI[of _ None] exI[of _ "[]"]) (simp add: copy_ref_def look_ref_def)
  next
    case (Some a)
    with l obtain x u bs where x: "peek get h a = Some x" "lk h x = Some (u, bs)" "v = Some u"
      by (auto simp: look_ref_def split: option.splits)
    then have "heap_load get a h = (Inr x, h)" by (simp add: heap_load_def)
    then have "copy_ref get put cp r h = io_bind (io_bind (cp x) (\<lambda>y. heap_new (put y))) (\<lambda>b. io_return (Some b)) h"
      by (simp add: copy_ref_def Some bind_assoc)
    with copier_new[where get = get, OF c x(2) put] show ?thesis unfolding x(3) by (metis io_bind_Inr io_return_apply)
  qed
  then show ?thesis
    unfolding copier_def copier_axioms_def using viewer_ref[OF copier.axioms(1)[OF c]] by blast
qed

lemma copier_pair:
  assumes f: "copier lf f" and g: "copier lg g"
  shows "copier (look_pair lf lg) (copy_pair f g)"
proof -
  note vf = copier.axioms(1)[OF f] and vg = copier.axioms(1)[OF g]
  have "\<exists>m' ext cs. copy_pair f g m h = (Inr m', h @ ext) \<and> look_pair lf lg (h @ ext) m' = Some (v, cs) \<and> distinct cs \<and>
      set cs \<subseteq> {length h..<length (h @ ext)}" if l: "look_pair lf lg h m = Some (v, as)" for h m v as
  proof -
    from l obtain x y p q ps qs where m: "m = (x, y)" "v = (p, q)" "lf h x = Some (p, ps)" "lg h y = Some (q, qs)"
      by (auto simp: look_pair_def split: prod.splits option.splits)
    obtain x' e1 bs where x: "f x h = (Inr x', h @ e1)" "lf (h @ e1) x' = Some (p, bs)" "distinct bs"
      "set bs \<subseteq> {length h..<length (h @ e1)}" using copier.copy_looks[OF f m(3)] by blast
    obtain y' e2 cs where y: "g y (h @ e1) = (Inr y', (h @ e1) @ e2)" "lg ((h @ e1) @ e2) y' = Some (q, cs)" "distinct cs"
      "set cs \<subseteq> {length (h @ e1)..<length ((h @ e1) @ e2)}" using copier.copy_looks[OF g viewer.look_append[OF vg m(4)]] by blast
    have "copy_pair f g m h = (Inr (x', y'), h @ e1 @ e2)" using x(1) y(1) by (simp add: copy_pair_def m(1))
    moreover have "look_pair lf lg (h @ e1 @ e2) (x', y') = Some (v, bs @ cs)"
      using viewer.look_append[OF vf x(2), of e2] y(2) by (simp add: look_pair_def m(2))
    moreover have "distinct (bs @ cs)" "set (bs @ cs) \<subseteq> {length h..<length (h @ e1 @ e2)}"
      using x(3,4) y(3,4) by fastforce+
    ultimately show ?thesis by blast
  qed
  then show ?thesis
    unfolding copier_def copier_axioms_def using viewer_pair[OF vf vg] by blast
qed

lemma copier_struct:
  assumes c: "copier lk cf" and upd: "\<And>f s. parts (upd f s) = f" "\<And>f s. build (upd f s) = build s"
    and cp: "\<And>s. cp s = io_bind (cf (parts s)) (\<lambda>f. io_return (upd f s))"
  shows "copier (look_struct lk parts build) cp"
proof -
  have "\<exists>m' ext bs. cp m h = (Inr m', h @ ext) \<and> look_struct lk parts build (h @ ext) m' = Some (v, bs) \<and> distinct bs \<and>
      set bs \<subseteq> {length h..<length (h @ ext)}" if l: "look_struct lk parts build h m = Some (v, as)" for h m v as
  proof -
    from l obtain u where u: "lk h (parts m) = Some (u, as)" "v = build m u" by (auto simp: look_struct_def)
    from copier.copy_looks[OF c u(1)] obtain f ext bs where f: "cf (parts m) h = (Inr f, h @ ext)"
      "lk (h @ ext) f = Some (u, bs)" "distinct bs" "set bs \<subseteq> {length h..<length (h @ ext)}" by blast
    then have "cp m h = (Inr (upd f m), h @ ext)" "look_struct lk parts build (h @ ext) (upd f m) = Some (v, bs)"
      by (simp_all add: cp look_struct_def upd u(2))
    with f show ?thesis by blast
  qed
  then show ?thesis
    unfolding copier_def copier_axioms_def using viewer_struct[OF copier.axioms(1)[OF c]] by blast
qed

lemma copier_elems:
  assumes c: "copier lk cp"
  shows "copier (look_elems lk) (copy_elems cp)"
proof -
  have "\<exists>ys ext bs. copy_elems cp xs h = (Inr ys, h @ ext) \<and> look_elems lk (h @ ext) ys = Some (v, bs) \<and> distinct bs \<and>
      set bs \<subseteq> {length h..<length (h @ ext)}" if "look_elems lk h xs = Some (v, as)" for h xs v as
    using that
  proof (induction xs arbitrary: h v as)
    case Nil
    then show ?case by (intro exI[of _ "[]"]) simp
  next
    case (Cons x xs)
    then obtain p ps q qs where l: "lk h x = Some (p, ps)" "look_elems lk h xs = Some (q, qs)" "v = p # q"
      by (auto split: option.splits)
    obtain y e1 bs where y: "cp x h = (Inr y, h @ e1)" "lk (h @ e1) y = Some (p, bs)" "distinct bs"
      "set bs \<subseteq> {length h..<length (h @ e1)}" using copier.copy_looks[OF c l(1)] by blast
    obtain ys e2 cs where ys: "copy_elems cp xs (h @ e1) = (Inr ys, (h @ e1) @ e2)"
      "look_elems lk ((h @ e1) @ e2) ys = Some (q, cs)" "distinct cs" "set cs \<subseteq> {length (h @ e1)..<length ((h @ e1) @ e2)}"
      using Cons.IH[OF viewer.look_append[OF viewer_elems[OF copier.axioms(1)[OF c]] l(2)]] by blast
    have "copy_elems cp (x # xs) h = (Inr (y # ys), h @ e1 @ e2)" using y(1) ys(1) by simp
    moreover have "look_elems lk (h @ e1 @ e2) (y # ys) = Some (v, bs @ cs)"
      using viewer.look_append[OF copier.axioms(1)[OF c] y(2), of e2] ys(2) by (simp add: l(3))
    moreover have "distinct (bs @ cs)" "set (bs @ cs) \<subseteq> {length h..<length (h @ e1 @ e2)}"
      using y(3,4) ys(3,4) by fastforce+
    ultimately show ?case by blast
  qed
  then show ?thesis
    unfolding copier_def copier_axioms_def using viewer_elems[OF copier.axioms(1)[OF c]] by blast
qed

lemma assoc_set_new: "k \<notin> fst ` set m \<Longrightarrow> assoc_set k v m = m @ [(k, v)]"
  by (induction k v m rule: assoc_set.induct) auto

lemma copy_entries_elems:
  "distinct (map fst (out @ m)) \<Longrightarrow>
   copy_entries cp out m = io_bind (copy_elems cp (map snd m)) (\<lambda>ws. io_return (out @ zip (map fst m) ws))"
proof (induction cp out m rule: copy_entries.induct)
  case (2 cp out k v m)
  then have "k \<notin> fst ` set out" by auto
  with 2 show ?case by (simp add: assoc_set_new bind_assoc bind_return)
qed (simp add: bind_return fun_eq_iff)

lemma copy_elems_length: "copy_elems cp xs h = (Inr ys, h') \<Longrightarrow> length ys = length xs"
  by (induction xs arbitrary: h h' ys) (auto elim!: io_bind_cases)

lemma copier_entries:
  assumes c: "copier lk cp"
  shows "copier (look_entries lk) (copy_entries cp [])"
proof -
  have "\<exists>m' ext bs. copy_entries cp [] m h = (Inr m', h @ ext) \<and> look_entries lk (h @ ext) m' = Some (v, bs) \<and> distinct bs \<and>
      set bs \<subseteq> {length h..<length (h @ ext)}" if l: "look_entries lk h m = Some (v, as)" for h m v as
  proof -
    from l obtain u where u: "distinct (map fst m)" "look_elems lk h (map snd m) = Some (u, as)" "v = zip (map fst m) u"
      by (auto simp: look_entries_def split: if_splits)
    from copier.copy_looks[OF copier_elems[OF c] u(2)] obtain ws ext bs where
      w: "copy_elems cp (map snd m) h = (Inr ws, h @ ext)" "look_elems lk (h @ ext) ws = Some (u, bs)" "distinct bs"
        "set bs \<subseteq> {length h..<length (h @ ext)}" by blast
    then have len: "length (map fst m) = length ws" using copy_elems_length by fastforce
    have "copy_entries cp [] m h = (Inr (zip (map fst m) ws), h @ ext)"
      using u(1) w(1) by (simp add: copy_entries_elems)
    moreover have "look_entries lk (h @ ext) (zip (map fst m) ws) = Some (v, bs)"
      using w(2) u(1) unfolding look_entries_def map_fst_zip[OF len] map_snd_zip[OF len] by (simp add: u(3))
    ultimately show ?thesis using w(3,4) by blast
  qed
  then show ?thesis
    unfolding copier_def copier_axioms_def using viewer_entries[OF copier.axioms(1)[OF c]] by blast
qed

end
