(* ===== verification/DeepCopy.thy ===== *)
theory DeepCopy
  imports GoHeap
begin

text \<open>
  The generated deep copies of \<open>api/v1alpha1/zz_generated.deepcopy.go\<close> over a memory in which slices, maps and
  pointers are addresses. A struct \<open>mem_X\<close> has the members of the Go struct \<open>X\<close>; strings and
  numbers are values, nil is \<open>None\<close>. \<open>look_X\<close> gives the value of \<open>ApiTypes\<close> such a struct stands for, so that every copy
  is shown to be the identity on the values the rest of the development works with, and to share nothing
  with its original. Of the library's \<open>ObjectMeta\<close>, the members the program uses are here.
\<close>

section \<open>Structs in memory\<close>

record mem_json =
  mj_raw :: "addr option"

record mem_parameter =
  mp_name :: string
  mp_type :: parameter_type
  mp_description :: string
  mp_required :: bool
  mp_default :: "addr option"
  mp_pattern :: string

record mem_step =
  mt_name :: string
  mt_type :: step_type
  mt_for_each :: string
  mt_params :: "addr option"

record mem_definition_spec =
  md_description :: string
  md_parameters :: "addr option"
  md_steps :: "addr option"

record mem_meta =
  mm_name :: string
  mm_generation :: int
  mm_version :: string
  mm_created :: time
  mm_deletion :: "addr option"
  mm_labels :: "addr option"
  mm_annotations :: "addr option"
  mm_finalizers :: "addr option"

type_synonym type_meta = "string \<times> string" \<comment> \<open>kind and API version\<close>

record mem_definition =
  mw_type :: type_meta
  mw_meta :: mem_meta
  mw_spec :: mem_definition_spec

record mem_resource_spec =
  mc_service :: service_name
  mc_kind :: string
  mc_name :: string
  mc_external_id :: string
  mc_spec_hash :: string
  mc_managed :: bool
  mc_terminating :: bool
  mc_refs :: "addr option"

record mem_resource =
  mx_type :: type_meta
  mx_meta :: mem_meta
  mx_spec :: mem_resource_spec

record mem_step_status =
  ms_key :: string
  ms_name :: string
  ms_type :: step_type
  ms_item :: string
  ms_phase :: step_phase
  ms_message :: msg
  ms_failures :: int
  ms_outputs :: "addr option"
  ms_resources :: "addr option"
  ms_started_at :: "addr option"
  ms_completed_at :: "addr option"

record mem_run_status =
  mu_phase :: run_phase
  mu_message :: msg
  mu_generation :: int
  mu_steps :: "addr option"
  mu_conditions :: "addr option"
  mu_started_at :: "addr option"
  mu_completed_at :: "addr option"

record mem_run_spec =
  mq_definition_ref :: string
  mq_snapshot :: "addr option"
  mq_definition_generation :: int
  mq_parameters :: "addr option"
  mq_created_by :: string
  mq_created_by_email :: string
  mq_desired :: desired_state

record mem_run =
  mn_type :: type_meta
  mn_meta :: mem_meta
  mn_spec :: mem_run_spec
  mn_status :: mem_run_status

record mem_list_meta =
  ml_version :: string
  ml_continue :: string
  ml_remaining :: "addr option"

record mem_list =
  mz_type :: type_meta
  mz_meta :: mem_list_meta
  mz_items :: "addr option"

text \<open>
  A cell is one allocation: a map, or an array, of length one for what \<open>new\<close> allocates. The bytes of a JSON text
  are given by what they decode to.
\<close>

datatype cell =
    CBytes raw_json
  | CStringMap smap
  | CJsonMap "(string \<times> mem_json) list"
  | CInt64s "int list"
  | CTimes "time list"
  | CStrings "string list"
  | CJsons "mem_json list"
  | CParameters "mem_parameter list"
  | CSteps "mem_step list"
  | CDefinitionSpecs "mem_definition_spec list"
  | CDefinitions "mem_definition list"
  | CDefinitionLists "mem_list list"
  | CManagedRefs "managed_resource_ref list"
  | CReferences "resource_reference list"
  | CResourceSpecs "mem_resource_spec list"
  | CResources "mem_resource list"
  | CResourceLists "mem_list list"
  | CConditions "condition list"
  | CStepStatuses "mem_step_status list"
  | CRunStatuses "mem_run_status list"
  | CRunSpecs "mem_run_spec list"
  | CRuns "mem_run list"
  | CRunLists "mem_list list"

type_synonym 'm copying = "'m \<Rightarrow> (cell heap, 'm) call"

definition bytes_of :: "cell \<Rightarrow> raw_json option" where
  "bytes_of c = (case c of CBytes x \<Rightarrow> Some x | _ \<Rightarrow> None)"
definition string_map_of :: "cell \<Rightarrow> smap option" where
  "string_map_of c = (case c of CStringMap x \<Rightarrow> Some x | _ \<Rightarrow> None)"
definition json_map_of :: "cell \<Rightarrow> (string \<times> mem_json) list option" where
  "json_map_of c = (case c of CJsonMap x \<Rightarrow> Some x | _ \<Rightarrow> None)"
definition int64s_of :: "cell \<Rightarrow> int list option" where
  "int64s_of c = (case c of CInt64s x \<Rightarrow> Some x | _ \<Rightarrow> None)"
definition times_of :: "cell \<Rightarrow> time list option" where
  "times_of c = (case c of CTimes x \<Rightarrow> Some x | _ \<Rightarrow> None)"
definition strings_of :: "cell \<Rightarrow> string list option" where
  "strings_of c = (case c of CStrings x \<Rightarrow> Some x | _ \<Rightarrow> None)"
definition jsons_of :: "cell \<Rightarrow> mem_json list option" where
  "jsons_of c = (case c of CJsons x \<Rightarrow> Some x | _ \<Rightarrow> None)"
definition parameters_of :: "cell \<Rightarrow> mem_parameter list option" where
  "parameters_of c = (case c of CParameters x \<Rightarrow> Some x | _ \<Rightarrow> None)"
definition steps_of :: "cell \<Rightarrow> mem_step list option" where
  "steps_of c = (case c of CSteps x \<Rightarrow> Some x | _ \<Rightarrow> None)"
definition definition_specs_of :: "cell \<Rightarrow> mem_definition_spec list option" where
  "definition_specs_of c = (case c of CDefinitionSpecs x \<Rightarrow> Some x | _ \<Rightarrow> None)"
definition definitions_of :: "cell \<Rightarrow> mem_definition list option" where
  "definitions_of c = (case c of CDefinitions x \<Rightarrow> Some x | _ \<Rightarrow> None)"
definition definition_lists_of :: "cell \<Rightarrow> mem_list list option" where
  "definition_lists_of c = (case c of CDefinitionLists x \<Rightarrow> Some x | _ \<Rightarrow> None)"
definition managed_refs_of :: "cell \<Rightarrow> managed_resource_ref list option" where
  "managed_refs_of c = (case c of CManagedRefs x \<Rightarrow> Some x | _ \<Rightarrow> None)"
definition references_of :: "cell \<Rightarrow> resource_reference list option" where
  "references_of c = (case c of CReferences x \<Rightarrow> Some x | _ \<Rightarrow> None)"
definition resource_specs_of :: "cell \<Rightarrow> mem_resource_spec list option" where
  "resource_specs_of c = (case c of CResourceSpecs x \<Rightarrow> Some x | _ \<Rightarrow> None)"
definition resources_of :: "cell \<Rightarrow> mem_resource list option" where
  "resources_of c = (case c of CResources x \<Rightarrow> Some x | _ \<Rightarrow> None)"
definition resource_lists_of :: "cell \<Rightarrow> mem_list list option" where
  "resource_lists_of c = (case c of CResourceLists x \<Rightarrow> Some x | _ \<Rightarrow> None)"
definition conditions_of :: "cell \<Rightarrow> condition list option" where
  "conditions_of c = (case c of CConditions x \<Rightarrow> Some x | _ \<Rightarrow> None)"
definition step_statuses_of :: "cell \<Rightarrow> mem_step_status list option" where
  "step_statuses_of c = (case c of CStepStatuses x \<Rightarrow> Some x | _ \<Rightarrow> None)"
definition run_statuses_of :: "cell \<Rightarrow> mem_run_status list option" where
  "run_statuses_of c = (case c of CRunStatuses x \<Rightarrow> Some x | _ \<Rightarrow> None)"
definition run_specs_of :: "cell \<Rightarrow> mem_run_spec list option" where
  "run_specs_of c = (case c of CRunSpecs x \<Rightarrow> Some x | _ \<Rightarrow> None)"
definition runs_of :: "cell \<Rightarrow> mem_run list option" where
  "runs_of c = (case c of CRuns x \<Rightarrow> Some x | _ \<Rightarrow> None)"
definition run_lists_of :: "cell \<Rightarrow> mem_list list option" where
  "run_lists_of c = (case c of CRunLists x \<Rightarrow> Some x | _ \<Rightarrow> None)"

lemmas cell_defs = bytes_of_def string_map_of_def json_map_of_def int64s_of_def times_of_def strings_of_def jsons_of_def
  parameters_of_def steps_of_def definition_specs_of_def definitions_of_def definition_lists_of_def managed_refs_of_def
  references_of_def resource_specs_of_def resources_of_def resource_lists_of_def conditions_of_def step_statuses_of_def
  run_statuses_of_def run_specs_of_def runs_of_def run_lists_of_def only_def

section \<open>Library types\<close>

text \<open>\<open>metav1.Time\<close>, \<open>map[string]string\<close>, \<open>[]string\<close>, \<open>*int64\<close>, \<open>v1.JSON\<close>, \<open>ListMeta\<close> and \<open>ObjectMeta\<close>.\<close>

definition Time_DeepCopy :: "addr option copying" where
  "Time_DeepCopy = copy_ref (only times_of) (\<lambda>t. CTimes [t]) io_return"

definition copy_string_map :: "addr option copying" where
  "copy_string_map = copy_ref string_map_of CStringMap (copy_entries io_return [])"

definition copy_strings :: "addr option copying" where
  "copy_strings = copy_ref strings_of CStrings io_return"

definition copy_int64 :: "addr option copying" where
  "copy_int64 = copy_ref (only int64s_of) (\<lambda>n. CInt64s [n]) io_return"

definition JSON_DeepCopyInto :: "mem_json copying" where
  "JSON_DeepCopyInto j =
     io_bind (copy_ref bytes_of CBytes io_return (mj_raw j)) (\<lambda>r. io_return (j\<lparr>mj_raw := r\<rparr>))"

definition JSON_DeepCopy :: "addr option copying" where
  "JSON_DeepCopy = copy_ref (only jsons_of) (\<lambda>j. CJsons [j]) JSON_DeepCopyInto"

definition ListMeta_DeepCopyInto :: "mem_list_meta copying" where
  "ListMeta_DeepCopyInto m = io_bind (copy_int64 (ml_remaining m)) (\<lambda>n. io_return (m\<lparr>ml_remaining := n\<rparr>))"

definition ObjectMeta_DeepCopyInto :: "mem_meta copying" where
  "ObjectMeta_DeepCopyInto m =
     io_bind (Time_DeepCopy (mm_deletion m)) (\<lambda>d.
     io_bind (copy_string_map (mm_labels m)) (\<lambda>l.
     io_bind (copy_string_map (mm_annotations m)) (\<lambda>a.
     io_bind (copy_strings (mm_finalizers m)) (\<lambda>f.
     io_return (m\<lparr>mm_deletion := d, mm_labels := l, mm_annotations := a, mm_finalizers := f\<rparr>)))))"

section \<open>Definitions\<close>

definition WizardParameter_DeepCopyInto :: "mem_parameter copying" where
  "WizardParameter_DeepCopyInto p =
     io_bind (JSON_DeepCopy (mp_default p)) (\<lambda>d. io_return (p\<lparr>mp_default := d\<rparr>))"

definition WizardParameter_DeepCopy :: "addr option copying" where
  "WizardParameter_DeepCopy = copy_ref (only parameters_of) (\<lambda>p. CParameters [p]) WizardParameter_DeepCopyInto"

definition WizardStep_DeepCopyInto :: "mem_step copying" where
  "WizardStep_DeepCopyInto s =
     io_bind (copy_string_map (mt_params s)) (\<lambda>p. io_return (s\<lparr>mt_params := p\<rparr>))"

definition WizardStep_DeepCopy :: "addr option copying" where
  "WizardStep_DeepCopy = copy_ref (only steps_of) (\<lambda>s. CSteps [s]) WizardStep_DeepCopyInto"

definition WizardDefinitionSpec_DeepCopyInto :: "mem_definition_spec copying" where
  "WizardDefinitionSpec_DeepCopyInto s =
     io_bind (copy_ref parameters_of CParameters (copy_elems WizardParameter_DeepCopyInto) (md_parameters s)) (\<lambda>p.
     io_bind (copy_ref steps_of CSteps (copy_elems WizardStep_DeepCopyInto) (md_steps s)) (\<lambda>t.
     io_return (s\<lparr>md_parameters := p, md_steps := t\<rparr>)))"

definition WizardDefinitionSpec_DeepCopy :: "addr option copying" where
  "WizardDefinitionSpec_DeepCopy =
     copy_ref (only definition_specs_of) (\<lambda>s. CDefinitionSpecs [s]) WizardDefinitionSpec_DeepCopyInto"

definition WizardDefinition_DeepCopyInto :: "mem_definition copying" where
  "WizardDefinition_DeepCopyInto d =
     io_bind (ObjectMeta_DeepCopyInto (mw_meta d)) (\<lambda>m.
     io_bind (WizardDefinitionSpec_DeepCopyInto (mw_spec d)) (\<lambda>s.
     io_return (d\<lparr>mw_meta := m, mw_spec := s\<rparr>)))"

definition WizardDefinition_DeepCopy :: "addr option copying" where
  "WizardDefinition_DeepCopy = copy_ref (only definitions_of) (\<lambda>d. CDefinitions [d]) WizardDefinition_DeepCopyInto"

definition WizardDefinitionList_DeepCopyInto :: "mem_list copying" where
  "WizardDefinitionList_DeepCopyInto l =
     io_bind (ListMeta_DeepCopyInto (mz_meta l)) (\<lambda>m.
     io_bind (copy_ref definitions_of CDefinitions (copy_elems WizardDefinition_DeepCopyInto) (mz_items l)) (\<lambda>is.
     io_return (l\<lparr>mz_meta := m, mz_items := is\<rparr>)))"

definition WizardDefinitionList_DeepCopy :: "addr option copying" where
  "WizardDefinitionList_DeepCopy =
     copy_ref (only definition_lists_of) (\<lambda>l. CDefinitionLists [l]) WizardDefinitionList_DeepCopyInto"

section \<open>Ledger entries\<close>

definition ResourceReference_DeepCopyInto :: "resource_reference copying" where
  "ResourceReference_DeepCopyInto r = io_return r"

definition ResourceReference_DeepCopy :: "addr option copying" where
  "ResourceReference_DeepCopy = copy_ref (only references_of) (\<lambda>r. CReferences [r]) ResourceReference_DeepCopyInto"

definition WizardResourceSpec_DeepCopyInto :: "mem_resource_spec copying" where
  "WizardResourceSpec_DeepCopyInto s =
     io_bind (copy_ref references_of CReferences io_return (mc_refs s)) (\<lambda>r. io_return (s\<lparr>mc_refs := r\<rparr>))"

definition WizardResourceSpec_DeepCopy :: "addr option copying" where
  "WizardResourceSpec_DeepCopy =
     copy_ref (only resource_specs_of) (\<lambda>s. CResourceSpecs [s]) WizardResourceSpec_DeepCopyInto"

definition WizardResource_DeepCopyInto :: "mem_resource copying" where
  "WizardResource_DeepCopyInto x =
     io_bind (ObjectMeta_DeepCopyInto (mx_meta x)) (\<lambda>m.
     io_bind (WizardResourceSpec_DeepCopyInto (mx_spec x)) (\<lambda>s.
     io_return (x\<lparr>mx_meta := m, mx_spec := s\<rparr>)))"

definition WizardResource_DeepCopy :: "addr option copying" where
  "WizardResource_DeepCopy = copy_ref (only resources_of) (\<lambda>x. CResources [x]) WizardResource_DeepCopyInto"

definition WizardResourceList_DeepCopyInto :: "mem_list copying" where
  "WizardResourceList_DeepCopyInto l =
     io_bind (ListMeta_DeepCopyInto (mz_meta l)) (\<lambda>m.
     io_bind (copy_ref resources_of CResources (copy_elems WizardResource_DeepCopyInto) (mz_items l)) (\<lambda>is.
     io_return (l\<lparr>mz_meta := m, mz_items := is\<rparr>)))"

definition WizardResourceList_DeepCopy :: "addr option copying" where
  "WizardResourceList_DeepCopy =
     copy_ref (only resource_lists_of) (\<lambda>l. CResourceLists [l]) WizardResourceList_DeepCopyInto"

section \<open>Runs\<close>

definition ManagedResourceRef_DeepCopyInto :: "managed_resource_ref copying" where
  "ManagedResourceRef_DeepCopyInto r = io_return r"

definition ManagedResourceRef_DeepCopy :: "addr option copying" where
  "ManagedResourceRef_DeepCopy =
     copy_ref (only managed_refs_of) (\<lambda>r. CManagedRefs [r]) ManagedResourceRef_DeepCopyInto"

definition WizardRunStepStatus_DeepCopyInto :: "mem_step_status copying" where
  "WizardRunStepStatus_DeepCopyInto s =
     io_bind (copy_string_map (ms_outputs s)) (\<lambda>outs.
     io_bind (copy_ref managed_refs_of CManagedRefs io_return (ms_resources s)) (\<lambda>rs.
     io_bind (Time_DeepCopy (ms_started_at s)) (\<lambda>t.
     io_bind (Time_DeepCopy (ms_completed_at s)) (\<lambda>u.
     io_return (s\<lparr>ms_outputs := outs, ms_resources := rs, ms_started_at := t, ms_completed_at := u\<rparr>)))))"

definition WizardRunStepStatus_DeepCopy :: "addr option copying" where
  "WizardRunStepStatus_DeepCopy =
     copy_ref (only step_statuses_of) (\<lambda>s. CStepStatuses [s]) WizardRunStepStatus_DeepCopyInto"

definition Condition_DeepCopyInto :: "condition copying" where
  "Condition_DeepCopyInto c = io_return c"

definition WizardRunStatus_DeepCopyInto :: "mem_run_status copying" where
  "WizardRunStatus_DeepCopyInto s =
     io_bind (copy_ref step_statuses_of CStepStatuses (copy_elems WizardRunStepStatus_DeepCopyInto) (mu_steps s)) (\<lambda>ss.
     io_bind (copy_ref conditions_of CConditions (copy_elems Condition_DeepCopyInto) (mu_conditions s)) (\<lambda>cs.
     io_bind (Time_DeepCopy (mu_started_at s)) (\<lambda>t.
     io_bind (Time_DeepCopy (mu_completed_at s)) (\<lambda>u.
     io_return (s\<lparr>mu_steps := ss, mu_conditions := cs, mu_started_at := t, mu_completed_at := u\<rparr>)))))"

definition WizardRunStatus_DeepCopy :: "addr option copying" where
  "WizardRunStatus_DeepCopy =
     copy_ref (only run_statuses_of) (\<lambda>s. CRunStatuses [s]) WizardRunStatus_DeepCopyInto"

text \<open>\<open>*val.DeepCopy()\<close>: the copy of a parameter is allocated, then its struct is put into the map.\<close>

definition copy_parameter_value :: "mem_json copying" where
  "copy_parameter_value v =
     io_bind (JSON_DeepCopyInto v) (\<lambda>w. io_bind (heap_new (CJsons [w])) (heap_load (only jsons_of)))"

definition WizardRunSpec_DeepCopyInto :: "mem_run_spec copying" where
  "WizardRunSpec_DeepCopyInto s =
     io_bind (WizardDefinitionSpec_DeepCopy (mq_snapshot s)) (\<lambda>d.
     io_bind (copy_ref json_map_of CJsonMap (copy_entries copy_parameter_value []) (mq_parameters s)) (\<lambda>p.
     io_return (s\<lparr>mq_snapshot := d, mq_parameters := p\<rparr>)))"

definition WizardRunSpec_DeepCopy :: "addr option copying" where
  "WizardRunSpec_DeepCopy = copy_ref (only run_specs_of) (\<lambda>s. CRunSpecs [s]) WizardRunSpec_DeepCopyInto"

definition WizardRun_DeepCopyInto :: "mem_run copying" where
  "WizardRun_DeepCopyInto r =
     io_bind (ObjectMeta_DeepCopyInto (mn_meta r)) (\<lambda>m.
     io_bind (WizardRunSpec_DeepCopyInto (mn_spec r)) (\<lambda>s.
     io_bind (WizardRunStatus_DeepCopyInto (mn_status r)) (\<lambda>st.
     io_return (r\<lparr>mn_meta := m, mn_spec := s, mn_status := st\<rparr>))))"

definition WizardRun_DeepCopy :: "addr option copying" where
  "WizardRun_DeepCopy = copy_ref (only runs_of) (\<lambda>r. CRuns [r]) WizardRun_DeepCopyInto"

definition WizardRunList_DeepCopyInto :: "mem_list copying" where
  "WizardRunList_DeepCopyInto l =
     io_bind (ListMeta_DeepCopyInto (mz_meta l)) (\<lambda>m.
     io_bind (copy_ref runs_of CRuns (copy_elems WizardRun_DeepCopyInto) (mz_items l)) (\<lambda>is.
     io_return (l\<lparr>mz_meta := m, mz_items := is\<rparr>)))"

definition WizardRunList_DeepCopy :: "addr option copying" where
  "WizardRunList_DeepCopy = copy_ref (only run_lists_of) (\<lambda>l. CRunLists [l]) WizardRunList_DeepCopyInto"

section \<open>Objects\<close>

text \<open>\<open>runtime.Object\<close>: the dynamic type and the pointer; nil if the receiver is.\<close>

datatype runtime_object =
    DefinitionObject addr | DefinitionListObject addr
  | ResourceObject addr | ResourceListObject addr
  | RunObject addr | RunListObject addr

definition as_object :: "(addr \<Rightarrow> runtime_object) \<Rightarrow> addr option copying \<Rightarrow> addr option \<Rightarrow> (cell heap, runtime_object option) call" where
  "as_object obj copy r = io_bind (copy r) (\<lambda>c. io_return (case c of Some a \<Rightarrow> Some (obj a) | None \<Rightarrow> None))"

definition WizardDefinition_DeepCopyObject where
  "WizardDefinition_DeepCopyObject = as_object DefinitionObject WizardDefinition_DeepCopy"
definition WizardDefinitionList_DeepCopyObject where
  "WizardDefinitionList_DeepCopyObject = as_object DefinitionListObject WizardDefinitionList_DeepCopy"
definition WizardResource_DeepCopyObject where
  "WizardResource_DeepCopyObject = as_object ResourceObject WizardResource_DeepCopy"
definition WizardResourceList_DeepCopyObject where
  "WizardResourceList_DeepCopyObject = as_object ResourceListObject WizardResourceList_DeepCopy"
definition WizardRun_DeepCopyObject where
  "WizardRun_DeepCopyObject = as_object RunObject WizardRun_DeepCopy"
definition WizardRunList_DeepCopyObject where
  "WizardRunList_DeepCopyObject = as_object RunListObject WizardRunList_DeepCopy"

end
