(* ===== verification/DeepCopyProps.thy ===== *)
theory DeepCopyProps
  imports DeepCopy
begin

text \<open>
  Every generated copy is a \<open>copier\<close>: the value is the same, the memory is new. The values are those of \<open>ApiTypes\<close>, so
  that copying is the identity there, and a write through one of the two objects is invisible in the other:
  what makes it sound to treat the program's objects as values.
\<close>

section \<open>The values\<close>

definition or_nil :: "'a list option \<Rightarrow> 'a list" where
  "or_nil x = (case x of None \<Rightarrow> [] | Some xs \<Rightarrow> xs)"

definition look_time :: "(cell, addr option, time option) look" where
  "look_time = look_ref (only times_of) look_flat"

definition look_string_map :: "(cell, addr option, smap option) look" where
  "look_string_map = look_ref string_map_of (look_entries look_flat)"

definition look_strings :: "(cell, addr option, string list option) look" where
  "look_strings = look_ref strings_of look_flat"

definition look_int64 :: "(cell, addr option, int option) look" where
  "look_int64 = look_ref (only int64s_of) look_flat"

definition look_json :: "(cell, mem_json, raw_json) look" where
  "look_json = look_struct (look_ref bytes_of look_flat) mj_raw (\<lambda>_ r. case r of None \<Rightarrow> RawEmpty | Some t \<Rightarrow> t)"

text \<open>\<open>ListMeta\<close> and \<open>ObjectMeta\<close> as values.\<close>

definition look_list_meta :: "(cell, mem_list_meta, string \<times> string \<times> int option) look" where
  "look_list_meta = look_struct look_int64 ml_remaining (\<lambda>m n. (ml_version m, ml_continue m, n))"

record object_meta =
  om_name :: string
  om_generation :: int
  om_version :: string
  om_created :: time
  om_deletion :: "time option"
  om_labels :: smap
  om_annotations :: smap
  om_finalizers :: "string list"

definition look_meta :: "(cell, mem_meta, object_meta) look" where
  "look_meta = look_struct (look_pair look_time (look_pair look_string_map (look_pair look_string_map look_strings)))
     (\<lambda>m. (mm_deletion m, mm_labels m, mm_annotations m, mm_finalizers m))
     (\<lambda>m (d, l, a, f). \<lparr>om_name = mm_name m, om_generation = mm_generation m, om_version = mm_version m,
        om_created = mm_created m, om_deletion = d, om_labels = or_nil l, om_annotations = or_nil a, om_finalizers = or_nil f\<rparr>)"

definition look_parameter :: "(cell, mem_parameter, wizard_parameter) look" where
  "look_parameter = look_struct (look_ref (only jsons_of) look_json) mp_default
     (\<lambda>p d. \<lparr>wp_name = mp_name p, wp_type = mp_type p, wp_description = mp_description p, wp_required = mp_required p,
        wp_default = d, wp_pattern = mp_pattern p\<rparr>)"

definition look_step :: "(cell, mem_step, wizard_step) look" where
  "look_step = look_struct look_string_map mt_params
     (\<lambda>s p. \<lparr>ws_name = mt_name s, ws_type = mt_type s, ws_for_each = mt_for_each s, ws_params = or_nil p\<rparr>)"

definition look_definition_spec :: "(cell, mem_definition_spec, definition_spec) look" where
  "look_definition_spec =
     look_struct (look_pair (look_ref parameters_of (look_elems look_parameter)) (look_ref steps_of (look_elems look_step)))
       (\<lambda>s. (md_parameters s, md_steps s))
       (\<lambda>s (p, t). \<lparr>ds_description = md_description s, ds_parameters = or_nil p, ds_steps = or_nil t\<rparr>)"

definition look_definition :: "(cell, mem_definition, wizard_definition) look" where
  "look_definition = look_struct (look_pair look_meta look_definition_spec) (\<lambda>d. (mw_meta d, mw_spec d))
     (\<lambda>_ (m, s). \<lparr>wd_name = om_name m, wd_generation = om_generation m, wd_spec = s\<rparr>)"

definition look_resource_spec :: "(cell, mem_resource_spec, wizard_resource) look" where
  "look_resource_spec = look_struct (look_ref references_of look_flat) mc_refs
     (\<lambda>s r. \<lparr>wr_object = [], wr_version = [], wr_labels = [], wr_service = mc_service s, wr_kind = mc_kind s,
        wr_name = mc_name s, wr_external_id = mc_external_id s, wr_spec_hash = mc_spec_hash s, wr_managed = mc_managed s,
        wr_terminating = mc_terminating s, wr_refs = or_nil r\<rparr>)"

definition look_resource :: "(cell, mem_resource, wizard_resource) look" where
  "look_resource = look_struct (look_pair look_meta look_resource_spec) (\<lambda>x. (mx_meta x, mx_spec x))
     (\<lambda>_ (m, s). s\<lparr>wr_object := om_name m, wr_version := om_version m, wr_labels := om_labels m\<rparr>)"

definition look_step_status :: "(cell, mem_step_status, step_status) look" where
  "look_step_status =
     look_struct (look_pair look_string_map (look_pair (look_ref managed_refs_of look_flat) (look_pair look_time look_time)))
       (\<lambda>s. (ms_outputs s, ms_resources s, ms_started_at s, ms_completed_at s))
       (\<lambda>s (outs, rs, t, u). \<lparr>ss_key = ms_key s, ss_name = ms_name s, ss_type = ms_type s, ss_item = ms_item s,
          ss_phase = ms_phase s, ss_message = ms_message s, ss_failures = ms_failures s, ss_outputs = or_nil outs,
          ss_resources = or_nil rs, ss_started_at = t, ss_completed_at = u\<rparr>)"

definition look_run_status :: "(cell, mem_run_status, run_status) look" where
  "look_run_status =
     look_struct (look_pair (look_ref step_statuses_of (look_elems look_step_status))
         (look_pair (look_ref conditions_of (look_elems look_flat)) (look_pair look_time look_time)))
       (\<lambda>s. (mu_steps s, mu_conditions s, mu_started_at s, mu_completed_at s))
       (\<lambda>s (ss, cs, t, u). \<lparr>rs_phase = mu_phase s, rs_message = mu_message s, rs_generation = mu_generation s,
          rs_steps = or_nil ss, rs_conditions = or_nil cs, rs_started_at = t, rs_completed_at = u\<rparr>)"

definition look_run_spec :: "(cell, mem_run_spec, run_spec) look" where
  "look_run_spec =
     look_struct (look_pair (look_ref (only definition_specs_of) look_definition_spec) (look_ref json_map_of (look_entries look_json)))
       (\<lambda>s. (mq_snapshot s, mq_parameters s))
       (\<lambda>s (d, p). \<lparr>rp_definition_ref = mq_definition_ref s, rp_snapshot = d,
          rp_definition_generation = mq_definition_generation s, rp_parameters = or_nil p, rp_created_by = mq_created_by s,
          rp_created_by_email = mq_created_by_email s, rp_desired = mq_desired s\<rparr>)"

definition run_of :: "object_meta \<Rightarrow> run_spec \<Rightarrow> run_status \<Rightarrow> wizard_run" where
  "run_of m s st =
     \<lparr>run_name = om_name m, run_generation = om_generation m, run_created = om_created m, run_deletion = om_deletion m,
      run_finalizers = om_finalizers m, run_annotations = om_annotations m, run_labels = om_labels m, run_spec = s,
      run_status = st\<rparr>"

definition look_run :: "(cell, mem_run, wizard_run) look" where
  "look_run = look_struct (look_pair look_meta (look_pair look_run_spec look_run_status))
     (\<lambda>r. (mn_meta r, mn_spec r, mn_status r))
     (\<lambda>_ (m, s, st). run_of m s st)"

definition look_list :: "(cell \<Rightarrow> 'm list option) \<Rightarrow> (cell, 'm, 'v) look \<Rightarrow>
  (cell, mem_list, (string \<times> string \<times> int option) \<times> 'v list) look" where
  "look_list get lk = look_struct (look_pair look_list_meta (look_ref get (look_elems lk)))
     (\<lambda>l. (mz_meta l, mz_items l)) (\<lambda>_ (m, is). (m, or_nil is))"

section \<open>The copies\<close>

lemma get_put [simp]:
  "string_map_of (CStringMap m) = Some m" "strings_of (CStrings ss) = Some ss" "bytes_of (CBytes t) = Some t"
  "json_map_of (CJsonMap jm) = Some jm" "only times_of (CTimes [n]) = Some n" "only int64s_of (CInt64s [n]) = Some n"
  "only jsons_of (CJsons [j]) = Some j" "parameters_of (CParameters ps) = Some ps" "steps_of (CSteps ts) = Some ts"
  "definitions_of (CDefinitions ds) = Some ds" "resources_of (CResources xs) = Some xs" "runs_of (CRuns rs) = Some rs"
  "managed_refs_of (CManagedRefs ms) = Some ms" "references_of (CReferences rr) = Some rr"
  "conditions_of (CConditions cs) = Some cs" "step_statuses_of (CStepStatuses st) = Some st"
  "only parameters_of (CParameters [p]) = Some p" "only steps_of (CSteps [t']) = Some t'"
  "only definition_specs_of (CDefinitionSpecs [d]) = Some d" "only definitions_of (CDefinitions [w]) = Some w"
  "only definition_lists_of (CDefinitionLists [l]) = Some l" "only managed_refs_of (CManagedRefs [mr]) = Some mr"
  "only references_of (CReferences [r]) = Some r" "only resource_specs_of (CResourceSpecs [c]) = Some c"
  "only resources_of (CResources [x]) = Some x" "only resource_lists_of (CResourceLists [l]) = Some l"
  "only step_statuses_of (CStepStatuses [s]) = Some s" "only run_statuses_of (CRunStatuses [u]) = Some u"
  "only run_specs_of (CRunSpecs [q]) = Some q" "only runs_of (CRuns [rn]) = Some rn" "only run_lists_of (CRunLists [l]) = Some l"
  by (simp_all add: cell_defs)

lemma copier_time: "copier look_time Time_DeepCopy"
  unfolding look_time_def Time_DeepCopy_def by (rule copier_ref[OF copier_flat]) simp

lemma copier_string_map: "copier look_string_map copy_string_map"
  unfolding look_string_map_def copy_string_map_def by (rule copier_ref[OF copier_entries[OF copier_flat]]) simp

lemma copier_strings: "copier look_strings copy_strings"
  unfolding look_strings_def copy_strings_def by (rule copier_ref[OF copier_flat]) simp

lemma copier_int64: "copier look_int64 copy_int64"
  unfolding look_int64_def copy_int64_def by (rule copier_ref[OF copier_flat]) simp

interpretation copies_json: copier look_json JSON_DeepCopyInto
  unfolding look_json_def
  by (rule copier_struct[OF copier_ref[OF copier_flat], where upd = "\<lambda>r j. j\<lparr>mj_raw := r\<rparr>"])
    (auto simp: JSON_DeepCopyInto_def)

lemma copier_json_pointer: "copier (look_ref (only jsons_of) look_json) JSON_DeepCopy"
  unfolding JSON_DeepCopy_def by (rule copier_ref[OF copies_json.copier_axioms]) simp

interpretation copies_list_meta: copier look_list_meta ListMeta_DeepCopyInto
  unfolding look_list_meta_def
  by (rule copier_struct[OF copier_int64, where upd = "\<lambda>n m. m\<lparr>ml_remaining := n\<rparr>"])
    (auto simp: ListMeta_DeepCopyInto_def)

interpretation copies_meta: copier look_meta ObjectMeta_DeepCopyInto
  unfolding look_meta_def
  by (rule copier_struct[OF copier_pair[OF copier_time copier_pair[OF copier_string_map
        copier_pair[OF copier_string_map copier_strings]]],
      where upd = "\<lambda>(d, l, a, f) m. m\<lparr>mm_deletion := d, mm_labels := l, mm_annotations := a, mm_finalizers := f\<rparr>"])
    (auto simp: ObjectMeta_DeepCopyInto_def bind_pair)

text \<open>A slice of structs, and a pointer to one.\<close>

lemmas copier_slice = copier_ref[OF copier_elems]

interpretation copies_parameter: copier look_parameter WizardParameter_DeepCopyInto
  unfolding look_parameter_def
  by (rule copier_struct[OF copier_json_pointer, where upd = "\<lambda>d p. p\<lparr>mp_default := d\<rparr>"])
    (auto simp: WizardParameter_DeepCopyInto_def)

interpretation copies_step: copier look_step WizardStep_DeepCopyInto
  unfolding look_step_def
  by (rule copier_struct[OF copier_string_map, where upd = "\<lambda>p s. s\<lparr>mt_params := p\<rparr>"])
    (auto simp: WizardStep_DeepCopyInto_def)

interpretation copies_definition_spec: copier look_definition_spec WizardDefinitionSpec_DeepCopyInto
  unfolding look_definition_spec_def
  by (rule copier_struct[OF copier_pair[OF
        copier_slice[OF copies_parameter.copier_axioms, where put = CParameters]
        copier_slice[OF copies_step.copier_axioms, where put = CSteps]],
      where upd = "\<lambda>(p, t) s. s\<lparr>md_parameters := p, md_steps := t\<rparr>"])
    (auto simp: WizardDefinitionSpec_DeepCopyInto_def bind_pair)

interpretation copies_definition: copier look_definition WizardDefinition_DeepCopyInto
  unfolding look_definition_def
  by (rule copier_struct[OF copier_pair[OF copies_meta.copier_axioms copies_definition_spec.copier_axioms],
      where upd = "\<lambda>(m, s) d. d\<lparr>mw_meta := m, mw_spec := s\<rparr>"])
    (auto simp: WizardDefinition_DeepCopyInto_def bind_pair)

interpretation copies_resource_spec: copier look_resource_spec WizardResourceSpec_DeepCopyInto
  unfolding look_resource_spec_def
  by (rule copier_struct[OF copier_ref[OF copier_flat, where put = CReferences], where upd = "\<lambda>r s. s\<lparr>mc_refs := r\<rparr>"])
    (auto simp: WizardResourceSpec_DeepCopyInto_def)

interpretation copies_resource: copier look_resource WizardResource_DeepCopyInto
  unfolding look_resource_def
  by (rule copier_struct[OF copier_pair[OF copies_meta.copier_axioms copies_resource_spec.copier_axioms],
      where upd = "\<lambda>(m, s) x. x\<lparr>mx_meta := m, mx_spec := s\<rparr>"])
    (auto simp: WizardResource_DeepCopyInto_def bind_pair)

interpretation copies_step_status: copier look_step_status WizardRunStepStatus_DeepCopyInto
  unfolding look_step_status_def
  by (rule copier_struct[OF copier_pair[OF copier_string_map copier_pair[OF
        copier_ref[OF copier_flat, where put = CManagedRefs] copier_pair[OF copier_time copier_time]]],
      where upd = "\<lambda>(outs, rs, t, u) s. s\<lparr>ms_outputs := outs, ms_resources := rs, ms_started_at := t, ms_completed_at := u\<rparr>"])
    (auto simp: WizardRunStepStatus_DeepCopyInto_def bind_pair)

lemma condition_copy: "Condition_DeepCopyInto = io_return"
  by (simp add: Condition_DeepCopyInto_def fun_eq_iff)

interpretation copies_run_status: copier look_run_status WizardRunStatus_DeepCopyInto
  unfolding look_run_status_def
  by (rule copier_struct[OF copier_pair[OF
        copier_slice[OF copies_step_status.copier_axioms, where put = CStepStatuses]
        copier_pair[OF copier_slice[OF copier_flat, where put = CConditions] copier_pair[OF copier_time copier_time]]],
      where upd = "\<lambda>(ss, cs, t, u) s. s\<lparr>mu_steps := ss, mu_conditions := cs, mu_started_at := t, mu_completed_at := u\<rparr>"])
    (auto simp: WizardRunStatus_DeepCopyInto_def bind_pair condition_copy)

lemma copier_parameter_value: "copier look_json copy_parameter_value"
proof -
  have "\<exists>m' ext bs. copy_parameter_value m h = (Inr m', h @ ext) \<and> look_json (h @ ext) m' = Some (v, bs) \<and> distinct bs \<and>
      set bs \<subseteq> {length h..<length (h @ ext)}" if l: "look_json h m = Some (v, as)" for h m v as
  proof -
    from copies_json.copy_looks[OF l] obtain w ext bs where w: "JSON_DeepCopyInto m h = (Inr w, h @ ext)"
      "look_json (h @ ext) w = Some (v, bs)" "distinct bs" "set bs \<subseteq> {length h..<length (h @ ext)}" by blast
    have "copy_parameter_value m h = (Inr w, h @ ext @ [CJsons [w]])"
      using w(1) by (simp add: copy_parameter_value_def io_bind_def heap_new_def heap_load_def peek_def nth_append)
    moreover have "look_json (h @ ext @ [CJsons [w]]) w = Some (v, bs)"
      using copies_json.look_append[OF w(2), of "[CJsons [w]]"] by simp
    moreover have "set bs \<subseteq> {length h..<length (h @ ext @ [CJsons [w]])}" using w(4) by auto
    ultimately show ?thesis using w(3) by blast
  qed
  then show ?thesis
    unfolding copier_def copier_axioms_def using copies_json.viewer_axioms by blast
qed

interpretation copies_run_spec: copier look_run_spec WizardRunSpec_DeepCopyInto
  unfolding look_run_spec_def
  by (rule copier_struct[OF copier_pair[OF
        copier_ref[OF copies_definition_spec.copier_axioms, where put = "\<lambda>s. CDefinitionSpecs [s]"]
        copier_ref[OF copier_entries[OF copier_parameter_value], where put = CJsonMap]],
      where upd = "\<lambda>(d, p) s. s\<lparr>mq_snapshot := d, mq_parameters := p\<rparr>"])
    (auto simp: WizardRunSpec_DeepCopyInto_def WizardDefinitionSpec_DeepCopy_def bind_pair)

interpretation copies_run: copier look_run WizardRun_DeepCopyInto
  unfolding look_run_def
  by (rule copier_struct[OF copier_pair[OF copies_meta.copier_axioms
        copier_pair[OF copies_run_spec.copier_axioms copies_run_status.copier_axioms]],
      where upd = "\<lambda>(m, s, st) r. r\<lparr>mn_meta := m, mn_spec := s, mn_status := st\<rparr>"])
    (auto simp: WizardRun_DeepCopyInto_def bind_pair)

text \<open>The three lists.\<close>

lemma copier_list:
  assumes "copier lk cp" "\<And>xs. get (put xs) = Some xs"
    and "\<And>l. cpl l = io_bind (ListMeta_DeepCopyInto (mz_meta l)) (\<lambda>m.
      io_bind (copy_ref get put (copy_elems cp) (mz_items l)) (\<lambda>is. io_return (l\<lparr>mz_meta := m, mz_items := is\<rparr>)))"
  shows "copier (look_list get lk) cpl"
  unfolding look_list_def
  by (rule copier_struct[OF copier_pair[OF copies_list_meta.copier_axioms copier_slice[OF assms(1,2)]],
      where upd = "\<lambda>(m, is) l. l\<lparr>mz_meta := m, mz_items := is\<rparr>"])
    (auto simp: assms(3) bind_pair)

interpretation copies_definitions: copier "look_list definitions_of look_definition" WizardDefinitionList_DeepCopyInto
  by (rule copier_list[OF copies_definition.copier_axioms, where put = CDefinitions]) (simp_all add: WizardDefinitionList_DeepCopyInto_def)

interpretation copies_resources: copier "look_list resources_of look_resource" WizardResourceList_DeepCopyInto
  by (rule copier_list[OF copies_resource.copier_axioms, where put = CResources]) (simp_all add: WizardResourceList_DeepCopyInto_def)

interpretation copies_runs: copier "look_list runs_of look_run" WizardRunList_DeepCopyInto
  by (rule copier_list[OF copies_run.copier_axioms, where put = CRuns]) (simp_all add: WizardRunList_DeepCopyInto_def)

section \<open>Pointers\<close>

text \<open>\<open>DeepCopy\<close> of every type: nil for nil, else a pointer to a copy.\<close>

interpretation new_parameter: copier "look_ref (only parameters_of) look_parameter" WizardParameter_DeepCopy
  unfolding WizardParameter_DeepCopy_def by (rule copier_ref[OF copies_parameter.copier_axioms]) simp

interpretation new_step: copier "look_ref (only steps_of) look_step" WizardStep_DeepCopy
  unfolding WizardStep_DeepCopy_def by (rule copier_ref[OF copies_step.copier_axioms]) simp

interpretation new_definition_spec: copier "look_ref (only definition_specs_of) look_definition_spec" WizardDefinitionSpec_DeepCopy
  unfolding WizardDefinitionSpec_DeepCopy_def by (rule copier_ref[OF copies_definition_spec.copier_axioms]) simp

interpretation new_definition: copier "look_ref (only definitions_of) look_definition" WizardDefinition_DeepCopy
  unfolding WizardDefinition_DeepCopy_def by (rule copier_ref[OF copies_definition.copier_axioms]) simp

interpretation new_resource_spec: copier "look_ref (only resource_specs_of) look_resource_spec" WizardResourceSpec_DeepCopy
  unfolding WizardResourceSpec_DeepCopy_def by (rule copier_ref[OF copies_resource_spec.copier_axioms]) simp

interpretation new_resource: copier "look_ref (only resources_of) look_resource" WizardResource_DeepCopy
  unfolding WizardResource_DeepCopy_def by (rule copier_ref[OF copies_resource.copier_axioms]) simp

interpretation new_step_status: copier "look_ref (only step_statuses_of) look_step_status" WizardRunStepStatus_DeepCopy
  unfolding WizardRunStepStatus_DeepCopy_def by (rule copier_ref[OF copies_step_status.copier_axioms]) simp

interpretation new_run_status: copier "look_ref (only run_statuses_of) look_run_status" WizardRunStatus_DeepCopy
  unfolding WizardRunStatus_DeepCopy_def by (rule copier_ref[OF copies_run_status.copier_axioms]) simp

interpretation new_run_spec: copier "look_ref (only run_specs_of) look_run_spec" WizardRunSpec_DeepCopy
  unfolding WizardRunSpec_DeepCopy_def by (rule copier_ref[OF copies_run_spec.copier_axioms]) simp

interpretation new_run: copier "look_ref (only runs_of) look_run" WizardRun_DeepCopy
  unfolding WizardRun_DeepCopy_def by (rule copier_ref[OF copies_run.copier_axioms]) simp

interpretation new_definitions: copier "look_ref (only definition_lists_of) (look_list definitions_of look_definition)" WizardDefinitionList_DeepCopy
  unfolding WizardDefinitionList_DeepCopy_def by (rule copier_ref[OF copies_definitions.copier_axioms]) simp

interpretation new_resources: copier "look_ref (only resource_lists_of) (look_list resources_of look_resource)" WizardResourceList_DeepCopy
  unfolding WizardResourceList_DeepCopy_def by (rule copier_ref[OF copies_resources.copier_axioms]) simp

interpretation new_runs: copier "look_ref (only run_lists_of) (look_list runs_of look_run)" WizardRunList_DeepCopy
  unfolding WizardRunList_DeepCopy_def by (rule copier_ref[OF copies_runs.copier_axioms]) simp

interpretation new_managed_ref: copier "look_ref (only managed_refs_of) look_flat" ManagedResourceRef_DeepCopy
proof -
  have "ManagedResourceRef_DeepCopyInto = io_return" by (simp add: ManagedResourceRef_DeepCopyInto_def fun_eq_iff)
  then show "copier (look_ref (only managed_refs_of) look_flat) ManagedResourceRef_DeepCopy"
    unfolding ManagedResourceRef_DeepCopy_def by (simp add: copier_ref[OF copier_flat])
qed

interpretation new_reference: copier "look_ref (only references_of) look_flat" ResourceReference_DeepCopy
proof -
  have "ResourceReference_DeepCopyInto = io_return" by (simp add: ResourceReference_DeepCopyInto_def fun_eq_iff)
  then show "copier (look_ref (only references_of) look_flat) ResourceReference_DeepCopy"
    unfolding ResourceReference_DeepCopy_def by (simp add: copier_ref[OF copier_flat])
qed

text \<open>The objects of the API machinery.\<close>

lemma as_object_copy:
  "copy (Some a) h = (Inr (Some b), h') \<Longrightarrow> as_object obj copy (Some a) h = (Inr (Some (obj b)), h')"
  "as_object obj (copy_ref get put cp) None h = (Inr None, h)"
  by (simp_all add: as_object_def copy_ref_def)

lemma look_pointer: "look_ref get lk h r = Some (Some v, as) \<Longrightarrow> \<exists>a bs. r = Some a \<and> as = a # bs"
  by (auto simp: look_ref_Some)

text \<open>C23: \<open>DeepCopy\<close> of a run returns a new object with the same value in memory that is new altogether: whatever
  is written through the original afterwards (to its struct, its slices, its maps, at any depth) does
  not change the copy, and whatever is written through the copy does not change the original; nil
  is copied to nil. So the reconciler may change a copy and compare it with the original, and the model may treat
  runs as values.\<close>

theorem run_deep_copy:
  assumes "look_ref (only runs_of) look_run h (Some p) = Some (Some v, as)"
  shows "WizardRun_DeepCopy None h = (Inr None, h) \<and>
    (\<exists>q h' bs. WizardRun_DeepCopyObject (Some p) h = (Inr (Some (RunObject q)), h') \<and> WizardRun_DeepCopy (Some p) h = (Inr (Some q), h') \<and>
       look_ref (only runs_of) look_run h' (Some q) = Some (Some v, bs) \<and>
       p \<in> set as \<and> q \<in> set bs \<and> set as \<inter> set bs = {} \<and>
       (\<forall>ws. fst ` set ws \<subseteq> set as \<longrightarrow> look_ref (only runs_of) look_run (heap_writes ws h') (Some q) = Some (Some v, bs)) \<and>
       (\<forall>ws. fst ` set ws \<subseteq> set bs \<longrightarrow> look_ref (only runs_of) look_run (heap_writes ws h') (Some p) = Some (Some v, as)))"
proof -
  obtain m h' bs where c: "WizardRun_DeepCopy (Some p) h = (Inr m, h')" "look_ref (only runs_of) look_run h' m = Some (Some v, bs)"
    "set as \<inter> set bs = {}"
    "\<And>ws. fst ` set ws \<inter> set bs = {} \<Longrightarrow> look_ref (only runs_of) look_run (heap_writes ws h') m = Some (Some v, bs)"
    "\<And>ws. fst ` set ws \<inter> set as = {} \<Longrightarrow> look_ref (only runs_of) look_run (heap_writes ws h') (Some p) = Some (Some v, as)"
    using new_run.copy_independent[OF assms] by blast
  from look_pointer[OF c(2)] obtain q where q: "m = Some q" "q \<in> set bs" by auto
  have p: "p \<in> set as" using look_pointer[OF assms] by auto
  have "WizardRun_DeepCopyObject (Some p) h = (Inr (Some (RunObject q)), h')"
    unfolding WizardRun_DeepCopyObject_def by (rule as_object_copy) (use c(1) q(1) in simp)
  moreover have "WizardRun_DeepCopy None h = (Inr None, h)" by (simp add: WizardRun_DeepCopy_def copy_ref_def)
  moreover have "look_ref (only runs_of) look_run (heap_writes ws h') (Some q) = Some (Some v, bs)"
    if "fst ` set ws \<subseteq> set as" for ws unfolding q(1)[symmetric] by (rule c(4)) (use that c(3) in blast)
  moreover have "look_ref (only runs_of) look_run (heap_writes ws h') (Some p) = Some (Some v, as)"
    if "fst ` set ws \<subseteq> set bs" for ws by (rule c(5)) (use that c(3) in blast)
  ultimately show ?thesis
    using c(1-3) p q by (intro conjI exI[of _ q] exI[of _ h'] exI[of _ bs] allI impI) simp_all
qed

text \<open>A run with a recorded step: its struct, the steps, the outputs, the parameters and the text of one of them.\<close>

definition run_memory :: "cell heap" where
  "run_memory =
     [CRuns [\<lparr>mn_type = (''WizardRun'', ''wizard.fusion-platform.io/v1alpha1''),
        mn_meta = \<lparr>mm_name = ''a'', mm_generation = 1, mm_version = ''7'', mm_created = 0, mm_deletion = None,
          mm_labels = None, mm_annotations = None, mm_finalizers = Some 5\<rparr>,
        mn_spec = \<lparr>mq_definition_ref = ''demo'', mq_snapshot = None, mq_definition_generation = 1, mq_parameters = Some 3,
          mq_created_by = ''bff'', mq_created_by_email = [], mq_desired = DesiredApplied\<rparr>,
        mn_status = \<lparr>mu_phase = RunRunning, mu_message = Lit [], mu_generation = 1, mu_steps = Some 1, mu_conditions = None,
          mu_started_at = None, mu_completed_at = None\<rparr>\<rparr>],
      CStepStatuses [\<lparr>ms_key = ''watch'', ms_name = ''watch'', ms_type = StepGitWatcher, ms_item = [], ms_phase = StepSucceeded,
        ms_message = Lit [], ms_failures = 0, ms_outputs = Some 2, ms_resources = None, ms_started_at = None, ms_completed_at = None\<rparr>],
      CStringMap [(''name'', ''w'')],
      CJsonMap [(''repo'', \<lparr>mj_raw = Some 4\<rparr>)],
      CBytes (RawJson (JStr ''u'')),
      CStrings [FinalizerRollback]]"

lemma run_memory_looks:
  "\<exists>v. look_ref (only runs_of) look_run run_memory (Some 0) = Some (Some v, [0, 5, 3, 4, 1, 2]) \<and>
     map ss_outputs (rs_steps (run_status v)) = [[(''name'', ''w'')]]"
  by (simp add: look_ref_def look_struct_def look_pair_def look_flat_def look_entries_def peek_def cell_defs or_nil_def
      run_memory_def look_run_def look_meta_def look_run_spec_def look_run_status_def look_step_status_def look_time_def
      look_string_map_def look_strings_def look_json_def run_of_def)

theorem run_deep_copy_witness:
  "\<exists>q h' v bs. WizardRun_DeepCopy (Some 0) run_memory = (Inr (Some q), h') \<and> q \<noteq> 0 \<and>
     look_ref (only runs_of) look_run (heap_writes [(2, CStringMap [(''name'', ''other'')])] h') (Some q) = Some (Some v, bs) \<and>
     map ss_outputs (rs_steps (run_status v)) = [[(''name'', ''w'')]]"
proof -
  let ?ws = "[(2, CStringMap [(''name'', ''other'')])]"
  from run_memory_looks obtain v where v: "look_ref (only runs_of) look_run run_memory (Some 0) = Some (Some v, [0, 5, 3, 4, 1, 2])"
    "map ss_outputs (rs_steps (run_status v)) = [[(''name'', ''w'')]]" by (elim exE conjE)
  from run_deep_copy[OF v(1)] obtain q h' bs where q: "WizardRun_DeepCopy (Some 0) run_memory = (Inr (Some q), h')"
    "q \<in> set bs" "set [0, 5, 3, 4, 1, 2] \<inter> set bs = {}"
    and w: "\<forall>ws. fst ` set ws \<subseteq> set [0, 5, 3, 4, 1, 2] \<longrightarrow>
      look_ref (only runs_of) look_run (heap_writes ws h') (Some q) = Some (Some v, bs)" by (elim exE conjE)
  have "0 \<notin> set bs" using q(3) by simp
  then have "q \<noteq> 0" using q(2) by metis
  moreover have "look_ref (only runs_of) look_run (heap_writes ?ws h') (Some q) = Some (Some v, bs)"
    by (rule w[rule_format]) simp
  ultimately show ?thesis using q(1) v(2) by (intro exI[of _ q] exI[of _ h'] exI[of _ v] exI[of _ bs] conjI)
qed

end
