(* ===== verification/StatusMemory.thy ===== *)
theory StatusMemory
  imports DeepCopyProps World
begin

text \<open>
  \<open>updateStatus\<close> as it works on memory: it copies the run and its status, lets a callback write into the status in
  place, then compares and patches. The theorem says that this is \<open>update_status\<close> of \<open>Controller\<close>, which
  works on values.
\<close>

definition heap_store :: "addr \<Rightarrow> 'c \<Rightarrow> ('c heap, unit) call" where
  "heap_store a c = (\<lambda>h. (Inr (), h[a := c]))"

text \<open>\<open>run.Status.DeepCopy()\<close>, whose receiver is a part of the run.\<close>

definition copy_status :: "addr \<Rightarrow> (cell heap, addr option) call" where
  "copy_status p =
     io_bind (heap_load (only runs_of) p) (\<lambda>r.
     io_bind (WizardRunStatus_DeepCopyInto (mn_status r)) (\<lambda>s.
     io_bind (heap_new (CRunStatuses [s])) (\<lambda>a. io_return (Some a))))"

text \<open>The part of \<open>updateStatus\<close> before the comparison: the base of the patch and the old status.\<close>

definition mutate_status :: "addr \<Rightarrow> (addr \<Rightarrow> (cell heap, unit) call) \<Rightarrow> (cell heap, addr option \<times> addr option) call" where
  "mutate_status p mutate =
     io_bind (WizardRun_DeepCopy (Some p)) (\<lambda>base.
     io_bind (copy_status p) (\<lambda>before.
     io_bind (mutate p) (\<lambda>_. io_return (base, before))))"

abbreviation look_run_at :: "(cell, addr option, wizard_run option) look" where
  "look_run_at \<equiv> look_ref (only runs_of) look_run"

abbreviation look_status_at :: "(cell, addr option, run_status option) look" where
  "look_status_at \<equiv> look_ref (only run_statuses_of) look_run_status"

text \<open>
  \<open>DeepEqual\<close> and \<open>Patch\<close> read what the pointers show by then: \<open>client.MergeFrom\<close> keeps the pointer to the base.
\<close>

definition memory_update_status ::
  "'w reconciler \<Rightarrow> addr \<Rightarrow> (time \<Rightarrow> addr \<Rightarrow> (cell heap, unit) call) \<Rightarrow> cell heap \<Rightarrow> ('w, wizard_run) call" where
  "memory_update_status r p mutate h = (\<lambda>w.
     case mutate_status p (mutate (rc_now r w)) h of
       (Inl e, h') \<Rightarrow> (Inl e, w)
     | (Inr (base, before), h') \<Rightarrow>
         (case (look_run_at h' base, look_status_at h' before, look_run_at h' (Some p)) of
            (Some (Some old, _), Some (Some st, _), Some (Some new, _)) \<Rightarrow>
              if status_eq st (run_status new) then (Inr new, w) else ra_patch_status (rc_api r) old new w
          | _ \<Rightarrow> (Inl (Panic ''nil pointer''), w)))"

text \<open>A callback that does to the status of the run what \<open>f\<close> does to its value, and writes nowhere else.\<close>

definition confined :: "addr list \<Rightarrow> 'c heap \<Rightarrow> 'c heap \<Rightarrow> bool" where
  "confined as h h' \<longleftrightarrow> length h \<le> length h' \<and> (\<forall>a<length h. a \<notin> set as \<longrightarrow> h' ! a = h ! a)"

definition acts_as :: "(addr \<Rightarrow> (cell heap, unit) call) \<Rightarrow> (run_status \<Rightarrow> run_status) \<Rightarrow> addr \<Rightarrow> wizard_run \<Rightarrow> bool" where
  "acts_as mutate f p run \<longleftrightarrow>
     (\<forall>h as. look_run_at h (Some p) = Some (Some run, as) \<longrightarrow> distinct as \<longrightarrow>
        (\<exists>h' bs. mutate p h = (Inr (), h') \<and> confined as h h' \<and>
           look_run_at h' (Some p) = Some (Some (run\<lparr>run_status := f (run_status run)\<rparr>), bs)))"

lemma confined_agree: "confined as h h' \<Longrightarrow> set as \<inter> set bs = {} \<Longrightarrow> agree bs h h'"
  by (auto simp: confined_def agree_def disjoint_iff)

lemma look_status_part:
  assumes "look_run_at h (Some p) = Some (Some v, as)"
  shows "\<exists>m cs. peek (only runs_of) h p = Some m \<and> look_run_status h (mn_status m) = Some (run_status v, cs)"
  using assms by (auto simp: look_ref_Some look_run_def look_struct_Some look_pair_Some run_of_def)

lemma status_copied:
  assumes l: "look_run_at h (Some p) = Some (Some v, as)"
  shows "\<exists>b ext cs. copy_status p h = (Inr (Some b), h @ ext) \<and> look_status_at (h @ ext) (Some b) = Some (Some (run_status v), cs) \<and>
    set cs \<subseteq> {length h..<length (h @ ext)}"
proof -
  obtain m cs where m: "peek (only runs_of) h p = Some m" "look_run_status h (mn_status m) = Some (run_status v, cs)"
    using look_status_part[OF l] by blast
  have "heap_load (only runs_of) p h = (Inr m, h)" using m(1) by (simp add: heap_load_def)
  then have e: "copy_status p h = io_bind (io_bind (WizardRunStatus_DeepCopyInto (mn_status m))
      (\<lambda>s. heap_new (CRunStatuses [s]))) (\<lambda>a. io_return (Some a)) h"
    by (simp add: copy_status_def bind_assoc)
  from copier_new[OF copies_run_status.copier_axioms m(2), where get = "only run_statuses_of" and put = "\<lambda>s. CRunStatuses [s]"]
  obtain b ext bs where "io_bind (WizardRunStatus_DeepCopyInto (mn_status m)) (\<lambda>s. heap_new (CRunStatuses [s])) h = (Inr b, h @ ext)"
    "look_status_at (h @ ext) (Some b) = Some (Some (run_status v), bs)" "set bs \<subseteq> {length h..<length (h @ ext)}" by auto
  then show ?thesis using e by auto
qed

section \<open>setRun in place\<close>

text \<open>
  \<open>meta.SetStatusCondition\<close> changes an existing condition in the array the slice refers to and appends a new one,
  for which \<open>append\<close> takes a new array. \<open>setRun\<close> writes into the status of the run.
\<close>

definition memory_set_condition :: "time \<Rightarrow> condition \<Rightarrow> addr option \<Rightarrow> (cell heap, addr option) call" where
  "memory_set_condition now c r =
     (case r of
        None \<Rightarrow> io_bind (heap_new (CConditions (set_condition now c []))) (\<lambda>b. io_return (Some b))
      | Some a \<Rightarrow> io_bind (heap_load conditions_of a) (\<lambda>cs.
          if find (\<lambda>x. cond_type x = cond_type c) cs \<noteq> None
          then io_bind (heap_store a (CConditions (set_condition now c cs))) (\<lambda>_. io_return (Some a))
          else io_bind (heap_new (CConditions (set_condition now c cs))) (\<lambda>b. io_return (Some b))))"

definition memory_completed :: "time \<Rightarrow> run_phase \<Rightarrow> addr option \<Rightarrow> (cell heap, addr option) call" where
  "memory_completed now phase r =
     (if phase \<in> set [RunReady, RunFailed, RunRolledBack, RunRollbackFailed]
      then (case r of
          None \<Rightarrow> io_bind (heap_new (CTimes [now])) (\<lambda>a. io_return (Some a))
        | Some a \<Rightarrow> io_return (Some a))
      else io_return None)"

definition memory_set_run :: "run_phase \<Rightarrow> msg \<Rightarrow> int \<Rightarrow> time \<Rightarrow> addr \<Rightarrow> (cell heap, unit) call" where
  "memory_set_run phase m gen now p =
     io_bind (heap_load (only runs_of) p) (\<lambda>r.
     io_bind (memory_completed now phase (mu_completed_at (mn_status r))) (\<lambda>t.
     io_bind (memory_set_condition now
        \<lparr>cond_type = ConditionReady, cond_status = phase = RunReady, cond_reason = phase, cond_message = m,
         cond_generation = gen, cond_transition = 0\<rparr> (mu_conditions (mn_status r))) (\<lambda>cs.
     heap_store p (CRuns [r\<lparr>mn_status := (mn_status r)\<lparr>mu_phase := phase, mu_message := m, mu_generation := gen,
       mu_completed_at := t, mu_conditions := cs\<rparr>\<rparr>]))))"

lemma confined_append: "confined as h (h @ ext)"
  by (simp add: confined_def nth_append)

lemma confined_update: "confined [a] h (h[a := c])"
  by (simp add: confined_def)

lemma confined_trans: "confined as h h1 \<Longrightarrow> confined bs h1 h2 \<Longrightarrow> set as \<union> set bs \<subseteq> set cs \<Longrightarrow> confined cs h h2"
  unfolding confined_def by (metis UnCI le_trans less_le_trans subsetD)

lemma look_elems_flat [simp]: "look_elems look_flat h xs = Some (xs, [])"
  by (induction xs) (simp_all add: look_flat_def)

lemma peek_new: "peek get (h @ [c]) (length h) = get c"
  by (simp add: peek_def)

abbreviation look_conditions :: "(cell, addr option, condition list option) look" where
  "look_conditions \<equiv> look_ref conditions_of (look_elems look_flat)"

lemma memory_set_condition_spec:
  assumes "look_conditions h r = Some (v, cs)"
  shows "\<exists>r' h' cs'. memory_set_condition now c r h = (Inr r', h') \<and> confined cs h h' \<and>
    look_conditions h' r' = Some (Some (set_condition now c (or_nil v)), cs') \<and> (\<forall>a\<in>set cs'. a \<in> set cs \<or> length h \<le> a)"
proof (cases r)
  case None
  with assms show ?thesis
    by (intro exI[of _ "Some (length h)"] exI[of _ "h @ [CConditions (set_condition now c [])]"] exI[of _ "[length h]"])
      (simp add: memory_set_condition_def heap_new_def confined_append look_ref_def peek_new or_nil_def del: look_elems.simps)
next
  case (Some a)
  with assms obtain xs where xs: "peek conditions_of h a = Some xs" "v = Some xs" "cs = [a]" by (auto simp: look_ref_Some)
  then have load: "heap_load conditions_of a h = (Inr xs, h)" by (simp add: heap_load_def)
  have a: "a < length h" using xs(1) by (rule peek_bound)
  let ?c = "CConditions (set_condition now c xs)"
  show ?thesis
  proof (cases "find (\<lambda>x. cond_type x = cond_type c) xs = None")
    case True
    then show ?thesis
      by (intro exI[of _ "Some (length h)"] exI[of _ "h @ [?c]"] exI[of _ "[length h]"])
        (simp add: memory_set_condition_def load Some heap_new_def confined_append look_ref_def peek_new or_nil_def xs(2))
  next
    case False
    then show ?thesis
      by (intro exI[of _ "Some a"] exI[of _ "h[a := ?c]"] exI[of _ "[a]"])
        (use a in \<open>simp add: memory_set_condition_def load Some heap_store_def confined_update look_ref_def peek_def or_nil_def xs(2,3)\<close>)
  qed
qed

lemma memory_completed_spec:
  assumes "look_time h r = Some (v, us)"
  shows "\<exists>r' h' us'. memory_completed now phase r h = (Inr r', h') \<and> confined [] h h' \<and>
    look_time h' r' = Some (if phase \<in> set [RunReady, RunFailed, RunRolledBack, RunRollbackFailed]
      then (case v of None \<Rightarrow> Some now | Some t \<Rightarrow> Some t) else None, us') \<and> (\<forall>a\<in>set us'. a \<in> set us \<or> length h \<le> a)"
proof (cases "phase \<in> set [RunReady, RunFailed, RunRolledBack, RunRollbackFailed]")
  case False
  then show ?thesis
    by (intro exI[of _ None] exI[of _ h] exI[of _ "[]"])
      (auto simp: memory_completed_def look_time_def look_ref_def confined_def)
next
  case True
  show ?thesis
  proof (cases r)
    case None
    with assms have "v = None" by (simp add: look_time_def look_ref_def)
    with True None show ?thesis
      by (intro exI[of _ "Some (length h)"] exI[of _ "h @ [CTimes [now]]"] exI[of _ "[length h]"])
        (auto simp: memory_completed_def heap_new_def confined_append look_time_def look_ref_def peek_new look_flat_def)
  next
    case (Some a)
    with assms have "v \<noteq> None" by (auto simp: look_time_def look_ref_Some)
    with True Some assms show ?thesis
      by (intro exI[of _ "Some a"] exI[of _ h] exI[of _ us]) (auto simp: memory_completed_def confined_def)
  qed
qed

text \<open>The values of a run and of its status, from those of their parts.\<close>

definition status_of ::
  "mem_run_status \<Rightarrow> step_status list option \<Rightarrow> condition list option \<Rightarrow> time option \<Rightarrow> time option \<Rightarrow> run_status" where
  "status_of s ss cs t u = \<lparr>rs_phase = mu_phase s, rs_message = mu_message s, rs_generation = mu_generation s,
     rs_steps = or_nil ss, rs_conditions = or_nil cs, rs_started_at = t, rs_completed_at = u\<rparr>"

lemma run_status_run_of [simp]: "run_status (run_of m q st) = st" "(run_of m q st)\<lparr>run_status := st'\<rparr> = run_of m q st'"
  by (simp_all add: run_of_def)

lemma look_run_intro:
  assumes "peek (only runs_of) h p = Some r" "look_meta h (mn_meta r) = Some (m, ms)" "look_run_spec h (mn_spec r) = Some (q, qs)"
    "look_ref step_statuses_of (look_elems look_step_status) h (mu_steps (mn_status r)) = Some (ss, ps)"
    "look_conditions h (mu_conditions (mn_status r)) = Some (cs, ds)"
    "look_time h (mu_started_at (mn_status r)) = Some (t, ts)" "look_time h (mu_completed_at (mn_status r)) = Some (u, us)"
  shows "\<exists>as. look_run_at h (Some p) = Some (Some (run_of m q (status_of (mn_status r) ss cs t u)), as)"
  using assms
  by (simp add: look_ref_Some[where get = "only runs_of"] look_run_def look_run_status_def look_struct_def look_pair_def status_of_def)

lemma look_run_parts:
  assumes "look_run_at h (Some p) = Some (Some v, as)"
  obtains r m ms q qs ss ps cs ds t ts u us where
    "peek (only runs_of) h p = Some r" "look_meta h (mn_meta r) = Some (m, ms)" "look_run_spec h (mn_spec r) = Some (q, qs)"
    "look_ref step_statuses_of (look_elems look_step_status) h (mu_steps (mn_status r)) = Some (ss, ps)"
    "look_conditions h (mu_conditions (mn_status r)) = Some (cs, ds)"
    "look_time h (mu_started_at (mn_status r)) = Some (t, ts)" "look_time h (mu_completed_at (mn_status r)) = Some (u, us)"
    "as = p # ms @ qs @ ps @ ds @ ts @ us"
    "v = run_of m q (status_of (mn_status r) ss cs t u)"
  using assms
  by (auto simp: look_ref_Some[where get = "only runs_of"] look_run_def look_run_status_def look_struct_Some look_pair_Some status_of_def)

lemma look_frame_confined:
  "viewer lk \<Longrightarrow> lk h m = Some (v, bs) \<Longrightarrow> confined as h h' \<Longrightarrow> set as \<inter> set bs = {} \<Longrightarrow> lk h' m = Some (v, bs)"
  by (blast intro: viewer.look_frame confined_agree)

lemma set_run_acts: "acts_as (memory_set_run phase m gen now) (set_run now phase m gen) p run"
  unfolding acts_as_def
proof (intro allI impI)
  fix h :: "cell heap" and as assume l: "look_run_at h (Some p) = Some (Some run, as)" and d: "distinct as"
  from l obtain r om ms q qs ss ps cs ds t ts u us where parts:
    "peek (only runs_of) h p = Some r" "look_meta h (mn_meta r) = Some (om, ms)" "look_run_spec h (mn_spec r) = Some (q, qs)"
    "look_ref step_statuses_of (look_elems look_step_status) h (mu_steps (mn_status r)) = Some (ss, ps)"
    "look_conditions h (mu_conditions (mn_status r)) = Some (cs, ds)"
    "look_time h (mu_started_at (mn_status r)) = Some (t, ts)" "look_time h (mu_completed_at (mn_status r)) = Some (u, us)"
    and as: "as = p # ms @ qs @ ps @ ds @ ts @ us" and run: "run = run_of om q (status_of (mn_status r) ss cs t u)"
    by (rule look_run_parts)
  let ?c = "\<lparr>cond_type = ConditionReady, cond_status = phase = RunReady, cond_reason = phase, cond_message = m,
     cond_generation = gen, cond_transition = 0\<rparr>"
  note vs = copies_meta.viewer_axioms copies_run_spec.viewer_axioms copier.axioms(1)[OF copier_time]
    viewer_ref[OF viewer_elems[OF copies_step_status.viewer_axioms]] viewer_ref[OF viewer_elems[OF viewer_flat]]
  have p: "p < length h" using parts(1) by (rule peek_bound)
  have fin: "rs_completed_at (set_run now phase m gen (run_status run)) =
      (if phase \<in> set [RunReady, RunFailed, RunRolledBack, RunRollbackFailed]
       then (case u of None \<Rightarrow> Some now | Some t \<Rightarrow> Some t) else None)"
    by (simp add: set_run_def run status_of_def cong: if_cong)
  obtain tr h1 us' where c1: "memory_completed now phase (mu_completed_at (mn_status r)) h = (Inr tr, h1)" "confined [] h h1"
    "look_time h1 tr = Some (rs_completed_at (set_run now phase m gen (run_status run)), us')"
    "\<forall>a\<in>set us'. a \<in> set us \<or> length h \<le> a"
    using memory_completed_spec[OF parts(7), of now phase] unfolding fin[symmetric] by blast
  have cs1: "look_conditions h1 (mu_conditions (mn_status r)) = Some (cs, ds)"
    using vs(5) parts(5) c1(2) by (rule look_frame_confined) simp
  obtain cr h2 ds' where c2: "memory_set_condition now ?c (mu_conditions (mn_status r)) h1 = (Inr cr, h2)" "confined ds h1 h2"
    "look_conditions h2 cr = Some (Some (set_condition now ?c (or_nil cs)), ds')" "\<forall>a\<in>set ds'. a \<in> set ds \<or> length h1 \<le> a"
    using memory_set_condition_spec[OF cs1, of now ?c] by blast
  let ?r = "r\<lparr>mn_status := (mn_status r)\<lparr>mu_phase := phase, mu_message := m, mu_generation := gen,
    mu_completed_at := tr, mu_conditions := cr\<rparr>\<rparr>"
  let ?h = "h2[p := CRuns [?r]]"
  have len: "length h \<le> length h1" "length h1 \<le> length h2" using c1(2) c2(2) by (simp_all add: confined_def)
  have conf: "confined (p # ds) h ?h"
    by (rule confined_trans[OF confined_trans[OF c1(2) c2(2), of ds] confined_update]) auto
  have same: "lk ?h x = Some (v, bs)" if "viewer lk" "lk h x = Some (v, bs)" "set (p # ds) \<inter> set bs = {}" for lk x v bs
    using that(1,2) conf that(3) by (rule look_frame_confined)
  have run2: "memory_set_run phase m gen now p h = (Inr (), ?h)"
    using parts(1) c1(1) c2(1) by (simp add: memory_set_run_def heap_load_def heap_store_def)
  have "\<forall>a\<in>set ds. a < length h" using viewer.look_bound[OF vs(5) parts(5)] by auto
  moreover have sep: "p \<notin> set ds" "p \<notin> set us" "set ds \<inter> set us = {}" using d unfolding as by auto
  ultimately have p': "p \<notin> set ds'" "p \<notin> set us'" "set ds \<inter> set us' = {}"
    using c1(4) c2(4) p len by (meson leD less_le_trans, meson leD, meson disjoint_iff leD)
  have "confined (p # ds) h1 ?h" by (rule confined_trans[OF c2(2) confined_update]) auto
  then have tc: "look_time ?h tr = Some (rs_completed_at (set_run now phase m gen (run_status run)), us')"
    by (rule look_frame_confined[OF vs(3) c1(3)]) (use p' in auto)
  have cc: "look_conditions ?h cr = Some (Some (set_condition now ?c (or_nil cs)), ds')"
    by (rule look_frame_confined[OF vs(5) c2(3) confined_update]) (use p' in auto)
  have apart: "set (p # ds) \<inter> set ms = {}" "set (p # ds) \<inter> set qs = {}" "set (p # ds) \<inter> set ps = {}" "set (p # ds) \<inter> set ts = {}"
    using d unfolding as by auto
  have new: "run\<lparr>run_status := set_run now phase m gen (run_status run)\<rparr> =
      run_of om q (status_of (mn_status ?r) ss (Some (set_condition now ?c (or_nil cs))) t
        (rs_completed_at (set_run now phase m gen (run_status run))))"
    by (simp add: run set_run_def status_of_def or_nil_def)
  have "peek (only runs_of) ?h p = Some ?r" using p len by (simp add: peek_def)
  moreover have "look_meta ?h (mn_meta ?r) = Some (om, ms)" "look_run_spec ?h (mn_spec ?r) = Some (q, qs)"
    "look_ref step_statuses_of (look_elems look_step_status) ?h (mu_steps (mn_status ?r)) = Some (ss, ps)"
    "look_time ?h (mu_started_at (mn_status ?r)) = Some (t, ts)"
    using same[OF vs(1) parts(2)] same[OF vs(2) parts(3)] same[OF vs(4) parts(4)] same[OF vs(3) parts(6)] apart
    by simp_all
  ultimately have "\<exists>bs. look_run_at ?h (Some p) = Some (Some (run\<lparr>run_status := set_run now phase m gen (run_status run)\<rparr>), bs)"
    using tc cc unfolding new by (intro look_run_intro) simp_all
  moreover have "confined as h ?h" using conf by (auto simp: confined_def as)
  ultimately show "\<exists>h' bs. memory_set_run phase m gen now p h = (Inr (), h') \<and> confined as h h' \<and>
    look_run_at h' (Some p) = Some (Some (run\<lparr>run_status := set_run now phase m gen (run_status run)\<rparr>), bs)"
    using run2 by blast
qed

text \<open>Any such callback: the copies made before it ran still show the run as it was.\<close>

lemma memory_refines_update:
  assumes l: "look_run_at h (Some p) = Some (Some run, as)" "distinct as" and f: "\<And>now. acts_as (mutate now) (f now) p run"
  shows "memory_update_status r p mutate h w = update_status r run f w"
proof -
  let ?now = "rc_now r w"
  obtain base h1 bs where c: "WizardRun_DeepCopy (Some p) h = (Inr base, h1)" "look_run_at h1 (Some p) = Some (Some run, as)"
    "look_run_at h1 base = Some (Some run, bs)" "set as \<inter> set bs = {}"
    using new_run.copy_independent[OF l(1)] by blast
  obtain b ext cs where s: "copy_status p h1 = (Inr (Some b), h1 @ ext)"
    "look_status_at (h1 @ ext) (Some b) = Some (Some (run_status run), cs)" "set cs \<subseteq> {length h1..<length (h1 @ ext)}"
    using status_copied[OF c(2)] by blast
  have l2: "look_run_at (h1 @ ext) (Some p) = Some (Some run, as)" using c(2) by (rule new_run.look_append)
  with l(2) f[of ?now] obtain h3 ds where m: "mutate ?now p (h1 @ ext) = (Inr (), h3)" "confined as (h1 @ ext) h3"
    "look_run_at h3 (Some p) = Some (Some (run\<lparr>run_status := f ?now (run_status run)\<rparr>), ds)"
    unfolding acts_as_def by blast
  have "set as \<inter> set cs = {}"
  proof -
    have "{..<length h1} \<inter> {length h1..<length (h1 @ ext)} = {}" by auto
    with new_run.look_bound[OF c(2)] s(3) show ?thesis by blast
  qed
  then have "look_status_at h3 (Some b) = Some (Some (run_status run), cs)"
    by (intro new_run_status.look_frame[OF s(2)] confined_agree[OF m(2)])
  moreover have "look_run_at h3 base = Some (Some run, bs)"
    by (rule new_run.look_frame[OF new_run.look_append[OF c(3)] confined_agree[OF m(2) c(4)]])
  moreover have "mutate_status p (mutate ?now) h = (Inr (base, Some b), h3)"
    using c(1) s(1) m(1) by (simp add: mutate_status_def)
  ultimately show ?thesis using m(3) by (simp add: memory_update_status_def update_status_def Let_def)
qed

text \<open>C22: \<open>updateStatus\<close> with \<open>setRun\<close>, run on memory with the generated deep copies, is \<open>update_status\<close> with \<open>set_run\<close> on
  values: although \<open>setRun\<close> writes into the run in place (its conditions, its times), the comparison sees the old
  status against the new one and the patch the old run against the new one, for every run that has no
  sharing inside, as a decoded object has none.\<close>

theorem set_run_in_place:
  assumes "look_run_at h (Some p) = Some (Some run, as)" and "distinct as"
  shows "memory_update_status r p (\<lambda>now. memory_set_run phase m gen now) h w =
    update_status r run (\<lambda>now. set_run now phase m gen) w"
  by (rule memory_refines_update[OF assms set_run_acts])

theorem set_run_in_place_witness:
  "\<exists>run. map ss_outputs (rs_steps (run_status run)) = [[(''name'', ''w'')]] \<and>
     memory_update_status (sys_reconciler ''b'' pad_lib) 0 (\<lambda>now. memory_set_run RunReady (Lit []) 1 now) run_memory (sys_of [] []) =
     update_status (sys_reconciler ''b'' pad_lib) run (\<lambda>now. set_run now RunReady (Lit []) 1) (sys_of [] [])"
proof -
  from run_memory_looks obtain run where run: "look_run_at run_memory (Some 0) = Some (Some run, [0, 5, 3, 4, 1, 2])"
    "map ss_outputs (rs_steps (run_status run)) = [[(''name'', ''w'')]]" by (elim exE conjE)
  have "distinct [0, 5, 3, 4, 1, 2 :: addr]" by simp
  from run(2) set_run_in_place[OF run(1) this] show ?thesis by (intro exI[of _ run] conjI)
qed

end
