(* ===== verification/Startup.thy ===== *)
theory Startup
  imports Envutil ApiRuns
begin

text \<open>
  The entry points \<open>cmd/api/main.go\<close> and \<open>cmd/main.go\<close>, and \<open>Server.Start\<close>: what a process checks and wires before
  it serves, and how it ends. The world comes with the log of the process; a process that calls
  \<open>os.Exit\<close> ends in the error position, with its exit code. \<open>utilruntime.Must\<close> of the scheme registrations is left
  out: it panics only on a programming error.
\<close>

section \<open>Logging\<close>

datatype level = LevelDebug | LevelInfo | LevelWarn | LevelError

fun level_rank :: "level \<Rightarrow> int" where
  "level_rank LevelDebug = -4"
| "level_rank LevelInfo = 0"
| "level_rank LevelWarn = 4"
| "level_rank LevelError = 8"

record log_event =
  le_level :: level
  le_message :: string
  le_attrs :: "(string \<times> msg) list"

record logger =
  lo_level :: level
  lo_text :: bool \<comment> \<open>the text handler, else JSON\<close>

definition parseLevel :: "string \<Rightarrow> level \<times> bool" where
  "parseLevel s =
     (let l = to_lower s
      in if l = ''debug'' then (LevelDebug, True)
         else if l = ''info'' \<or> l = [] then (LevelInfo, True)
         else if l = ''warn'' \<or> l = ''warning'' then (LevelWarn, True)
         else if l = ''error'' then (LevelError, True)
         else (LevelInfo, False))"

type_synonym ('w, 'a) process = "('w \<times> log_event list, int, 'a) io"

text \<open>A record below the level of the handler is dropped.\<close>

definition slog :: "logger \<Rightarrow> level \<Rightarrow> string \<Rightarrow> (string \<times> msg) list \<Rightarrow> ('w, unit) process" where
  "slog lg l m attrs = (\<lambda>(w, out).
     (Inr (), (w, if level_rank l \<ge> level_rank (lo_level lg)
                  then out @ [\<lparr>le_level = l, le_message = m, le_attrs = attrs\<rparr>] else out)))"

text \<open>The default logger \<open>setupLogger\<close> leaves behind.\<close>

definition setupLogger :: "string \<Rightarrow> string \<Rightarrow> ('w, logger) process" where
  "setupLogger level format =
     (case parseLevel level of (lvl, level_ok) \<Rightarrow>
        let f = to_lower format; lg = \<lparr>lo_level = lvl, lo_text = f = ''text''\<rparr>; format_ok = f \<in> set [''json'', '''', ''text'']
        in io_bind (if level_ok then io_return () else slog lg LevelWarn ''unknown log level, using info'' [(''log_level'', Lit level)]) (\<lambda>_.
           io_bind (if format_ok then io_return () else slog lg LevelWarn ''unknown log format, using json'' [(''log_format'', Lit format)]) (\<lambda>_.
           io_return lg)))"

definition fatal :: "logger \<Rightarrow> string \<Rightarrow> err \<Rightarrow> ('w, 'a) process" where
  "fatal lg m x = io_bind (slog lg LevelError m [(''error'', err_text x)]) (\<lambda>_. io_fail 1)"

definition or_fatal :: "logger \<Rightarrow> string \<Rightarrow> ('w, 'a) call \<Rightarrow> ('w, 'a) process" where
  "or_fatal lg m f = (\<lambda>(w, out). case f w of
      (Inl x, w') \<Rightarrow> fatal lg m x (w', out)
    | (Inr a, w') \<Rightarrow> (Inr a, (w', out)))"

section \<open>Server.Start\<close>

text \<open>\<open>http.Server\<close> as the code sets it up, and the two ways its goroutine or the context wakes \<open>Start\<close>.\<close>

record 'w http_server =
  hs_addr :: string
  hs_handler :: "'w http_handler"
  hs_read_header_timeout :: time
  hs_read_timeout :: time
  hs_write_timeout :: time
  hs_idle_timeout :: time

datatype wake = ListenReturned err | ContextDone

record 'w net =
  nt_serve :: "'w http_server \<Rightarrow> ('w, wake) call"
  nt_shutdown :: "time \<Rightarrow> ('w, unit) call"

definition seconds :: "int \<Rightarrow> time" where
  "seconds n = n * 1000000000"

definition http_server_of :: "'w server \<Rightarrow> 'w http_server" where
  "http_server_of s = \<lparr>hs_addr = sc_addr (sv_cfg s), hs_handler = Handler s, hs_read_header_timeout = seconds 10,
     hs_read_timeout = seconds 30, hs_write_timeout = seconds 30, hs_idle_timeout = seconds 120\<rparr>"

definition server_start :: "'w net \<Rightarrow> 'w server \<Rightarrow> ('w, unit) call" where
  "server_start n s =
     io_bind (nt_serve n (http_server_of s)) (\<lambda>x. case x of
       ListenReturned e \<Rightarrow> io_fail e
     | ContextDone \<Rightarrow> nt_shutdown n (seconds 10))"

section \<open>The API server\<close>

text \<open>
  What \<open>main\<close> takes from Kubernetes: \<open>'k\<close> is a \<open>rest.Config\<close>; the client comes in the two roles the model of the
  server gives it.
\<close>

record ('w, 'k) api_platform =
  pf_config :: "('w, 'k) call"
  pf_client :: "'k \<Rightarrow> ('w, 'w api_client \<times> 'w ledger) call"
  pf_clientset :: "'k \<Rightarrow> ('w, string \<Rightarrow> string list \<Rightarrow> ('w, bool \<times> string) call) call"
  pf_net :: "'w net"
  pf_lib :: go_lib
  pf_list_lib :: list_lib
  pf_now :: "'w \<Rightarrow> time"

text \<open>\<open>new_server\<close> over the platform, whose error ends the process.\<close>

definition serve_api :: "('w, 'k) api_platform \<Rightarrow> logger \<Rightarrow> options \<Rightarrow> 'w api_client \<times> 'w ledger \<Rightarrow>
  (string \<Rightarrow> string list \<Rightarrow> ('w, bool \<times> string) call) option \<Rightarrow> ('w, unit) process" where
  "serve_api pf lg opts c kc =
     (case new_server (op_config opts) (fst c) kc (snd c) (pf_lib pf) (pf_list_lib pf) (pf_now pf) of
        Inl x \<Rightarrow> fatal lg ''cannot create the API server'' x
      | Inr srv \<Rightarrow>
          io_bind (slog lg LevelInfo ''starting API server'' [(''addr'', Lit (sc_addr (op_config opts))),
            (''namespace'', Lit (sc_namespace (op_config opts))),
            (''allowed_service_accounts'', Fmt ''%v'' (map Lit (sc_allowed (op_config opts))))]) (\<lambda>_.
          or_fatal lg ''API server stopped'' (server_start (pf_net pf) srv)))"

definition api_main :: "getenv \<Rightarrow> flags \<Rightarrow> ('w, 'k) api_platform \<Rightarrow> ('w, unit) process" where
  "api_main g f pf =
     (let opts = options_from_flags g f; open_api = sc_allow_unauthenticated (op_config opts)
      in io_bind (setupLogger (op_log_level opts) (op_log_format opts)) (\<lambda>lg.
         case validate_server_config (op_config opts) of
           Some x \<Rightarrow> fatal lg ''invalid configuration'' x
         | None \<Rightarrow>
             io_bind (if open_api then slog lg LevelWarn
                 ''authentication is DISABLED: every caller may create, roll back and delete runs; use for local development only'' []
               else io_return ()) (\<lambda>_.
             io_bind (or_fatal lg ''cannot load the Kubernetes config'' (pf_config pf)) (\<lambda>k.
             io_bind (or_fatal lg ''cannot create the Kubernetes client'' (pf_client pf k)) (\<lambda>c.
             io_bind (if open_api then io_return None
               else io_bind (or_fatal lg ''cannot create the Kubernetes clientset'' (pf_clientset pf k)) (\<lambda>kc. io_return (Some kc)))
               (serve_api pf lg opts c))))))"

section \<open>The operator\<close>

record operator_options =
  oo_metrics :: string
  oo_probe :: string
  oo_namespace :: string
  oo_config_map :: string
  oo_leader_elect :: bool
  oo_sweep_interval :: time

definition operator_options_of :: "getenv \<Rightarrow> flags \<Rightarrow> time option \<Rightarrow> operator_options" where
  "operator_options_of g f sweep_flag =
     \<lparr>oo_metrics = flag_or (fl_string f ''metrics-bind-address'') '':8080'',
      oo_probe = flag_or (fl_string f ''health-probe-bind-address'') '':8081'',
      oo_namespace = flag_or (fl_string f ''namespace'') (env_string g ''NAMESPACE'' ''fusion''),
      oo_config_map = flag_or (fl_string f ''config-map'') (env_string g ''INSTANCE_CONFIG_MAP'' ''fusion-wizard-config''),
      oo_leader_elect = flag_or (fl_bool f ''leader-elect'') False,
      oo_sweep_interval = flag_or sweep_flag (seconds 60)\<rparr>"

record manager_options =
  mo_metrics :: string
  mo_probe :: string
  mo_leader_election :: bool
  mo_leader_id :: string
  mo_namespaces :: "string list"

text \<open>
  The manager of controller-runtime: \<open>mr_kube\<close> and \<open>mr_runs\<close> are its client (\<open>GetClient\<close>) for ledger entries of a
  namespace and for runs, \<open>mr_reader\<close> its uncached reader. \<open>mr_setup\<close> registers a
  reconciler for runs, with a predicate on their updates.
\<close>

record ('w, 'm) manager_lib =
  mr_config :: "('w, unit) call"
  mr_new :: "manager_options \<Rightarrow> ('w, 'm) call"
  mr_kube :: "'m \<Rightarrow> string \<Rightarrow> 'w kube"
  mr_runs :: "'m \<Rightarrow> 'w run_api"
  mr_reader :: "'m \<Rightarrow> string \<Rightarrow> string \<Rightarrow> ('w, smap) call"
  mr_setup :: "'m \<Rightarrow> (wizard_run \<Rightarrow> wizard_run \<Rightarrow> bool) \<Rightarrow> 'w reconciler \<Rightarrow> ('w, unit) call"
  mr_add_sweeper :: "'m \<Rightarrow> ('w, 'w env) call \<Rightarrow> time \<Rightarrow> ('w, unit) call"
  mr_healthz :: "'m \<Rightarrow> ('w, unit) call"
  mr_readyz :: "'m \<Rightarrow> ('w, unit) call"
  mr_start :: "'m \<Rightarrow> ('w, unit) call"
  mr_read_file :: "string \<Rightarrow> ('w, string) call"
  mr_http :: "http_request \<Rightarrow> ('w, http_response) call"
  mr_lib :: go_lib
  mr_sleep :: "'w \<Rightarrow> 'w"
  mr_pages :: nat
  mr_now :: "'w \<Rightarrow> time"

definition manager_options_of :: "operator_options \<Rightarrow> manager_options" where
  "manager_options_of oo =
     \<lparr>mo_metrics = oo_metrics oo, mo_probe = oo_probe oo, mo_leader_election = oo_leader_elect oo,
      mo_leader_id = ''wizard.fusion-platform.io'', mo_namespaces = [oo_namespace oo]\<rparr>"

definition operator_envs :: "getenv \<Rightarrow> operator_options \<Rightarrow> ('w, 'm) manager_lib \<Rightarrow> 'm \<Rightarrow> 'w env_factory" where
  "operator_envs g oo ml m =
     (let token = \<lambda>var. Some (file_token (mr_read_file ml) (g var))
      in \<lparr>ef_lib = mr_lib ml, ef_read = mr_reader ml m, ef_namespace = oo_namespace oo, ef_config_map = oo_config_map oo,
          ef_ledger = \<lparr>lg_kube = mr_kube ml m (oo_namespace oo), lg_lib = mr_lib ml, lg_sleep = mr_sleep ml\<rparr>,
          ef_http = mr_http ml, ef_forge_tokens = token ''FORGE_TOKEN_PATH'', ef_index_tokens = token ''INDEX_TOKEN_PATH'',
          ef_weave_tokens = token ''WEAVE_TOKEN_PATH'', ef_pages = mr_pages ml, ef_now = mr_now ml\<rparr>)"

definition operator_reconciler :: "getenv \<Rightarrow> operator_options \<Rightarrow> ('w, 'm) manager_lib \<Rightarrow> 'm \<Rightarrow> 'w reconciler" where
  "operator_reconciler g oo ml m =
     \<lparr>rc_api = mr_runs ml m, rc_envs = factory_env (operator_envs g oo ml m), rc_now = mr_now ml, rc_lib = mr_lib ml\<rparr>"

definition SetupWithManager :: "('w, 'm) manager_lib \<Rightarrow> 'm \<Rightarrow> 'w reconciler \<Rightarrow> ('w, unit) call" where
  "SetupWithManager ml m r = mr_setup ml m run_changed r"

definition operator_main :: "getenv \<Rightarrow> flags \<Rightarrow> time option \<Rightarrow> logger \<Rightarrow> ('w, 'm) manager_lib \<Rightarrow> ('w, unit) process" where
  "operator_main g f sweep_flag lg ml =
     (let oo = operator_options_of g f sweep_flag
      in io_bind (or_fatal lg ''unable to get kubeconfig'' (mr_config ml)) (\<lambda>_.
         io_bind (or_fatal lg ''unable to create manager'' (mr_new ml (manager_options_of oo))) (\<lambda>m.
         io_bind (or_fatal lg ''unable to create the WizardRun controller''
           (SetupWithManager ml m (operator_reconciler g oo ml m))) (\<lambda>_.
         io_bind (or_fatal lg ''unable to add the ledger sweeper''
           (mr_add_sweeper ml m (factory_env (operator_envs g oo ml m)) (oo_sweep_interval oo))) (\<lambda>_.
         io_bind (or_fatal lg ''unable to set up the health check'' (mr_healthz ml m)) (\<lambda>_.
         io_bind (or_fatal lg ''unable to set up the ready check'' (mr_readyz ml m)) (\<lambda>_.
         io_bind (slog lg LevelInfo ''starting manager'' [(''namespace'', Lit (oo_namespace oo)),
           (''configMap'', Lit (oo_config_map oo))]) (\<lambda>_.
         or_fatal lg ''manager exited with an error'' (mr_start ml m)))))))))"

end
