(* ===== verification/StartupProps.thy ===== *)
theory StartupProps
  imports Startup
begin

text \<open>What an API server process guarantees before it listens, and how the two processes end.\<close>

section \<open>A process that ends, ends loudly\<close>

definition ends_loudly :: "('w, 'a) process \<Rightarrow> bool" where
  "ends_loudly p \<longleftrightarrow>
     triple (\<lambda>_. True) p (\<lambda>_ _. True) (\<lambda>c (w, out). c = 1 \<and> out \<noteq> [] \<and> le_level (last out) = LevelError)"

lemma loud_bind [intro]: "ends_loudly p \<Longrightarrow> (\<And>a. ends_loudly (q a)) \<Longrightarrow> ends_loudly (io_bind p q)"
  unfolding ends_loudly_def by (rule triple_bind)


lemma loud_slog [intro]: "ends_loudly (slog lg l m attrs)"
  by (simp add: ends_loudly_def triple_def slog_def)

lemma loud_fatal [intro]: "ends_loudly (fatal lg m x)"
  by (cases "lo_level lg") (simp_all add: ends_loudly_def triple_def fatal_def slog_def io_bind_def)

lemma loud_or_fatal [intro]: "ends_loudly (or_fatal lg m f)"
  using loud_fatal[of lg m] by (fastforce simp: ends_loudly_def triple_def or_fatal_def split: prod.splits sum.splits)







lemma loud_operator_main: "ends_loudly (operator_main g f sw lg ml)"
  unfolding operator_main_def Let_def by (intro loud_bind loud_or_fatal loud_slog)



section \<open>What is served\<close>









end
