(* ===== verification/RequestLog.thy ===== *)
theory RequestLog
  imports ApiRuns LedgerProps
begin

text \<open>
  The values the middleware of \<open>internal/apiserver\<close> passes along in the context of a request: the logger with its
  attributes and the caller. \<open>context.Context\<close> is immutable, so a context is a value.
\<close>

type_synonym log_attrs = "(string \<times> string) list"

record req_context =
  cx_logger :: "log_attrs option"
  cx_caller :: "caller option"

definition WithLogger :: "req_context \<Rightarrow> log_attrs \<Rightarrow> req_context" where
  "WithLogger ctx l = ctx\<lparr>cx_logger := Some l\<rparr>"

definition LoggerFromCtx :: "log_attrs \<Rightarrow> req_context \<Rightarrow> log_attrs" where
  "LoggerFromCtx dflt ctx = (case cx_logger ctx of Some l \<Rightarrow> l | None \<Rightarrow> dflt)"

definition CallerFromContext :: "req_context \<Rightarrow> caller" where
  "CallerFromContext ctx =
     (case cx_caller ctx of Some c \<Rightarrow> c | None \<Rightarrow> \<lparr>ca_principal = [], ca_user_id = [], ca_user_email = []\<rparr>)"

text \<open>\<open>statusWriter\<close> remembers the last status written, 200 until then.\<close>

definition write_header :: "int option \<Rightarrow> int \<Rightarrow> int option" where
  "write_header status code = Some code"

definition written_status :: "int option \<Rightarrow> int" where
  "written_status status = (case status of Some c \<Rightarrow> c | None \<Rightarrow> 200)"

text \<open>The logger \<open>loggingMiddleware\<close> stamps a request with, for eight random bytes, and its access-log line.\<close>

definition request_logger :: "log_attrs \<Rightarrow> string \<Rightarrow> string \<Rightarrow> string \<Rightarrow> string \<Rightarrow> log_attrs" where
  "request_logger dflt random method path addr =
     dflt @ [(''request_id'', hex_encode random), (''method'', method), (''path'', path), (''client_ip'', addr)]"

definition access_line :: "log_attrs \<Rightarrow> int option \<Rightarrow> time \<Rightarrow> time \<Rightarrow> log_attrs" where
  "access_line logger status start now =
     logger @ [(''status'', format_int (written_status status)), (''latency_ms'', format_int ((now - start) div 1000000))]"

text \<open>What \<open>authMiddleware\<close> hands to the routes.\<close>

definition auth_context :: "log_attrs \<Rightarrow> caller \<Rightarrow> req_context \<Rightarrow> req_context" where
  "auth_context dflt c ctx =
     (WithLogger ctx (LoggerFromCtx dflt ctx @ [(''principal'', ca_principal c)] @
        (if ca_user_id c \<noteq> [] then [(''user_id'', ca_user_id c)] else [])))\<lparr>cx_caller := Some c\<rparr>"

lemma handlers_see:
  "LoggerFromCtx dflt (auth_context dflt c (WithLogger ctx l)) =
     l @ [(''principal'', ca_principal c)] @ (if ca_user_id c \<noteq> [] then [(''user_id'', ca_user_id c)] else [])"
  "CallerFromContext (auth_context dflt c ctx) = c"
  by (simp_all add: auth_context_def LoggerFromCtx_def WithLogger_def CallerFromContext_def)

lemma request_id_length:
  "length random = 8 \<Longrightarrow> map_of (request_logger [] random m p a) ''request_id'' = Some (hex_encode random) \<and> length (hex_encode random) = 16"
  by (simp add: request_logger_def)

text \<open>The recovery is outside the logging, so the line of a panic has no request ID: it finds the context it was given.\<close>

lemma panic_line_anonymous: "cx_logger ctx = None \<Longrightarrow> LoggerFromCtx dflt ctx = dflt"
  by (simp add: LoggerFromCtx_def)

end
